(* ===== verification/RelayPrelude.thy ===== *)
theory RelayPrelude
  imports Main "HOL-Library.List_Lexorder" "HOL-Library.Char_ord"
begin

text \<open>
  Shared vocabulary of the development: the JavaScript string, list and
  collection operations the services use, table operations of a repository
  (\<open>findOne\<close>, \<open>save\<close> of an existing row), the request/run machinery that
  lifts an invariant of one handler call to any sequence of calls, and the two
  generic interfaces (a keyed row store, a service with an invariant) that the
  component theories interpret on their own definitions.

  Strings are lists of characters. The operations on them agree with
  JavaScript's on ASCII text; the only non-ASCII text of the program, the
  reaction emoji, is stored as UTF-8 bytes and only compared for equality.
  Instants are milliseconds since the epoch (\<open>Date.getTime()\<close>), so that a
  \<open>toISOString()\<close> result is represented by the instant it denotes.
\<close>

named_theorems rows "lookup, update and filter facts of table operations"
named_theorems ops "unfolding rules of the handlers"

type_synonym uuid = string
type_synonym instant = int

section \<open>JavaScript strings\<close>

definition js_space :: "char \<Rightarrow> bool" where
  "js_space c = (c \<in> {CHR '' '', CHR 0x09, CHR 0x0A, CHR 0x0B, CHR 0x0C, CHR 0x0D})"

definition trim :: "string \<Rightarrow> string" where
  "trim s = rev (dropWhile js_space (rev (dropWhile js_space s)))"

definition lower_char :: "char \<Rightarrow> char" where
  "lower_char c = (let n = (of_char c :: nat) in
     if 65 \<le> n \<and> n \<le> 90 then char_of (n + 32) else c)"

definition to_lower :: "string \<Rightarrow> string" where
  "to_lower s = map lower_char s"

text \<open>A string is falsy exactly when it is empty.\<close>

definition truthy :: "string \<Rightarrow> bool" where
  "truthy s = (s \<noteq> [])"

text \<open>\<open>value?.trim() || null\<close>\<close>

definition trim_or_null :: "string option \<Rightarrow> string option" where
  "trim_or_null v = (case v of None \<Rightarrow> None
     | Some s \<Rightarrow> (if truthy (trim s) then Some (trim s) else None))"

text \<open>\<open>a ?? b\<close>\<close>

definition nullish :: "'a option \<Rightarrow> 'a \<Rightarrow> 'a" where
  "nullish v d = (case v of None \<Rightarrow> d | Some x \<Rightarrow> x)"

definition starts_with :: "string \<Rightarrow> string \<Rightarrow> bool" where
  "starts_with s p = (take (length p) s = p)"

text \<open>\<open>value?.startsWith(p)\<close>, undefined being falsy\<close>

definition opt_starts_with :: "string option \<Rightarrow> string \<Rightarrow> bool" where
  "opt_starts_with v p = (case v of None \<Rightarrow> False | Some s \<Rightarrow> starts_with s p)"

text \<open>\<open>Boolean(value)\<close> of a nullable string\<close>

definition opt_truthy :: "string option \<Rightarrow> bool" where
  "opt_truthy v = (case v of None \<Rightarrow> False | Some s \<Rightarrow> truthy s)"

lemma truthy_simps [simp]: "truthy [] = False" "truthy (c # s) = True"
  by (simp_all add: truthy_def)

lemma nullish_simps [simp]: "nullish None d = d" "nullish (Some x) d = x"
  by (simp_all add: nullish_def)

lemma opt_truthy_simps [simp]: "opt_truthy None = False" "opt_truthy (Some s) = truthy s"
  by (simp_all add: opt_truthy_def)

lemma opt_starts_with_simps [simp]:
  "opt_starts_with None p = False" "opt_starts_with (Some s) p = starts_with s p"
  by (simp_all add: opt_starts_with_def)

lemma trim_Nil [simp]: "trim [] = []"
  by (simp add: trim_def)

lemma trim_or_null_None [simp]: "trim_or_null None = None"
  by (simp add: trim_or_null_def)

lemma trim_or_null_truthy: "trim_or_null v = Some s \<Longrightarrow> truthy s"
  by (auto simp: trim_or_null_def split: option.splits if_splits)

lemma dropWhile_idem: "dropWhile P (dropWhile P xs) = dropWhile P xs"
  by (induction xs) auto

lemma hd_trim: "trim s \<noteq> [] \<Longrightarrow> \<not> js_space (hd (trim s))"
proof -
  assume ne: "trim s \<noteq> []"
  let ?t = "dropWhile js_space s"
  obtain ys where split: "rev ?t = ys @ dropWhile js_space (rev ?t)"
    by (metis takeWhile_dropWhile_id)
  then have "?t = rev (dropWhile js_space (rev ?t)) @ rev ys"
    by (metis rev_append rev_rev_ident)
  then have "?t = trim s @ rev ys" by (simp add: trim_def)
  with ne have "hd ?t = hd (trim s)" and "?t \<noteq> []"
    by (metis hd_append2, auto)
  then show ?thesis by (metis hd_dropWhile)
qed

lemma trim_idem: "trim (trim s) = trim s"
proof (cases "trim s = []")
  case False
  then have "dropWhile js_space (trim s) = trim s"
    using hd_trim by (metis dropWhile_eq_self_iff)
  then show ?thesis
    by (metis dropWhile_idem rev_rev_ident trim_def)
qed simp

section \<open>Lists, sets and collections\<close>

text \<open>\<open>[...new Set(xs)]\<close>: the distinct elements in order of first occurrence.\<close>

definition js_uniq :: "'a list \<Rightarrow> 'a list" where
  "js_uniq xs = rev (remdups (rev xs))"

lemma set_js_uniq [simp]: "set (js_uniq xs) = set xs"
  by (simp add: js_uniq_def)

lemma distinct_js_uniq [simp]: "distinct (js_uniq xs)"
  by (simp add: js_uniq_def)

lemma js_uniq_Nil [simp]: "js_uniq [] = []"
  by (simp add: js_uniq_def)

lemma js_uniq_eq_Nil [simp]: "js_uniq xs = [] \<longleftrightarrow> xs = []"
  by (simp add: js_uniq_def)

lemma js_uniq_snoc: "js_uniq (xs @ [x]) = (if x \<in> set xs then js_uniq xs else js_uniq xs @ [x])"
  by (simp add: js_uniq_def)

lemma js_uniq_distinct: "distinct xs \<Longrightarrow> js_uniq xs = xs"
  by (simp add: js_uniq_def distinct_remdups_id)

text \<open>\<open>xs.slice(a, b)\<close>: indices are clamped, negative ones count from the end.\<close>

definition slice_index :: "nat \<Rightarrow> int \<Rightarrow> nat" where
  "slice_index n i = (if i < 0 then nat (int n + i) else min (nat i) n)"

definition js_slice :: "int \<Rightarrow> int \<Rightarrow> 'a list \<Rightarrow> 'a list" where
  "js_slice a b xs = (let i = slice_index (length xs) a; j = slice_index (length xs) b
     in take (j - i) (drop i xs))"

text \<open>\<open>.skip(s).take(t)\<close> of a query.\<close>

definition sql_page :: "int \<Rightarrow> int \<Rightarrow> 'a list \<Rightarrow> 'a list" where
  "sql_page s t xs = take (nat t) (drop (nat s) xs)"

lemma js_slice_page:
  "0 \<le> s \<Longrightarrow> 0 \<le> t \<Longrightarrow> js_slice s (s + t) xs = sql_page s t xs"
proof -
  assume "0 \<le> s" "0 \<le> t"
  then have st: "nat (s + t) = nat s + nat t" by simp
  show ?thesis
  proof (cases "nat s \<le> length xs")
    case True
    with \<open>0 \<le> s\<close> \<open>0 \<le> t\<close> st show ?thesis
      by (auto simp: js_slice_def slice_index_def sql_page_def Let_def min_def)
  next
    case False
    with \<open>0 \<le> s\<close> \<open>0 \<le> t\<close> show ?thesis
      by (auto simp: js_slice_def slice_index_def sql_page_def Let_def min_def)
  qed
qed

lemma set_sql_page: "x \<in> set (sql_page s t xs) \<Longrightarrow> x \<in> set xs"
  by (metis in_set_dropD in_set_takeD sql_page_def)

text \<open>\<open>ORDER BY key DESC\<close>; rows with equal keys keep the table's order.\<close>

definition order_desc :: "('a \<Rightarrow> int) \<Rightarrow> 'a list \<Rightarrow> 'a list" where
  "order_desc k xs = sort_key (\<lambda>x. - k x) xs"

definition order_asc :: "('a \<Rightarrow> int) \<Rightarrow> 'a list \<Rightarrow> 'a list" where
  "order_asc k xs = sort_key k xs"

lemma set_order [simp]: "set (order_desc k xs) = set xs" "set (order_asc k xs) = set xs"
  by (simp_all add: order_desc_def order_asc_def)

lemma length_order [simp]:
  "length (order_desc k xs) = length xs" "length (order_asc k xs) = length xs"
  by (simp_all add: order_desc_def order_asc_def)

lemma sorted_order_asc: "sorted (map k (order_asc k xs))"
  by (simp add: order_asc_def)

lemma sorted_order_desc: "sorted_wrt (\<lambda>x y. k y \<le> k x) (order_desc k xs)"
proof -
  have "sorted (map (\<lambda>x. - k x) (order_desc k xs))" by (simp add: order_desc_def)
  then show ?thesis by (simp add: sorted_map)
qed

lemma distinct_order [simp]:
  "distinct (order_desc k xs) = distinct xs" "distinct (order_asc k xs) = distinct xs"
  by (simp_all add: order_desc_def order_asc_def)

lemma find_set: "find P xs = Some x \<Longrightarrow> x \<in> set xs \<and> P x"
  by (metis find_Some_iff nth_mem)

lemma find_None_set: "find P xs = None \<longleftrightarrow> (\<forall>x\<in>set xs. \<not> P x)"
  by (auto simp: find_None_iff)

lemma find_filter: "find P (filter Q xs) = find (\<lambda>x. Q x \<and> P x) xs"
  by (induction xs) auto

lemma find_append_None: "find P xs = None \<Longrightarrow> find P (xs @ ys) = find P ys"
  by (induction xs) (auto split: if_splits)

section \<open>Rows of a table\<close>

text \<open>
  A table is the list of its rows in insertion order. \<open>save\<close> of a loaded
  entity writes the row with the entity's key; \<open>save\<close> of a new entity appends
  a row.
\<close>

definition find_row :: "('r \<Rightarrow> 'k) \<Rightarrow> 'k \<Rightarrow> 'r list \<Rightarrow> 'r option" where
  "find_row key k rs = find (\<lambda>r. key r = k) rs"

definition save_row :: "('r \<Rightarrow> 'k) \<Rightarrow> 'r \<Rightarrow> 'r list \<Rightarrow> 'r list" where
  "save_row key r rs = map (\<lambda>x. if key x = key r then r else x) rs"

lemma map_key_save_row [simp]: "map key (save_row key r rs) = map key rs"
  by (simp add: save_row_def)

lemma length_save_row [simp]: "length (save_row key r rs) = length rs"
  by (simp add: save_row_def)

lemma save_row_Nil [simp]: "save_row key r [] = []"
  by (simp add: save_row_def)

lemma save_row_absent: "key r \<notin> key ` set rs \<Longrightarrow> save_row key r rs = rs"
  unfolding save_row_def by (rule map_idI) (metis imageI)

lemma save_row_Cons:
  "save_row key r (x # rs) = (if key x = key r then r else x) # save_row key r rs"
  by (simp add: save_row_def)

lemma set_save_row: "x \<in> set (save_row key r rs) \<Longrightarrow> x = r \<or> x \<in> set rs \<and> key x \<noteq> key r"
  by (auto simp: save_row_def split: if_splits)

lemma save_row_eq: "distinct (map key rs) \<Longrightarrow> r0 \<in> set rs \<Longrightarrow> key r = key r0 \<Longrightarrow>
  set (save_row key r rs) = insert r (set rs - {r0})"
proof (induction rs)
  case (Cons x rs)
  show ?case
  proof (cases "x = r0")
    case True
    with Cons.prems have "key r \<notin> key ` set rs" and "r0 \<notin> set rs" by auto
    with True Cons.prems show ?thesis by (auto simp: save_row_Cons save_row_absent)
  next
    case False
    with Cons.prems have "key x \<noteq> key r" by auto
    with False Cons show ?thesis by (auto simp: save_row_Cons)
  qed
qed simp

lemma find_row_save_same:
  "find_row key (key r) rs \<noteq> None \<Longrightarrow> find_row key (key r) (save_row key r rs) = Some r"
  by (induction rs) (auto simp: find_row_def save_row_def)

lemma find_row_save_other:
  "k \<noteq> key r \<Longrightarrow> find_row key k (save_row key r rs) = find_row key k rs"
  by (induction rs) (auto simp: find_row_def save_row_def)

lemma filter_save_row_other:
  "\<lbrakk>\<forall>x\<in>set rs. key x = key r \<longrightarrow> P x = P r; \<not> P r\<rbrakk> \<Longrightarrow>
   filter P (save_row key r rs) = filter P rs"
  by (induction rs) (auto simp: save_row_def)

lemma filter_save_row_keep:
  "\<lbrakk>\<forall>x\<in>set rs. key x = key r \<longrightarrow> P x = P r\<rbrakk> \<Longrightarrow>
   filter P (save_row key r rs) = save_row key r (filter P rs)"
  by (induction rs) (auto simp: save_row_def)

lemma filter_save_row_drop:
  "\<not> P r \<Longrightarrow> filter P (save_row key r rs) = filter (\<lambda>x. P x \<and> key x \<noteq> key r) rs"
  by (induction rs) (auto simp: save_row_def)

lemma distinct_key_eq: "distinct (map key rs) \<Longrightarrow> x \<in> set rs \<Longrightarrow> y \<in> set rs \<Longrightarrow> key x = key y \<Longrightarrow> x = y"
  by (auto simp: distinct_map inj_on_def)

lemma filter_key_single: "distinct (map key rows) \<Longrightarrow> r \<in> set rows \<Longrightarrow> filter (\<lambda>s. key s = key r) rows = [r]"
  by (induction rows) (auto simp: filter_empty_conv, metis imageI)

section \<open>Generic interfaces\<close>

text \<open>
  The contract a service's handlers rely on when they load, change and save
  an entity: reading back a saved row gives what was saved, other rows are
  untouched, and saving neither creates nor drops rows.
\<close>

locale row_store =
  fixes lookup :: "'s \<Rightarrow> 'k \<Rightarrow> 'r option"
    and store :: "'r \<Rightarrow> 's \<Rightarrow> 's"
    and key :: "'r \<Rightarrow> 'k"
  assumes lookup_key: "lookup s k = Some r \<Longrightarrow> key r = k"
    and lookup_same: "lookup s (key r) \<noteq> None \<Longrightarrow> lookup (store r s) (key r) = Some r"
    and lookup_other: "k \<noteq> key r \<Longrightarrow> lookup (store r s) k = lookup s k"
begin

lemma lookup_after_modify:
  assumes "lookup s k = Some r" and "key (f r) = key r"
  shows "lookup (store (f r) s) k' = (if k' = k then Some (f r) else lookup s k')"
proof (cases "k' = k")
  case True
  have "key (f r) = k" using assms lookup_key by simp
  with True assms(1) show ?thesis using lookup_same [of s "f r"] by simp
next
  case False
  have "key (f r) = k" using assms lookup_key by simp
  with False show ?thesis by (simp add: lookup_other)
qed

lemma store_keeps_domain:
  assumes "lookup s (key r) \<noteq> None"
  shows "(lookup (store r s) k = None) = (lookup s k = None)"
  using assms lookup_other lookup_same by (cases "k = key r") auto

lemma store_overwrites:
  assumes "lookup s (key r) \<noteq> None" and "key r' = key r"
  shows "lookup (store r' (store r s)) k = lookup (store r' s) k"
proof (cases "k = key r'")
  case True
  with assms show ?thesis
    using lookup_same [of "store r s" r'] lookup_same [of s r'] lookup_same [of s r] by simp
next
  case False
  with assms show ?thesis by (simp add: lookup_other)
qed

end

text \<open>
  A service: a request handler on a state. Whatever one call keeps, any
  sequence of calls keeps; a call that answers with an error and leaves the
  state alone is invisible to the rest of the run.
\<close>

fun run_requests :: "('q \<Rightarrow> 's \<Rightarrow> 'a \<times> 's) \<Rightarrow> 'q list \<Rightarrow> 's \<Rightarrow> 's" where
  "run_requests step [] s = s"
| "run_requests step (q # qs) s = run_requests step qs (snd (step q s))"

lemma run_requests_append:
  "run_requests step (qs @ qs') s = run_requests step qs' (run_requests step qs s)"
  by (induction qs arbitrary: s) auto

locale service =
  fixes step :: "'q \<Rightarrow> 's \<Rightarrow> 'a \<times> 's" and inv :: "'s \<Rightarrow> bool"
  assumes step_inv: "inv s \<Longrightarrow> inv (snd (step q s))"
begin

lemma run_inv: "inv s \<Longrightarrow> inv (run_requests step qs s)"
  by (induction qs arbitrary: s) (auto intro: step_inv)

lemma prefix_inv: "inv s \<Longrightarrow> inv (run_requests step (take n qs) s)"
  by (rule run_inv)

end

locale failing_service = service step inv
  for step :: "'q \<Rightarrow> 's \<Rightarrow> ('e + 'a) \<times> 's" and inv :: "'s \<Rightarrow> bool" +
  assumes error_frame: "inv s \<Longrightarrow> fst (step q s) = Inl e \<Longrightarrow> snd (step q s) = s"
begin

lemma drop_failed:
  assumes "inv s" and "fst (step q (run_requests step qs s)) = Inl e"
  shows "run_requests step (qs @ q # qs') s = run_requests step (qs @ qs') s"
  using error_frame [OF run_inv [OF assms(1)] assms(2)] by (simp add: run_requests_append)

end

text \<open>An identifier source for the sample runs of the component theories.\<close>

definition demo_ids :: "nat \<Rightarrow> uuid" where
  "demo_ids n = CHR ''k'' # replicate n (CHR ''i'')"

lemma inj_demo_ids: "inj demo_ids"
proof (rule injI)
  fix m n assume "demo_ids m = demo_ids n"
  then have "length (demo_ids m) = length (demo_ids n)" by (rule arg_cong)
  then show "m = n" by (simp add: demo_ids_def)
qed

end
