(* ===== verification/RelayCommon.thy ===== *)
theory RelayCommon
  imports RelayPrelude
begin

text \<open>
  The shared library \<open>libs/common\<close>: the enums, the RPC error values, pagination,
  duration parsing and the in-flight limiter of the gateway's proxy.

  An RPC handler either returns a value or throws an \<open>RpcException\<close>; a handler is
  a function from the database to a pair of its outcome (\<open>Inl\<close> the error,
  \<open>Inr\<close> the value) and the database it leaves, so that writes done before a throw
  stay visible.
\<close>

section \<open>Enums (conversation.enum.ts, user-role.enum.ts)\<close>

datatype conversation_type = PRIVATE | GROUP
datatype member_role = OWNER | ADMIN | MEMBER
datatype message_type = TEXT | IMAGE | FILE | AUDIO | CALL
datatype presence_status = ONLINE | OFFLINE
datatype user_role = ROLE_ADMIN | ROLE_USER

definition message_type_value :: "message_type \<Rightarrow> string" where
  "message_type_value t = (case t of TEXT \<Rightarrow> ''text'' | IMAGE \<Rightarrow> ''image'' | FILE \<Rightarrow> ''file''
     | AUDIO \<Rightarrow> ''audio'' | CALL \<Rightarrow> ''call'')"

text \<open>\<open>Object.values(MessageType).includes(type)\<close>: the enum member a wire value names.\<close>

definition message_type_of :: "string \<Rightarrow> message_type option" where
  "message_type_of s = find (\<lambda>t. message_type_value t = s) [TEXT, IMAGE, FILE, AUDIO, CALL]"

lemma message_type_roundtrip: "message_type_of (message_type_value t) = Some t"
  by (cases t) (simp_all add: message_type_of_def message_type_value_def)

definition ALLOWED_REACTIONS :: "string list" where
  "ALLOWED_REACTIONS =
    [[CHR 0xF0, CHR 0x9F, CHR 0x91, CHR 0x8D],
     [CHR 0xE2, CHR 0x9D, CHR 0xA4, CHR 0xEF, CHR 0xB8, CHR 0x8F],
     [CHR 0xF0, CHR 0x9F, CHR 0x98, CHR 0x82],
     [CHR 0xF0, CHR 0x9F, CHR 0x98, CHR 0xAE],
     [CHR 0xF0, CHR 0x9F, CHR 0x98, CHR 0xA2],
     [CHR 0xF0, CHR 0x9F, CHR 0x99, CHR 0x8F]]"

section \<open>RPC errors (rpc-app.exception.ts)\<close>

record rpc_error =
  statusCode :: nat
  err_message :: string
  err_name :: string

type_synonym 'a rpc = "rpc_error + 'a"

definition throwRpcError :: "nat \<Rightarrow> string \<Rightarrow> string \<Rightarrow> rpc_error" where
  "throwRpcError st msg nm = \<lparr>statusCode = st, err_message = msg, err_name = nm\<rparr>"

definition badRequest :: "string \<Rightarrow> rpc_error" where
  "badRequest msg = throwRpcError 400 msg ''Bad Request''"

definition unauthorized :: "string \<Rightarrow> rpc_error" where
  "unauthorized msg = throwRpcError 401 msg ''Unauthorized''"

definition forbidden :: "string \<Rightarrow> rpc_error" where
  "forbidden msg = throwRpcError 403 msg ''Forbidden''"

definition notFound :: "string \<Rightarrow> rpc_error" where
  "notFound resource = throwRpcError 404 (resource @ '' not found'') ''Not Found''"

definition conflict :: "string \<Rightarrow> rpc_error" where
  "conflict msg = throwRpcError 409 msg ''Conflict''"

lemmas rpc_error_defs = throwRpcError_def badRequest_def unauthorized_def forbidden_def
  notFound_def conflict_def

lemma statusCode_simps [simp]:
  "statusCode (badRequest m) = 400" "statusCode (unauthorized m) = 401"
  "statusCode (forbidden m) = 403" "statusCode (notFound m) = 404" "statusCode (conflict m) = 409"
  by (simp_all add: rpc_error_defs)

lemma rpc_error_neq [simp]:
  "badRequest m \<noteq> forbidden m'" "forbidden m' \<noteq> badRequest m"
  "badRequest m \<noteq> notFound m'" "notFound m' \<noteq> badRequest m"
  "forbidden m \<noteq> notFound m'" "notFound m' \<noteq> forbidden m"
  by (simp_all add: rpc_error_defs)

lemma badRequest_inject [simp]: "badRequest m = badRequest m' \<longleftrightarrow> m = m'"
  by (simp add: rpc_error_defs)

lemma forbidden_inject [simp]: "forbidden m = forbidden m' \<longleftrightarrow> m = m'"
  by (simp add: rpc_error_defs)

lemma notFound_inject [simp]: "notFound m = notFound m' \<longleftrightarrow> m = m'"
  by (simp add: rpc_error_defs)

text \<open>
  The two clocks of a call: \<open>now\<close> is \<open>Date.now()\<close> of the service process,
  \<open>db_now\<close> the \<open>now()\<close> of PostgreSQL that fills \<open>CreateDateColumn\<close>s. Neither
  advances within one call.
\<close>

record clock =
  now :: instant
  db_now :: instant

section \<open>Pagination (pagination.util.ts)\<close>

text \<open>
  \<open>Math.ceil(total / limit) || 0\<close> is Infinity for a zero limit and a positive total.
\<close>

datatype page_count = Pages int | Infinite_pages

record paginated_meta =
  pg_page :: int
  pg_limit :: int
  pg_total :: int
  pg_totalPages :: page_count
  pg_hasNextPage :: bool
  pg_hasPreviousPage :: bool

definition total_pages :: "int \<Rightarrow> int \<Rightarrow> page_count" where
  "total_pages tot limit =
     (if limit = 0 then (if tot = 0 then Pages 0 else Infinite_pages)
      else Pages (- ((- tot) div limit)))"

definition page_below :: "int \<Rightarrow> page_count \<Rightarrow> bool" where
  "page_below p n = (case n of Pages k \<Rightarrow> p < k | Infinite_pages \<Rightarrow> True)"

definition buildPaginatedResult :: "'a list \<Rightarrow> int \<Rightarrow> int \<Rightarrow> int \<Rightarrow> 'a list \<times> paginated_meta" where
  "buildPaginatedResult items tot page limit =
     (let totalPages = total_pages tot limit in
      (items, \<lparr>pg_page = page, pg_limit = limit, pg_total = tot, pg_totalPages = totalPages,
               pg_hasNextPage = page_below page totalPages, pg_hasPreviousPage = page > 1\<rparr>))"

definition getSkipTake :: "int \<Rightarrow> int \<Rightarrow> int \<times> int" where
  "getSkipTake page limit = ((page - 1) * limit, limit)"

text \<open>What a listing handler returns for one page of an ordered result.\<close>

definition page_of :: "int \<Rightarrow> int \<Rightarrow> 'a list \<Rightarrow> 'a list" where
  "page_of page limit xs = (case getSkipTake page limit of (s, t) \<Rightarrow> sql_page s t xs)"

lemma fst_buildPaginatedResult [simp]: "fst (buildPaginatedResult xs t p l) = xs"
  by (simp add: buildPaginatedResult_def Let_def)

lemma set_page_of: "x \<in> set (page_of p l xs) \<Longrightarrow> x \<in> set xs"
  by (auto simp: page_of_def getSkipTake_def dest: set_sql_page)

lemma page_of_nat:
  "0 < l \<Longrightarrow> page_of (int p + 1) (int l) xs = take l (drop (p * l) xs)"
  by (simp add: page_of_def getSkipTake_def sql_page_def nat_mult_distrib)

lemma concat_pages:
  "0 < l \<Longrightarrow> concat (map (\<lambda>p. page_of (int p + 1) (int l) xs) [0..<n]) = take (n * l) xs"
proof (induction n)
  case (Suc n)
  with page_of_nat [of l n xs] show ?case
    by (simp add: take_add add.commute [of "int n"] add.commute [of l])
qed simp

lemma total_pages_bounds:
  assumes "0 < limit"
  obtains k where "total_pages tot limit = Pages k"
    and "tot \<le> k * limit" and "(k - 1) * limit < tot"
proof
  let ?k = "- ((- tot) div limit)"
  show "total_pages tot limit = Pages ?k" using assms by (simp add: total_pages_def)
  have eq: "limit * ((- tot) div limit) + (- tot) mod limit = - tot"
    by (rule mult_div_mod_eq)
  have "0 \<le> (- tot) mod limit" "(- tot) mod limit < limit" using assms by simp_all
  with eq have "- tot - limit < limit * ((- tot) div limit)" "limit * ((- tot) div limit) \<le> - tot"
    by linarith+
  then show "tot \<le> ?k * limit" and "(?k - 1) * limit < tot"
    by (simp_all add: algebra_simps)
qed

section \<open>Durations (duration.util.ts)\<close>

definition is_digit :: "char \<Rightarrow> bool" where
  "is_digit c = (let n = (of_char c :: nat) in 48 \<le> n \<and> n \<le> 57)"

definition digit_value :: "char \<Rightarrow> int" where
  "digit_value c = int ((of_char c :: nat) - 48)"

definition to_number :: "string \<Rightarrow> int" where
  "to_number s = foldl (\<lambda>a c. 10 * a + digit_value c) 0 s"

definition MS :: "char \<Rightarrow> int" where
  "MS u = (if u = CHR ''s'' then 1000 else if u = CHR ''m'' then 60000
     else if u = CHR ''h'' then 3600000 else 86400000)"

definition SECONDS :: "char \<Rightarrow> int" where
  "SECONDS u = (if u = CHR ''s'' then 1 else if u = CHR ''m'' then 60
     else if u = CHR ''h'' then 3600 else 86400)"

text \<open>The match of \<open>/^(\d+)([smhd])$/\<close>.\<close>

definition parseAmount :: "string \<Rightarrow> (int \<times> char) option" where
  "parseAmount s =
     (if s = [] then None
      else if last s \<in> {CHR ''s'', CHR ''m'', CHR ''h'', CHR ''d''}
            \<and> butlast s \<noteq> [] \<and> list_all is_digit (butlast s)
      then Some (to_number (butlast s), last s) else None)"

definition parseDurationMs :: "string \<Rightarrow> int \<Rightarrow> int" where
  "parseDurationMs expiresIn fallbackMs =
     (case parseAmount expiresIn of None \<Rightarrow> fallbackMs | Some (amount, u) \<Rightarrow> amount * MS u)"

definition parseDurationSeconds :: "string \<Rightarrow> int \<Rightarrow> int" where
  "parseDurationSeconds expiresIn fallbackSeconds =
     (case parseAmount expiresIn of None \<Rightarrow> fallbackSeconds | Some (amount, u) \<Rightarrow> amount * SECONDS u)"

text \<open>The decimal numeral of a number, for the round trip.\<close>

fun decimal :: "nat \<Rightarrow> string" where
  "decimal n = (if n < 10 then [char_of (48 + n)] else decimal (n div 10) @ [char_of (48 + n mod 10)])"

declare decimal.simps [simp del]

lemma decimal_digits: "decimal n \<noteq> [] \<and> list_all is_digit (decimal n)"
proof (induction n rule: decimal.induct)
  case (1 n)
  show ?case
  proof (cases "n < 10")
    case True
    then show ?thesis by (simp add: decimal.simps [of n] is_digit_def Let_def)
  next
    case False
    with 1 show ?thesis by (simp add: decimal.simps [of n] is_digit_def Let_def)
  qed
qed

lemma to_number_snoc: "to_number (s @ [c]) = 10 * to_number s + digit_value c"
  by (simp add: to_number_def)

lemma to_number_decimal: "to_number (decimal n) = int n"
proof (induction n rule: decimal.induct)
  case (1 n)
  show ?case
  proof (cases "n < 10")
    case True
    then show ?thesis by (simp add: decimal.simps [of n] to_number_def digit_value_def)
  next
    case False
    with 1 have "to_number (decimal n) = 10 * int (n div 10) + int (n mod 10)"
      by (simp add: decimal.simps [of n] to_number_snoc digit_value_def)
    then show ?thesis by presburger
  qed
qed

lemma MS_SECONDS: "MS u = 1000 * SECONDS u"
  by (simp add: MS_def SECONDS_def)

lemma parseAmount_decimal:
  "u \<in> {CHR ''s'', CHR ''m'', CHR ''h'', CHR ''d''} \<Longrightarrow>
   parseAmount (decimal n @ [u]) = Some (int n, u)"
  using decimal_digits [of n] by (simp add: parseAmount_def to_number_decimal)

section \<open>In-flight limiter (inflight-limiter.ts)\<close>

text \<open>
  A waiter is the resolver of the promise that \<open>acquire\<close> returned; it is
  represented by the name of the caller. \<open>acquire\<close> answers whether the promise is
  resolved at once, \<open>release\<close> which waiter it resolves.
\<close>

record 'c limiter =
  lim_max :: int
  lim_active :: int
  lim_waiters :: "'c list"

definition new_limiter :: "int \<Rightarrow> 'c limiter" where
  "new_limiter mx = \<lparr>lim_max = mx, lim_active = 0, lim_waiters = []\<rparr>"

definition acquire :: "'c \<Rightarrow> 'c limiter \<Rightarrow> bool \<times> 'c limiter" where
  "acquire c L =
     (if lim_active L < lim_max L then (True, L\<lparr>lim_active := lim_active L + 1\<rparr>)
      else (False, L\<lparr>lim_waiters := lim_waiters L @ [c]\<rparr>))"

definition release :: "'c limiter \<Rightarrow> 'c option \<times> 'c limiter" where
  "release L =
     (case lim_waiters L of
        w # ws \<Rightarrow> (Some w, L\<lparr>lim_waiters := ws\<rparr>)
      | [] \<Rightarrow> (None, L\<lparr>lim_active := max 0 (lim_active L - 1)\<rparr>))"

text \<open>
  The discipline of \<open>MicroserviceProxy.send\<close>: a call acquires a slot before it sends
  and releases it in its \<open>finally\<close> block, on success and on error alike. The second
  component is the list of calls between the two.
\<close>

inductive limiter_step :: "'c limiter \<times> 'c list \<Rightarrow> 'c limiter \<times> 'c list \<Rightarrow> bool" where
  granted: "acquire c L = (True, L') \<Longrightarrow> limiter_step (L, hs) (L', c # hs)"
| queued: "acquire c L = (False, L') \<Longrightarrow> limiter_step (L, hs) (L', hs)"
| handover: "h \<in> set hs \<Longrightarrow> release L = (Some w, L') \<Longrightarrow> limiter_step (L, hs) (L', w # remove1 h hs)"
| freed: "h \<in> set hs \<Longrightarrow> release L = (None, L') \<Longrightarrow> limiter_step (L, hs) (L', remove1 h hs)"

inductive_cases limiter_stepE: "limiter_step (L, hs) (L', hs')"

inductive limiter_reach :: "int \<Rightarrow> 'c limiter \<times> 'c list \<Rightarrow> bool" for mx where
  start: "limiter_reach mx (new_limiter mx, [])"
| step: "limiter_reach mx s \<Longrightarrow> limiter_step s t \<Longrightarrow> limiter_reach mx t"

definition limiter_inv :: "int \<Rightarrow> 'c limiter \<times> 'c list \<Rightarrow> bool" where
  "limiter_inv mx s = (case s of (L, hs) \<Rightarrow>
     lim_max L = mx \<and> lim_active L = int (length hs) \<and> lim_active L \<le> mx
     \<and> (lim_waiters L \<noteq> [] \<longrightarrow> lim_active L = mx))"

lemma limiter_step_inv: "limiter_step s t \<Longrightarrow> limiter_inv mx s \<Longrightarrow> limiter_inv mx t"
proof (induction rule: limiter_step.induct)
  case (granted c L L' hs)
  then show ?case by (auto simp: limiter_inv_def acquire_def split: if_splits)
next
  case (queued c L L' hs)
  then show ?case by (auto simp: limiter_inv_def acquire_def split: if_splits)
next
  case (handover h hs L w L')
  then have "0 < length hs" by (auto dest: length_pos_if_in_set)
  then have "int (length hs - 1) = int (length hs) - 1" by linarith
  with handover show ?case
    by (auto simp: limiter_inv_def release_def length_remove1 split: list.splits)
next
  case (freed h hs L L')
  then have "0 < length hs" by (auto dest: length_pos_if_in_set)
  then have "int (length hs - 1) = int (length hs) - 1" by linarith
  with freed show ?case
    by (auto simp: limiter_inv_def release_def length_remove1 split: list.splits)
qed

lemma limiter_reach_inv: "limiter_reach mx s \<Longrightarrow> 0 \<le> mx \<Longrightarrow> limiter_inv mx s"
proof (induction rule: limiter_reach.induct)
  case start
  then show ?case by (simp add: limiter_inv_def new_limiter_def)
next
  case (step s t)
  then show ?case by (blast intro: limiter_step_inv)
qed

text \<open>A run of \<open>n\<close> releases, collecting the waiters they resume.\<close>

fun release_n :: "nat \<Rightarrow> 'c limiter \<Rightarrow> 'c list \<times> 'c limiter" where
  "release_n 0 L = ([], L)"
| "release_n (Suc n) L = (case release L of (w, L') \<Rightarrow>
     (case release_n n L' of (ws, L'') \<Rightarrow> ((case w of None \<Rightarrow> ws | Some x \<Rightarrow> x # ws), L'')))"

lemma release_n_fifo:
  "n \<le> length (lim_waiters L) \<Longrightarrow>
   release_n n L = (take n (lim_waiters L), L\<lparr>lim_waiters := drop n (lim_waiters L)\<rparr>)"
proof (induction n arbitrary: L)
  case (Suc n)
  then obtain w ws where "lim_waiters L = w # ws" by (cases "lim_waiters L") auto
  with Suc.prems Suc.IH [of "L\<lparr>lim_waiters := ws\<rparr>"] show ?case
    by (simp add: release_def)
qed simp

end
