(* ===== verification/RelayProperties.thy ===== *)
theory RelayProperties
  imports RelayCommon
begin

text \<open>
  Properties of the shared library: the pages of a listing against the whole
  listing, duration strings against the milliseconds they denote, and the bound and
  order of the limiter in front of the micro-services.
\<close>

section \<open>Pages\<close>

lemma page_nonempty: "0 < l \<Longrightarrow> page_of (int p + 1) (int l) xs \<noteq> [] \<longleftrightarrow> p * l < length xs"
  by (simp add: page_of_nat not_le)

lemma total_pages_nat:
  assumes "0 < l"
  obtains k where "total_pages (int n) (int l) = Pages (int k)" and "n \<le> k * l" and "\<And>p. p < k \<longleftrightarrow> p * l < n"
proof -
  have "0 < int l" using assms by simp
  then obtain i where i: "total_pages (int n) (int l) = Pages i" "int n \<le> i * int l" "(i - 1) * int l < int n"
    by (rule total_pages_bounds)
  have "0 \<le> i"
  proof (rule ccontr)
    assume "\<not> 0 \<le> i"
    then have "i * int l < 0" using assms by (simp add: mult_neg_pos)
    then show False using i(2) by simp
  qed
  then obtain k where k: "i = int k" by (rule nonneg_eq_int)
  have le: "n \<le> k * l" using i(2) unfolding k of_nat_mult [symmetric] of_nat_le_iff .
  have "p < k \<longleftrightarrow> p * l < n" for p
  proof
    assume "p < k"
    then have "int p \<le> i - 1" using k by simp
    then have "int p * int l \<le> (i - 1) * int l" by (rule mult_right_mono) simp
    then have "int p * int l < int n" using i(3) by (rule le_less_trans)
    then show "p * l < n" unfolding of_nat_mult [symmetric] of_nat_less_iff .
  next
    assume "p * l < n"
    then have "p * l < k * l" using le by (rule less_le_trans)
    then show "p < k" using assms by simp
  qed
  with i(1) k le show ?thesis using that by blast
qed

text \<open>
  C34. For a positive page size a listing has a finite number of pages; read in order they are
  the listing, none of them is empty, and hasNextPage is set exactly on the pages that another
  non-empty page follows.
\<close>

theorem paging_exact:
  assumes "0 < l"
  shows "\<exists>k. total_pages (int (length xs)) (int l) = Pages (int k)
    \<and> concat (map (\<lambda>p. page_of (int p + 1) (int l) xs) [0..<k]) = xs
    \<and> (\<forall>p. p < k \<longleftrightarrow> page_of (int p + 1) (int l) xs \<noteq> [])
    \<and> (\<forall>p. pg_hasNextPage (snd (buildPaginatedResult ys (int (length xs)) (int p + 1) (int l)))
         \<longleftrightarrow> page_of (int (p + 1) + 1) (int l) xs \<noteq> [])"
proof -
  obtain k where k: "total_pages (int (length xs)) (int l) = Pages (int k)" "length xs \<le> k * l"
    "\<And>p. p < k \<longleftrightarrow> p * l < length xs" using total_pages_nat [OF assms] by blast
  have next_page: "pg_hasNextPage (snd (buildPaginatedResult ys (int (length xs)) (int p + 1) (int l))) \<longleftrightarrow> p + 1 < k" for p
    using k(1) by (simp add: buildPaginatedResult_def Let_def page_below_def) linarith
  show ?thesis
    by (intro exI [of _ k] conjI allI)
      (simp_all only: k(1) concat_pages [OF assms] page_nonempty [OF assms] next_page k(3) take_all [OF k(2)])
qed

theorem paging_exact_witness:
  "concat (map (\<lambda>p. page_of (int p + 1) (int 2) [3, 1, 4, 1, 5::nat]) [0..<3]) = [3, 1, 4, 1, 5]
    \<and> pg_hasNextPage (snd (buildPaginatedResult [4, 1::nat] 5 2 2))
    \<and> \<not> pg_hasNextPage (snd (buildPaginatedResult [5::nat] 5 3 2))"
proof -
  have "0 < (2::nat)" by simp
  from paging_exact [OF this, of "[3, 1, 4, 1, 5::nat]" "[]::nat list"] obtain k where
    k: "total_pages 5 2 = Pages (int k)"
    and cover: "concat (map (\<lambda>p. page_of (int p + 1) (int 2) [3, 1, 4, 1, 5::nat]) [0..<k]) = [3, 1, 4, 1, 5]"
    by auto
  have "total_pages 5 2 = Pages 3" by code_simp
  with k have "k = 3" by simp
  moreover have "pg_hasNextPage (snd (buildPaginatedResult [4, 1::nat] 5 2 2))"
    "\<not> pg_hasNextPage (snd (buildPaginatedResult [5::nat] 5 3 2))" by code_simp+
  ultimately show ?thesis using cover by simp
qed

section \<open>Durations\<close>

lemma parseAmount_Some:
  assumes "parseAmount s = Some (a, u)"
  shows "s = butlast s @ [u] \<and> u \<in> {CHR ''s'', CHR ''m'', CHR ''h'', CHR ''d''}
    \<and> butlast s \<noteq> [] \<and> list_all is_digit (butlast s) \<and> a = to_number (butlast s)"
proof -
  have ne: "s \<noteq> []" using assms by (auto simp: parseAmount_def)
  then have "s = butlast s @ [last s]" by simp
  moreover have "u = last s" "a = to_number (butlast s)" "butlast s \<noteq> []" "list_all is_digit (butlast s)"
    "last s \<in> {CHR ''s'', CHR ''m'', CHR ''h'', CHR ''d''}"
    using assms ne by (simp_all only: parseAmount_def if_False split: if_splits) simp_all
  ultimately show ?thesis by simp
qed

text \<open>
  C40. A decimal amount followed by one of the four units is read back as that amount, in
  milliseconds and in seconds alike; any string that is not digits and one unit letter gives the
  fallback of the caller.
\<close>

theorem duration_roundtrip:
  shows "u \<in> {CHR ''s'', CHR ''m'', CHR ''h'', CHR ''d''} \<Longrightarrow>
      parseDurationMs (decimal n @ [u]) d = 1000 * parseDurationSeconds (decimal n @ [u]) d'
      \<and> parseDurationSeconds (decimal n @ [u]) d' =
          int n * (if u = CHR ''s'' then 1 else if u = CHR ''m'' then 60 else if u = CHR ''h'' then 3600 else 86400)
      \<and> (\<nexists>digits u'. s = digits @ [u'] \<and> digits \<noteq> [] \<and> list_all is_digit digits
            \<and> u' \<in> {CHR ''s'', CHR ''m'', CHR ''h'', CHR ''d''}) =
          (\<forall>d. parseDurationMs s d = d \<and> parseDurationSeconds s d = d)"
  (is "_ \<Longrightarrow> _ \<and> _ \<and> ?malformed = ?fallback")
proof -
  assume u: "u \<in> {CHR ''s'', CHR ''m'', CHR ''h'', CHR ''d''}"
  have "?malformed = (parseAmount s = None)"
  proof (cases "parseAmount s")
    case None
    have False if "s = digits @ [u']" "digits \<noteq> []" "list_all is_digit digits"
      "u' \<in> {CHR ''s'', CHR ''m'', CHR ''h'', CHR ''d''}" for digits u'
      using None that by (simp add: parseAmount_def)
    then show ?thesis using None by blast
  next
    case (Some p)
    then show ?thesis using parseAmount_Some [of s "fst p" "snd p"] by (metis option.distinct(1) prod.collapse)
  qed
  also have "\<dots> = ?fallback"
  proof (cases "parseAmount s")
    case (Some p)
    obtain a u' where p: "p = (a, u')" by (cases p)
    have "parseDurationMs s (a * MS u' + 1) \<noteq> a * MS u' + 1" by (simp add: parseDurationMs_def Some p)
    then show ?thesis unfolding Some by blast
  qed (simp add: parseDurationMs_def parseDurationSeconds_def)
  finally show ?thesis
    using parseAmount_decimal [OF u, of n] u
    by (auto simp: parseDurationMs_def parseDurationSeconds_def MS_def SECONDS_def)
qed

theorem duration_roundtrip_witness:
  "parseDurationMs ''15m'' 0 = 900000 \<and> parseDurationSeconds ''15m'' 0 = 900 \<and> parseDurationMs ''1w'' 7 = 7"
proof -
  have "CHR ''m'' \<in> {CHR ''s'', CHR ''m'', CHR ''h'', CHR ''d''}" by simp
  note rt = duration_roundtrip [OF this, of 15 0 0 "''1w''"]
  have d: "decimal 15 @ ''m'' = ''15m''" by code_simp
  have s: "parseDurationSeconds ''15m'' 0 = 900" using rt unfolding d by simp
  moreover have "parseDurationMs ''15m'' 0 = 1000 * parseDurationSeconds ''15m'' 0" using rt unfolding d by blast
  moreover have "parseDurationMs ''1w'' 7 = 7" by code_simp
  ultimately show ?thesis by simp
qed

section \<open>The limiter\<close>

text \<open>
  C38. At most \<open>max\<close> requests of one proxy are in flight, a request waits only while all slots
  are taken, and the slots that are handed on go to the waiting requests in the order in which they
  arrived, until none waits.
\<close>

theorem limiter_bounded_and_fair:
  assumes "limiter_reach mx (L, held)" and "0 \<le> mx"
  shows "int (length held) \<le> mx \<and> (lim_waiters L \<noteq> [] \<longrightarrow> int (length held) = mx)
    \<and> (\<forall>n \<le> length (lim_waiters L). fst (release_n n L) = take n (lim_waiters L)
        \<and> lim_waiters (snd (release_n n L)) = drop n (lim_waiters L)
        \<and> lim_active (snd (release_n n L)) = lim_active L)
    \<and> fst (release_n (length (lim_waiters L)) L) = lim_waiters L"
  using limiter_reach_inv [OF assms] by (auto simp: limiter_inv_def release_n_fifo)

text \<open>One slot: ann sends, bob and cyd queue.\<close>

definition busy_limiter :: "string limiter" where
  "busy_limiter = \<lparr>lim_max = 1, lim_active = 1, lim_waiters = [''bob'', ''cyd'']\<rparr>"

lemma busy_limiter_reach: "limiter_reach 1 (busy_limiter, [''ann''])"
proof -
  let ?L = "\<lambda>ws. \<lparr>lim_max = 1, lim_active = 1, lim_waiters = ws\<rparr> :: string limiter"
  have "limiter_step (new_limiter 1, []) (?L [], [''ann''])"
    by (rule limiter_step.granted) (simp add: acquire_def new_limiter_def)
  moreover have "limiter_step (?L [], [''ann'']) (?L [''bob''], [''ann''])"
    by (rule limiter_step.queued [where c = "''bob''"]) (simp add: acquire_def)
  moreover have "limiter_step (?L [''bob''], [''ann'']) (?L [''bob'', ''cyd''], [''ann''])"
    by (rule limiter_step.queued [where c = "''cyd''"]) (simp add: acquire_def)
  ultimately show ?thesis
    unfolding busy_limiter_def by (blast intro: limiter_reach.start limiter_reach.step)
qed

theorem limiter_bounded_and_fair_witness: "fst (release_n 2 busy_limiter) = [''bob'', ''cyd'']"
  using limiter_bounded_and_fair [OF busy_limiter_reach] by (simp add: busy_limiter_def numeral_2_eq_2)

end
