(* ===== verification/ChatModel.thy ===== *)
theory ChatModel
  imports RelayCommon
begin

text \<open>
  Data of the chat service: the TypeORM entities of
  \<open>apps/chat-service/src/database/entities\<close> as records, the chat database as a
  record of tables, the view types of \<open>libs/contracts\<close> and the private helpers of
  \<open>chat.service.ts\<close> that read the database and build views.

  A table is the list of its rows in insertion order; where a query has no
  \<open>ORDER BY\<close> the model returns that order. \<open>conversations\<close> and \<open>messages\<close> have a
  \<open>DeleteDateColumn\<close>, so the repository's finders skip rows with a \<open>deletedAt\<close>.
  PostgreSQL's \<open>gen_random_uuid()\<close> is the field \<open>uuid_gen\<close>: the sequence of
  identifiers it will produce, of which \<open>uuid_next\<close> have been drawn.
\<close>

section \<open>Entities\<close>

record conversation =
  c_id :: uuid
  c_type :: conversation_type
  c_name :: "string option"
  c_createdBy :: uuid
  c_pairKey :: "string option"
  c_lastMessageAt :: "instant option"
  c_disappearing :: int
  c_createdAt :: instant
  c_updatedAt :: instant
  c_deletedAt :: "instant option"

record member =
  mb_id :: uuid
  mb_conv :: uuid
  mb_user :: uuid
  mb_role :: member_role
  mb_joinedAt :: instant
  mb_lastReadAt :: "instant option"
  mb_mutedAt :: "instant option"
  mb_pinnedAt :: "instant option"
  mb_leftAt :: "instant option"

record link_preview =
  lp_url :: string
  lp_title :: string
  lp_description :: string
  lp_image :: "string option"

record message =
  m_id :: uuid
  m_conv :: uuid
  m_sender :: uuid
  m_body :: string
  m_type :: message_type
  m_replyTo :: "uuid option"
  m_deletedForEveryoneAt :: "instant option"
  m_editedAt :: "instant option"
  m_pinnedAt :: "instant option"
  m_pinnedBy :: "uuid option"
  m_attachmentUrl :: "string option"
  m_attachmentMime :: "string option"
  m_attachmentName :: "string option"
  m_attachmentSize :: "int option"
  m_forwardedFrom :: "uuid option"
  m_mentions :: "uuid list"
  m_linkPreview :: "link_preview option"
  m_expiresAt :: "instant option"
  m_undelivered :: bool
  m_createdAt :: instant
  m_deletedAt :: "instant option"

record message_hide =
  h_message :: uuid
  h_user :: uuid

record message_reaction =
  rx_id :: uuid
  rx_message :: uuid
  rx_user :: uuid
  rx_emoji :: string

datatype scheduled_status = Pending | Sending | Sent | Cancelled | Failed

record scheduled_message =
  sm_id :: uuid
  sm_conv :: uuid
  sm_sender :: uuid
  sm_body :: string
  sm_type :: message_type
  sm_replyTo :: "uuid option"
  sm_attachmentUrl :: "string option"
  sm_attachmentMime :: "string option"
  sm_attachmentName :: "string option"
  sm_attachmentSize :: "int option"
  sm_mentions :: "uuid list"
  sm_linkPreview :: "link_preview option"
  sm_scheduledFor :: instant
  sm_status :: scheduled_status
  sm_sentMessageId :: "uuid option"
  sm_error :: "string option"
  sm_cancelledAt :: "instant option"
  sm_createdAt :: instant

record user_block =
  b_blocker :: uuid
  b_blocked :: uuid
  b_createdAt :: instant

text \<open>The JSON values that the service writes into an audit event's \<open>meta\<close>.\<close>

datatype meta_value = MetaString string | MetaBool bool | MetaNumber int | MetaDate instant

record audit_event =
  a_id :: uuid
  a_actor :: uuid
  a_action :: string
  a_targetType :: "string option"
  a_targetId :: "string option"
  a_meta :: "(string \<times> meta_value) list"
  a_createdAt :: instant

record workspace_settings =
  w_appName :: string
  w_tagline :: string
  w_primaryColor :: string
  w_logoUrl :: "string option"

record chat_db =
  conversations :: "conversation list"
  members :: "member list"
  messages :: "message list"
  messageHides :: "message_hide list"
  messageReactions :: "message_reaction list"
  scheduledMessages :: "scheduled_message list"
  userBlocks :: "user_block list"
  auditEvents :: "audit_event list"
  workspaceSettings :: "workspace_settings option"
  uuid_gen :: "nat \<Rightarrow> uuid"
  uuid_next :: nat

type_synonym 'a handler = "chat_db \<Rightarrow> 'a rpc \<times> chat_db"

definition next_uuid :: "chat_db \<Rightarrow> uuid" where
  "next_uuid db = uuid_gen db (uuid_next db)"

definition draw_uuid :: "chat_db \<Rightarrow> chat_db" where
  "draw_uuid db = db\<lparr>uuid_next := Suc (uuid_next db)\<rparr>"

section \<open>Views (chat.contracts.ts)\<close>

record member_view =
  mv_userId :: uuid
  mv_role :: member_role
  mv_joinedAt :: instant
  mv_lastReadAt :: "instant option"
  mv_muted :: bool
  mv_status :: presence_status
  mv_lastSeenAt :: "instant option"

record reply_view =
  rv_id :: uuid
  rv_senderId :: uuid
  rv_body :: string
  rv_type :: message_type
  rv_deletedForEveryone :: bool

record reaction_view =
  rxv_emoji :: string
  rxv_count :: nat
  rxv_reactedByMe :: bool

record attachment_view =
  av_url :: string
  av_mime :: string
  av_name :: string
  av_size :: int

record message_view =
  v_id :: uuid
  v_conversationId :: uuid
  v_senderId :: uuid
  v_body :: string
  v_type :: message_type
  v_replyTo :: "reply_view option"
  v_attachment :: "attachment_view option"
  v_mentions :: "uuid list"
  v_linkPreview :: "link_preview option"
  v_reactions :: "reaction_view list"
  v_editedAt :: "instant option"
  v_pinned :: bool
  v_pinnedAt :: "instant option"
  v_pinnedByUserId :: "uuid option"
  v_forwarded :: bool
  v_deletedForEveryone :: bool
  v_seenBy :: "uuid list"
  v_undelivered :: bool
  v_expiresAt :: "instant option"
  v_createdAt :: instant

record block_flags =
  blockedByMe :: bool
  blockedMe :: bool

record conversation_view =
  cv_id :: uuid
  cv_type :: conversation_type
  cv_name :: "string option"
  cv_createdBy :: uuid
  cv_lastMessageAt :: "instant option"
  cv_lastMessage :: "message_view option"
  cv_lastReadAt :: "instant option"
  cv_muted :: bool
  cv_pinned :: bool
  cv_disappearing :: int
  cv_flags :: block_flags
  cv_unreadCount :: nat
  cv_members :: "member_view list"
  cv_createdAt :: instant
  cv_updatedAt :: instant

record scheduled_view =
  sv_id :: uuid
  sv_conversationId :: uuid
  sv_senderId :: uuid
  sv_body :: string
  sv_type :: message_type
  sv_replyToMessageId :: "uuid option"
  sv_attachment :: "attachment_view option"
  sv_mentions :: "uuid list"
  sv_linkPreview :: "link_preview option"
  sv_scheduledFor :: instant
  sv_status :: scheduled_status
  sv_sentMessageId :: "uuid option"
  sv_error :: "string option"
  sv_createdAt :: instant

text \<open>\<open>SendMessageResult\<close>: the message view and \<open>recipientIds\<close>.\<close>

type_synonym send_result = "message_view \<times> uuid list"

record delete_result =
  dr_message :: message_view
  dr_forEveryone :: bool
  dr_recipientIds :: "uuid list"
  dr_removedAttachmentUrl :: "string option"

section \<open>Repositories\<close>

definition live_conversations :: "chat_db \<Rightarrow> conversation list" where
  "live_conversations db = filter (\<lambda>c. c_deletedAt c = None) (conversations db)"

definition live_messages :: "chat_db \<Rightarrow> message list" where
  "live_messages db = filter (\<lambda>m. m_deletedAt m = None) (messages db)"

definition find_conversation :: "chat_db \<Rightarrow> uuid \<Rightarrow> conversation option" where
  "find_conversation db cid = find (\<lambda>c. c_id c = cid) (live_conversations db)"

definition members_of :: "chat_db \<Rightarrow> uuid \<Rightarrow> member list" where
  "members_of db cid = filter (\<lambda>m. mb_conv m = cid) (members db)"

definition is_active :: "member \<Rightarrow> bool" where
  "is_active m = (mb_leftAt m = None)"

definition active_members :: "chat_db \<Rightarrow> uuid \<Rightarrow> member list" where
  "active_members db cid = filter is_active (members_of db cid)"

definition find_message :: "chat_db \<Rightarrow> uuid \<Rightarrow> message option" where
  "find_message db mid = find (\<lambda>m. m_id m = mid) (live_messages db)"

definition find_message_in :: "chat_db \<Rightarrow> uuid \<Rightarrow> uuid \<Rightarrow> message option" where
  "find_message_in db mid cid = find (\<lambda>m. m_id m = mid \<and> m_conv m = cid) (live_messages db)"

definition is_hidden :: "chat_db \<Rightarrow> uuid \<Rightarrow> uuid \<Rightarrow> bool" where
  "is_hidden db mid uid = list_ex (\<lambda>h. h_message h = mid \<and> h_user h = uid) (messageHides db)"

definition reactions_of :: "chat_db \<Rightarrow> uuid \<Rightarrow> message_reaction list" where
  "reactions_of db mid = filter (\<lambda>r. rx_message r = mid) (messageReactions db)"

definition save_message :: "message \<Rightarrow> chat_db \<Rightarrow> chat_db" where
  "save_message m db = db\<lparr>messages := save_row m_id m (messages db)\<rparr>"

definition save_member :: "member \<Rightarrow> chat_db \<Rightarrow> chat_db" where
  "save_member m db = db\<lparr>members := save_row mb_id m (members db)\<rparr>"

text \<open>
  \<open>conversations.save\<close>: an \<open>UPDATE\<close> is issued only when a column changed, and then
  bumps the \<open>UpdateDateColumn\<close>.
\<close>

definition save_conversation :: "clock \<Rightarrow> conversation \<Rightarrow> chat_db \<Rightarrow> chat_db" where
  "save_conversation clk c db = db\<lparr>conversations :=
     map (\<lambda>x. if c_id x = c_id c then (if x = c then x else c\<lparr>c_updatedAt := db_now clk\<rparr>) else x)
       (conversations db)\<rparr>"

definition insert_member :: "clock \<Rightarrow> uuid \<Rightarrow> uuid \<Rightarrow> member_role \<Rightarrow> chat_db \<Rightarrow> chat_db" where
  "insert_member clk cid uid role db =
     draw_uuid (db\<lparr>members := members db @
       [\<lparr>mb_id = next_uuid db, mb_conv = cid, mb_user = uid, mb_role = role,
         mb_joinedAt = db_now clk, mb_lastReadAt = None, mb_mutedAt = None,
         mb_pinnedAt = None, mb_leftAt = None\<rparr>]\<rparr>)"

definition insert_members :: "clock \<Rightarrow> uuid \<Rightarrow> (uuid \<times> member_role) list \<Rightarrow> chat_db \<Rightarrow> chat_db" where
  "insert_members clk cid us db =
     foldl (\<lambda>d (uid, role). insert_member clk cid uid role d) db us"

section \<open>Blocks (hasBlock, isBlockedEitherWay, blockFlagsForConversation)\<close>

definition hasBlock :: "chat_db \<Rightarrow> uuid \<Rightarrow> uuid \<Rightarrow> bool" where
  "hasBlock db blockerId blockedId =
     (length (filter (\<lambda>b. b_blocker b = blockerId \<and> b_blocked b = blockedId) (userBlocks db)) > 0)"

definition isBlockedEitherWay :: "chat_db \<Rightarrow> uuid \<Rightarrow> uuid \<Rightarrow> bool" where
  "isBlockedEitherWay db userA userB =
     (length (filter (\<lambda>b. b_blocker b = userA \<and> b_blocked b = userB
        \<or> b_blocker b = userB \<and> b_blocked b = userA) (userBlocks db)) > 0)"

definition other_member :: "member list \<Rightarrow> uuid \<Rightarrow> member option" where
  "other_member ms actorId = find (\<lambda>m. mb_user m \<noteq> actorId \<and> is_active m) ms"

definition no_flags :: block_flags where
  "no_flags = \<lparr>blockedByMe = False, blockedMe = False\<rparr>"

definition blockFlagsForConversation :: "chat_db \<Rightarrow> conversation \<times> member list \<Rightarrow> uuid \<Rightarrow> block_flags" where
  "blockFlagsForConversation db conv actorId =
     (if c_type (fst conv) \<noteq> PRIVATE then no_flags
      else case other_member (snd conv) actorId of
        None \<Rightarrow> no_flags
      | Some other \<Rightarrow> \<lparr>blockedByMe = hasBlock db actorId (mb_user other),
                       blockedMe = hasBlock db (mb_user other) actorId\<rparr>)"

text \<open>The bulk version that \<open>listConversations\<close> uses, one query for the whole page.\<close>

definition blockFlagsForConversations ::
  "chat_db \<Rightarrow> (conversation \<times> member list) list \<Rightarrow> uuid \<Rightarrow> (uuid \<rightharpoonup> block_flags)" where
  "blockFlagsForConversations db convs actorId =
     (let privatePeers = concat (map (\<lambda>(c, ms). case other_member ms actorId of
            None \<Rightarrow> [] | Some other \<Rightarrow> [(c_id c, mb_user other)])
          (filter (\<lambda>(c, ms). c_type c = PRIVATE) convs));
        m0 = foldl (\<lambda>m (c, ms). m(c_id c \<mapsto> no_flags)) Map.empty convs in
      if privatePeers = [] then m0
      else let peerIds = js_uniq (map snd privatePeers);
        blocks = filter (\<lambda>b. b_blocker b = actorId \<and> b_blocked b \<in> set peerIds
                           \<or> b_blocker b \<in> set peerIds \<and> b_blocked b = actorId) (userBlocks db);
        byMe = set (map b_blocked (filter (\<lambda>b. b_blocker b = actorId) blocks));
        ofMe = set (map b_blocker (filter (\<lambda>b. b_blocked b = actorId) blocks)) in
      foldl (\<lambda>m (cid, peer). m(cid \<mapsto> \<lparr>blockedByMe = peer \<in> byMe, blockedMe = peer \<in> ofMe\<rparr>))
        m0 privatePeers)"

section \<open>Membership (requireMembership, assertGroupAdmin, recipientIds)\<close>

definition requireMembership :: "chat_db \<Rightarrow> uuid \<Rightarrow> uuid \<Rightarrow> (conversation \<times> member list) rpc" where
  "requireMembership db conversationId actorId =
     (case find_conversation db conversationId of
        None \<Rightarrow> Inl (notFound ''Conversation'')
      | Some c \<Rightarrow>
         (let ms = members_of db (c_id c) in
          case find (\<lambda>m. mb_user m = actorId \<and> is_active m) ms of
            None \<Rightarrow> Inl (forbidden ''You are not a member of this conversation'')
          | Some _ \<Rightarrow> Inr (c, filter is_active ms)))"

definition assertGroupAdmin :: "conversation \<times> member list \<Rightarrow> uuid \<Rightarrow> rpc_error option" where
  "assertGroupAdmin conv actorId =
     (if c_type (fst conv) \<noteq> GROUP
      then Some (badRequest ''Only group conversations support this action'')
      else case find (\<lambda>m. mb_user m = actorId) (snd conv) of
        None \<Rightarrow> Some (forbidden ''Only group owners or admins can manage members'')
      | Some m \<Rightarrow>
         (if mb_role m \<noteq> OWNER \<and> mb_role m \<noteq> ADMIN
          then Some (forbidden ''Only group owners or admins can manage members'') else None))"

definition recipientIds :: "member list \<Rightarrow> uuid list" where
  "recipientIds ms = map mb_user (filter is_active ms)"

section \<open>Reads (unreadCounts, loadReplyParents, loadReactionsByMessageIds)\<close>

text \<open>The rows of the join in \<open>unreadCounts\<close> for one conversation of the \<open>IN\<close> list.\<close>

definition unread_join :: "chat_db \<Rightarrow> uuid \<Rightarrow> uuid \<Rightarrow> (message \<times> member) list" where
  "unread_join db actorId cid =
     filter (\<lambda>(m, cm). mb_conv cm = m_conv m \<and> mb_user cm = actorId \<and> mb_leftAt cm = None
        \<and> m_conv m = cid
        \<and> m_sender m \<noteq> actorId
        \<and> (case mb_lastReadAt cm of None \<Rightarrow> True | Some t \<Rightarrow> m_createdAt m > t)
        \<and> m_deletedForEveryoneAt m = None
        \<and> (\<not> m_undelivered m \<or> m_sender m = actorId)
        \<and> \<not> is_hidden db (m_id m) actorId)
       (List.product (live_messages db) (members db))"

definition unreadCounts :: "chat_db \<Rightarrow> uuid \<Rightarrow> uuid list \<Rightarrow> (uuid \<rightharpoonup> nat)" where
  "unreadCounts db actorId conversationIds =
     (\<lambda>cid. if cid \<in> set conversationIds \<and> unread_join db actorId cid \<noteq> []
            then Some (length (unread_join db actorId cid)) else None)"

definition unreadCountFor :: "chat_db \<Rightarrow> uuid \<Rightarrow> uuid \<Rightarrow> nat" where
  "unreadCountFor db actorId conversationId =
     nullish (unreadCounts db actorId [conversationId] conversationId) 0"

definition loadReplyParents :: "chat_db \<Rightarrow> message list \<Rightarrow> (uuid \<rightharpoonup> message)" where
  "loadReplyParents db ms =
     (let ids = js_uniq (filter truthy (concat (map (\<lambda>m. case m_replyTo m of None \<Rightarrow> [] | Some i \<Rightarrow> [i]) ms))) in
      foldl (\<lambda>mp p. mp(m_id p \<mapsto> p)) Map.empty (filter (\<lambda>p. m_id p \<in> set ids) (live_messages db)))"

definition loadReactionsByMessageIds :: "chat_db \<Rightarrow> uuid list \<Rightarrow> (uuid \<rightharpoonup> message_reaction list)" where
  "loadReactionsByMessageIds db messageIds =
     foldl (\<lambda>mp r. mp(rx_message r \<mapsto> nullish (mp (rx_message r)) [] @ [r])) Map.empty
       (filter (\<lambda>r. rx_message r \<in> set messageIds) (messageReactions db))"

text \<open>\<open>message.replyToMessageId ? await this.messages.findOne(...) : null\<close>\<close>

definition reply_parent :: "chat_db \<Rightarrow> message \<Rightarrow> message option" where
  "reply_parent db m = (case m_replyTo m of None \<Rightarrow> None
     | Some i \<Rightarrow> (if truthy i then find_message db i else None))"

section \<open>View builders\<close>

fun bump_reaction :: "uuid \<Rightarrow> message_reaction \<Rightarrow> reaction_view list \<Rightarrow> reaction_view list" where
  "bump_reaction actorId r [] =
     [\<lparr>rxv_emoji = rx_emoji r, rxv_count = 1, rxv_reactedByMe = (truthy actorId \<and> rx_user r = actorId)\<rparr>]"
| "bump_reaction actorId r (v # vs) =
     (if rxv_emoji v = rx_emoji r
      then v\<lparr>rxv_count := rxv_count v + 1,
             rxv_reactedByMe := rxv_reactedByMe v \<or> (truthy actorId \<and> rx_user r = actorId)\<rparr> # vs
      else v # bump_reaction actorId r vs)"

definition buildReactionViews :: "message_reaction list \<Rightarrow> uuid \<Rightarrow> reaction_view list" where
  "buildReactionViews rs actorId = foldl (\<lambda>vs r. bump_reaction actorId r vs) [] rs"

definition reply_body :: "message \<Rightarrow> string" where
  "reply_body p =
     (if m_deletedForEveryoneAt p \<noteq> None then ''''
      else if truthy (trim (m_body p)) then trim (m_body p)
      else if opt_starts_with (m_attachmentMime p) ''image/'' \<or> m_type p = IMAGE then ''Photo''
      else if opt_starts_with (m_attachmentMime p) ''audio/'' \<or> m_type p = AUDIO then ''Voice message''
      else if m_type p = FILE \<or> opt_truthy (m_attachmentUrl p)
           then (case trim_or_null (m_attachmentName p) of Some n \<Rightarrow> n | None \<Rightarrow> ''File'')
      else if m_type p = CALL then ''Call'' else '''')"

definition toMessageView ::
  "message \<Rightarrow> member list \<Rightarrow> message option \<Rightarrow> message_reaction list \<Rightarrow> uuid \<Rightarrow> message_view" where
  "toMessageView m ms replyTo rs actorId =
     (let deletedForEveryone = (m_deletedForEveryoneAt m \<noteq> None);
          seenBy = (if m_undelivered m then []
            else map mb_user (filter (\<lambda>mb. is_active mb \<and> mb_user mb \<noteq> m_sender m
                  \<and> (case mb_lastReadAt mb of None \<Rightarrow> False | Some t \<Rightarrow> m_createdAt m \<le> t)) ms));
          replyToView = map_option (\<lambda>p. \<lparr>rv_id = m_id p, rv_senderId = m_sender p,
              rv_body = reply_body p, rv_type = m_type p,
              rv_deletedForEveryone = (m_deletedForEveryoneAt p \<noteq> None)\<rparr>) replyTo
      in \<lparr>v_id = m_id m, v_conversationId = m_conv m, v_senderId = m_sender m,
          v_body = (if deletedForEveryone then '''' else m_body m),
          v_type = m_type m,
          v_replyTo = replyToView,
          v_attachment = (case m_attachmentUrl m of
              Some url \<Rightarrow> (if \<not> deletedForEveryone \<and> truthy url
                 then Some \<lparr>av_url = url, av_mime = nullish (m_attachmentMime m) '''',
                            av_name = nullish (m_attachmentName m) '''',
                            av_size = nullish (m_attachmentSize m) 0\<rparr> else None)
            | None \<Rightarrow> None),
          v_mentions = (if deletedForEveryone then [] else m_mentions m),
          v_linkPreview = (if deletedForEveryone then None else m_linkPreview m),
          v_reactions = (if deletedForEveryone then [] else buildReactionViews rs actorId),
          v_editedAt = m_editedAt m,
          v_pinned = (m_pinnedAt m \<noteq> None \<and> \<not> deletedForEveryone),
          v_pinnedAt = (if deletedForEveryone then None else m_pinnedAt m),
          v_pinnedByUserId = (if \<not> deletedForEveryone \<and> m_pinnedAt m \<noteq> None then m_pinnedBy m else None),
          v_forwarded = opt_truthy (m_forwardedFrom m),
          v_deletedForEveryone = deletedForEveryone,
          v_seenBy = seenBy,
          v_undelivered = m_undelivered m,
          v_expiresAt = (if deletedForEveryone then None else m_expiresAt m),
          v_createdAt = m_createdAt m\<rparr>)"

definition toMemberView :: "member \<Rightarrow> member_view" where
  "toMemberView m = \<lparr>mv_userId = mb_user m, mv_role = mb_role m, mv_joinedAt = mb_joinedAt m,
     mv_lastReadAt = mb_lastReadAt m, mv_muted = (mb_mutedAt m \<noteq> None), mv_status = OFFLINE,
     mv_lastSeenAt = None\<rparr>"

definition toConversationView ::
  "conversation \<times> member list \<Rightarrow> uuid \<Rightarrow> nat \<Rightarrow> message option \<Rightarrow> block_flags \<Rightarrow> conversation_view" where
  "toConversationView conv actorId unreadCount lastMessage flags =
     (let c = fst conv;
          activeMembers = filter is_active (snd conv);
          actor = find (\<lambda>m. mb_user m = actorId) activeMembers
      in \<lparr>cv_id = c_id c, cv_type = c_type c, cv_name = c_name c, cv_createdBy = c_createdBy c,
          cv_lastMessageAt = c_lastMessageAt c,
          cv_lastMessage = map_option (\<lambda>m. toMessageView m activeMembers None [] actorId) lastMessage,
          cv_lastReadAt = Option.bind actor mb_lastReadAt,
          cv_muted = (Option.bind actor mb_mutedAt \<noteq> None),
          cv_pinned = (Option.bind actor mb_pinnedAt \<noteq> None),
          cv_disappearing = c_disappearing c,
          cv_flags = flags,
          cv_unreadCount = unreadCount,
          cv_members = map toMemberView activeMembers,
          cv_createdAt = c_createdAt c, cv_updatedAt = c_updatedAt c\<rparr>)"

definition toScheduledMessageView :: "scheduled_message \<Rightarrow> scheduled_view" where
  "toScheduledMessageView i =
     \<lparr>sv_id = sm_id i, sv_conversationId = sm_conv i, sv_senderId = sm_sender i,
      sv_body = sm_body i, sv_type = sm_type i, sv_replyToMessageId = sm_replyTo i,
      sv_attachment = (case sm_attachmentUrl i of
          Some url \<Rightarrow> (if truthy url
             then Some \<lparr>av_url = url, av_mime = nullish (sm_attachmentMime i) '''',
                        av_name = nullish (sm_attachmentName i) '''',
                        av_size = nullish (sm_attachmentSize i) 0\<rparr> else None)
        | None \<Rightarrow> None),
      sv_mentions = sm_mentions i, sv_linkPreview = sm_linkPreview i,
      sv_scheduledFor = sm_scheduledFor i, sv_status = sm_status i,
      sv_sentMessageId = sm_sentMessageId i, sv_error = sm_error i, sv_createdAt = sm_createdAt i\<rparr>"

definition recordAudit ::
  "clock \<Rightarrow> uuid \<Rightarrow> string \<Rightarrow> string option \<Rightarrow> string option \<Rightarrow> (string \<times> meta_value) list \<Rightarrow> chat_db \<Rightarrow> chat_db" where
  "recordAudit clk actorId action targetType targetId meta db =
     draw_uuid (db\<lparr>auditEvents := auditEvents db @
       [\<lparr>a_id = next_uuid db, a_actor = actorId, a_action = action, a_targetType = targetType,
         a_targetId = targetId, a_meta = meta, a_createdAt = db_now clk\<rparr>]\<rparr>)"

definition getConversation :: "uuid \<Rightarrow> uuid \<Rightarrow> chat_db \<Rightarrow> conversation_view rpc" where
  "getConversation actorId conversationId db =
     (case requireMembership db conversationId actorId of
        Inl e \<Rightarrow> Inl e
      | Inr conv \<Rightarrow> Inr (toConversationView conv actorId
           (unreadCountFor db actorId (c_id (fst conv))) None
           (blockFlagsForConversation db conv actorId)))"

end
