(* ===== verification/ChatRoster.thy ===== *)
theory ChatRoster
  imports ChatModel
begin

text \<open>
  The abstract view of the membership table and the invariants of the chat
  database. A conversation's roster is the list of its active members with their
  roles; the handlers of \<open>ChatGroups\<close> are shown to act on it as the abstract roster
  operations below, and every invariant about membership is stated on rosters.
\<close>

section \<open>Lookups\<close>

lemma find_conversation_Some:
  "find_conversation db cid = Some c \<Longrightarrow> c \<in> set (conversations db) \<and> c_id c = cid \<and> c_deletedAt c = None"
  by (auto simp: find_conversation_def live_conversations_def dest: find_set)

lemma find_message_in_Some:
  "find_message_in db mid cid = Some m \<Longrightarrow> m \<in> set (messages db) \<and> m_id m = mid \<and> m_conv m = cid"
  by (auto simp: find_message_in_def live_messages_def dest: find_set)

lemma find_message_Some: "find_message db mid = Some m \<Longrightarrow> m \<in> set (messages db) \<and> m_id m = mid"
  by (auto simp: find_message_def live_messages_def dest: find_set)

lemma active_members_filter:
  "active_members db cid = filter (\<lambda>m. mb_conv m = cid \<and> is_active m) (members db)"
  by (simp add: active_members_def members_of_def filter_filter conj_commute)

lemma set_active_members:
  "m \<in> set (active_members db cid) \<longleftrightarrow> m \<in> set (members db) \<and> mb_conv m = cid \<and> is_active m"
  by (auto simp: active_members_filter)

lemma filter_is_active_active_members [simp]:
  "filter is_active (active_members db cid) = active_members db cid"
  by (simp add: active_members_def)

lemma find_active_member [simp]:
  "find (\<lambda>m. mb_user m = u \<and> is_active m) (active_members db cid)
   = find (\<lambda>m. mb_user m = u) (active_members db cid)"
  by (rule find_cong) (auto simp: set_active_members)

lemma requireMembership_Inr:
  "requireMembership db cid aid = Inr conv \<longleftrightarrow>
     (\<exists>c. find_conversation db cid = Some c \<and> conv = (c, active_members db cid)
        \<and> find (\<lambda>m. mb_user m = aid) (active_members db cid) \<noteq> None)"
proof -
  have find_eq: "find (\<lambda>m. mb_user m = aid \<and> is_active m) (members_of db k)
      = find (\<lambda>m. mb_user m = aid) (active_members db k)" for k
    by (simp add: active_members_def find_filter conj_commute)
  show ?thesis
    by (auto simp: requireMembership_def find_eq active_members_def [symmetric] Let_def
        split: option.splits dest: find_conversation_Some)
qed

lemma requireMembership_InrE:
  assumes "requireMembership db cid aid = Inr conv"
  obtains c m where "conv = (c, active_members db cid)" and "find_conversation db cid = Some c"
    and "c \<in> set (conversations db)" and "c_id c = cid"
    and "find (\<lambda>m. mb_user m = aid) (active_members db cid) = Some m"
    and "m \<in> set (active_members db cid)" and "mb_user m = aid"
  using assms by (auto simp: requireMembership_Inr dest: find_conversation_Some find_set)

section \<open>The row-store interface, provided by the repositories\<close>

interpretation member_rows: row_store "\<lambda>db k. find_row mb_id k (members db)" save_member mb_id
proof
  show "find_row mb_id k (members s) = Some r \<Longrightarrow> mb_id r = k" for s k r
    by (auto simp: find_row_def dest: find_set)
qed (simp_all add: save_member_def find_row_save_same find_row_save_other)

interpretation message_rows: row_store "\<lambda>db k. find_row m_id k (messages db)" save_message m_id
proof
  show "find_row m_id k (messages s) = Some r \<Longrightarrow> m_id r = k" for s k r
    by (auto simp: find_row_def dest: find_set)
qed (simp_all add: save_message_def find_row_save_same find_row_save_other)

section \<open>Frames of the primitive writes\<close>

lemma draw_uuid_simps [simp]:
  "conversations (draw_uuid db) = conversations db" "members (draw_uuid db) = members db"
  "messages (draw_uuid db) = messages db" "messageHides (draw_uuid db) = messageHides db"
  "messageReactions (draw_uuid db) = messageReactions db"
  "scheduledMessages (draw_uuid db) = scheduledMessages db" "userBlocks (draw_uuid db) = userBlocks db"
  "auditEvents (draw_uuid db) = auditEvents db" "workspaceSettings (draw_uuid db) = workspaceSettings db"
  "uuid_gen (draw_uuid db) = uuid_gen db" "uuid_next (draw_uuid db) = Suc (uuid_next db)"
  by (simp_all add: draw_uuid_def)

lemma recordAudit_simps [simp]:
  "conversations (recordAudit k a x t i mt db) = conversations db"
  "members (recordAudit k a x t i mt db) = members db"
  "messages (recordAudit k a x t i mt db) = messages db"
  "messageHides (recordAudit k a x t i mt db) = messageHides db"
  "messageReactions (recordAudit k a x t i mt db) = messageReactions db"
  "scheduledMessages (recordAudit k a x t i mt db) = scheduledMessages db"
  "userBlocks (recordAudit k a x t i mt db) = userBlocks db"
  "workspaceSettings (recordAudit k a x t i mt db) = workspaceSettings db"
  "uuid_gen (recordAudit k a x t i mt db) = uuid_gen db"
  "uuid_next (recordAudit k a x t i mt db) = Suc (uuid_next db)"
  by (simp_all add: recordAudit_def)

lemma save_member_simps [simp]:
  "conversations (save_member m db) = conversations db" "messages (save_member m db) = messages db"
  "messageHides (save_member m db) = messageHides db"
  "messageReactions (save_member m db) = messageReactions db"
  "scheduledMessages (save_member m db) = scheduledMessages db"
  "userBlocks (save_member m db) = userBlocks db"
  "uuid_gen (save_member m db) = uuid_gen db" "uuid_next (save_member m db) = uuid_next db"
  "members (save_member m db) = save_row mb_id m (members db)"
  by (simp_all add: save_member_def)

lemma save_message_simps [simp]:
  "conversations (save_message m db) = conversations db" "members (save_message m db) = members db"
  "messageHides (save_message m db) = messageHides db"
  "messageReactions (save_message m db) = messageReactions db"
  "scheduledMessages (save_message m db) = scheduledMessages db"
  "userBlocks (save_message m db) = userBlocks db"
  "uuid_gen (save_message m db) = uuid_gen db" "uuid_next (save_message m db) = uuid_next db"
  "messages (save_message m db) = save_row m_id m (messages db)"
  by (simp_all add: save_message_def)

lemma save_conversation_simps [simp]:
  "members (save_conversation k c db) = members db" "messages (save_conversation k c db) = messages db"
  "messageHides (save_conversation k c db) = messageHides db"
  "messageReactions (save_conversation k c db) = messageReactions db"
  "scheduledMessages (save_conversation k c db) = scheduledMessages db"
  "userBlocks (save_conversation k c db) = userBlocks db"
  "uuid_gen (save_conversation k c db) = uuid_gen db" "uuid_next (save_conversation k c db) = uuid_next db"
  by (simp_all add: save_conversation_def)

lemma insert_member_simps [simp]:
  "conversations (insert_member k c u r db) = conversations db"
  "messages (insert_member k c u r db) = messages db"
  "messageHides (insert_member k c u r db) = messageHides db"
  "messageReactions (insert_member k c u r db) = messageReactions db"
  "scheduledMessages (insert_member k c u r db) = scheduledMessages db"
  "userBlocks (insert_member k c u r db) = userBlocks db"
  "uuid_gen (insert_member k c u r db) = uuid_gen db"
  "uuid_next (insert_member k c u r db) = Suc (uuid_next db)"
  by (simp_all add: insert_member_def)

lemma insert_members_Nil [simp]: "insert_members k c [] db = db"
  by (simp add: insert_members_def)

lemma insert_members_Cons [simp]:
  "insert_members k c ((u, r) # us) db = insert_members k c us (insert_member k c u r db)"
  by (simp add: insert_members_def)

lemma insert_members_frame:
  "(\<And>c u r d. f (insert_member k c u r d) = f d) \<Longrightarrow> f (insert_members k c us db) = f db"
  by (induction us arbitrary: db) auto

lemma insert_members_simps [simp]:
  "conversations (insert_members k c us db) = conversations db"
  "messages (insert_members k c us db) = messages db"
  "messageHides (insert_members k c us db) = messageHides db"
  "messageReactions (insert_members k c us db) = messageReactions db"
  "scheduledMessages (insert_members k c us db) = scheduledMessages db"
  "userBlocks (insert_members k c us db) = userBlocks db"
  "uuid_gen (insert_members k c us db) = uuid_gen db"
proof -
  show "conversations (insert_members k c us db) = conversations db"
    by (rule insert_members_frame [where f = conversations]) simp
  show "messages (insert_members k c us db) = messages db"
    by (rule insert_members_frame [where f = messages]) simp
  show "messageHides (insert_members k c us db) = messageHides db"
    by (rule insert_members_frame [where f = messageHides]) simp
  show "messageReactions (insert_members k c us db) = messageReactions db"
    by (rule insert_members_frame [where f = messageReactions]) simp
  show "scheduledMessages (insert_members k c us db) = scheduledMessages db"
    by (rule insert_members_frame [where f = scheduledMessages]) simp
  show "userBlocks (insert_members k c us db) = userBlocks db"
    by (rule insert_members_frame [where f = userBlocks]) simp
  show "uuid_gen (insert_members k c us db) = uuid_gen db"
    by (rule insert_members_frame [where f = uuid_gen]) simp
qed

lemma active_members_cong: "members db' = members db \<Longrightarrow> active_members db' cid = active_members db cid"
  by (simp add: active_members_filter)

section \<open>Rosters\<close>

type_synonym roster = "(uuid \<times> member_role) list"

definition entry :: "member \<Rightarrow> uuid \<times> member_role" where
  "entry m = (mb_user m, mb_role m)"

definition roster :: "chat_db \<Rightarrow> uuid \<Rightarrow> roster" where
  "roster db cid = map entry (active_members db cid)"

definition roster_add :: "uuid list \<Rightarrow> roster \<Rightarrow> roster" where
  "roster_add us r = r @ map (\<lambda>u. (u, MEMBER)) (filter (\<lambda>u. u \<notin> fst ` set r) us)"

definition roster_remove :: "uuid \<Rightarrow> roster \<Rightarrow> roster" where
  "roster_remove u r = filter (\<lambda>p. fst p \<noteq> u) r"

definition roster_role :: "uuid \<Rightarrow> member_role \<Rightarrow> roster \<Rightarrow> roster" where
  "roster_role u ro r = map (\<lambda>p. if fst p = u then (u, ro) else p) r"

definition owners :: "roster \<Rightarrow> nat" where
  "owners r = length (filter (\<lambda>p. snd p = OWNER) r)"

text \<open>A group's roster: at most 50 members, exactly one owner while anybody is left.\<close>

definition group_ok :: "roster \<Rightarrow> bool" where
  "group_ok r \<longleftrightarrow> distinct (map fst r) \<and> length r \<le> 50 \<and> (r \<noteq> [] \<longrightarrow> owners r = 1)"

text \<open>A private chat's roster: two distinct plain members.\<close>

definition private_ok :: "roster \<Rightarrow> bool" where
  "private_ok r \<longleftrightarrow> distinct (map fst r) \<and> length r = 2 \<and> (\<forall>p\<in>set r. snd p = MEMBER)"

lemma roster_cong: "members db' = members db \<Longrightarrow> roster db' cid = roster db cid"
  by (simp add: roster_def active_members_filter)

lemma fst_entry [simp]: "fst \<circ> entry = mb_user" "fst (entry m) = mb_user m" "snd (entry m) = mb_role m"
  by (auto simp: entry_def)

lemma map_fst_roster: "map fst (roster db cid) = map mb_user (active_members db cid)"
  by (simp add: roster_def)

lemma roster_mem: "m \<in> set (active_members db cid) \<Longrightarrow> (mb_user m, mb_role m) \<in> set (roster db cid)"
  by (auto simp: roster_def entry_def)

lemma roster_role_unique:
  "distinct (map fst (roster db cid)) \<Longrightarrow> m \<in> set (active_members db cid) \<Longrightarrow>
   (mb_user m, r) \<in> set (roster db cid) \<Longrightarrow> r = mb_role m"
  by (metis roster_mem eq_key_imp_eq_value)

lemma owners_simps [simp]:
  "owners [] = 0" "owners (p # r) = (if snd p = OWNER then Suc (owners r) else owners r)"
  by (simp_all add: owners_def)

lemma owners_append [simp]: "owners (r @ s) = owners r + owners s"
  by (simp add: owners_def)

lemma owners_MEMBER [simp]: "owners (map (\<lambda>u. (u, MEMBER)) us) = 0"
  by (induction us) auto

lemma owners_roster_remove:
  "distinct (map fst r) \<Longrightarrow> (u, ro) \<in> set r \<Longrightarrow>
   owners (roster_remove u r) = (if ro = OWNER then owners r - 1 else owners r)"
proof (induction r)
  case (Cons p r)
  show ?case
  proof (cases "fst p = u")
    case True
    from Cons.prems(1) have "fst p \<notin> fst ` set r" by simp
    with True have nin: "\<forall>q\<in>set r. fst q \<noteq> u" by (metis imageI)
    with True Cons.prems have p: "p = (u, ro)" by force
    from nin have "roster_remove u r = r"
      by (simp add: roster_remove_def)
    with True p show ?thesis by (simp add: roster_remove_def)
  next
    case False
    with Cons.prems have mem: "(u, ro) \<in> set r" by auto
    with Cons have IH: "owners (roster_remove u r) = (if ro = OWNER then owners r - 1 else owners r)"
      by simp
    have "ro = OWNER \<Longrightarrow> 0 < owners r"
      using mem by (force simp: owners_def filter_empty_conv)
    with False IH show ?thesis by (auto simp: roster_remove_def)
  qed
qed simp

lemma owners_roster_role:
  "distinct (map fst r) \<Longrightarrow> (u, old) \<in> set r \<Longrightarrow>
   owners (roster_role u ro r) + (if old = OWNER then 1 else 0)
   = owners r + (if ro = OWNER then 1 else 0)"
proof (induction r)
  case (Cons p r)
  show ?case
  proof (cases "fst p = u")
    case True
    from Cons.prems(1) have "fst p \<notin> fst ` set r" by simp
    with True have nin: "\<forall>q\<in>set r. fst q \<noteq> u" by (metis imageI)
    with True Cons.prems have p: "p = (u, old)" by force
    from nin have "roster_role u ro r = r"
      unfolding roster_role_def by (intro map_idI) simp
    with True p show ?thesis by (simp add: roster_role_def)
  next
    case False
    with Cons show ?thesis by (auto simp: roster_role_def)
  qed
qed simp

lemma fst_roster_role [simp]: "map fst (roster_role u ro r) = map fst r"
  by (simp add: roster_role_def cong: map_cong)

lemma length_roster_role [simp]: "length (roster_role u ro r) = length r"
  by (simp add: roster_role_def)

lemma distinct_roster_remove: "distinct (map fst r) \<Longrightarrow> distinct (map fst (roster_remove u r))"
  by (simp add: roster_remove_def distinct_map_filter)

lemma length_roster_remove: "length (roster_remove u r) \<le> length r"
  by (simp add: roster_remove_def)

lemma group_ok_role:
  assumes "group_ok r" and "(u, old) \<in> set r" and "old \<noteq> OWNER" and "ro \<noteq> OWNER"
  shows "group_ok (roster_role u ro r)"
proof -
  have "owners (roster_role u ro r) = owners r"
    using owners_roster_role [of r u old ro] assms by (simp add: group_ok_def)
  with assms show ?thesis by (auto simp: group_ok_def)
qed

lemma group_ok_remove:
  assumes "group_ok r" and "(u, old) \<in> set r" and "old \<noteq> OWNER"
  shows "group_ok (roster_remove u r)"
proof -
  have "owners (roster_remove u r) = owners r"
    using owners_roster_remove [of r u old] assms by (simp add: group_ok_def)
  moreover have "length (roster_remove u r) \<le> 50"
    using length_roster_remove [of u r] assms(1) by (simp add: group_ok_def)
  ultimately show ?thesis
    using assms distinct_roster_remove [of r u] by (auto simp: group_ok_def roster_remove_def)
qed

text \<open>The owner leaves: an heir among the others takes the role over first.\<close>

lemma group_ok_succession:
  assumes ok: "group_ok r" and u: "(u, OWNER) \<in> set r" and h: "(h, hr) \<in> set r" and ne: "h \<noteq> u"
  shows "group_ok (roster_remove u (roster_role h OWNER r))"
proof -
  let ?r = "roster_role h OWNER r"
  have d: "distinct (map fst r)" and o: "owners r = 1" and l: "length r \<le> 50"
    using ok u by (auto simp: group_ok_def)
  have hr: "hr \<noteq> OWNER"
  proof
    assume "hr = OWNER"
    with u h ne have "{(u, OWNER), (h, OWNER)} \<subseteq> set (filter (\<lambda>p. snd p = OWNER) r)" by auto
    moreover have "card {(u, OWNER), (h, OWNER)} = 2" using ne by simp
    ultimately have "2 \<le> card (set (filter (\<lambda>p. snd p = OWNER) r))"
      by (metis card_mono List.finite_set)
    with o show False
      by (metis card_length le_trans not_less_eq_eq numeral_2_eq_2 One_nat_def owners_def Suc_n_not_le_n)
  qed
  have o2: "owners ?r = 2" using owners_roster_role [OF d h, of OWNER] hr o by simp
  have u2: "(u, OWNER) \<in> set ?r" using u ne by (force simp: roster_role_def)
  have d2: "distinct (map fst ?r)" using d by simp
  have "owners (roster_remove u ?r) = 1" using owners_roster_remove [OF d2 u2] o2 by simp
  moreover have "length (roster_remove u ?r) \<le> 50" using length_roster_remove [of u ?r] l by simp
  ultimately show ?thesis
    using distinct_roster_remove [OF d2] by (simp add: group_ok_def)
qed

lemma group_ok_last_leaves:
  assumes "group_ok r" and "(u, ro) \<in> set r" and "\<forall>p\<in>set r. fst p = u"
  shows "group_ok (roster_remove u r)"
proof -
  have "roster_remove u r = []" using assms by (simp add: roster_remove_def filter_empty_conv)
  then show ?thesis by (simp add: group_ok_def)
qed

lemma group_ok_add:
  assumes "group_ok r" and "r \<noteq> []" and "distinct us" and "length r + length us \<le> 50"
  shows "group_ok (roster_add us r)"
proof -
  have "length (filter (\<lambda>u. u \<notin> fst ` set r) us) \<le> length us" by simp
  with assms(4) have "length r + length (filter (\<lambda>u. u \<notin> fst ` set r) us) \<le> 50" by linarith
  with assms show ?thesis
    by (auto simp: group_ok_def roster_add_def comp_def)
qed

section \<open>Membership writes on rosters\<close>

lemma roster_insert_member:
  "roster (insert_member clk cid u ro db) cid' = roster db cid' @ (if cid' = cid then [(u, ro)] else [])"
  by (simp add: roster_def active_members_filter insert_member_def is_active_def entry_def)

lemma roster_insert_members:
  "roster (insert_members clk cid us db) cid' = roster db cid' @ (if cid' = cid then us else [])"
proof (induction us arbitrary: db)
  case (Cons p us)
  then show ?case by (cases p) (simp add: roster_insert_member)
qed simp

text \<open>What the table must satisfy for a row write to hit exactly one member.\<close>

definition member_keys :: "chat_db \<Rightarrow> bool" where
  "member_keys db \<longleftrightarrow> distinct (map mb_id (members db)) \<and> (\<forall>cid. distinct (map fst (roster db cid)))"

lemma active_same_row:
  assumes "member_keys db" and "x \<in> set (active_members db cid)" and "t \<in> set (active_members db cid)"
  shows "(mb_id x = mb_id t) = (x = t)" and "(mb_user x = mb_user t) = (x = t)"
proof -
  show "(mb_id x = mb_id t) = (x = t)"
    using assms by (auto simp: member_keys_def set_active_members dest: distinct_key_eq)
  have "distinct (map mb_user (active_members db cid))"
    using assms(1) map_fst_roster [of db cid] by (metis member_keys_def)
  then show "(mb_user x = mb_user t) = (x = t)"
    using assms(2,3) by (auto dest: distinct_key_eq)
qed

lemma save_member_other_conv:
  assumes "member_keys db" and "t \<in> set (active_members db cid)"
    and "mb_id t' = mb_id t" and "mb_conv t' = cid" and "cid' \<noteq> cid"
  shows "active_members (save_member t' db) cid' = active_members db cid'"
  unfolding active_members_filter save_member_simps
proof (rule filter_save_row_other)
  show "\<forall>x\<in>set (members db). mb_id x = mb_id t' \<longrightarrow>
      (mb_conv x = cid' \<and> is_active x) = (mb_conv t' = cid' \<and> is_active t')"
  proof (intro ballI impI)
    fix x assume x: "x \<in> set (members db)" and "mb_id x = mb_id t'"
    then have "x = t"
      using assms by (auto simp: member_keys_def set_active_members dest: distinct_key_eq)
    with assms show "(mb_conv x = cid' \<and> is_active x) = (mb_conv t' = cid' \<and> is_active t')"
      by (auto simp: set_active_members)
  qed
qed (use assms in simp)

lemma save_member_same_conv:
  assumes "member_keys db" and "t \<in> set (active_members db cid)"
    and "mb_id t' = mb_id t" and "mb_conv t' = cid" and "is_active t'"
  shows "active_members (save_member t' db) cid
    = map (\<lambda>x. if x = t then t' else x) (active_members db cid)"
proof -
  have keep: "\<forall>x\<in>set (members db). mb_id x = mb_id t' \<longrightarrow>
      (mb_conv x = cid \<and> is_active x) = (mb_conv t' = cid \<and> is_active t')"
  proof (intro ballI impI)
    fix x assume x: "x \<in> set (members db)" and "mb_id x = mb_id t'"
    then have "x = t"
      using assms by (auto simp: member_keys_def set_active_members dest: distinct_key_eq)
    with assms show "(mb_conv x = cid \<and> is_active x) = (mb_conv t' = cid \<and> is_active t')"
      by (auto simp: set_active_members)
  qed
  have "active_members (save_member t' db) cid = save_row mb_id t' (active_members db cid)"
    using filter_save_row_keep [OF keep] by (simp add: active_members_filter)
  also have "\<dots> = map (\<lambda>x. if x = t then t' else x) (active_members db cid)"
    unfolding save_row_def using assms active_same_row(1) [OF assms(1) _ assms(2)]
    by (intro map_cong) auto
  finally show ?thesis .
qed

lemma save_member_left:
  assumes "member_keys db" and "t \<in> set (active_members db cid)"
    and "mb_id t' = mb_id t" and "\<not> is_active t'"
  shows "active_members (save_member t' db) cid = filter (\<lambda>x. x \<noteq> t) (active_members db cid)"
proof -
  have "active_members (save_member t' db) cid
      = filter (\<lambda>x. (mb_conv x = cid \<and> is_active x) \<and> mb_id x \<noteq> mb_id t') (members db)"
    unfolding active_members_filter save_member_simps
    by (rule filter_save_row_drop) (use assms in simp)
  also have "\<dots> = filter (\<lambda>x. mb_id x \<noteq> mb_id t') (active_members db cid)"
    by (simp add: active_members_filter filter_filter conj_commute conj_assoc)
  also have "\<dots> = filter (\<lambda>x. x \<noteq> t) (active_members db cid)"
    using assms active_same_row(1) [OF assms(1) _ assms(2)] by (intro filter_cong) auto
  finally show ?thesis .
qed

lemma roster_save_role:
  assumes "member_keys db" and "t \<in> set (active_members db cid)"
    and "mb_id t' = mb_id t" and "mb_conv t' = cid" and "is_active t'" and "mb_user t' = mb_user t"
  shows "roster (save_member t' db) cid' =
    (if cid' = cid then roster_role (mb_user t) (mb_role t') (roster db cid) else roster db cid')"
proof (cases "cid' = cid")
  case True
  have "entry (if x = t then t' else x)
      = (if fst (entry x) = mb_user t then (mb_user t, mb_role t') else entry x)"
    if "x \<in> set (active_members db cid)" for x
    using active_same_row(2) [OF assms(1) that assms(2)] assms(6) by (auto simp: entry_def)
  with True show ?thesis
    by (auto simp: roster_def save_member_same_conv [OF assms(1-5)] roster_role_def intro!: map_cong)
next
  case False
  then show ?thesis by (simp add: roster_def save_member_other_conv [OF assms(1-4)])
qed

lemma roster_save_left:
  assumes "member_keys db" and "t \<in> set (active_members db cid)"
    and "mb_id t' = mb_id t" and "mb_conv t' = cid" and "\<not> is_active t'"
  shows "roster (save_member t' db) cid' =
    (if cid' = cid then roster_remove (mb_user t) (roster db cid) else roster db cid')"
proof (cases "cid' = cid")
  case True
  have "filter (\<lambda>x. x \<noteq> t) (active_members db cid)
      = filter (\<lambda>x. mb_user x \<noteq> mb_user t) (active_members db cid)"
    using active_same_row(2) [OF assms(1) _ assms(2)] by (intro filter_cong) auto
  with True show ?thesis
    by (simp add: roster_def save_member_left [OF assms(1-3,5)] roster_remove_def filter_map comp_def)
next
  case False
  then show ?thesis by (simp add: roster_def save_member_other_conv [OF assms(1-4)])
qed

lemma roster_role_same:
  "distinct (map fst r) \<Longrightarrow> (u, ro) \<in> set r \<Longrightarrow> roster_role u ro r = r"
  unfolding roster_role_def by (rule map_idI) (auto dest: eq_key_imp_eq_value)

lemma roster_save_flags:
  assumes "member_keys db" and "t \<in> set (active_members db cid)"
    and "mb_id t' = mb_id t" and "mb_conv t' = cid" and "is_active t'"
    and "mb_user t' = mb_user t" and "mb_role t' = mb_role t"
  shows "roster (save_member t' db) cid' = roster db cid'"
proof -
  have "roster_role (mb_user t) (mb_role t) (roster db cid) = roster db cid"
    using assms(1,2) by (intro roster_role_same roster_mem) (simp add: member_keys_def)
  with roster_save_role [OF assms(1-6), of cid'] assms(7) show ?thesis by simp
qed

lemma member_keys_save:
  assumes "member_keys db" and "\<forall>cid. distinct (map fst (roster (save_member t' db) cid))"
  shows "member_keys (save_member t' db)"
  using assms by (simp add: member_keys_def)

end
