(* ===== verification/ChatGroups.thy ===== *)
theory ChatGroups
  imports ChatRoster
begin

text \<open>
  Conversations and their members: the handlers of \<open>chat.service.ts\<close> that create
  conversations, change rosters and roles, and set the per-member flags
  (read cursor, mute, pin). Each definition is one handler, its guards in the
  order of the code's early returns.
\<close>

section \<open>Handlers\<close>

definition MAX_GROUP_MEMBERS :: nat where
  "MAX_GROUP_MEMBERS = 50"

definition DISAPPEARING_DURATIONS :: "int set" where
  "DISAPPEARING_DURATIONS = {0, 30, 60, 3600, 86400, 604800, 7776000}"

definition privatePairKey :: "uuid \<Rightarrow> uuid \<Rightarrow> string" where
  "privatePairKey userA userB = (let s = sort [userA, userB] in (s ! 0) @ '':'' @ (s ! 1))"

text \<open>\<open>findOneOrFail\<close> inside the creating transactions; its failure rolls back.\<close>

definition entityNotFound :: rpc_error where
  "entityNotFound = throwRpcError 500 ''EntityNotFoundError'' ''Internal Server Error''"

definition insert_conversation ::
  "clock \<Rightarrow> conversation_type \<Rightarrow> string option \<Rightarrow> uuid \<Rightarrow> string option \<Rightarrow> chat_db \<Rightarrow> chat_db" where
  "insert_conversation clk ty name createdBy pairKey db =
     draw_uuid (db\<lparr>conversations := conversations db @
       [\<lparr>c_id = next_uuid db, c_type = ty, c_name = name, c_createdBy = createdBy,
         c_pairKey = pairKey, c_lastMessageAt = None, c_disappearing = 0,
         c_createdAt = db_now clk, c_updatedAt = db_now clk, c_deletedAt = None\<rparr>]\<rparr>)"

definition find_private :: "chat_db \<Rightarrow> string \<Rightarrow> conversation option" where
  "find_private db pairKey =
     find (\<lambda>c. c_pairKey c = Some pairKey \<and> c_type c = PRIVATE) (live_conversations db)"

definition createPrivate :: "clock \<Rightarrow> uuid \<Rightarrow> uuid \<Rightarrow> conversation_view handler" where
  "createPrivate clk actorId otherUserId db =
     (if actorId = otherUserId
      then (Inl (badRequest ''You cannot start a private chat with yourself''), db)
      else let pairKey = privatePairKey actorId otherUserId in
        case find_private db pairKey of
          Some c \<Rightarrow>
            (let conv = (c, members_of db (c_id c)) in
             (Inr (toConversationView conv actorId (unreadCountFor db actorId (c_id c)) None
                (blockFlagsForConversation db conv actorId)), db))
        | None \<Rightarrow>
            (if hasBlock db otherUserId actorId
             then (Inl (forbidden ''You cannot start a chat with this user''), db)
             else let cid = next_uuid db;
                      db' = insert_members clk cid [(actorId, MEMBER), (otherUserId, MEMBER)]
                              (insert_conversation clk PRIVATE None actorId (Some pairKey) db) in
               case find_conversation db' cid of
                 None \<Rightarrow> (Inl entityNotFound, db)
               | Some c \<Rightarrow>
                   (let conv = (c, members_of db' cid) in
                    (Inr (toConversationView conv actorId 0 None
                       (blockFlagsForConversation db' conv actorId)), db'))))"

definition createGroup :: "clock \<Rightarrow> uuid \<Rightarrow> string \<Rightarrow> uuid list \<Rightarrow> conversation_view handler" where
  "createGroup clk actorId rawName memberIds db =
     (let name = trim rawName in
      if \<not> truthy name then (Inl (badRequest ''Group name is required''), db)
      else let uniqueMemberIds = js_uniq (filter (\<lambda>i. i \<noteq> actorId) memberIds) in
        if length uniqueMemberIds < 1
        then (Inl (badRequest ''A group needs at least one other member''), db)
        else if length uniqueMemberIds + 1 > MAX_GROUP_MEMBERS
        then (Inl (badRequest ''A group cannot have more than 50 members''), db)
        else let cid = next_uuid db;
                 db' = insert_members clk cid
                   ((actorId, OWNER) # map (\<lambda>u. (u, MEMBER)) uniqueMemberIds)
                   (insert_conversation clk GROUP (Some name) actorId None db) in
          case find_conversation db' cid of
            None \<Rightarrow> (Inl entityNotFound, db)
          | Some c \<Rightarrow> (Inr (toConversationView (c, members_of db' cid) actorId 0 None no_flags), db'))"

text \<open>The loop of \<open>addMembers\<close>, over the members that \<open>requireMembership\<close> loaded.\<close>

fun add_members_loop :: "clock \<Rightarrow> conversation \<times> member list \<Rightarrow> uuid list \<Rightarrow> chat_db \<Rightarrow> chat_db" where
  "add_members_loop clk conv [] db = db"
| "add_members_loop clk conv (userId # rest) db =
     (case find (\<lambda>m. mb_user m = userId) (snd conv) of
        Some existing \<Rightarrow>
          (if mb_leftAt existing = None then add_members_loop clk conv rest db
           else add_members_loop clk conv rest
             (save_member (existing\<lparr>mb_leftAt := None, mb_role := MEMBER\<rparr>) db))
      | None \<Rightarrow> add_members_loop clk conv rest (insert_member clk (c_id (fst conv)) userId MEMBER db))"

definition addMembers :: "clock \<Rightarrow> uuid \<Rightarrow> uuid \<Rightarrow> uuid list \<Rightarrow> conversation_view handler" where
  "addMembers clk actorId conversationId memberIds db =
     (case requireMembership db conversationId actorId of
        Inl e \<Rightarrow> (Inl e, db)
      | Inr conv \<Rightarrow>
         (case assertGroupAdmin conv actorId of
            Some e \<Rightarrow> (Inl e, db)
          | None \<Rightarrow>
             (let uniqueIds = js_uniq (filter (\<lambda>i. i \<noteq> actorId) memberIds) in
              if length uniqueIds = 0
              then (Inl (badRequest ''At least one member id is required''), db)
              else let activeCount = length (filter is_active (snd conv)) in
                if activeCount + length uniqueIds > MAX_GROUP_MEMBERS
                then (Inl (badRequest ''A group cannot have more than 50 members''), db)
                else let db' = add_members_loop clk conv uniqueIds db in
                  (getConversation actorId conversationId db', db'))))"

definition removeMember :: "clock \<Rightarrow> uuid \<Rightarrow> uuid \<Rightarrow> uuid \<Rightarrow> conversation_view handler" where
  "removeMember clk actorId conversationId memberId db =
     (case requireMembership db conversationId actorId of
        Inl e \<Rightarrow> (Inl e, db)
      | Inr conv \<Rightarrow>
         (case assertGroupAdmin conv actorId of
            Some e \<Rightarrow> (Inl e, db)
          | None \<Rightarrow>
             (if memberId = actorId
              then (Inl (badRequest ''Use leave to exit a group yourself''), db)
              else case find (\<lambda>m. mb_user m = memberId \<and> is_active m) (snd conv) of
                None \<Rightarrow> (Inl (notFound ''Member''), db)
              | Some target \<Rightarrow>
                 (if mb_role target = OWNER
                  then (Inl (forbidden ''The group owner cannot be removed''), db)
                  else let db' = save_member (target\<lparr>mb_leftAt := Some (now clk)\<rparr>) db in
                    (getConversation actorId conversationId db', db')))))"

definition setMemberRole :: "clock \<Rightarrow> uuid \<Rightarrow> uuid \<Rightarrow> uuid \<Rightarrow> member_role \<Rightarrow> conversation_view handler" where
  "setMemberRole clk actorId conversationId memberId role db =
     (case requireMembership db conversationId actorId of
        Inl e \<Rightarrow> (Inl e, db)
      | Inr conv \<Rightarrow>
         (if c_type (fst conv) \<noteq> GROUP
          then (Inl (badRequest ''Only group conversations support this action''), db)
          else case find (\<lambda>m. mb_user m = actorId \<and> is_active m) (snd conv) of
            None \<Rightarrow> (Inl (forbidden ''Only the group owner can change member roles''), db)
          | Some actor \<Rightarrow>
             (if mb_role actor \<noteq> OWNER
              then (Inl (forbidden ''Only the group owner can change member roles''), db)
              else if role \<noteq> ADMIN \<and> role \<noteq> MEMBER
              then (Inl (badRequest ''Role must be ADMIN or MEMBER''), db)
              else case find (\<lambda>m. mb_user m = memberId \<and> is_active m) (snd conv) of
                None \<Rightarrow> (Inl (notFound ''Member''), db)
              | Some target \<Rightarrow>
                 (if mb_role target = OWNER
                  then (Inl (forbidden ''The group owner role cannot be changed''), db)
                  else if mb_user target = actorId
                  then (Inl (badRequest ''Cannot change your own role''), db)
                  else let db' = save_member (target\<lparr>mb_role := role\<rparr>) db in
                    (getConversation actorId conversationId db', db')))))"

definition leave :: "clock \<Rightarrow> uuid \<Rightarrow> uuid \<Rightarrow> bool handler" where
  "leave clk actorId conversationId db =
     (case requireMembership db conversationId actorId of
        Inl e \<Rightarrow> (Inl e, db)
      | Inr conv \<Rightarrow>
         (if c_type (fst conv) = PRIVATE
          then (Inl (badRequest ''Private chats cannot be left. Delete is not supported.''), db)
          else case find (\<lambda>m. mb_user m = actorId \<and> is_active m) (snd conv) of
            None \<Rightarrow> (Inl (notFound ''Membership''), db)
          | Some membership \<Rightarrow>
             (let db1 = (if mb_role membership = OWNER
                   then (case order_asc mb_joinedAt
                            (filter (\<lambda>m. is_active m \<and> mb_user m \<noteq> actorId) (snd conv)) of
                           [] \<Rightarrow> db
                         | heir # _ \<Rightarrow> save_member (heir\<lparr>mb_role := OWNER\<rparr>) db)
                   else db);
                  db2 = save_member (membership\<lparr>mb_leftAt := Some (now clk)\<rparr>) db1 in
              (Inr True, db2))))"

definition updateGroup :: "clock \<Rightarrow> uuid \<Rightarrow> uuid \<Rightarrow> string \<Rightarrow> conversation_view handler" where
  "updateGroup clk actorId conversationId rawName db =
     (case requireMembership db conversationId actorId of
        Inl e \<Rightarrow> (Inl e, db)
      | Inr conv \<Rightarrow>
         (case assertGroupAdmin conv actorId of
            Some e \<Rightarrow> (Inl e, db)
          | None \<Rightarrow>
             (let name = trim rawName in
              if \<not> truthy name then (Inl (badRequest ''Group name is required''), db)
              else let db' = save_conversation clk ((fst conv)\<lparr>c_name := Some name\<rparr>) db in
                (getConversation actorId conversationId db', db'))))"

definition soft_delete_conversation :: "clock \<Rightarrow> uuid \<Rightarrow> chat_db \<Rightarrow> chat_db" where
  "soft_delete_conversation clk cid db = db\<lparr>conversations :=
     map (\<lambda>c. if c_id c = cid then c\<lparr>c_deletedAt := Some (db_now clk)\<rparr> else c) (conversations db)\<rparr>"

definition deleteGroup :: "clock \<Rightarrow> uuid \<Rightarrow> uuid \<Rightarrow> (bool \<times> uuid list) handler" where
  "deleteGroup clk actorId conversationId db =
     (case requireMembership db conversationId actorId of
        Inl e \<Rightarrow> (Inl e, db)
      | Inr conv \<Rightarrow>
         (if c_type (fst conv) \<noteq> GROUP
          then (Inl (badRequest ''Only group chats can be deleted''), db)
          else if c_createdBy (fst conv) \<noteq> actorId
          then (Inl (forbidden ''Only the group creator can delete this group''), db)
          else let recipients = map mb_user (snd conv);
                   left = map (\<lambda>m. if mb_leftAt m = None then m\<lparr>mb_leftAt := Some (now clk)\<rparr> else m) (snd conv);
                   db1 = foldl (\<lambda>d m. save_member m d) db left;
                   db2 = soft_delete_conversation clk (c_id (fst conv)) db1 in
            (Inr (True, recipients), db2)))"

definition pinConversation :: "clock \<Rightarrow> uuid \<Rightarrow> uuid \<Rightarrow> bool \<Rightarrow> conversation_view handler" where
  "pinConversation clk actorId conversationId pinned db =
     (case requireMembership db conversationId actorId of
        Inl e \<Rightarrow> (Inl e, db)
      | Inr conv \<Rightarrow>
         (case find (\<lambda>m. mb_user m = actorId \<and> is_active m) (snd conv) of
            None \<Rightarrow> (Inl (notFound ''Membership''), db)
          | Some membership \<Rightarrow>
             (let db' = save_member (membership\<lparr>mb_pinnedAt := (if pinned then Some (now clk) else None)\<rparr>) db in
              (getConversation actorId conversationId db', db'))))"

definition muteConversation :: "clock \<Rightarrow> uuid \<Rightarrow> uuid \<Rightarrow> bool \<Rightarrow> conversation_view handler" where
  "muteConversation clk actorId conversationId muted db =
     (case requireMembership db conversationId actorId of
        Inl e \<Rightarrow> (Inl e, db)
      | Inr conv \<Rightarrow>
         (case find (\<lambda>m. mb_user m = actorId \<and> is_active m) (snd conv) of
            None \<Rightarrow> (Inl (notFound ''Membership''), db)
          | Some membership \<Rightarrow>
             (let db' = save_member (membership\<lparr>mb_mutedAt := (if muted then Some (now clk) else None)\<rparr>) db in
              (getConversation actorId conversationId db', db'))))"

definition setDisappearingMessages :: "clock \<Rightarrow> uuid \<Rightarrow> uuid \<Rightarrow> int \<Rightarrow> conversation_view handler" where
  "setDisappearingMessages clk actorId conversationId durationSeconds db =
     (case requireMembership db conversationId actorId of
        Inl e \<Rightarrow> (Inl e, db)
      | Inr conv \<Rightarrow>
         (if durationSeconds \<notin> DISAPPEARING_DURATIONS
          then (Inl (badRequest ''Unsupported disappearing duration''), db)
          else let refused = (c_type (fst conv) = GROUP \<and>
                 (case find (\<lambda>m. mb_user m = actorId \<and> is_active m) (snd conv) of
                    None \<Rightarrow> True
                  | Some actor \<Rightarrow> mb_role actor \<noteq> OWNER \<and> mb_role actor \<noteq> ADMIN)) in
            if refused
            then (Inl (forbidden ''Only group owners and admins can change disappearing messages''), db)
            else let db1 = save_conversation clk ((fst conv)\<lparr>c_disappearing := durationSeconds\<rparr>) db;
                     db2 = recordAudit clk actorId ''conversation.disappearing_updated''
                             (Some ''conversation'') (Some (c_id (fst conv)))
                             [(''durationSeconds'', MetaNumber durationSeconds)] db1 in
              (getConversation actorId conversationId db2, db2)))"

record seen_result =
  sr_conversationId :: uuid
  sr_userId :: uuid
  sr_lastReadAt :: instant
  sr_messageId :: "uuid option"
  sr_recipientIds :: "uuid list"

definition markSeen :: "clock \<Rightarrow> uuid \<Rightarrow> uuid \<Rightarrow> uuid option \<Rightarrow> seen_result handler" where
  "markSeen clk actorId conversationId messageId db =
     (case requireMembership db conversationId actorId of
        Inl e \<Rightarrow> (Inl e, db)
      | Inr conv \<Rightarrow>
         (case find (\<lambda>m. mb_user m = actorId \<and> is_active m) (snd conv) of
            None \<Rightarrow> (Inl (notFound ''Membership''), db)
          | Some membership \<Rightarrow>
             (let nextReadAt = now clk;
                  target = (if opt_truthy messageId
                     then (case find_message_in db (nullish messageId '''') (c_id (fst conv)) of
                             None \<Rightarrow> Inl (notFound ''Message'')
                           | Some m \<Rightarrow> Inr (Some (m_id m)))
                     else Inr None) in
              case target of
                Inl e \<Rightarrow> (Inl e, db)
              | Inr mid \<Rightarrow>
                 (let advance = (case mb_lastReadAt membership of None \<Rightarrow> True | Some t \<Rightarrow> nextReadAt > t);
                      readAt = (case mb_lastReadAt membership of
                         None \<Rightarrow> nextReadAt | Some t \<Rightarrow> (if nextReadAt > t then nextReadAt else t));
                      db' = (if advance
                         then save_member (membership\<lparr>mb_lastReadAt := Some nextReadAt\<rparr>) db else db) in
                  (Inr \<lparr>sr_conversationId = c_id (fst conv), sr_userId = actorId, sr_lastReadAt = readAt,
                        sr_messageId = mid,
                        sr_recipientIds = recipientIds
                          (if advance then save_row mb_id (membership\<lparr>mb_lastReadAt := Some nextReadAt\<rparr>) (snd conv)
                           else snd conv)\<rparr>, db')))))"

end
