(* ===== verification/ChatMembership.thy ===== *)
theory ChatMembership
  imports ChatGroups
begin

text \<open>
  Correctness of the membership handlers: the invariant of the membership table
  and, for each handler of \<open>ChatGroups\<close>, the abstract roster operation it
  performs, the invariant it keeps and the state it leaves on an error.
\<close>

section \<open>The membership invariant\<close>

definition drawn :: "chat_db \<Rightarrow> uuid set" where
  "drawn db = uuid_gen db ` {..<uuid_next db}"

definition conv_ok :: "conversation \<Rightarrow> roster \<Rightarrow> bool" where
  "conv_ok c r = (case c_type c of
     GROUP \<Rightarrow> group_ok r
   | PRIVATE \<Rightarrow> private_ok r \<and> c_deletedAt c = None
       \<and> c_pairKey c = Some (privatePairKey (fst (r ! 0)) (fst (r ! 1))))"

definition membership_inv :: "chat_db \<Rightarrow> bool" where
  "membership_inv db \<longleftrightarrow>
     inj (uuid_gen db)
     \<and> distinct (map c_id (conversations db)) \<and> c_id ` set (conversations db) \<subseteq> drawn db
     \<and> distinct (map mb_id (members db)) \<and> mb_id ` set (members db) \<subseteq> drawn db
     \<and> mb_conv ` set (members db) \<subseteq> c_id ` set (conversations db)
     \<and> (\<forall>c\<in>set (conversations db). conv_ok c (roster db (c_id c)))
     \<and> (\<forall>c\<in>set (conversations db). \<forall>c'\<in>set (conversations db).
           c_type c = PRIVATE \<longrightarrow> c_type c' = PRIVATE \<longrightarrow> c_pairKey c = c_pairKey c' \<longrightarrow> c_id c = c_id c')"

lemma membership_invD:
  assumes "membership_inv db"
  shows "inj (uuid_gen db)" "distinct (map c_id (conversations db))"
    "c_id ` set (conversations db) \<subseteq> drawn db" "distinct (map mb_id (members db))"
    "mb_id ` set (members db) \<subseteq> drawn db"
    "mb_conv ` set (members db) \<subseteq> c_id ` set (conversations db)"
    "c \<in> set (conversations db) \<Longrightarrow> conv_ok c (roster db (c_id c))"
  using assms by (simp_all add: membership_inv_def)

lemma membership_inv_pair:
  "\<lbrakk>membership_inv db; c \<in> set (conversations db); c' \<in> set (conversations db); c_type c = PRIVATE;
    c_type c' = PRIVATE; c_pairKey c = c_pairKey c'\<rbrakk> \<Longrightarrow> c_id c = c_id c'"
  unfolding membership_inv_def by blast

lemma membership_invI:
  assumes "inj (uuid_gen db)" "distinct (map c_id (conversations db))"
    "c_id ` set (conversations db) \<subseteq> drawn db" "distinct (map mb_id (members db))"
    "mb_id ` set (members db) \<subseteq> drawn db"
    "mb_conv ` set (members db) \<subseteq> c_id ` set (conversations db)"
    "\<And>c. c \<in> set (conversations db) \<Longrightarrow> conv_ok c (roster db (c_id c))"
    "\<And>c c'. \<lbrakk>c \<in> set (conversations db); c' \<in> set (conversations db); c_type c = PRIVATE;
       c_type c' = PRIVATE; c_pairKey c = c_pairKey c'\<rbrakk> \<Longrightarrow> c_id c = c_id c'"
  shows "membership_inv db"
  unfolding membership_inv_def by (intro conjI ballI impI) (rule assms; assumption)+

lemma conv_ok_distinct: "conv_ok c r \<Longrightarrow> distinct (map fst r)"
  by (simp add: conv_ok_def group_ok_def private_ok_def split: conversation_type.splits)

lemma conv_ok_GROUP: "c_type c = GROUP \<Longrightarrow> conv_ok c r = group_ok r"
  by (simp add: conv_ok_def)

lemma roster_outside: "cid \<notin> mb_conv ` set (members db) \<Longrightarrow> roster db cid = []"
  by (auto simp: roster_def active_members_filter filter_empty_conv)

lemma membership_inv_member_keys: "membership_inv db \<Longrightarrow> member_keys db"
  unfolding member_keys_def
proof (intro conjI allI)
  assume inv: "membership_inv db"
  then show "distinct (map mb_id (members db))" by (rule membership_invD)
  fix cid
  show "distinct (map fst (roster db cid))"
  proof (cases "cid \<in> c_id ` set (conversations db)")
    case True
    then show ?thesis using membership_invD(7) [OF inv] conv_ok_distinct by blast
  next
    case False
    with membership_invD(6) [OF inv] have "cid \<notin> mb_conv ` set (members db)" by blast
    then show ?thesis by (simp add: roster_outside)
  qed
qed

lemma next_uuid_fresh: "inj (uuid_gen db) \<Longrightarrow> next_uuid db \<notin> drawn db"
  by (auto simp: next_uuid_def drawn_def dest: injD)

lemma drawn_mono: "uuid_gen db' = uuid_gen db \<Longrightarrow> uuid_next db \<le> uuid_next db' \<Longrightarrow> drawn db \<subseteq> drawn db'"
  by (auto simp: drawn_def)

text \<open>The invariant with one conversation's roster left open, between two writes.\<close>

definition inv_except :: "uuid \<Rightarrow> chat_db \<Rightarrow> bool" where
  "inv_except cid db \<longleftrightarrow>
     inj (uuid_gen db)
     \<and> distinct (map c_id (conversations db)) \<and> c_id ` set (conversations db) \<subseteq> drawn db
     \<and> distinct (map mb_id (members db)) \<and> mb_id ` set (members db) \<subseteq> drawn db
     \<and> mb_conv ` set (members db) \<subseteq> c_id ` set (conversations db)
     \<and> (\<forall>c\<in>set (conversations db). c_id c \<noteq> cid \<longrightarrow> conv_ok c (roster db (c_id c)))
     \<and> (\<forall>c\<in>set (conversations db). \<forall>c'\<in>set (conversations db).
           c_type c = PRIVATE \<longrightarrow> c_type c' = PRIVATE \<longrightarrow> c_pairKey c = c_pairKey c' \<longrightarrow> c_id c = c_id c')"

lemma inv_exceptD:
  assumes "inv_except cid db"
  shows "inj (uuid_gen db)" "distinct (map c_id (conversations db))"
    "c_id ` set (conversations db) \<subseteq> drawn db" "distinct (map mb_id (members db))"
    "mb_id ` set (members db) \<subseteq> drawn db"
    "mb_conv ` set (members db) \<subseteq> c_id ` set (conversations db)"
    "c \<in> set (conversations db) \<Longrightarrow> c_id c \<noteq> cid \<Longrightarrow> conv_ok c (roster db (c_id c))"
  using assms by (simp_all add: inv_except_def)

lemma inv_except_pair:
  "\<lbrakk>inv_except cid db; c \<in> set (conversations db); c' \<in> set (conversations db); c_type c = PRIVATE;
    c_type c' = PRIVATE; c_pairKey c = c_pairKey c'\<rbrakk> \<Longrightarrow> c_id c = c_id c'"
  unfolding inv_except_def by blast

lemma membership_inv_except: "membership_inv db \<Longrightarrow> inv_except cid db"
  unfolding inv_except_def
  by (intro conjI ballI impI) (rule membership_invD membership_inv_pair; assumption)+

lemma inv_exceptI_close:
  "inv_except cid db \<Longrightarrow> (\<And>c. c \<in> set (conversations db) \<Longrightarrow> c_id c = cid \<Longrightarrow> conv_ok c (roster db cid))
   \<Longrightarrow> membership_inv db"
  by (rule membership_invI) (rule inv_exceptD inv_except_pair; assumption | metis inv_exceptD(7))+

text \<open>A rewritten member row: the rosters of the other conversations do not move.\<close>

lemma save_member_other_roster:
  assumes "distinct (map mb_id (members db))" and "t \<in> set (members db)"
    and "mb_id t' = mb_id t" and "mb_conv t' = mb_conv t" and "cid \<noteq> mb_conv t"
  shows "roster (save_member t' db) cid = roster db cid"
proof -
  have "active_members (save_member t' db) cid = active_members db cid"
    unfolding active_members_filter save_member_simps
  proof (rule filter_save_row_other)
    show "\<forall>x\<in>set (members db). mb_id x = mb_id t' \<longrightarrow>
        (mb_conv x = cid \<and> is_active x) = (mb_conv t' = cid \<and> is_active t')"
      using assms by (auto dest: distinct_key_eq)
  qed (use assms in simp)
  then show ?thesis by (simp add: roster_def)
qed

lemma inv_except_save_member:
  assumes inv: "inv_except cid db" and t: "t \<in> set (members db)" "mb_conv t = cid"
    and t': "mb_id t' = mb_id t" "mb_conv t' = cid"
  shows "inv_except cid (save_member t' db)"
proof -
  let ?db = "save_member t' db"
  have ids: "mb_id ` set (members ?db) = mb_id ` set (members db)"
    by (simp only: save_member_simps list.set_map [symmetric] map_key_save_row)
  have dr: "drawn ?db = drawn db" by (simp add: drawn_def)
  have ro: "roster ?db k = roster db k" if "k \<noteq> cid" for k
    using that t t' by (intro save_member_other_roster [OF inv_exceptD(4) [OF inv]]) auto
  have convs: "mb_conv ` set (members ?db) \<subseteq> c_id ` set (conversations db)"
  proof (rule image_subsetI)
    fix x assume "x \<in> set (members ?db)"
    then have "x = t' \<or> x \<in> set (members db)" by (auto dest: set_save_row)
    then show "mb_conv x \<in> c_id ` set (conversations db)"
      using inv_exceptD(6) [OF inv] t t'(2) by auto
  qed
  show ?thesis
    unfolding inv_except_def
  proof (intro conjI ballI impI)
    show "mb_id ` set (members ?db) \<subseteq> drawn ?db"
      unfolding ids dr by (rule inv_exceptD(5) [OF inv])
    show "conv_ok c (roster ?db (c_id c))" if "c \<in> set (conversations ?db)" "c_id c \<noteq> cid" for c
      using that inv_exceptD(7) [OF inv] ro by simp
    show "mb_conv ` set (members ?db) \<subseteq> c_id ` set (conversations ?db)"
      using convs by (simp only: save_member_simps)
    show "c_id c = c_id c'" if "c \<in> set (conversations ?db)" "c' \<in> set (conversations ?db)"
      "c_type c = PRIVATE" "c_type c' = PRIVATE" "c_pairKey c = c_pairKey c'" for c c'
      using that unfolding save_member_simps by (rule inv_except_pair [OF inv])
  qed (use inv_exceptD(1-4) [OF inv] in \<open>simp_all only: save_member_simps map_key_save_row dr\<close>)
qed

lemma inv_save_member:
  assumes inv: "membership_inv db" and t: "t \<in> set (active_members db cid)"
    and t': "mb_id t' = mb_id t" "mb_conv t' = cid"
    and ok: "\<And>c. c \<in> set (conversations db) \<Longrightarrow> c_id c = cid \<Longrightarrow> conv_ok c (roster (save_member t' db) cid)"
  shows "membership_inv (save_member t' db)"
proof (rule inv_exceptI_close)
  show "inv_except cid (save_member t' db)"
    using t t' by (intro inv_except_save_member [OF membership_inv_except [OF inv]])
      (auto simp: set_active_members)
qed (use ok in simp)

text \<open>A rewritten conversation row that keeps identity, kind and pair key.\<close>

lemma inv_conversations:
  assumes inv: "membership_inv db" and mem: "members db' = members db"
    and ids: "map c_id (conversations db') = map c_id (conversations db)"
    and gen: "uuid_gen db' = uuid_gen db" "uuid_next db \<le> uuid_next db'"
    and rows: "\<And>c. c \<in> set (conversations db') \<Longrightarrow> \<exists>c0\<in>set (conversations db). c_id c = c_id c0
        \<and> c_type c = c_type c0 \<and> c_pairKey c = c_pairKey c0
        \<and> (c_deletedAt c = c_deletedAt c0 \<or> c_type c = GROUP)"
  shows "membership_inv db'"
proof -
  have cids: "c_id ` set (conversations db') = c_id ` set (conversations db)"
    using ids by (metis list.set_map)
  have dr: "drawn db \<subseteq> drawn db'" using gen by (rule drawn_mono)
  have ro: "roster db' cid = roster db cid" for cid using mem by (rule roster_cong)
  have ok: "conv_ok c (roster db' (c_id c))" if c: "c \<in> set (conversations db')" for c
  proof -
    obtain c0 where "c0 \<in> set (conversations db)" "c_id c = c_id c0" "c_type c = c_type c0"
      "c_pairKey c = c_pairKey c0" "c_deletedAt c = c_deletedAt c0 \<or> c_type c = GROUP"
      using rows [OF c] by blast
    then show ?thesis using membership_invD(7) [OF inv, of c0] ro
      by (cases "c_type c0") (simp_all add: conv_ok_def)
  qed
  have pairs: "c_id c = c_id c'"
    if r: "c \<in> set (conversations db')" "c' \<in> set (conversations db')" "c_type c = PRIVATE"
      "c_type c' = PRIVATE" "c_pairKey c = c_pairKey c'" for c c'
  proof -
    obtain a b where "a \<in> set (conversations db)" "c_id c = c_id a" "c_type c = c_type a"
      "c_pairKey c = c_pairKey a"
      using rows [OF r(1)] by blast
    moreover obtain b where "b \<in> set (conversations db)" "c_id c' = c_id b"
      "c_type c' = c_type b" "c_pairKey c' = c_pairKey b"
      using rows [OF r(2)] by blast
    ultimately show ?thesis using r(3-5) membership_inv_pair [OF inv, of a b] by metis
  qed
  show ?thesis
  proof (rule membership_invI)
    show "c_id ` set (conversations db') \<subseteq> drawn db'"
      unfolding cids using membership_invD(3) [OF inv] dr by blast
    show "mb_id ` set (members db') \<subseteq> drawn db'"
      unfolding mem using membership_invD(5) [OF inv] dr by blast
    show "inj (uuid_gen db')" and "distinct (map c_id (conversations db'))"
      and "distinct (map mb_id (members db'))"
      and "mb_conv ` set (members db') \<subseteq> c_id ` set (conversations db')"
      using membership_invD(1,2,4,6) [OF inv] by (simp_all only: mem ids cids gen)
  qed (fact ok, fact pairs)
qed

lemma inv_frame:
  assumes "membership_inv db" and "members db' = members db" and "conversations db' = conversations db"
    and "uuid_gen db' = uuid_gen db" and "uuid_next db \<le> uuid_next db'"
  shows "membership_inv db'"
  by (rule inv_conversations [OF assms(1)]) (use assms in auto)

lemma inv_save_conversation:
  assumes inv: "membership_inv db" and c: "c0 \<in> set (conversations db)"
    and keep: "c_id c = c_id c0" "c_type c = c_type c0" "c_pairKey c = c_pairKey c0"
      "c_deletedAt c = c_deletedAt c0"
  shows "membership_inv (save_conversation clk c db)"
proof (rule inv_conversations [OF inv])
  show "map c_id (conversations (save_conversation clk c db)) = map c_id (conversations db)"
    by (auto simp: save_conversation_def)
  show "\<exists>c1\<in>set (conversations db). c_id d = c_id c1 \<and> c_type d = c_type c1 \<and> c_pairKey d = c_pairKey c1
        \<and> (c_deletedAt d = c_deletedAt c1 \<or> c_type d = GROUP)"
    if "d \<in> set (conversations (save_conversation clk c db))" for d
    using that c keep by (force simp: save_conversation_def split: if_splits)
qed simp_all

text \<open>Rows appended for one conversation: the rest of the invariant carries over.\<close>

lemma insert_members_next [simp]:
  "uuid_next (insert_members clk cid us db) = uuid_next db + length us"
  by (induction us arbitrary: db) auto

lemma insert_members_ids:
  "map mb_id (members (insert_members clk cid us db))
   = map mb_id (members db) @ map (uuid_gen db) [uuid_next db..<uuid_next db + length us]"
proof (induction us arbitrary: db)
  case (Cons p us)
  have "map mb_id (members (insert_member clk cid (fst p) (snd p) db))
      = map mb_id (members db) @ [uuid_gen db (uuid_next db)]"
    by (simp add: insert_member_def next_uuid_def)
  with Cons [of "insert_member clk cid (fst p) (snd p) db"] show ?case
    by (cases p) (simp add: upt_conv_Cons del: upt_Suc)
qed simp

lemma insert_members_convs:
  "mb_conv ` set (members (insert_members clk cid us db)) \<subseteq> insert cid (mb_conv ` set (members db))"
proof (induction us arbitrary: db)
  case (Cons p us)
  have "mb_conv ` set (members (insert_member clk cid (fst p) (snd p) db))
      \<subseteq> insert cid (mb_conv ` set (members db))"
    by (auto simp: insert_member_def)
  with Cons [of "insert_member clk cid (fst p) (snd p) db"] show ?case
    by (cases p) auto
qed auto

lemma drawn_insert_members: "drawn (insert_members clk cid us db)
   = drawn db \<union> uuid_gen db ` {uuid_next db..<uuid_next db + length us}"
  by (simp add: drawn_def image_Un [symmetric] ivl_disj_un_one(2))

lemma inv_insert_members:
  assumes inv: "inv_except cid db"
    and new: "\<And>c. c \<in> set (conversations db) \<Longrightarrow> c_id c = cid \<Longrightarrow> conv_ok c (roster db cid @ us)"
    and mem: "cid \<in> c_id ` set (conversations db)"
  shows "membership_inv (insert_members clk cid us db)"
proof (rule membership_invI)
  let ?db = "insert_members clk cid us db" and ?new = "{uuid_next db..<uuid_next db + length us}"
  have ids: "mb_id ` set (members ?db) = mb_id ` set (members db) \<union> uuid_gen db ` ?new"
    using arg_cong [OF insert_members_ids, where f = set] by (simp add: image_Un)
  show "distinct (map mb_id (members ?db))"
  proof -
    have "uuid_gen db ` ?new \<inter> drawn db = {}"
      using inv_exceptD(1) [OF inv] by (auto simp: drawn_def dest: injD)
    moreover have "distinct (map (uuid_gen db) [uuid_next db..<uuid_next db + length us])"
      using inj_on_subset [OF inv_exceptD(1) [OF inv] subset_UNIV] by (simp add: distinct_map)
    ultimately show ?thesis unfolding insert_members_ids using inv_exceptD(4,5) [OF inv] by auto
  qed
  show "mb_id ` set (members ?db) \<subseteq> drawn ?db"
    unfolding ids drawn_insert_members using inv_exceptD(5) [OF inv] by blast
  show "mb_conv ` set (members ?db) \<subseteq> c_id ` set (conversations ?db)"
    using insert_members_convs [of clk cid us db] inv_exceptD(6) [OF inv] mem by auto
  show "c_id ` set (conversations ?db) \<subseteq> drawn ?db"
    unfolding drawn_insert_members using inv_exceptD(3) [OF inv] by auto
  show "conv_ok c (roster ?db (c_id c))" if "c \<in> set (conversations ?db)" for c
    using that inv_exceptD(7) [OF inv, of c] new [of c] by (cases "c_id c = cid") (auto simp: roster_insert_members)
  show "c_id c = c_id c'" if "c \<in> set (conversations ?db)" "c' \<in> set (conversations ?db)"
    "c_type c = PRIVATE" "c_type c' = PRIVATE" "c_pairKey c = c_pairKey c'" for c c'
    using that unfolding insert_members_simps by (rule inv_except_pair [OF inv])
qed (use inv_exceptD(1,2) [OF inv] in simp_all)

section \<open>Creating conversations\<close>

lemma insert_conversation_simps [simp]:
  "members (insert_conversation clk ty n u pk db) = members db"
  "messages (insert_conversation clk ty n u pk db) = messages db"
  "messageHides (insert_conversation clk ty n u pk db) = messageHides db"
  "messageReactions (insert_conversation clk ty n u pk db) = messageReactions db"
  "scheduledMessages (insert_conversation clk ty n u pk db) = scheduledMessages db"
  "userBlocks (insert_conversation clk ty n u pk db) = userBlocks db"
  "uuid_gen (insert_conversation clk ty n u pk db) = uuid_gen db"
  "uuid_next (insert_conversation clk ty n u pk db) = Suc (uuid_next db)"
  by (simp_all add: insert_conversation_def)

lemma conversations_insert:
  "conversations (insert_conversation clk ty n u pk db) = conversations db @
     [\<lparr>c_id = next_uuid db, c_type = ty, c_name = n, c_createdBy = u, c_pairKey = pk,
       c_lastMessageAt = None, c_disappearing = 0, c_createdAt = db_now clk,
       c_updatedAt = db_now clk, c_deletedAt = None\<rparr>]"
  by (simp add: insert_conversation_def)

lemma drawn_insert_conversation:
  "drawn (insert_conversation clk ty n u pk db) = insert (next_uuid db) (drawn db)"
  by (simp add: drawn_def lessThan_Suc next_uuid_def)

lemma roster_fresh: "membership_inv db \<Longrightarrow> roster db (next_uuid db) = []"
  using membership_invD(1,3,6) [of db] next_uuid_fresh [of db] by (intro roster_outside) blast

lemma find_conversation_new:
  assumes "membership_inv db"
  shows "find_conversation (insert_members clk cid us (insert_conversation clk ty n u pk db)) (next_uuid db)
    = Some \<lparr>c_id = next_uuid db, c_type = ty, c_name = n, c_createdBy = u, c_pairKey = pk,
       c_lastMessageAt = None, c_disappearing = 0, c_createdAt = db_now clk,
       c_updatedAt = db_now clk, c_deletedAt = None\<rparr>"
proof -
  have "find (\<lambda>c. c_id c = next_uuid db) (live_conversations db) = None"
    using membership_invD(1,3) [OF assms] next_uuid_fresh [of db]
    by (auto simp: find_None_set live_conversations_def)
  then show ?thesis
    by (simp add: find_conversation_def live_conversations_def conversations_insert find_append_None)
qed

lemma inv_create:
  assumes inv: "membership_inv db"
    and ok: "\<And>c. c_type c = ty \<Longrightarrow> c_pairKey c = pk \<Longrightarrow> c_deletedAt c = None \<Longrightarrow> conv_ok c us"
    and fresh: "\<And>c. c \<in> set (conversations db) \<Longrightarrow> c_type c = PRIVATE \<Longrightarrow> ty = PRIVATE \<Longrightarrow> c_pairKey c \<noteq> pk"
  shows "membership_inv (insert_members clk (next_uuid db) us (insert_conversation clk ty n u pk db))"
proof (rule inv_insert_members)
  let ?db = "insert_conversation clk ty n u pk db"
  have nin: "next_uuid db \<notin> c_id ` set (conversations db)"
    using membership_invD(1,3) [OF inv] next_uuid_fresh [of db] by blast
  have ro: "roster ?db cid = roster db cid" for cid by (rule roster_cong) simp
  show "inv_except (next_uuid db) ?db"
    unfolding inv_except_def
  proof (intro conjI ballI impI)
    show "inj (uuid_gen ?db)" and "distinct (map c_id (conversations ?db))"
      and "distinct (map mb_id (members ?db))"
      using membership_invD(1,2,4) [OF inv] nin by (simp_all add: conversations_insert)
    show "c_id ` set (conversations ?db) \<subseteq> drawn ?db" and "mb_id ` set (members ?db) \<subseteq> drawn ?db"
      and "mb_conv ` set (members ?db) \<subseteq> c_id ` set (conversations ?db)"
      using membership_invD(3,5,6) [OF inv]
      by (auto simp: conversations_insert drawn_insert_conversation)
    show "conv_ok c (roster ?db (c_id c))" if "c \<in> set (conversations ?db)" "c_id c \<noteq> next_uuid db" for c
      using that membership_invD(7) [OF inv, of c] by (auto simp: conversations_insert ro)
    show "c_id c = c_id c'" if "c \<in> set (conversations ?db)" "c' \<in> set (conversations ?db)"
      "c_type c = PRIVATE" "c_type c' = PRIVATE" "c_pairKey c = c_pairKey c'" for c c'
      using that membership_inv_pair [OF inv, of c c'] fresh [of c] fresh [of c']
      by (auto simp: conversations_insert)
  qed
  show "conv_ok c (roster ?db (next_uuid db) @ us)"
    if "c \<in> set (conversations ?db)" "c_id c = next_uuid db" for c
    using that nin ok [of c] by (auto simp: conversations_insert ro roster_fresh [OF inv] image_iff)
  show "next_uuid db \<in> c_id ` set (conversations ?db)" by (simp add: conversations_insert)
qed

lemma privatePairKey_commute: "privatePairKey a b = privatePairKey b a"
proof -
  have "sort [a, b] = sort [b, a]" by (cases a b rule: linorder_cases) auto
  then show ?thesis by (simp only: privatePairKey_def)
qed

lemma createGroup_effect:
  assumes "membership_inv db" and "createGroup clk a n ids db = (Inr v, db')"
  shows "cv_id v = next_uuid db \<and> membership_inv db' \<and> truthy (trim n)
    \<and> roster db' (cv_id v) = (a, OWNER) # map (\<lambda>u. (u, MEMBER)) (js_uniq (filter (\<lambda>i. i \<noteq> a) ids))
    \<and> (\<forall>cid. cid \<noteq> cv_id v \<longrightarrow> roster db' cid = roster db cid)"
proof -
  let ?us = "js_uniq (filter (\<lambda>i. i \<noteq> a) ids)"
  let ?ms = "(a, OWNER) # map (\<lambda>u. (u, MEMBER)) ?us"
  let ?db = "insert_members clk (next_uuid db) ?ms (insert_conversation clk GROUP (Some (trim n)) a None db)"
  have g: "truthy (trim n)" "?us \<noteq> []" "length ?us + 1 \<le> 50" and res: "db' = ?db" "cv_id v = next_uuid db"
    using assms(2) by (auto simp: createGroup_def Let_def find_conversation_new [OF assms(1)]
        toConversationView_def MAX_GROUP_MEMBERS_def simp del: insert_members_Cons split: if_splits)
  have "group_ok ?ms" using g(3) by (auto simp: group_ok_def comp_def)
  then have "membership_inv ?db"
    by (intro inv_create [OF assms(1)]) (simp_all add: conv_ok_def)
  moreover have "roster ?db cid = roster db cid @ (if cid = next_uuid db then ?ms else [])" for cid
    by (subst roster_insert_members) (simp add: roster_cong [of "insert_conversation _ _ _ _ _ _"])
  ultimately show ?thesis using g(1) res roster_fresh [OF assms(1)] by auto
qed

lemma createGroup_error: "createGroup clk a n ids db = (Inl e, db') \<Longrightarrow> db' = db"
  by (auto simp: createGroup_def Let_def split: if_splits option.splits)

lemma createPrivate_effect:
  assumes inv: "membership_inv db" and run: "createPrivate clk a b db = (Inr v, db')"
  shows "membership_inv db' \<and> a \<noteq> b
    \<and> (\<exists>c\<in>set (conversations db'). c_id c = cv_id v \<and> c_type c = PRIVATE \<and> c_pairKey c = Some (privatePairKey a b))
    \<and> (db' = db \<or> cv_id v = next_uuid db \<and> \<not> hasBlock db b a \<and> roster db' (cv_id v) = [(a, MEMBER), (b, MEMBER)])
    \<and> (\<forall>cid. cid \<noteq> cv_id v \<longrightarrow> roster db' cid = roster db cid)"
proof (cases "find_private db (privatePairKey a b)")
  case (Some c)
  then have "db' = db" "cv_id v = c_id c" "a \<noteq> b"
    using run by (auto simp: createPrivate_def Let_def toConversationView_def split: if_splits)
  moreover have "c \<in> set (conversations db)" "c_type c = PRIVATE" "c_pairKey c = Some (privatePairKey a b)"
    using Some by (auto simp: find_private_def live_conversations_def dest: find_set)
  ultimately show ?thesis using inv by auto
next
  case None
  let ?ms = "[(a, MEMBER), (b, MEMBER)]"
  let ?db = "insert_members clk (next_uuid db) ?ms
     (insert_conversation clk PRIVATE None a (Some (privatePairKey a b)) db)"
  have g: "a \<noteq> b" "\<not> hasBlock db b a" and res: "db' = ?db" "cv_id v = next_uuid db"
    using run None by (auto simp: createPrivate_def Let_def find_conversation_new [OF inv]
        toConversationView_def split: if_splits simp del: insert_members_Cons)
  have fresh: "c_pairKey c \<noteq> Some (privatePairKey a b)"
    if c: "c \<in> set (conversations db)" "c_type c = PRIVATE" for c
  proof -
    have "c_deletedAt c = None" using membership_invD(7) [OF inv c(1)] c(2) by (simp add: conv_ok_def)
    with None c show ?thesis by (auto simp: find_private_def live_conversations_def find_None_set)
  qed
  have "membership_inv ?db"
    using g(1) fresh by (intro inv_create [OF inv]) (simp_all add: conv_ok_def private_ok_def)
  moreover have "roster ?db cid = roster db cid @ (if cid = next_uuid db then ?ms else [])" for cid
    by (subst roster_insert_members) (simp add: roster_cong [of "insert_conversation _ _ _ _ _ _"])
  ultimately show ?thesis
    using g res roster_fresh [OF inv] by (auto simp: conversations_insert)
qed

lemma createPrivate_error: "createPrivate clk a b db = (Inl e, db') \<Longrightarrow> db' = db"
  by (auto simp: createPrivate_def Let_def split: if_splits option.splits)

section \<open>Roster operations: specification\<close>

text \<open>
  What the five roster handlers promise, on the roster alone: who may do what,
  with which error otherwise, and the new roster. \<open>creator\<close> is the conversation's
  \<open>createdBy\<close>; \<open>heir\<close> is the member who takes over when the owner leaves.
\<close>

datatype roster_op =
    AddMembers "uuid list"
  | RemoveMember uuid
  | SetRole uuid member_role
  | Leave
  | DeleteGroup

definition admin_only :: "conversation_type \<Rightarrow> member_role \<Rightarrow> rpc_error + roster \<Rightarrow> rpc_error + roster" where
  "admin_only ty mine ok =
     (if ty \<noteq> GROUP then Inl (badRequest ''Only group conversations support this action'')
      else if mine = MEMBER then Inl (forbidden ''Only group owners or admins can manage members'')
      else ok)"

fun roster_spec :: "conversation_type \<Rightarrow> uuid \<Rightarrow> uuid option \<Rightarrow> uuid \<Rightarrow> member_role \<Rightarrow>
    roster_op \<Rightarrow> roster \<Rightarrow> rpc_error + roster" where
  "roster_spec ty creator heir a mine (AddMembers ids) r =
     admin_only ty mine
       (let us = js_uniq (filter (\<lambda>i. i \<noteq> a) ids) in
        if us = [] then Inl (badRequest ''At least one member id is required'')
        else if length r + length us > 50 then Inl (badRequest ''A group cannot have more than 50 members'')
        else Inr (roster_add us r))"
| "roster_spec ty creator heir a mine (RemoveMember u) r =
     admin_only ty mine
       (if u = a then Inl (badRequest ''Use leave to exit a group yourself'')
        else case map_of r u of
          None \<Rightarrow> Inl (notFound ''Member'')
        | Some ro \<Rightarrow> (if ro = OWNER then Inl (forbidden ''The group owner cannot be removed'')
                      else Inr (roster_remove u r)))"
| "roster_spec ty creator heir a mine (SetRole u ro) r =
     (if ty \<noteq> GROUP then Inl (badRequest ''Only group conversations support this action'')
      else if mine \<noteq> OWNER then Inl (forbidden ''Only the group owner can change member roles'')
      else if ro = OWNER then Inl (badRequest ''Role must be ADMIN or MEMBER'')
      else case map_of r u of
        None \<Rightarrow> Inl (notFound ''Member'')
      | Some old \<Rightarrow> (if old = OWNER then Inl (forbidden ''The group owner role cannot be changed'')
                     else Inr (roster_role u ro r)))"
| "roster_spec ty creator heir a mine Leave r =
     (if ty = PRIVATE then Inl (badRequest ''Private chats cannot be left. Delete is not supported.'')
      else Inr (roster_remove a (case (mine, heir) of
              (OWNER, Some h) \<Rightarrow> roster_role h OWNER r | _ \<Rightarrow> r)))"
| "roster_spec ty creator heir a mine DeleteGroup r =
     (if ty \<noteq> GROUP then Inl (badRequest ''Only group chats can be deleted'')
      else if creator \<noteq> a then Inl (forbidden ''Only the group creator can delete this group'')
      else Inr [])"

text \<open>The earliest joined of the other active members.\<close>

definition heir_row :: "chat_db \<Rightarrow> uuid \<Rightarrow> uuid \<Rightarrow> member option" where
  "heir_row db cid a =
     (case order_asc mb_joinedAt (filter (\<lambda>m. mb_user m \<noteq> a) (active_members db cid)) of
        [] \<Rightarrow> None | m # _ \<Rightarrow> Some m)"

definition run_roster_op :: "clock \<Rightarrow> uuid \<Rightarrow> uuid \<Rightarrow> roster_op \<Rightarrow> unit handler" where
  "run_roster_op clk a cid oper db =
     (case oper of
        AddMembers ids \<Rightarrow> apfst (map_sum id (\<lambda>_. ())) (addMembers clk a cid ids db)
      | RemoveMember u \<Rightarrow> apfst (map_sum id (\<lambda>_. ())) (removeMember clk a cid u db)
      | SetRole u ro \<Rightarrow> apfst (map_sum id (\<lambda>_. ())) (setMemberRole clk a cid u ro db)
      | Leave \<Rightarrow> apfst (map_sum id (\<lambda>_. ())) (leave clk a cid db)
      | DeleteGroup \<Rightarrow> apfst (map_sum id (\<lambda>_. ())) (deleteGroup clk a cid db))"

text \<open>The specification alone keeps a group well formed.\<close>

lemma roster_spec_group_ok:
  assumes ok: "group_ok r" and a: "(a, mine) \<in> set r"
    and heir: "case heir of None \<Rightarrow> \<forall>p\<in>set r. fst p = a | Some h \<Rightarrow> h \<noteq> a \<and> h \<in> fst ` set r"
    and run: "roster_spec GROUP creator heir a mine oper r = Inr r'"
  shows "group_ok r'"
proof (cases oper)
  case (AddMembers ids)
  have "r \<noteq> []" using a by auto
  with AddMembers run ok show ?thesis
    by (auto simp: admin_only_def Let_def intro!: group_ok_add split: if_splits)
next
  case (RemoveMember u)
  with run ok show ?thesis
    by (auto simp: admin_only_def intro!: group_ok_remove dest: map_of_SomeD split: if_splits option.splits)
next
  case (SetRole u ro)
  with run ok show ?thesis
    by (auto intro!: group_ok_role dest: map_of_SomeD split: if_splits option.splits)
next
  case Leave
  show ?thesis
  proof (cases "mine = OWNER")
    case True
    show ?thesis
    proof (cases heir)
      case None
      with True Leave run heir ok a show ?thesis by (auto intro: group_ok_last_leaves)
    next
      case (Some h)
      then obtain hr where "(h, hr) \<in> set r" "h \<noteq> a" using heir by auto
      with True Some Leave run ok a show ?thesis by (auto intro: group_ok_succession)
    qed
  next
    case False
    then have "r' = roster_remove a r" using Leave run by (cases mine) auto
    with False ok a show ?thesis by (auto intro: group_ok_remove)
  qed
next
  case DeleteGroup
  with run show ?thesis by (simp add: group_ok_def split: if_splits)
qed

section \<open>Roster operations: refinement\<close>

lemma map_of_roster:
  "map_of (roster db cid) u = map_option mb_role (find (\<lambda>m. mb_user m = u) (active_members db cid))"
proof -
  have "map_of (map entry ms) u = map_option mb_role (find (\<lambda>m. mb_user m = u) ms)" for ms
    by (induction ms) (auto simp: entry_def)
  then show ?thesis by (simp add: roster_def)
qed

lemma requireMembership_ok:
  assumes "find_conversation db cid = Some c" and "a \<in> fst ` set (roster db cid)"
  shows "requireMembership db cid a = Inr (c, active_members db cid)"
proof -
  have "find (\<lambda>m. mb_user m = a) (active_members db cid) \<noteq> None"
    using assms(2) by (auto simp: find_None_set roster_def)
  with assms(1) show ?thesis by (auto simp: requireMembership_Inr)
qed

lemma getConversation_ok:
  assumes "find_conversation db cid = Some c" and "a \<in> fst ` set (roster db cid)"
  shows "\<exists>v. getConversation a cid db = Inr v"
  using requireMembership_ok [OF assms] by (simp add: getConversation_def)

text \<open>
  The outcome of a handler against its specification: the same error and an
  untouched database, or the specified roster and everything else in place.
\<close>

definition roster_result :: "chat_db \<Rightarrow> uuid \<Rightarrow> 'a rpc \<times> chat_db \<Rightarrow> rpc_error + roster \<Rightarrow> bool" where
  "roster_result db cid out spec = (case fst out of
     Inl e \<Rightarrow> spec = Inl e \<and> snd out = db
   | Inr _ \<Rightarrow> spec = Inr (roster (snd out) cid)
       \<and> (\<forall>k. k \<noteq> cid \<longrightarrow> roster (snd out) k = roster db k)
       \<and> inv_except cid (snd out)
       \<and> (\<lambda>c. (c_id c, c_type c)) ` set (conversations (snd out))
           = (\<lambda>c. (c_id c, c_type c)) ` set (conversations db))"

lemma roster_result_Inl [simp]: "roster_result db cid (Inl e, db') spec \<longleftrightarrow> spec = Inl e \<and> db' = db"
  by (simp add: roster_result_def)

lemma roster_result_save_member:
  assumes inv: "membership_inv db" and t: "t \<in> set (active_members db cid)"
    and t': "mb_id t' = mb_id t" "mb_conv t' = cid" and spec: "spec = Inr (roster (save_member t' db) cid)"
  shows "roster_result db cid (Inr v, save_member t' db) spec"
proof -
  have m: "t \<in> set (members db)" "mb_conv t = cid" using t by (auto simp: set_active_members)
  have "inv_except cid (save_member t' db)"
    using m t' by (intro inv_except_save_member [OF membership_inv_except [OF inv]]) auto
  moreover have "roster (save_member t' db) k = roster db k" if "k \<noteq> cid" for k
    using that m t' membership_invD(4) [OF inv] by (intro save_member_other_roster) auto
  ultimately show ?thesis using spec by (simp add: roster_result_def)
qed

lemma set_fst_roster: "fst ` set (roster db cid) = mb_user ` set (active_members db cid)"
  by (simp add: roster_def image_image)

lemma roster_users: "m \<in> set (active_members db cid) \<Longrightarrow> mb_user m \<in> fst ` set (roster db cid)"
  by (force simp: roster_def)

lemma assertGroupAdmin_cases:
  assumes "find (\<lambda>m. mb_user m = a) ms = Some me"
  shows "assertGroupAdmin (c, ms) a = (case admin_only (c_type c) (mb_role me) (Inr []) of
     Inl e \<Rightarrow> Some e | Inr _ \<Rightarrow> None)"
  using assms by (cases "mb_role me") (auto simp: assertGroupAdmin_def admin_only_def)

lemma add_members_loop_eq:
  assumes "\<forall>m\<in>set ms. is_active m"
  shows "add_members_loop clk (c, ms) us db = insert_members clk (c_id c)
     (map (\<lambda>u. (u, MEMBER)) (filter (\<lambda>u. u \<notin> mb_user ` set ms) us)) db"
proof (induction us arbitrary: db)
  case (Cons u us)
  show ?case
  proof (cases "find (\<lambda>m. mb_user m = u) ms")
    case None
    then have "u \<notin> mb_user ` set ms" by (auto simp: find_None_set)
    with None Cons show ?thesis by simp
  next
    case (Some m)
    then have m: "m \<in> set ms" "mb_user m = u" by (auto dest: find_set)
    with assms have "mb_leftAt m = None" by (auto simp: is_active_def)
    moreover have "u \<in> mb_user ` set ms" using m by auto
    ultimately show ?thesis using Some Cons by simp
  qed
qed simp

lemma addMembers_refines:
  assumes inv: "membership_inv db" and c: "find_conversation db cid = Some c"
    and me: "find (\<lambda>m. mb_user m = a) (active_members db cid) = Some me"
  shows "roster_result db cid (addMembers clk a cid ids db)
    (roster_spec (c_type c) (c_createdBy c) heir a (mb_role me) (AddMembers ids) (roster db cid))"
proof -
  let ?us = "js_uniq (filter (\<lambda>i. i \<noteq> a) ids)" and ?ms = "active_members db cid"
  let ?new = "map (\<lambda>u. (u, MEMBER)) (filter (\<lambda>u. u \<notin> mb_user ` set ?ms) ?us)"
  let ?db = "insert_members clk cid ?new db"
  have a: "a \<in> fst ` set (roster db cid)" using me roster_users by (auto dest: find_set)
  have cc: "c \<in> set (conversations db)" "c_id c = cid" using find_conversation_Some [OF c] by auto
  have lp: "add_members_loop clk (c, ?ms) us db = insert_members clk cid
      (map (\<lambda>u. (u, MEMBER)) (filter (\<lambda>u. u \<notin> mb_user ` set ?ms) us)) db" for us
    using add_members_loop_eq [of ?ms clk c us db] cc by (simp add: set_active_members)
  have ro: "roster ?db k = (if k = cid then roster_add ?us (roster db cid) else roster db k)" for k
    by (simp add: roster_insert_members roster_add_def set_fst_roster)
  have ex: "inv_except cid ?db" if "group_ok (roster_add ?us (roster db cid))" "c_type c = GROUP"
  proof (rule membership_inv_except, rule inv_insert_members [OF membership_inv_except [OF inv]])
    show "cid \<in> c_id ` set (conversations db)" using cc by blast
    show "conv_ok c' (roster db cid @ ?new)" if "c' \<in> set (conversations db)" "c_id c' = cid" for c'
    proof -
      have "c' = c" using membership_invD(2) [OF inv] that cc by (auto dest: distinct_key_eq)
      then show ?thesis using \<open>c_type c = GROUP\<close> \<open>group_ok _\<close> ro [of cid]
        by (simp add: conv_ok_def roster_insert_members)
    qed
  qed
  have fc: "find_conversation ?db cid = Some c" using c by (simp add: find_conversation_def live_conversations_def)
  have view: "\<exists>v. getConversation a cid ?db = Inr v"
    using a by (intro getConversation_ok [OF fc]) (simp add: roster_insert_members image_Un)
  have gok: "group_ok (roster db cid)" if "c_type c = GROUP"
    using membership_invD(7) [OF inv cc(1)] cc(2) that by (simp add: conv_ok_def)
  have ne: "roster db cid \<noteq> []" using a by auto
  have len: "length (roster db cid) = length ?ms" by (simp add: roster_def)
  have final: "roster_result db cid (getConversation a cid ?db, ?db) (Inr (roster_add ?us (roster db cid)))"
    if "c_type c = GROUP" "length ?ms + length ?us \<le> 50"
  proof -
    have "group_ok (roster_add ?us (roster db cid))"
      using gok that ne len by (intro group_ok_add) simp_all
    with view ex that(1) ro show ?thesis by (auto simp: roster_result_def)
  qed
  show ?thesis
    using requireMembership_ok [OF c a] assertGroupAdmin_cases [OF me, of c] final
    by (auto simp: addMembers_def admin_only_def Let_def lp len MAX_GROUP_MEMBERS_def
        simp del: find_active_member)
qed

text \<open>A handler that ends in \<open>members.save\<close> and \<open>getConversation\<close>.\<close>

lemma roster_result_saved_view:
  assumes inv: "membership_inv db" and c: "find_conversation db cid = Some c"
    and t: "t \<in> set (active_members db cid)" and t': "mb_id t' = mb_id t" "mb_conv t' = cid"
    and a: "a \<in> fst ` set (roster (save_member t' db) cid)"
    and spec: "spec = Inr (roster (save_member t' db) cid)"
  shows "roster_result db cid (getConversation a cid (save_member t' db), save_member t' db) spec"
proof -
  have "find_conversation (save_member t' db) cid = Some c"
    using c by (simp add: find_conversation_def live_conversations_def)
  then obtain v where "getConversation a cid (save_member t' db) = Inr v"
    using getConversation_ok a by blast
  then show ?thesis using roster_result_save_member [OF inv t t' spec] by simp
qed

lemma active_member_props:
  assumes "find (\<lambda>m. mb_user m = u) (active_members db cid) = Some t"
  shows "t \<in> set (active_members db cid)" "mb_user t = u" "mb_conv t = cid" "mb_leftAt t = None"
    "map_of (roster db cid) u = Some (mb_role t)" "u \<in> fst ` set (roster db cid)"
  using assms roster_users [of t db cid]
  by (auto simp: set_active_members is_active_def map_of_roster dest: find_set)

lemma removeMember_refines:
  assumes inv: "membership_inv db" and c: "find_conversation db cid = Some c"
    and me: "find (\<lambda>m. mb_user m = a) (active_members db cid) = Some me"
  shows "roster_result db cid (removeMember clk a cid u db)
    (roster_spec (c_type c) (c_createdBy c) heir a (mb_role me) (RemoveMember u) (roster db cid))"
proof -
  note mk = membership_inv_member_keys [OF inv] and a = active_member_props [OF me]
  have final: "roster_result db cid
      (getConversation a cid (save_member (t\<lparr>mb_leftAt := Some (now clk)\<rparr>) db),
        save_member (t\<lparr>mb_leftAt := Some (now clk)\<rparr>) db) (Inr (roster_remove u (roster db cid)))"
    if t: "find (\<lambda>m. mb_user m = u) (active_members db cid) = Some t" and "u \<noteq> a" for t
  proof -
    note tp = active_member_props [OF t]
    have "roster (save_member (t\<lparr>mb_leftAt := Some (now clk)\<rparr>) db) cid = roster_remove u (roster db cid)"
      using tp roster_save_left [OF mk tp(1), of "t\<lparr>mb_leftAt := Some (now clk)\<rparr>" cid] by (simp add: is_active_def)
    moreover have "a \<in> fst ` set (roster_remove u (roster db cid))"
      using a(6) \<open>u \<noteq> a\<close> by (force simp: roster_remove_def)
    ultimately show ?thesis
      using tp by (intro roster_result_saved_view [OF inv c tp(1)]) simp_all
  qed
  show ?thesis
    using requireMembership_ok [OF c a(6)] assertGroupAdmin_cases [OF me, of c] final
    by (auto simp: removeMember_def admin_only_def map_of_roster Let_def split: option.splits)
qed

lemma setMemberRole_refines:
  assumes inv: "membership_inv db" and c: "find_conversation db cid = Some c"
    and me: "find (\<lambda>m. mb_user m = a) (active_members db cid) = Some me"
  shows "roster_result db cid (setMemberRole clk a cid u ro db)
    (roster_spec (c_type c) (c_createdBy c) heir a (mb_role me) (SetRole u ro) (roster db cid))"
proof -
  note mk = membership_inv_member_keys [OF inv] and a = active_member_props [OF me]
  have final: "roster_result db cid
      (getConversation a cid (save_member (t\<lparr>mb_role := ro\<rparr>) db), save_member (t\<lparr>mb_role := ro\<rparr>) db)
      (Inr (roster_role u ro (roster db cid)))"
    if t: "find (\<lambda>m. mb_user m = u) (active_members db cid) = Some t" for t
  proof -
    note tp = active_member_props [OF t]
    have ro: "roster (save_member (t\<lparr>mb_role := ro\<rparr>) db) cid = roster_role u ro (roster db cid)"
      using tp roster_save_role [OF mk tp(1), of "t\<lparr>mb_role := ro\<rparr>" cid] by (simp add: is_active_def)
    have "a \<in> fst ` set (roster_role u ro (roster db cid))"
      using a(6) by (metis fst_roster_role list.set_map)
    with ro show ?thesis
      using tp by (intro roster_result_saved_view [OF inv c tp(1)]) simp_all
  qed
  have self: "mb_role t = mb_role me"
    if "find (\<lambda>m. mb_user m = u) (active_members db cid) = Some t" "mb_user t = a" for t
    using that me active_member_props(2) [OF that(1)] by simp
  show ?thesis
    using requireMembership_ok [OF c a(6)] me final self
    by (cases ro) (auto simp: setMemberRole_def map_of_roster Let_def dest!: self split: option.splits)
qed

lemma heir_row_props:
  assumes "heir_row db cid a = Some h"
  shows "h \<in> set (active_members db cid)" "mb_user h \<noteq> a" "mb_conv h = cid" "mb_leftAt h = None"
    "\<forall>m\<in>set (active_members db cid). mb_user m \<noteq> a \<longrightarrow> mb_joinedAt h \<le> mb_joinedAt m"
proof -
  let ?os = "filter (\<lambda>m. mb_user m \<noteq> a) (active_members db cid)"
  obtain ms where o: "order_asc mb_joinedAt ?os = h # ms"
    using assms by (auto simp: heir_row_def split: list.splits)
  then have "h \<in> set ?os" by (metis list.set_intros(1) set_order(2))
  then show "h \<in> set (active_members db cid)" "mb_user h \<noteq> a" "mb_conv h = cid" "mb_leftAt h = None"
    by (auto simp: set_active_members is_active_def)
  have "\<forall>m\<in>set (h # ms). mb_joinedAt h \<le> mb_joinedAt m"
    using sorted_order_asc [of mb_joinedAt ?os] unfolding o by auto
  then show "\<forall>m\<in>set (active_members db cid). mb_user m \<noteq> a \<longrightarrow> mb_joinedAt h \<le> mb_joinedAt m"
    unfolding o [symmetric] by auto
qed

lemma heir_row_None: "heir_row db cid a = None \<longleftrightarrow> (\<forall>p\<in>set (roster db cid). fst p = a)"
proof -
  have "heir_row db cid a = None \<longleftrightarrow> order_asc mb_joinedAt (filter (\<lambda>m. mb_user m \<noteq> a) (active_members db cid)) = []"
    by (auto simp: heir_row_def split: list.splits)
  also have "\<dots> \<longleftrightarrow> filter (\<lambda>m. mb_user m \<noteq> a) (active_members db cid) = []"
    by (metis length_0_conv length_order(2))
  also have "\<dots> \<longleftrightarrow> (\<forall>p\<in>set (roster db cid). fst p = a)"
    by (auto simp: roster_def filter_empty_conv)
  finally show ?thesis .
qed

lemma leave_refines:
  assumes inv: "membership_inv db" and c: "find_conversation db cid = Some c"
    and me: "find (\<lambda>m. mb_user m = a) (active_members db cid) = Some me"
  shows "roster_result db cid (leave clk a cid db)
    (roster_spec (c_type c) (c_createdBy c) (map_option mb_user (heir_row db cid a)) a (mb_role me) Leave
      (roster db cid))"
proof -
  note mk = membership_inv_member_keys [OF inv] and a = active_member_props [OF me]
  let ?me = "me\<lparr>mb_leftAt := Some (now clk)\<rparr>"
  have plain: "roster_result db cid (Inr True, save_member ?me db) (Inr (roster_remove a (roster db cid)))"
    using a roster_save_left [OF mk a(1), of ?me cid]
    by (intro roster_result_save_member [OF inv a(1)]) (simp_all add: is_active_def)
  have heir: "roster_result db cid (Inr True, save_member ?me (save_member (h\<lparr>mb_role := OWNER\<rparr>) db))
      (Inr (roster_remove a (roster_role (mb_user h) OWNER (roster db cid))))"
    if h: "heir_row db cid a = Some h" for h
  proof -
    let ?h = "h\<lparr>mb_role := OWNER\<rparr>" and ?db = "save_member (h\<lparr>mb_role := OWNER\<rparr>) db"
    note hp = heir_row_props [OF h]
    have ro: "roster ?db k = (if k = cid then roster_role (mb_user h) OWNER (roster db cid) else roster db k)" for k
      using hp roster_save_role [OF mk hp(1), of ?h k] by (simp add: is_active_def)
    have mk1: "member_keys ?db"
      using mk by (intro member_keys_save) (simp_all add: ro member_keys_def)
    have ex1: "inv_except cid ?db"
      using hp by (intro inv_except_save_member [OF membership_inv_except [OF inv]]) (auto simp: set_active_members)
    have ne: "mb_id me \<noteq> mb_id h" using active_same_row(1) [OF mk a(1) hp(1)] a(2) hp(2) by auto
    have me1: "me \<in> set (active_members ?db cid)"
      using a(1) ne by (auto simp: set_active_members save_row_def image_iff)
    have "roster (save_member ?me ?db) k = (if k = cid then roster_remove a (roster ?db cid) else roster ?db k)" for k
      using a roster_save_left [OF mk1 me1, of ?me k] by (simp add: is_active_def)
    moreover have "inv_except cid (save_member ?me ?db)"
      using me1 a by (intro inv_except_save_member [OF ex1]) (auto simp: set_active_members)
    ultimately show ?thesis by (simp add: roster_result_def ro)
  qed
  have others: "filter (\<lambda>m. is_active m \<and> mb_user m \<noteq> a) (active_members db cid)
      = filter (\<lambda>m. mb_user m \<noteq> a) (active_members db cid)"
    by (rule filter_cong) (auto simp: set_active_members)
  have impl: "leave clk a cid db = (if c_type c = PRIVATE
      then (Inl (badRequest ''Private chats cannot be left. Delete is not supported.''), db)
      else (Inr True, save_member ?me (case (mb_role me, heir_row db cid a) of
          (OWNER, Some h) \<Rightarrow> save_member (h\<lparr>mb_role := OWNER\<rparr>) db | _ \<Rightarrow> db)))"
    using requireMembership_ok [OF c a(6)] me
    by (cases "mb_role me") (simp_all add: leave_def others heir_row_def split: list.splits)
  show ?thesis
    using plain heir by (cases "mb_role me"; cases "heir_row db cid a") (simp_all add: impl)
qed

text \<open>\<open>members.save(conversation.members)\<close> of \<open>deleteGroup\<close>: one row after the other.\<close>

lemma save_left_rows:
  assumes "inv_except cid db"
    and "\<forall>m\<in>set ms. \<not> is_active m \<and> mb_conv m = cid
        \<and> (\<exists>t\<in>set (members db). mb_id t = mb_id m \<and> mb_conv t = cid)"
  shows "inv_except cid (foldl (\<lambda>d m. save_member m d) db ms)
    \<and> conversations (foldl (\<lambda>d m. save_member m d) db ms) = conversations db
    \<and> active_members (foldl (\<lambda>d m. save_member m d) db ms) cid
        = filter (\<lambda>x. mb_id x \<notin> mb_id ` set ms) (active_members db cid)
    \<and> (\<forall>k. k \<noteq> cid \<longrightarrow> roster (foldl (\<lambda>d m. save_member m d) db ms) k = roster db k)"
  using assms
proof (induction ms arbitrary: db)
  case (Cons m ms)
  let ?db = "save_member m db"
  have "\<not> is_active m \<and> mb_conv m = cid \<and> (\<exists>t\<in>set (members db). mb_id t = mb_id m \<and> mb_conv t = cid)"
    by (rule bspec [OF Cons.prems(2)]) simp
  then obtain t where t: "t \<in> set (members db)" "mb_id t = mb_id m" "mb_conv t = cid"
    and m: "\<not> is_active m" "mb_conv m = cid" by blast
  have ex: "inv_except cid ?db"
    by (rule inv_except_save_member [OF Cons.prems(1) t(1,3)]) (simp_all add: t m)
  have am: "active_members ?db cid = filter (\<lambda>x. mb_id x \<noteq> mb_id m) (active_members db cid)"
    using m(1) by (simp add: active_members_filter filter_save_row_drop)
  have ro: "roster ?db k = roster db k" if "k \<noteq> cid" for k
    by (rule save_member_other_roster [OF inv_exceptD(4) [OF Cons.prems(1)] t(1)])
      (use that t m in simp_all)
  have rows: "\<exists>t\<in>set (members ?db). mb_id t = mb_id m' \<and> mb_conv t = cid" if "m' \<in> set ms" for m'
  proof -
    have "m' \<in> set (m # ms)" using that by simp
    from bspec [OF Cons.prems(2) this]
    obtain t' where "t' \<in> set (members db)" "mb_id t' = mb_id m'" "mb_conv t' = cid" by blast
    then show ?thesis using m(2)
      by (intro bexI [of _ "if mb_id t' = mb_id m then m else t'"]) (auto simp: save_row_def image_iff)
  qed
  show ?case
    using Cons.IH [OF ex] Cons.prems(2) rows am ro by (auto simp: filter_filter intro: filter_cong)
qed simp

lemma deleteGroup_refines:
  assumes inv: "membership_inv db" and c: "find_conversation db cid = Some c"
    and me: "find (\<lambda>m. mb_user m = a) (active_members db cid) = Some me"
  shows "roster_result db cid (deleteGroup clk a cid db)
    (roster_spec (c_type c) (c_createdBy c) heir a (mb_role me) DeleteGroup (roster db cid))"
proof -
  note a = active_member_props [OF me]
  let ?left = "map (\<lambda>m. if mb_leftAt m = None then m\<lparr>mb_leftAt := Some (now clk)\<rparr> else m) (active_members db cid)"
  let ?db1 = "foldl (\<lambda>d m. save_member m d) db ?left"
  let ?db2 = "soft_delete_conversation clk cid ?db1"
  have "\<forall>m\<in>set ?left. \<not> is_active m \<and> mb_conv m = cid
      \<and> (\<exists>t\<in>set (members db). mb_id t = mb_id m \<and> mb_conv t = cid)"
    by (auto simp: set_active_members is_active_def)
  note step = save_left_rows [OF membership_inv_except [OF inv] this]
  have ids_left: "mb_id ` set ?left = mb_id ` set (active_members db cid)"
  proof -
    have "map mb_id ?left = map mb_id (active_members db cid)" by simp
    then show ?thesis by (metis list.set_map)
  qed
  have cs: "conversations ?db1 = conversations db" using step by blast
  from ids_left have gone: "active_members ?db1 cid = []"
    using step by (auto simp: filter_empty_conv)
  have mem2: "members ?db2 = members ?db1" by (simp add: soft_delete_conversation_def)
  have ro2: "roster ?db2 k = (if k = cid then [] else roster db k)" for k
    using step gone by (simp add: roster_cong [OF mem2]) (simp add: roster_def)
  have keep: "\<exists>c0\<in>set (conversations ?db1). c_id d = c_id c0 \<and> c_type d = c_type c0
      \<and> c_pairKey d = c_pairKey c0 \<and> (c_id d \<noteq> cid \<longrightarrow> d = c0)"
    if "d \<in> set (conversations ?db2)" for d
    using that by (auto simp: soft_delete_conversation_def)
  have ids: "map c_id (conversations ?db2) = map c_id (conversations ?db1)"
    by (simp add: soft_delete_conversation_def comp_def if_distrib cong: if_cong)
  have types: "(\<lambda>c. (c_id c, c_type c)) ` set (conversations ?db2) = (\<lambda>c. (c_id c, c_type c)) ` set (conversations db)"
  proof -
    have "map (\<lambda>c. (c_id c, c_type c)) (conversations ?db2) = map (\<lambda>c. (c_id c, c_type c)) (conversations ?db1)"
      by (simp add: soft_delete_conversation_def)
    then have "set (map (\<lambda>c. (c_id c, c_type c)) (conversations ?db2))
        = set (map (\<lambda>c. (c_id c, c_type c)) (conversations ?db1))" by (rule arg_cong)
    then show ?thesis unfolding set_map cs .
  qed
  have ex1: "inv_except cid ?db1" using step by blast
  have ex2: "inv_except cid ?db2"
    unfolding inv_except_def
  proof (intro conjI ballI impI)
    have [simp]: "drawn ?db2 = drawn ?db1" "uuid_gen ?db2 = uuid_gen ?db1"
      by (simp_all add: drawn_def soft_delete_conversation_def)
    have cids: "c_id ` set (conversations ?db2) = c_id ` set (conversations ?db1)"
      using ids by (metis list.set_map)
    show "inj (uuid_gen ?db2)" "distinct (map c_id (conversations ?db2))"
      "c_id ` set (conversations ?db2) \<subseteq> drawn ?db2" "distinct (map mb_id (members ?db2))"
      "mb_id ` set (members ?db2) \<subseteq> drawn ?db2"
      "mb_conv ` set (members ?db2) \<subseteq> c_id ` set (conversations ?db2)"
      using inv_exceptD(1-6) [OF ex1] by (simp_all add: ids cids mem2)
    show "conv_ok d (roster ?db2 (c_id d))" if d: "d \<in> set (conversations ?db2)" "c_id d \<noteq> cid" for d
      using keep [OF d(1)] d(2) inv_exceptD(7) [OF ex1] roster_cong [OF mem2] by auto
    show "c_id d = c_id d'" if d: "d \<in> set (conversations ?db2)" "d' \<in> set (conversations ?db2)"
      "c_type d = PRIVATE" "c_type d' = PRIVATE" "c_pairKey d = c_pairKey d'" for d d'
    proof -
      from keep [OF d(1)] obtain e where e: "e \<in> set (conversations ?db1)" "c_id d = c_id e"
        "c_type d = c_type e" "c_pairKey d = c_pairKey e" by blast
      from keep [OF d(2)] obtain e' where e': "e' \<in> set (conversations ?db1)" "c_id d' = c_id e'"
        "c_type d' = c_type e'" "c_pairKey d' = c_pairKey e'" by blast
      show ?thesis unfolding e(2) e'(2)
        by (rule inv_except_pair [OF ex1 e(1) e'(1)]) (use d(3-5) e e' in simp_all)
    qed
  qed
  have "roster_result db cid (Inr v, ?db2) (Inr [])" for v :: "bool \<times> uuid list"
    using ex2 ro2 types by (simp add: roster_result_def)
  then show ?thesis
    using requireMembership_ok [OF c a(6)] find_conversation_Some [OF c] by (simp add: deleteGroup_def)
qed

lemmas roster_op_refines = addMembers_refines removeMember_refines setMemberRole_refines
  leave_refines deleteGroup_refines

lemma roster_result_apfst [simp]:
  "roster_result db cid (apfst (map_sum id f) out) spec = roster_result db cid out spec"
  by (cases out; cases "fst out") (auto simp: roster_result_def)

lemma run_roster_op_refines:
  assumes "membership_inv db" and "find_conversation db cid = Some c"
    and "find (\<lambda>m. mb_user m = a) (active_members db cid) = Some me"
  shows "roster_result db cid (run_roster_op clk a cid oper db)
    (roster_spec (c_type c) (c_createdBy c) (map_option mb_user (heir_row db cid a)) a (mb_role me) oper
      (roster db cid))"
  using roster_op_refines [OF assms] by (cases oper) (simp_all add: run_roster_op_def)

text \<open>Without a conversation or a membership, every roster handler fails and writes nothing.\<close>

lemma run_roster_op_denied:
  assumes "requireMembership db cid a = Inl e"
  shows "run_roster_op clk a cid oper db = (Inl e, db)"
  using assms by (cases oper)
    (simp_all add: run_roster_op_def addMembers_def removeMember_def setMemberRole_def leave_def deleteGroup_def)

lemma requireMembership_Inr_find:
  assumes "requireMembership db cid a = Inr conv"
  obtains c me where "find_conversation db cid = Some c" and "conv = (c, active_members db cid)"
    and "find (\<lambda>m. mb_user m = a) (active_members db cid) = Some me"
  using requireMembership_InrE [OF assms] by blast

lemma roster_spec_private:
  "roster_spec PRIVATE creator heir a mine oper r = Inr r' \<Longrightarrow> False"
  by (cases oper) (auto simp: admin_only_def)

lemma same_types:
  assumes "inv_except cid db'" and "membership_inv db"
    and "(\<lambda>c. (c_id c, c_type c)) ` set (conversations db') = (\<lambda>c. (c_id c, c_type c)) ` set (conversations db)"
    and "c \<in> set (conversations db)" and "c' \<in> set (conversations db')" and "c_id c' = c_id c"
  shows "c_type c' = c_type c"
proof -
  have "(c_id c', c_type c') \<in> (\<lambda>c. (c_id c, c_type c)) ` set (conversations db)"
    using assms(3,5) by (metis (no_types, lifting) imageI)
  then obtain d where "d \<in> set (conversations db)" "c_id d = c_id c'" "c_type d = c_type c'" by auto
  then have "d = c" using distinct_key_eq [OF membership_invD(2) [OF assms(2)], of d c] assms(4,6) by simp
  with \<open>c_type d = c_type c'\<close> show ?thesis by simp
qed

lemma run_roster_op_inv:
  assumes inv: "membership_inv db"
  shows "membership_inv (snd (run_roster_op clk a cid oper db))"
proof (cases "requireMembership db cid a")
  case (Inl e)
  with inv show ?thesis by (simp add: run_roster_op_denied)
next
  case (Inr conv)
  then obtain c me where c: "find_conversation db cid = Some c"
    and me: "find (\<lambda>m. mb_user m = a) (active_members db cid) = Some me"
    by (rule requireMembership_Inr_find)
  have cc: "c \<in> set (conversations db)" "c_id c = cid" using find_conversation_Some [OF c] by auto
  note ref = run_roster_op_refines [OF inv c me, of clk oper]
  show ?thesis
  proof (cases "fst (run_roster_op clk a cid oper db)")
    case (Inl e)
    with ref inv show ?thesis by (simp add: roster_result_def)
  next
    case (Inr v)
    let ?db = "snd (run_roster_op clk a cid oper db)"
    have spec: "roster_spec (c_type c) (c_createdBy c) (map_option mb_user (heir_row db cid a)) a (mb_role me)
          oper (roster db cid) = Inr (roster ?db cid)"
      and ex: "inv_except cid ?db"
      and ty: "(\<lambda>c. (c_id c, c_type c)) ` set (conversations ?db) = (\<lambda>c. (c_id c, c_type c)) ` set (conversations db)"
      using ref Inr by (simp_all add: roster_result_def)
    have g: "c_type c = GROUP" using spec roster_spec_private by (cases "c_type c") auto
    have "group_ok (roster db cid)" using membership_invD(7) [OF inv cc(1)] cc(2) g by (simp add: conv_ok_def)
    then have "group_ok (roster ?db cid)"
    proof (rule roster_spec_group_ok)
      show "(a, mb_role me) \<in> set (roster db cid)"
        using roster_mem [OF active_member_props(1) [OF me]] active_member_props(2) [OF me] by simp
      show "case map_option mb_user (heir_row db cid a) of None \<Rightarrow> \<forall>p\<in>set (roster db cid). fst p = a
          | Some h \<Rightarrow> h \<noteq> a \<and> h \<in> fst ` set (roster db cid)"
        using heir_row_None [of db cid a] heir_row_props(1,2) [of db cid a] roster_users
        by (auto split: option.splits)
    qed (use spec g in simp)
    then show ?thesis
      using same_types [OF ex inv ty cc(1)] cc(2) g by (intro inv_exceptI_close [OF ex]) (simp add: conv_ok_def)
  qed
qed

section \<open>Handlers that leave every roster alone\<close>

definition same_rosters :: "chat_db \<Rightarrow> chat_db \<Rightarrow> bool" where
  "same_rosters db db' \<longleftrightarrow> membership_inv db' \<and> (\<forall>k. roster db' k = roster db k)"

lemma same_rosters_refl: "membership_inv db \<Longrightarrow> same_rosters db db"
  by (simp add: same_rosters_def)

lemma same_rosters_trans: "same_rosters db db1 \<Longrightarrow> same_rosters db1 db2 \<Longrightarrow> same_rosters db db2"
  by (simp add: same_rosters_def)

lemma same_rosters_flags:
  assumes inv: "membership_inv db" and t: "find (\<lambda>m. mb_user m = u) (active_members db cid) = Some t"
    and t': "mb_id t' = mb_id t" "mb_conv t' = mb_conv t" "mb_user t' = mb_user t" "mb_role t' = mb_role t"
      "mb_leftAt t' = mb_leftAt t"
  shows "same_rosters db (save_member t' db)"
proof -
  note p = active_member_props [OF t]
  have ro: "roster (save_member t' db) k = roster db k" for k
    by (rule roster_save_flags [OF membership_inv_member_keys [OF inv] p(1)])
      (use p t' in \<open>simp_all add: is_active_def\<close>)
  moreover have "membership_inv (save_member t' db)"
    by (rule inv_save_member [OF inv p(1)])
      (use p t' membership_invD(7) [OF inv] in \<open>auto simp: ro\<close>)
  ultimately show ?thesis by (simp add: same_rosters_def)
qed

lemma same_rosters_conversation:
  assumes "membership_inv db" and "find_conversation db cid = Some c0" and "c_id c = c_id c0"
    and "c_type c = c_type c0" and "c_pairKey c = c_pairKey c0" and "c_deletedAt c = c_deletedAt c0"
  shows "same_rosters db (save_conversation clk c db)"
  unfolding same_rosters_def
  by (intro conjI allI roster_cong inv_save_conversation [OF assms(1), of c0])
    (use assms find_conversation_Some [OF assms(2)] in simp_all)

lemma same_rosters_frame:
  assumes "membership_inv db" and "members db' = members db" and "conversations db' = conversations db"
    and "uuid_gen db' = uuid_gen db" and "uuid_next db \<le> uuid_next db'"
  shows "same_rosters db db'"
  using inv_frame [OF assms] assms(2) by (auto simp: same_rosters_def intro: roster_cong)

lemma same_rosters_audit: "membership_inv db \<Longrightarrow> same_rosters db (recordAudit k a x t i mt db)"
  by (rule same_rosters_frame) simp_all

lemma same_rosters_inv: "same_rosters db db' \<Longrightarrow> membership_inv db'"
  by (simp add: same_rosters_def)

text \<open>Every handler of this section starts by loading the conversation for an active member.\<close>

lemma membership_cases:
  assumes "\<And>e. requireMembership db cid a = Inl e \<Longrightarrow> P"
    and "\<And>c me. \<lbrakk>requireMembership db cid a = Inr (c, active_members db cid); find_conversation db cid = Some c;
        c_id c = cid; find (\<lambda>m. mb_user m = a) (active_members db cid) = Some me\<rbrakk> \<Longrightarrow> P"
  shows P
proof (cases "requireMembership db cid a")
  case (Inl e)
  then show P by (rule assms(1))
next
  case (Inr conv)
  then obtain c me where "find_conversation db cid = Some c" "conv = (c, active_members db cid)"
    "find (\<lambda>m. mb_user m = a) (active_members db cid) = Some me" by (rule requireMembership_Inr_find)
  with Inr show P using assms(2) find_conversation_Some by blast
qed

lemma pinConversation_rosters:
  "membership_inv db \<Longrightarrow> same_rosters db (snd (pinConversation clk a cid p db))"
  by (rule membership_cases [of db cid a])
    (auto simp: pinConversation_def Let_def intro: same_rosters_refl same_rosters_flags split: option.splits)

lemma muteConversation_rosters:
  "membership_inv db \<Longrightarrow> same_rosters db (snd (muteConversation clk a cid p db))"
  by (rule membership_cases [of db cid a])
    (auto simp: muteConversation_def Let_def intro: same_rosters_refl same_rosters_flags split: option.splits)

lemma markSeen_rosters:
  "membership_inv db \<Longrightarrow> same_rosters db (snd (markSeen clk a cid mid db))"
  by (rule membership_cases [of db cid a])
    (auto simp: markSeen_def Let_def intro: same_rosters_refl same_rosters_flags split: option.splits sum.splits)

lemma updateGroup_rosters:
  "membership_inv db \<Longrightarrow> same_rosters db (snd (updateGroup clk a cid n db))"
  by (rule membership_cases [of db cid a])
    (auto simp: updateGroup_def Let_def intro: same_rosters_refl same_rosters_conversation split: option.splits)

lemma setDisappearing_rosters:
  assumes "membership_inv db"
  shows "same_rosters db (snd (setDisappearingMessages clk a cid d db))"
proof (rule membership_cases [of db cid a])
  fix c me
  assume r: "requireMembership db cid a = Inr (c, active_members db cid)" and c: "find_conversation db cid = Some c"
  have 1: "same_rosters db (save_conversation clk (c\<lparr>c_disappearing := d\<rparr>) db)"
    by (rule same_rosters_conversation [OF assms c]) simp_all
  then show ?thesis
    using r assms same_rosters_trans [OF 1 same_rosters_audit [OF same_rosters_inv [OF 1]]]
    by (simp add: setDisappearingMessages_def Let_def same_rosters_refl)
qed (use assms in \<open>simp add: setDisappearingMessages_def same_rosters_refl\<close>)

section \<open>Error frames\<close>

lemma getConversation_after:
  assumes "same_rosters db db'" and "find (\<lambda>m. mb_user m = a) (active_members db cid) = Some me"
    and "find_conversation db' cid = Some c"
  shows "\<exists>v. getConversation a cid db' = Inr v"
  using assms active_member_props(6) [OF assms(2)]
  by (intro getConversation_ok) (simp_all add: same_rosters_def)

lemma find_conversation_save_member [simp]:
  "find_conversation (save_member m db) cid = find_conversation db cid"
  by (simp add: find_conversation_def live_conversations_def)

lemma find_conversation_recordAudit [simp]:
  "find_conversation (recordAudit k a x t i mt db) cid = find_conversation db cid"
  by (simp add: find_conversation_def live_conversations_def)

lemma find_conversation_saved:
  assumes "find_conversation db cid = Some c0" and "c_id c = c_id c0" and "c_deletedAt c = None"
  shows "\<exists>c'. find_conversation (save_conversation clk c db) cid = Some c'"
proof -
  let ?f = "\<lambda>x. if c_id x = c_id c then (if x = c then x else c\<lparr>c_updatedAt := db_now clk\<rparr>) else x"
  have c0: "c0 \<in> set (conversations db)" "c_id c0 = cid" using find_conversation_Some [OF assms(1)] by auto
  have "?f c0 \<in> set (live_conversations (save_conversation clk c db))" and "c_id (?f c0) = cid"
    using c0 assms by (auto simp: live_conversations_def save_conversation_def)
  then have "find (\<lambda>x. c_id x = cid) (live_conversations (save_conversation clk c db)) \<noteq> None"
    unfolding find_None_set by blast
  then show ?thesis by (auto simp: find_conversation_def)
qed

lemma pinConversation_error:
  "membership_inv db \<Longrightarrow> fst (pinConversation clk a cid p db) = Inl e \<Longrightarrow> snd (pinConversation clk a cid p db) = db"
proof (rule membership_cases [of db cid a])
  fix c me
  assume inv: "membership_inv db" and err: "fst (pinConversation clk a cid p db) = Inl e"
    and r: "requireMembership db cid a = Inr (c, active_members db cid)" and c: "find_conversation db cid = Some c"
    and me: "find (\<lambda>m. mb_user m = a) (active_members db cid) = Some me"
  let ?db = "save_member (me\<lparr>mb_pinnedAt := (if p then Some (now clk) else None)\<rparr>) db"
  have "same_rosters db ?db" by (rule same_rosters_flags [OF inv me]) simp_all
  then have "\<exists>v. getConversation a cid ?db = Inr v" using me c by (intro getConversation_after) simp_all
  with err r me show ?thesis by (auto simp: pinConversation_def)
qed (auto simp: pinConversation_def)

lemma muteConversation_error:
  "membership_inv db \<Longrightarrow> fst (muteConversation clk a cid p db) = Inl e \<Longrightarrow> snd (muteConversation clk a cid p db) = db"
proof (rule membership_cases [of db cid a])
  fix c me
  assume inv: "membership_inv db" and err: "fst (muteConversation clk a cid p db) = Inl e"
    and r: "requireMembership db cid a = Inr (c, active_members db cid)" and c: "find_conversation db cid = Some c"
    and me: "find (\<lambda>m. mb_user m = a) (active_members db cid) = Some me"
  let ?db = "save_member (me\<lparr>mb_mutedAt := (if p then Some (now clk) else None)\<rparr>) db"
  have "same_rosters db ?db" by (rule same_rosters_flags [OF inv me]) simp_all
  then have "\<exists>v. getConversation a cid ?db = Inr v" using me c by (intro getConversation_after) simp_all
  with err r me show ?thesis by (auto simp: muteConversation_def)
qed (auto simp: muteConversation_def)

lemma markSeen_error: "fst (markSeen clk a cid mid db) = Inl e \<Longrightarrow> snd (markSeen clk a cid mid db) = db"
  by (auto simp: markSeen_def Let_def split: sum.splits option.splits if_splits)

lemma updateGroup_error:
  "membership_inv db \<Longrightarrow> fst (updateGroup clk a cid n db) = Inl e \<Longrightarrow> snd (updateGroup clk a cid n db) = db"
proof (rule membership_cases [of db cid a])
  fix c me
  assume inv: "membership_inv db" and err: "fst (updateGroup clk a cid n db) = Inl e"
    and r: "requireMembership db cid a = Inr (c, active_members db cid)" and c: "find_conversation db cid = Some c"
    and me: "find (\<lambda>m. mb_user m = a) (active_members db cid) = Some me"
  let ?db = "save_conversation clk (c\<lparr>c_name := Some (trim n)\<rparr>) db"
  have s: "same_rosters db ?db" by (rule same_rosters_conversation [OF inv c]) simp_all
  obtain c' where "find_conversation ?db cid = Some c'"
    using find_conversation_saved [OF c, of "c\<lparr>c_name := Some (trim n)\<rparr>" clk] find_conversation_Some [OF c] by auto
  then have "\<exists>v. getConversation a cid ?db = Inr v" by (rule getConversation_after [OF s me])
  with err r show ?thesis by (auto simp: updateGroup_def Let_def split: option.splits if_splits)
qed (auto simp: updateGroup_def)

lemma setDisappearing_error:
  "membership_inv db \<Longrightarrow> fst (setDisappearingMessages clk a cid d db) = Inl e
   \<Longrightarrow> snd (setDisappearingMessages clk a cid d db) = db"
proof (rule membership_cases [of db cid a])
  fix c me
  assume inv: "membership_inv db" and err: "fst (setDisappearingMessages clk a cid d db) = Inl e"
    and r: "requireMembership db cid a = Inr (c, active_members db cid)" and c: "find_conversation db cid = Some c"
    and cid: "c_id c = cid" and me: "find (\<lambda>m. mb_user m = a) (active_members db cid) = Some me"
  let ?db1 = "save_conversation clk (c\<lparr>c_disappearing := d\<rparr>) db"
  let ?db = "recordAudit clk a ''conversation.disappearing_updated'' (Some ''conversation'') (Some cid)
    [(''durationSeconds'', MetaNumber d)] ?db1"
  have s: "same_rosters db ?db1" by (rule same_rosters_conversation [OF inv c]) simp_all
  then have s2: "same_rosters db ?db"
    using same_rosters_trans same_rosters_audit same_rosters_inv by blast
  obtain c' where "find_conversation ?db1 cid = Some c'"
    using find_conversation_saved [OF c, of "c\<lparr>c_disappearing := d\<rparr>" clk] find_conversation_Some [OF c] by auto
  then have "\<exists>v. getConversation a cid ?db = Inr v" by (intro getConversation_after [OF s2 me]) simp
  with err r cid show ?thesis by (auto simp: setDisappearingMessages_def Let_def split: option.splits if_splits)
qed (auto simp: setDisappearingMessages_def)

lemma run_roster_op_error:
  assumes inv: "membership_inv db" and err: "fst (run_roster_op clk a cid oper db) = Inl e"
  shows "snd (run_roster_op clk a cid oper db) = db"
proof (rule membership_cases [of db cid a])
  fix c me
  assume "find_conversation db cid = Some c" and "find (\<lambda>m. mb_user m = a) (active_members db cid) = Some me"
  from run_roster_op_refines [OF inv this, of clk oper] err show ?thesis by (simp add: roster_result_def)
qed (simp add: run_roster_op_denied)

section \<open>Read cursors\<close>

text \<open>Marking a conversation seen empties its unread count, clock skew aside.\<close>

lemma markSeen_clears_unread:
  assumes inv: "membership_inv db" and run: "markSeen clk a cid mid db = (Inr r, db')"
    and past: "\<forall>m\<in>set (messages db). m_conv m = cid \<longrightarrow> m_createdAt m \<le> now clk"
  shows "unreadCountFor db' a cid = 0"
proof (rule membership_cases [of db cid a])
  fix c me
  assume r: "requireMembership db cid a = Inr (c, active_members db cid)" and cid: "c_id c = cid"
    and me: "find (\<lambda>m. mb_user m = a) (active_members db cid) = Some me"
  let ?me = "me\<lparr>mb_lastReadAt := Some (now clk)\<rparr>"
  note mk = membership_inv_member_keys [OF inv] and p = active_member_props [OF me]
  have db': "db' = (case mb_lastReadAt me of None \<Rightarrow> save_member ?me db
      | Some t \<Rightarrow> if now clk > t then save_member ?me db else db)"
    using run r me by (auto simp: markSeen_def Let_def split: option.splits sum.splits if_splits)
  have mine: "x = me" if "x \<in> set (members db)" "mb_user x = a" "mb_conv x = cid" "mb_leftAt x = None" for x
    using active_same_row(2) [OF mk _ p(1), of x] that p by (simp add: set_active_members is_active_def)
  have read: "\<exists>t\<ge>now clk. mb_lastReadAt x = Some t"
    if x: "x \<in> set (members db')" "mb_user x = a" "mb_conv x = cid" "mb_leftAt x = None" for x
  proof -
    have "x = ?me \<or> (x \<in> set (members db) \<and> (mb_id x \<noteq> mb_id me \<or> (\<exists>t\<ge>now clk. mb_lastReadAt me = Some t)))"
      using x(1) unfolding db' by (auto dest: set_save_row split: option.splits if_splits)
    then show ?thesis using mine x by auto
  qed
  have msgs: "live_messages db' = live_messages db"
    unfolding db' by (simp add: live_messages_def split: option.split)
  have "unread_join db' a cid = []"
  proof -
    have False if "(m, x) \<in> set (unread_join db' a cid)" for m x
    proof -
      have m: "m \<in> set (messages db)" "m_conv m = cid"
        and x: "x \<in> set (members db')" "mb_user x = a" "mb_conv x = cid" "mb_leftAt x = None"
        and un: "case mb_lastReadAt x of None \<Rightarrow> True | Some t \<Rightarrow> m_createdAt m > t"
        using that unfolding unread_join_def msgs by (auto simp: live_messages_def)
      from read [OF x] past m un show False by force
    qed
    then show ?thesis by (metis list.set_intros(1) neq_Nil_conv surj_pair)
  qed
  then show ?thesis by (simp add: unreadCountFor_def unreadCounts_def)
qed (use run in \<open>simp add: markSeen_def\<close>)

end
