(* ===== verification/ChatMessages.thy ===== *)
theory ChatMessages
  imports ChatGroups
begin

text \<open>
  Messages: the handlers of \<open>chat.service.ts\<close> that send, edit, react to, pin, forward,
  delete and expire messages, with \<open>resolvePrivateDelivery\<close>, the rule of the "block
  wall" that decides who receives a private message.
\<close>

section \<open>Delivery\<close>

record delivery =
  d_forbidden :: bool
  d_undelivered :: bool
  d_recipientIds :: "uuid list"

definition resolvePrivateDelivery :: "chat_db \<Rightarrow> conversation \<times> member list \<Rightarrow> uuid \<Rightarrow> delivery" where
  "resolvePrivateDelivery db conv actorId =
     (if c_type (fst conv) \<noteq> PRIVATE
      then \<lparr>d_forbidden = False, d_undelivered = False, d_recipientIds = recipientIds (snd conv)\<rparr>
      else case other_member (snd conv) actorId of
        None \<Rightarrow> \<lparr>d_forbidden = False, d_undelivered = False, d_recipientIds = recipientIds (snd conv)\<rparr>
      | Some other \<Rightarrow>
         (let byMe = hasBlock db actorId (mb_user other); ofMe = hasBlock db (mb_user other) actorId in
          if ofMe then \<lparr>d_forbidden = True, d_undelivered = False, d_recipientIds = []\<rparr>
          else if byMe then \<lparr>d_forbidden = False, d_undelivered = True, d_recipientIds = [actorId]\<rparr>
          else \<lparr>d_forbidden = False, d_undelivered = False, d_recipientIds = recipientIds (snd conv)\<rparr>))"

section \<open>Sending\<close>

record send_payload =
  sp_actorId :: uuid
  sp_conversationId :: uuid
  sp_body :: "string option"
  sp_type :: "string option"
  sp_replyTo :: "uuid option"
  sp_attachmentUrl :: "string option"
  sp_attachmentMime :: "string option"
  sp_attachmentName :: "string option"
  sp_attachmentSize :: "int option"
  sp_mentions :: "uuid list option"
  sp_linkPreview :: "link_preview option"
  sp_systemCall :: bool

text \<open>The columns that \<open>messages.create({...})\<close> leaves to their defaults.\<close>

definition new_message :: "clock \<Rightarrow> uuid \<Rightarrow> uuid \<Rightarrow> uuid \<Rightarrow> string \<Rightarrow> message_type \<Rightarrow> message" where
  "new_message clk mid cid sender body ty =
     \<lparr>m_id = mid, m_conv = cid, m_sender = sender, m_body = body, m_type = ty, m_replyTo = None,
      m_deletedForEveryoneAt = None, m_editedAt = None, m_pinnedAt = None, m_pinnedBy = None,
      m_attachmentUrl = None, m_attachmentMime = None, m_attachmentName = None, m_attachmentSize = None,
      m_forwardedFrom = None, m_mentions = [], m_linkPreview = None, m_expiresAt = None,
      m_undelivered = False, m_createdAt = db_now clk, m_deletedAt = None\<rparr>"

definition insert_message :: "message \<Rightarrow> chat_db \<Rightarrow> chat_db" where
  "insert_message m db = draw_uuid (db\<lparr>messages := messages db @ [m]\<rparr>)"

text \<open>\<open>conversation.lastMessageAt = saved.createdAt; conversations.save(conversation)\<close>\<close>

definition store_message :: "clock \<Rightarrow> conversation \<Rightarrow> message \<Rightarrow> chat_db \<Rightarrow> chat_db" where
  "store_message clk c m db =
     save_conversation clk (c\<lparr>c_lastMessageAt := Some (m_createdAt m)\<rparr>) (insert_message m db)"

text \<open>Browsers label voice notes \<open>video/webm\<close>; the declared type decides.\<close>

definition fix_mime :: "string option \<Rightarrow> string option \<Rightarrow> string option" where
  "fix_mime mime ty = (let raw = trim_or_null mime in
     if raw = Some ''video/webm'' \<and> ty = Some (message_type_value AUDIO) then Some ''audio/webm'' else raw)"

definition attachment_type :: "string option \<Rightarrow> string option \<Rightarrow> message_type" where
  "attachment_type mime ty =
     (if opt_starts_with mime ''image/'' then IMAGE
      else if opt_starts_with mime ''audio/'' \<or> ty = Some (message_type_value AUDIO) \<or> mime = Some ''video/webm''
      then AUDIO else FILE)"

definition default_body :: "string \<Rightarrow> message_type \<Rightarrow> string" where
  "default_body rawBody ty =
     (if truthy rawBody then rawBody
      else (case ty of IMAGE \<Rightarrow> ''[Image]'' | AUDIO \<Rightarrow> ''[Voice note]'' | FILE \<Rightarrow> ''[File]'' | _ \<Rightarrow> ''''))"

definition expiry_of :: "clock \<Rightarrow> conversation \<Rightarrow> instant option" where
  "expiry_of clk c = (if c_disappearing c > 0 then Some (now clk + c_disappearing c * 1000) else None)"

definition message_audit_meta :: "message \<Rightarrow> (string \<times> meta_value) list" where
  "message_audit_meta m = [(''messageId'', MetaString (m_id m)),
     (''type'', MetaString (message_type_value (m_type m))), (''undelivered'', MetaBool (m_undelivered m))]"

definition send_call :: "clock \<Rightarrow> send_payload \<Rightarrow> string \<Rightarrow> send_result handler" where
  "send_call clk p rawBody db =
     (if \<not> sp_systemCall p
      then (Inl (badRequest ''Call history messages are system-generated only''), db)
      else if \<not> truthy rawBody then (Inl (badRequest ''Call message body is required''), db)
      else case requireMembership db (sp_conversationId p) (sp_actorId p) of
        Inl e \<Rightarrow> (Inl e, db)
      | Inr conv \<Rightarrow>
         (let m = new_message clk (next_uuid db) (c_id (fst conv)) (sp_actorId p) rawBody CALL in
          (Inr (toMessageView m (snd conv) None [] (sp_actorId p), recipientIds (snd conv)),
           store_message clk (fst conv) m db)))"

text \<open>The reply target of a send: none, a message, or the error to throw.\<close>

definition find_reply_target :: "chat_db \<Rightarrow> uuid \<Rightarrow> uuid option \<Rightarrow> message option rpc" where
  "find_reply_target db cid replyTo =
     (if opt_truthy replyTo
      then (case find_message_in db (nullish replyTo '''') cid of
         None \<Rightarrow> Inl (badRequest ''Reply target must be a message in this conversation'')
       | Some r \<Rightarrow> (if m_deletedForEveryoneAt r \<noteq> None
            then Inl (badRequest ''Cannot reply to a message deleted for everyone'') else Inr (Some r)))
      else Inr None)"

definition send_user :: "clock \<Rightarrow> send_payload \<Rightarrow> string option \<Rightarrow> string \<Rightarrow> message_type \<Rightarrow> send_result handler" where
  "send_user clk p attachmentUrl rawBody declared db =
     (let attachmentMime = fix_mime (sp_attachmentMime p) (sp_type p);
          ty = (if attachmentUrl \<noteq> None then attachment_type attachmentMime (sp_type p) else declared);
          body = default_body rawBody ty;
          mentionUserIds = filter (\<lambda>u. u \<noteq> sp_actorId p) (js_uniq (filter truthy (nullish (sp_mentions p) []))) in
      case requireMembership db (sp_conversationId p) (sp_actorId p) of
        Inl e \<Rightarrow> (Inl e, db)
      | Inr conv \<Rightarrow>
         (let dl = resolvePrivateDelivery db conv (sp_actorId p) in
          if d_forbidden dl then (Inl (forbidden ''You cannot message this user''), db)
          else case find_reply_target db (c_id (fst conv)) (sp_replyTo p) of
            Inl e \<Rightarrow> (Inl e, db)
          | Inr replyTo \<Rightarrow>
             (let activeMemberIds = set (map mb_user (filter is_active (snd conv)));
                  m = (new_message clk (next_uuid db) (c_id (fst conv)) (sp_actorId p) body ty)
                    \<lparr>m_replyTo := map_option m_id replyTo,
                     m_attachmentUrl := attachmentUrl, m_attachmentMime := attachmentMime,
                     m_attachmentName := trim_or_null (sp_attachmentName p),
                     m_attachmentSize := sp_attachmentSize p,
                     m_mentions := filter (\<lambda>u. u \<in> activeMemberIds) mentionUserIds,
                     m_linkPreview := sp_linkPreview p, m_undelivered := d_undelivered dl,
                     m_expiresAt := expiry_of clk (fst conv)\<rparr> in
              (Inr (toMessageView m (snd conv) replyTo [] (sp_actorId p), d_recipientIds dl),
               recordAudit clk (sp_actorId p) ''message.sent'' (Some ''conversation'') (Some (c_id (fst conv)))
                 (message_audit_meta m) (store_message clk (fst conv) m db)))))"

definition sendMessage :: "clock \<Rightarrow> send_payload \<Rightarrow> send_result handler" where
  "sendMessage clk p db =
     (let attachmentUrl = trim_or_null (sp_attachmentUrl p);
          rawBody = trim (nullish (sp_body p) '''') in
      if \<not> truthy rawBody \<and> attachmentUrl = None
      then (Inl (badRequest ''Message body or attachment is required''), db)
      else case message_type_of (nullish (sp_type p) (message_type_value TEXT)) of
        None \<Rightarrow> (Inl (badRequest ''Unsupported message type''), db)
      | Some ty \<Rightarrow> (if ty = CALL then send_call clk p rawBody db
                   else send_user clk p attachmentUrl rawBody ty db))"

section \<open>Reading, editing, reacting\<close>

definition getMessage :: "uuid \<Rightarrow> uuid \<Rightarrow> uuid \<Rightarrow> chat_db \<Rightarrow> message_view rpc" where
  "getMessage actorId conversationId messageId db =
     (case requireMembership db conversationId actorId of
        Inl e \<Rightarrow> Inl e
      | Inr conv \<Rightarrow>
         (case find_message_in db messageId conversationId of
            None \<Rightarrow> Inl (notFound ''Message not found'')
          | Some m \<Rightarrow>
             (if is_hidden db (m_id m) actorId then Inl (notFound ''Message not found'')
              else Inr (toMessageView m (snd conv)
                     (loadReplyParents db [m] (nullish (m_replyTo m) ''''))
                     (nullish (loadReactionsByMessageIds db [m_id m] (m_id m)) []) actorId))))"

text \<open>The tail shared by the handlers that answer with a stored message.\<close>

definition stored_view :: "chat_db \<Rightarrow> message \<Rightarrow> member list \<Rightarrow> uuid \<Rightarrow> message_view" where
  "stored_view db m ms actorId = toMessageView m ms (reply_parent db m) (reactions_of db (m_id m)) actorId"

definition EDIT_WINDOW_MS :: int where
  "EDIT_WINDOW_MS = 15 * 60 * 1000"

definition editMessage :: "clock \<Rightarrow> uuid \<Rightarrow> uuid \<Rightarrow> uuid \<Rightarrow> string \<Rightarrow> send_result handler" where
  "editMessage clk actorId conversationId messageId newBody db =
     (case requireMembership db conversationId actorId of
        Inl e \<Rightarrow> (Inl e, db)
      | Inr conv \<Rightarrow>
         (case find_message_in db messageId (c_id (fst conv)) of
            None \<Rightarrow> (Inl (notFound ''Message''), db)
          | Some m \<Rightarrow>
             (if m_sender m \<noteq> actorId then (Inl (forbidden ''Only the sender can edit this message''), db)
              else if m_deletedForEveryoneAt m \<noteq> None
              then (Inl (badRequest ''Cannot edit a deleted message''), db)
              else if now clk - m_createdAt m > EDIT_WINDOW_MS
              then (Inl (badRequest ''Messages can only be edited within 15 minutes''), db)
              else let body = trim newBody in
                if \<not> truthy body then (Inl (badRequest ''Message body is required''), db)
                else let m' = m\<lparr>m_body := body, m_editedAt := Some (now clk)\<rparr>;
                         db' = save_message m' db in
                  (Inr (stored_view db' m' (snd conv) actorId, recipientIds (snd conv)), db'))))"

definition toggle_reaction :: "uuid \<Rightarrow> uuid \<Rightarrow> string \<Rightarrow> chat_db \<Rightarrow> chat_db" where
  "toggle_reaction mid userId emoji db =
     (case find (\<lambda>r. rx_message r = mid \<and> rx_user r = userId \<and> rx_emoji r = emoji) (messageReactions db) of
        Some existing \<Rightarrow> db\<lparr>messageReactions := filter (\<lambda>r. rx_id r \<noteq> rx_id existing) (messageReactions db)\<rparr>
      | None \<Rightarrow> draw_uuid (db\<lparr>messageReactions := messageReactions db @
          [\<lparr>rx_id = next_uuid db, rx_message = mid, rx_user = userId, rx_emoji = emoji\<rparr>]\<rparr>))"

definition reactMessage :: "uuid \<Rightarrow> uuid \<Rightarrow> uuid \<Rightarrow> string \<Rightarrow> send_result handler" where
  "reactMessage actorId conversationId messageId emoji db =
     (case requireMembership db conversationId actorId of
        Inl e \<Rightarrow> (Inl e, db)
      | Inr conv \<Rightarrow>
         (if emoji \<notin> set ALLOWED_REACTIONS then (Inl (badRequest ''Unsupported reaction''), db)
          else case find_message_in db messageId (c_id (fst conv)) of
            None \<Rightarrow> (Inl (notFound ''Message''), db)
          | Some m \<Rightarrow>
             (if m_deletedForEveryoneAt m \<noteq> None
              then (Inl (badRequest ''Cannot react to a deleted message''), db)
              else let db' = toggle_reaction (m_id m) actorId emoji db in
                (Inr (stored_view db' m (snd conv) actorId, recipientIds (snd conv)), db'))))"

section \<open>Pins\<close>

definition pinned_in :: "chat_db \<Rightarrow> uuid \<Rightarrow> message list" where
  "pinned_in db cid = filter (\<lambda>m. m_conv m = cid \<and> m_pinnedAt m \<noteq> None \<and> m_deletedForEveryoneAt m = None)
     (live_messages db)"

definition pinMessage :: "clock \<Rightarrow> uuid \<Rightarrow> uuid \<Rightarrow> uuid \<Rightarrow> bool \<Rightarrow> send_result handler" where
  "pinMessage clk actorId conversationId messageId pinned db =
     (case requireMembership db conversationId actorId of
        Inl e \<Rightarrow> (Inl e, db)
      | Inr conv \<Rightarrow>
         (case find_message_in db messageId (c_id (fst conv)) of
            None \<Rightarrow> (Inl (notFound ''Message''), db)
          | Some m \<Rightarrow>
             (if m_deletedForEveryoneAt m \<noteq> None then (Inl (badRequest ''Cannot pin a deleted message''), db)
              else if m_type m = CALL then (Inl (badRequest ''Cannot pin call history messages''), db)
              else if pinned \<and> m_pinnedAt m = None \<and> length (pinned_in db (c_id (fst conv))) \<ge> 3
              then (Inl (badRequest ''You can pin up to 3 messages in a chat. Unpin one first.''), db)
              else let changed = (if pinned then m_pinnedAt m = None else m_pinnedAt m \<noteq> None);
                       m' = (if changed
                             then m\<lparr>m_pinnedAt := (if pinned then Some (now clk) else None),
                                    m_pinnedBy := (if pinned then Some actorId else None)\<rparr> else m);
                       db' = (if changed then save_message m' db else db) in
                (Inr (stored_view db' m' (snd conv) actorId, recipientIds (snd conv)), db'))))"

definition listPinnedMessages :: "uuid \<Rightarrow> uuid \<Rightarrow> chat_db \<Rightarrow> message_view list rpc" where
  "listPinnedMessages actorId conversationId db =
     (case requireMembership db conversationId actorId of
        Inl e \<Rightarrow> Inl e
      | Inr conv \<Rightarrow>
         (let items = take 10 (order_desc (\<lambda>m. nullish (m_pinnedAt m) 0)
                (filter (\<lambda>m. \<not> is_hidden db (m_id m) actorId) (pinned_in db conversationId)));
              replyMap = loadReplyParents db items;
              rxs = loadReactionsByMessageIds db (map m_id items) in
          Inr (map (\<lambda>m. toMessageView m (snd conv) (replyMap (nullish (m_replyTo m) ''''))
                (nullish (rxs (m_id m)) []) actorId) items)))"

section \<open>Deleting and expiring\<close>

definition wipe_message :: "clock \<Rightarrow> message \<Rightarrow> message" where
  "wipe_message clk m = m\<lparr>m_deletedForEveryoneAt := Some (now clk), m_attachmentUrl := None,
     m_attachmentMime := None, m_attachmentName := None, m_attachmentSize := None,
     m_pinnedAt := None, m_pinnedBy := None\<rparr>"

definition DELETE_FOR_EVERYONE_WINDOW_MS :: int where
  "DELETE_FOR_EVERYONE_WINDOW_MS = 0"

definition hide_message :: "uuid \<Rightarrow> uuid \<Rightarrow> chat_db \<Rightarrow> chat_db" where
  "hide_message mid userId db =
     (if is_hidden db mid userId then db
      else db\<lparr>messageHides := messageHides db @ [\<lparr>h_message = mid, h_user = userId\<rparr>]\<rparr>)"

definition deleteMessage :: "clock \<Rightarrow> uuid \<Rightarrow> uuid \<Rightarrow> uuid \<Rightarrow> bool \<Rightarrow> delete_result handler" where
  "deleteMessage clk actorId conversationId messageId forEveryone db =
     (case requireMembership db conversationId actorId of
        Inl e \<Rightarrow> (Inl e, db)
      | Inr conv \<Rightarrow>
         (case find_message_in db messageId (c_id (fst conv)) of
            None \<Rightarrow> (Inl (notFound ''Message''), db)
          | Some m \<Rightarrow>
             (if forEveryone then
                (if m_sender m \<noteq> actorId
                 then (Inl (forbidden ''Only the sender can delete a message for everyone''), db)
                 else if m_deletedForEveryoneAt m \<noteq> None
                 then (Inr \<lparr>dr_message = stored_view db m (snd conv) actorId, dr_forEveryone = True,
                            dr_recipientIds = recipientIds (snd conv), dr_removedAttachmentUrl = None\<rparr>, db)
                 else if DELETE_FOR_EVERYONE_WINDOW_MS > 0
                       \<and> now clk - m_createdAt m > DELETE_FOR_EVERYONE_WINDOW_MS
                 then (Inl (badRequest ''Messages can only be deleted for everyone within the allowed time window''), db)
                 else let m' = wipe_message clk m; db' = save_message m' db in
                   (Inr \<lparr>dr_message = stored_view db' m' (snd conv) actorId, dr_forEveryone = True,
                         dr_recipientIds = recipientIds (snd conv),
                         dr_removedAttachmentUrl = m_attachmentUrl m\<rparr>, db'))
              else let db' = hide_message (m_id m) actorId db in
                (Inr \<lparr>dr_message = stored_view db' m (snd conv) actorId, dr_forEveryone = False,
                      dr_recipientIds = [actorId], dr_removedAttachmentUrl = None\<rparr>, db'))))"

text \<open>The sweep of disappearing messages, over the rows the query returned.\<close>

fun expire_loop :: "clock \<Rightarrow> message list \<Rightarrow> chat_db \<Rightarrow> delete_result list \<times> chat_db" where
  "expire_loop clk [] db = ([], db)"
| "expire_loop clk (m # due) db =
     (case find_conversation db (m_conv m) of
        None \<Rightarrow> expire_loop clk due (save_message (m\<lparr>m_expiresAt := None\<rparr>) db)
      | Some c \<Rightarrow>
         (let m' = (wipe_message clk m)\<lparr>m_expiresAt := None\<rparr>;
              db' = save_message m' db;
              ms = members_of db (c_id c);
              (rest, db'') = expire_loop clk due db' in
          (\<lparr>dr_message = toMessageView m' ms (reply_parent db' m') [] (m_sender m), dr_forEveryone = True,
            dr_recipientIds = recipientIds ms, dr_removedAttachmentUrl = m_attachmentUrl m\<rparr> # rest, db'')))"

definition due_messages :: "clock \<Rightarrow> chat_db \<Rightarrow> message list" where
  "due_messages clk db = take 40 (order_asc (\<lambda>m. nullish (m_expiresAt m) 0)
     (filter (\<lambda>m. (case m_expiresAt m of None \<Rightarrow> False | Some t \<Rightarrow> t \<le> now clk) \<and> m_deletedForEveryoneAt m = None)
       (live_messages db)))"

definition expireDueMessages :: "clock \<Rightarrow> delete_result list handler" where
  "expireDueMessages clk db = apfst Inr (expire_loop clk (due_messages clk db) db)"

section \<open>Forwarding\<close>

definition forward_copy :: "clock \<Rightarrow> conversation \<Rightarrow> uuid \<Rightarrow> message \<Rightarrow> bool \<Rightarrow> chat_db \<Rightarrow> message" where
  "forward_copy clk to actorId source undelivered db =
     (new_message clk (next_uuid db) (c_id to) actorId (m_body source) (m_type source))
       \<lparr>m_attachmentUrl := m_attachmentUrl source, m_attachmentMime := m_attachmentMime source,
        m_attachmentName := m_attachmentName source, m_attachmentSize := m_attachmentSize source,
        m_forwardedFrom := Some (m_id source), m_undelivered := undelivered,
        m_expiresAt := (if c_disappearing to > 0 \<and> m_type source \<noteq> CALL
          then Some (now clk + c_disappearing to * 1000) else None)\<rparr>"

definition forwardMessage :: "clock \<Rightarrow> uuid \<Rightarrow> uuid \<Rightarrow> uuid \<Rightarrow> uuid \<Rightarrow> send_result handler" where
  "forwardMessage clk actorId fromConversationId toConversationId messageId db =
     (case requireMembership db fromConversationId actorId of
        Inl e \<Rightarrow> (Inl e, db)
      | Inr from \<Rightarrow>
         (case requireMembership db toConversationId actorId of
            Inl e \<Rightarrow> (Inl e, db)
          | Inr to \<Rightarrow>
             (case find_message_in db messageId (c_id (fst from)) of
                None \<Rightarrow> (Inl (notFound ''Message''), db)
              | Some source \<Rightarrow>
                 (if m_deletedForEveryoneAt source \<noteq> None then (Inl (notFound ''Message''), db)
                  else if c_type (fst to) = PRIVATE
                  then (let dl = resolvePrivateDelivery db to actorId in
                    if d_forbidden dl then (Inl (forbidden ''You cannot message this user''), db)
                    else let m = forward_copy clk (fst to) actorId source (d_undelivered dl) db in
                      (Inr (toMessageView m (snd to) None [] actorId, d_recipientIds dl),
                       store_message clk (fst to) m db))
                  else let m = forward_copy clk (fst to) actorId source False db in
                    (Inr (toMessageView m (snd to) None [] actorId, recipientIds (snd to)),
                     store_message clk (fst to) m db)))))"

end
