(* ===== verification/ChatScheduled.thy ===== *)
theory ChatScheduled
  imports ChatMessages
begin

text \<open>
  Scheduled messages, blocks, call admission, the audit log and the workspace
  settings of \<open>chat.service.ts\<close>. A parsed \<open>new Date(payload.scheduledFor)\<close> is
  \<open>Some\<close> instant, an invalid date (\<open>NaN\<close>) is \<open>None\<close>.
\<close>

section \<open>Scheduled messages\<close>

definition SCHEDULE_MIN_DELAY_MS :: int where
  "SCHEDULE_MIN_DELAY_MS = 60 * 1000"

definition SCHEDULE_MAX_AHEAD_MS :: int where
  "SCHEDULE_MAX_AHEAD_MS = 30 * 24 * 60 * 60 * 1000"

definition MAX_PENDING_SCHEDULED_PER_CHAT :: nat where
  "MAX_PENDING_SCHEDULED_PER_CHAT = 20"

definition pending_for :: "chat_db \<Rightarrow> uuid \<Rightarrow> uuid \<Rightarrow> scheduled_message list" where
  "pending_for db cid sender = filter (\<lambda>s. sm_conv s = cid \<and> sm_sender s = sender \<and> sm_status s = Pending)
     (scheduledMessages db)"

definition insert_scheduled :: "scheduled_message \<Rightarrow> chat_db \<Rightarrow> chat_db" where
  "insert_scheduled s db = draw_uuid (db\<lparr>scheduledMessages := scheduledMessages db @ [s]\<rparr>)"

definition save_scheduled :: "scheduled_message \<Rightarrow> chat_db \<Rightarrow> chat_db" where
  "save_scheduled s db = db\<lparr>scheduledMessages := save_row sm_id s (scheduledMessages db)\<rparr>"

definition schedule_body :: "clock \<Rightarrow> send_payload \<Rightarrow> instant \<Rightarrow> string option \<Rightarrow> string \<Rightarrow> message_type \<Rightarrow>
    conversation \<times> member list \<Rightarrow> scheduled_view handler" where
  "schedule_body clk p scheduledFor attachmentUrl rawBody declared conv db =
     (let actorId = sp_actorId p; cid = c_id (fst conv);
          attachmentMime = fix_mime (sp_attachmentMime p) (sp_type p);
          ty = (if attachmentUrl \<noteq> None then attachment_type attachmentMime (sp_type p) else declared);
          body = default_body rawBody ty;
          badReply = (opt_truthy (sp_replyTo p) \<and>
            (case find_message_in db (nullish (sp_replyTo p) '''') cid of
               None \<Rightarrow> True | Some r \<Rightarrow> m_deletedForEveryoneAt r \<noteq> None)) in
      if badReply then (Inl (badRequest ''Reply target must be a message in this conversation''), db)
      else let activeMemberIds = set (map mb_user (filter is_active (snd conv)));
               s = \<lparr>sm_id = next_uuid db, sm_conv = cid, sm_sender = actorId, sm_body = body, sm_type = ty,
                    sm_replyTo = sp_replyTo p, sm_attachmentUrl = attachmentUrl,
                    sm_attachmentMime = attachmentMime, sm_attachmentName = trim_or_null (sp_attachmentName p),
                    sm_attachmentSize = sp_attachmentSize p,
                    sm_mentions = filter (\<lambda>u. u \<noteq> actorId \<and> u \<in> activeMemberIds)
                      (js_uniq (filter truthy (nullish (sp_mentions p) []))),
                    sm_linkPreview = sp_linkPreview p, sm_scheduledFor = scheduledFor, sm_status = Pending,
                    sm_sentMessageId = None, sm_error = None, sm_cancelledAt = None,
                    sm_createdAt = db_now clk\<rparr> in
        (Inr (toScheduledMessageView s),
         recordAudit clk actorId ''message.scheduled'' (Some ''conversation'') (Some cid)
           [(''scheduledMessageId'', MetaString (sm_id s)), (''scheduledFor'', MetaDate scheduledFor)]
           (insert_scheduled s db)))"

definition scheduleMessage :: "clock \<Rightarrow> send_payload \<Rightarrow> instant option \<Rightarrow> scheduled_view handler" where
  "scheduleMessage clk p scheduledFor db =
     (let attachmentUrl = trim_or_null (sp_attachmentUrl p);
          rawBody = trim (nullish (sp_body p) '''') in
      if \<not> truthy rawBody \<and> attachmentUrl = None
      then (Inl (badRequest ''Message body or attachment is required''), db)
      else case message_type_of (nullish (sp_type p) (message_type_value TEXT)) of
        None \<Rightarrow> (Inl (badRequest ''Unsupported message type''), db)
      | Some ty \<Rightarrow>
         (if ty = CALL then (Inl (badRequest ''Call messages cannot be scheduled''), db)
          else case scheduledFor of
            None \<Rightarrow> (Inl (badRequest ''Invalid scheduled time''), db)
          | Some t \<Rightarrow>
             (if t < now clk + SCHEDULE_MIN_DELAY_MS
              then (Inl (badRequest ''Schedule at least 1 minute in the future''), db)
              else if t > now clk + SCHEDULE_MAX_AHEAD_MS
              then (Inl (badRequest ''Schedule time cannot be more than 30 days ahead''), db)
              else case requireMembership db (sp_conversationId p) (sp_actorId p) of
                Inl e \<Rightarrow> (Inl e, db)
              | Inr conv \<Rightarrow>
                 (if c_type (fst conv) = PRIVATE \<and> d_forbidden (resolvePrivateDelivery db conv (sp_actorId p))
                  then (Inl (forbidden ''You cannot message this user''), db)
                  else if length (pending_for db (c_id (fst conv)) (sp_actorId p)) \<ge> MAX_PENDING_SCHEDULED_PER_CHAT
                  then (Inl (badRequest ''You can have up to 20 scheduled messages in a chat''), db)
                  else schedule_body clk p t attachmentUrl rawBody ty conv db))))"

definition listScheduledMessages :: "uuid \<Rightarrow> uuid \<Rightarrow> chat_db \<Rightarrow> scheduled_view list rpc" where
  "listScheduledMessages actorId conversationId db =
     (case requireMembership db conversationId actorId of
        Inl e \<Rightarrow> Inl e
      | Inr _ \<Rightarrow> Inr (map toScheduledMessageView
          (take 50 (order_asc sm_scheduledFor (pending_for db conversationId actorId)))))"

definition cancelScheduledMessage :: "clock \<Rightarrow> uuid \<Rightarrow> uuid \<Rightarrow> uuid \<Rightarrow> scheduled_view handler" where
  "cancelScheduledMessage clk actorId conversationId scheduledMessageId db =
     (case requireMembership db conversationId actorId of
        Inl e \<Rightarrow> (Inl e, db)
      | Inr _ \<Rightarrow>
         (case find (\<lambda>s. sm_id s = scheduledMessageId \<and> sm_conv s = conversationId \<and> sm_sender s = actorId)
                 (scheduledMessages db) of
            None \<Rightarrow> (Inl (notFound ''Scheduled message''), db)
          | Some item \<Rightarrow>
             (if sm_status item \<noteq> Pending
              then (Inl (badRequest ''Only pending scheduled messages can be cancelled''), db)
              else let item' = item\<lparr>sm_status := Cancelled, sm_cancelledAt := Some (now clk)\<rparr> in
                (Inr (toScheduledMessageView item'), save_scheduled item' db))))"

definition due_scheduled :: "clock \<Rightarrow> chat_db \<Rightarrow> scheduled_message list" where
  "due_scheduled clk db = take 25 (order_asc sm_scheduledFor
     (filter (\<lambda>s. sm_status s = Pending \<and> sm_scheduledFor s \<le> now clk) (scheduledMessages db)))"

text \<open>\<open>update({ id, status: 'pending' }, { status: 'sending' })\<close>: the claim of one row.\<close>

definition claim_scheduled :: "uuid \<Rightarrow> chat_db \<Rightarrow> nat \<times> chat_db" where
  "claim_scheduled sid db =
     (length (filter (\<lambda>s. sm_id s = sid \<and> sm_status s = Pending) (scheduledMessages db)),
      db\<lparr>scheduledMessages := map (\<lambda>s. if sm_id s = sid \<and> sm_status s = Pending
         then s\<lparr>sm_status := Sending\<rparr> else s) (scheduledMessages db)\<rparr>)"

definition scheduled_payload :: "scheduled_message \<Rightarrow> send_payload" where
  "scheduled_payload row =
     \<lparr>sp_actorId = sm_sender row, sp_conversationId = sm_conv row, sp_body = Some (sm_body row),
      sp_type = Some (message_type_value (sm_type row)), sp_replyTo = sm_replyTo row,
      sp_attachmentUrl = sm_attachmentUrl row, sp_attachmentMime = sm_attachmentMime row,
      sp_attachmentName = sm_attachmentName row, sp_attachmentSize = sm_attachmentSize row,
      sp_mentions = Some (sm_mentions row), sp_linkPreview = sm_linkPreview row, sp_systemCall = False\<rparr>"

fun dispatch_loop :: "clock \<Rightarrow> scheduled_message list \<Rightarrow> chat_db \<Rightarrow> send_result list \<times> chat_db" where
  "dispatch_loop clk [] db = ([], db)"
| "dispatch_loop clk (row # due) db =
     (let (affected, db1) = claim_scheduled (sm_id row) db in
      if affected = 0 then dispatch_loop clk due db1
      else case sendMessage clk (scheduled_payload row) db1 of
        (Inr result, db2) \<Rightarrow>
          (let db3 = save_scheduled (row\<lparr>sm_status := Sent, sm_sentMessageId := Some (v_id (fst result)),
                        sm_error := None\<rparr>) db2;
               (rest, db4) = dispatch_loop clk due db3 in
           (result # rest, db4))
      | (Inl e, db2) \<Rightarrow>
          dispatch_loop clk due (save_scheduled (row\<lparr>sm_status := Failed,
            sm_error := Some (js_slice 0 500 (err_message e))\<rparr>) db2))"

definition dispatchDueScheduled :: "clock \<Rightarrow> send_result list handler" where
  "dispatchDueScheduled clk db = apfst Inr (dispatch_loop clk (due_scheduled clk db) db)"

section \<open>Blocks\<close>

record block_view =
  bv_userId :: uuid
  bv_createdAt :: instant

definition toBlockView :: "user_block \<Rightarrow> block_view" where
  "toBlockView b = \<lparr>bv_userId = b_blocked b, bv_createdAt = b_createdAt b\<rparr>"

definition blockUser :: "clock \<Rightarrow> uuid \<Rightarrow> uuid \<Rightarrow> block_view handler" where
  "blockUser clk actorId userId db =
     (if actorId = userId then (Inl (badRequest ''You cannot block yourself''), db)
      else case find (\<lambda>b. b_blocker b = actorId \<and> b_blocked b = userId) (userBlocks db) of
        Some block \<Rightarrow> (Inr (toBlockView block), db)
      | None \<Rightarrow>
         (let block = \<lparr>b_blocker = actorId, b_blocked = userId, b_createdAt = db_now clk\<rparr> in
          (Inr (toBlockView block), db\<lparr>userBlocks := userBlocks db @ [block]\<rparr>)))"

definition unblockUser :: "uuid \<Rightarrow> uuid \<Rightarrow> bool handler" where
  "unblockUser actorId userId db =
     (let hit = (\<lambda>b. b_blocker b = actorId \<and> b_blocked b = userId) in
      (Inr (length (filter hit (userBlocks db)) > 0),
       db\<lparr>userBlocks := filter (\<lambda>b. \<not> hit b) (userBlocks db)\<rparr>))"

definition listBlocks :: "uuid \<Rightarrow> chat_db \<Rightarrow> block_view list rpc" where
  "listBlocks actorId db =
     Inr (map toBlockView (order_desc b_createdAt (filter (\<lambda>b. b_blocker b = actorId) (userBlocks db))))"

section \<open>Call admission (prepareVoiceCall)\<close>

record call_admission =
  ca_conversationId :: uuid
  ca_group :: bool
  ca_peerIds :: "uuid list"
  ca_memberIds :: "uuid list"

definition MAX_GROUP_CALL :: nat where
  "MAX_GROUP_CALL = 8"

fun call_peers :: "chat_db \<Rightarrow> conversation_type \<Rightarrow> uuid \<Rightarrow> member list \<Rightarrow> uuid list \<Rightarrow> uuid list rpc" where
  "call_peers db ty actorId [] peerIds = Inr peerIds"
| "call_peers db ty actorId (m # ms) peerIds =
     (if mb_user m = actorId then call_peers db ty actorId ms peerIds
      else if isBlockedEitherWay db actorId (mb_user m)
      then (if ty = PRIVATE then Inl (forbidden ''You cannot call this user'')
            else call_peers db ty actorId ms peerIds)
      else call_peers db ty actorId ms (peerIds @ [mb_user m]))"

definition prepareVoiceCall :: "uuid \<Rightarrow> uuid \<Rightarrow> chat_db \<Rightarrow> call_admission rpc" where
  "prepareVoiceCall actorId conversationId db =
     (case requireMembership db conversationId actorId of
        Inl e \<Rightarrow> Inl e
      | Inr conv \<Rightarrow>
         (let activeMembers = filter is_active (snd conv); ty = c_type (fst conv) in
          if length activeMembers < 2 then Inl (badRequest ''Not enough participants for a call'')
          else if ty = GROUP \<and> length activeMembers > MAX_GROUP_CALL
          then Inl (badRequest ''Group calls support up to 8 participants'')
          else case call_peers db ty actorId activeMembers [] of
            Inl e \<Rightarrow> Inl e
          | Inr peerIds \<Rightarrow>
             (if length peerIds = 0 then Inl (badRequest ''No participants available to call'')
              else Inr \<lparr>ca_conversationId = c_id (fst conv), ca_group = (ty = GROUP), ca_peerIds = peerIds,
                        ca_memberIds = map mb_user activeMembers\<rparr>)))"

section \<open>Audit log and workspace settings\<close>

record audit_view =
  auv_id :: uuid
  auv_actorId :: uuid
  auv_action :: string
  auv_targetType :: "string option"
  auv_targetId :: "string option"
  auv_meta :: "(string \<times> meta_value) list"
  auv_createdAt :: instant

definition toAuditView :: "audit_event \<Rightarrow> audit_view" where
  "toAuditView a = \<lparr>auv_id = a_id a, auv_actorId = a_actor a, auv_action = a_action a,
     auv_targetType = a_targetType a, auv_targetId = a_targetId a, auv_meta = a_meta a,
     auv_createdAt = a_createdAt a\<rparr>"

definition listAuditEvents :: "int \<Rightarrow> int \<Rightarrow> chat_db \<Rightarrow> (audit_view list \<times> paginated_meta) rpc" where
  "listAuditEvents page limit db =
     (let (s, t) = getSkipTake page limit;
          items = sql_page s t (order_desc a_createdAt (auditEvents db)) in
      Inr (buildPaginatedResult (map toAuditView items) (int (length (auditEvents db))) page limit))"

definition logAudit :: "clock \<Rightarrow> uuid \<Rightarrow> string \<Rightarrow> string option \<Rightarrow> string option \<Rightarrow>
    (string \<times> meta_value) list option \<Rightarrow> audit_view handler" where
  "logAudit clk actorId action targetType targetId meta db =
     (let db' = recordAudit clk actorId action targetType targetId (nullish meta []) db in
      (Inr (toAuditView (last (auditEvents db'))), db'))"

definition default_settings :: workspace_settings where
  "default_settings = \<lparr>w_appName = ''Relay'', w_tagline = ''Private team messenger'',
     w_primaryColor = ''#2563eb'', w_logoUrl = None\<rparr>"

definition getWorkspaceSettings :: "workspace_settings handler" where
  "getWorkspaceSettings db = (case workspaceSettings db of
     Some s \<Rightarrow> (Inr s, db)
   | None \<Rightarrow> (Inr default_settings, db\<lparr>workspaceSettings := Some default_settings\<rparr>))"

text \<open>\<open>if (value?.trim()) field = value.trim().slice(0, n)\<close>; \<open>undefined\<close> and \<open>null\<close> of \<open>logoUrl\<close> differ.\<close>

definition patched :: "string option \<Rightarrow> int \<Rightarrow> string \<Rightarrow> string" where
  "patched v n old = (case trim_or_null v of None \<Rightarrow> old | Some s \<Rightarrow> js_slice 0 n s)"

definition updateWorkspaceSettings :: "clock \<Rightarrow> uuid \<Rightarrow> string option \<Rightarrow> string option \<Rightarrow> string option \<Rightarrow>
    string option option \<Rightarrow> workspace_settings handler" where
  "updateWorkspaceSettings clk actorId appName tagline primaryColor logoUrl db =
     (let s = nullish (workspaceSettings db) default_settings;
          s' = \<lparr>w_appName = patched appName 80 (w_appName s), w_tagline = patched tagline 200 (w_tagline s),
                w_primaryColor = patched primaryColor 16 (w_primaryColor s),
                w_logoUrl = (case logoUrl of None \<Rightarrow> w_logoUrl s | Some v \<Rightarrow> trim_or_null v)\<rparr> in
      (Inr s', recordAudit clk actorId ''workspace.updated'' (Some ''workspace'') (Some ''1'') []
         (db\<lparr>workspaceSettings := Some s'\<rparr>)))"

end
