(* ===== verification/ChatMessageInv.thy ===== *)
theory ChatMessageInv
  imports ChatMembership ChatScheduled
begin

text \<open>
  Invariants of the message, reaction, block and schedule tables, and the proof
  that each handler keeps them. A handler's effect is first described as a
  composition of the primitive writes; the invariants are then proved once per
  primitive write.
\<close>

section \<open>The message invariant\<close>

definition ctypes :: "chat_db \<Rightarrow> (uuid \<times> conversation_type) set" where
  "ctypes db = (\<lambda>c. (c_id c, c_type c)) ` set (conversations db)"

definition mkeys :: "chat_db \<Rightarrow> (uuid \<times> uuid) set" where
  "mkeys db = (\<lambda>m. (m_id m, m_conv m)) ` set (messages db)"

text \<open>
  One message row: it has text, belongs to an existing conversation, answers a
  message of the same conversation; only private messages are undelivered; a message deleted for everyone carries
  no attachment and no pin; a call line is never pinned.
\<close>

definition message_ok :: "(uuid \<times> conversation_type) set \<Rightarrow> (uuid \<times> uuid) set \<Rightarrow> message \<Rightarrow> bool" where
  "message_ok cs ks m \<longleftrightarrow>
     truthy (m_body m) \<and> m_deletedAt m = None
     \<and> m_conv m \<in> fst ` cs
     \<and> (m_undelivered m \<longrightarrow> (m_conv m, PRIVATE) \<in> cs)
     \<and> (\<forall>r. m_replyTo m = Some r \<longrightarrow> (r, m_conv m) \<in> ks)
     \<and> (m_deletedForEveryoneAt m \<noteq> None \<longrightarrow> m_attachmentUrl m = None \<and> m_pinnedAt m = None)
     \<and> (m_type m = CALL \<longrightarrow> m_pinnedAt m = None)
     \<and> (m_pinnedAt m = None \<longleftrightarrow> m_pinnedBy m = None)
     \<and> m_sender m \<notin> set (m_mentions m)"

definition message_inv :: "chat_db \<Rightarrow> bool" where
  "message_inv db \<longleftrightarrow>
     distinct (map m_id (messages db)) \<and> m_id ` set (messages db) \<subseteq> drawn db
     \<and> (\<forall>m\<in>set (messages db). message_ok (ctypes db) (mkeys db) m)
     \<and> (\<forall>cid. length (pinned_in db cid) \<le> 3)"

lemma message_invD:
  assumes "message_inv db"
  shows "distinct (map m_id (messages db))" "m_id ` set (messages db) \<subseteq> drawn db"
    "m \<in> set (messages db) \<Longrightarrow> message_ok (ctypes db) (mkeys db) m" "length (pinned_in db cid) \<le> 3"
  using assms by (simp_all add: message_inv_def)

lemma message_ok_mono: "message_ok cs ks m \<Longrightarrow> cs \<subseteq> cs' \<Longrightarrow> ks \<subseteq> ks' \<Longrightarrow> message_ok cs' ks' m"
  unfolding message_ok_def by (metis (no_types, lifting) image_mono subsetD)

lemma pinned_in_cong: "messages db' = messages db \<Longrightarrow> pinned_in db' cid = pinned_in db cid"
  by (simp add: pinned_in_def live_messages_def)

lemma message_inv_frame:
  assumes inv: "message_inv db" and "messages db' = messages db" and "ctypes db \<subseteq> ctypes db'"
    and "uuid_gen db' = uuid_gen db" and "uuid_next db \<le> uuid_next db'"
  shows "message_inv db'"
proof -
  have k: "mkeys db' = mkeys db" using assms(2) by (simp add: mkeys_def)
  have "drawn db \<subseteq> drawn db'" using assms(4,5) by (rule drawn_mono)
  then show ?thesis
    using message_invD [OF inv] message_ok_mono [OF _ assms(3) order_refl]
    unfolding message_inv_def k assms(2) pinned_in_cong [OF assms(2)] by blast
qed

lemma insert_message_simps [simp]:
  "conversations (insert_message m db) = conversations db" "members (insert_message m db) = members db"
  "messages (insert_message m db) = messages db @ [m]" "messageHides (insert_message m db) = messageHides db"
  "messageReactions (insert_message m db) = messageReactions db"
  "scheduledMessages (insert_message m db) = scheduledMessages db"
  "userBlocks (insert_message m db) = userBlocks db"
  "uuid_gen (insert_message m db) = uuid_gen db" "uuid_next (insert_message m db) = Suc (uuid_next db)"
  by (simp_all add: insert_message_def)

lemma message_inv_insert:
  assumes inv: "message_inv db" and inj: "inj (uuid_gen db)" and mid: "m_id m = next_uuid db"
    and ok: "message_ok (ctypes db) (mkeys db) m" and np: "m_pinnedAt m = None"
  shows "message_inv (insert_message m db)"
proof -
  have fresh: "m_id m \<notin> m_id ` set (messages db)"
    using next_uuid_fresh [OF inj] message_invD(2) [OF inv] mid by auto
  have dr: "drawn (insert_message m db) = insert (m_id m) (drawn db)"
    by (simp add: drawn_def lessThan_Suc mid next_uuid_def)
  have ct: "ctypes (insert_message m db) = ctypes db" by (simp add: ctypes_def)
  have sub: "mkeys db \<subseteq> mkeys (insert_message m db)" by (auto simp: mkeys_def)
  have pin: "pinned_in (insert_message m db) cid = pinned_in db cid" for cid
    using np by (simp add: pinned_in_def live_messages_def)
  show ?thesis
    unfolding message_inv_def
  proof (intro conjI ballI allI)
    show "distinct (map m_id (messages (insert_message m db)))"
      using message_invD(1) [OF inv] fresh by simp
    show "m_id ` set (messages (insert_message m db)) \<subseteq> drawn (insert_message m db)"
      using message_invD(2) [OF inv] dr by auto
    show "message_ok (ctypes (insert_message m db)) (mkeys (insert_message m db)) x"
      if "x \<in> set (messages (insert_message m db))" for x
      using that message_ok_mono [OF _ order_refl sub] ok message_invD(3) [OF inv] ct by auto
  qed (simp add: pin message_invD(4) [OF inv])
qed

lemma length_filter_save_le:
  "\<forall>x\<in>set xs. key x = key r \<longrightarrow> P r \<longrightarrow> P x \<Longrightarrow>
   length (filter P (save_row key r xs)) \<le> length (filter P xs)"
  by (induction xs) (auto simp: save_row_Cons)

lemma length_filter_save_Suc:
  "distinct (map key xs) \<Longrightarrow> length (filter P (save_row key r xs)) \<le> Suc (length (filter P xs))"
proof (induction xs)
  case (Cons x xs)
  show ?case
  proof (cases "key x = key r")
    case True
    then have "key r \<notin> key ` set xs" using Cons.prems by auto
    then show ?thesis using True by (simp add: save_row_Cons save_row_absent)
  next
    case False
    then show ?thesis using Cons by (simp add: save_row_Cons)
  qed
qed simp

lemma mkeys_save_message:
  assumes "distinct (map m_id (messages db))" and "m \<in> set (messages db)" and "m_id m' = m_id m" and "m_conv m' = m_conv m"
  shows "mkeys (save_message m' db) = mkeys db"
proof -
  have "(m_id x, m_conv x) = (m_id m', m_conv m')" if "x \<in> set (messages db)" "m_id x = m_id m'" for x
    using distinct_key_eq [OF assms(1) that(1) assms(2)] that(2) assms(3,4) by simp
  then have "map (\<lambda>m. (m_id m, m_conv m)) (save_row m_id m' (messages db)) = map (\<lambda>m. (m_id m, m_conv m)) (messages db)"
    unfolding save_row_def by auto
  then show ?thesis unfolding mkeys_def save_message_simps by (metis list.set_map)
qed

lemma message_inv_save:
  assumes inv: "message_inv db" and m: "m \<in> set (messages db)" and same: "m_id m' = m_id m" "m_conv m' = m_conv m"
    and ok: "message_ok (ctypes db) (mkeys db) m'"
    and pins: "m_pinnedAt m' \<noteq> None \<Longrightarrow> m_deletedForEveryoneAt m' = None \<Longrightarrow>
      m_pinnedAt m \<noteq> None \<and> m_deletedForEveryoneAt m = None \<or> length (pinned_in db (m_conv m)) < 3"
  shows "message_inv (save_message m' db)"
proof -
  note k = mkeys_save_message [OF message_invD(1) [OF inv] m same]
  have live: "live_messages (save_message m' db) = save_row m_id m' (live_messages db)"
  proof -
    have "m_deletedAt x = None" if "x \<in> set (messages db)" for x
      using message_invD(3) [OF inv that] by (simp add: message_ok_def)
    moreover have "m_deletedAt m' = None" using ok by (simp add: message_ok_def)
    ultimately show ?thesis
      unfolding live_messages_def save_message_simps by (intro filter_save_row_keep) auto
  qed
  have lm: "live_messages db = messages db"
    using message_invD(3) [OF inv] by (auto simp: live_messages_def message_ok_def filter_id_conv)
  have pin: "length (pinned_in (save_message m' db) cid) \<le> 3" for cid
  proof (cases "m_pinnedAt m' \<noteq> None \<and> m_deletedForEveryoneAt m' = None \<and> m_conv m = cid
      \<and> \<not> (m_pinnedAt m \<noteq> None \<and> m_deletedForEveryoneAt m = None)")
    case True
    then have "length (pinned_in db cid) < 3" using pins by auto
    moreover have "length (pinned_in (save_message m' db) cid) \<le> Suc (length (pinned_in db cid))"
      unfolding pinned_in_def live lm by (rule length_filter_save_Suc [OF message_invD(1) [OF inv]])
    ultimately show ?thesis by linarith
  next
    case False
    have "length (pinned_in (save_message m' db) cid) \<le> length (pinned_in db cid)"
      unfolding pinned_in_def live lm
    proof (rule length_filter_save_le, intro ballI impI)
      fix x assume x: "x \<in> set (messages db)" "m_id x = m_id m'"
        and P: "m_conv m' = cid \<and> m_pinnedAt m' \<noteq> None \<and> m_deletedForEveryoneAt m' = None"
      have "x = m" using distinct_key_eq [OF message_invD(1) [OF inv] x(1) m] x(2) same(1) by simp
      with P False same show "m_conv x = cid \<and> m_pinnedAt x \<noteq> None \<and> m_deletedForEveryoneAt x = None" by auto
    qed
    also have "\<dots> \<le> 3" by (rule message_invD(4) [OF inv])
    finally show ?thesis .
  qed
  have ct: "ctypes (save_message m' db) = ctypes db" by (simp add: ctypes_def)
  show ?thesis
    unfolding message_inv_def
  proof (intro conjI ballI allI pin)
    show "distinct (map m_id (messages (save_message m' db)))"
      using message_invD(1) [OF inv] by (simp only: save_message_simps map_key_save_row)
    have "m_id ` set (messages (save_message m' db)) = m_id ` set (messages db)"
      by (simp only: save_message_simps list.set_map [symmetric] map_key_save_row)
    then show "m_id ` set (messages (save_message m' db)) \<subseteq> drawn (save_message m' db)"
      using message_invD(2) [OF inv] by (simp add: drawn_def)
    show "message_ok (ctypes (save_message m' db)) (mkeys (save_message m' db)) x"
      if "x \<in> set (messages (save_message m' db))" for x
      using that ok message_invD(3) [OF inv] unfolding k ct by (auto dest: set_save_row)
  qed
qed

section \<open>Reactions, blocks, schedules\<close>

definition reaction_key :: "message_reaction \<Rightarrow> uuid \<times> uuid \<times> string" where
  "reaction_key r = (rx_message r, rx_user r, rx_emoji r)"

definition reaction_inv :: "chat_db \<Rightarrow> bool" where
  "reaction_inv db \<longleftrightarrow>
     distinct (map rx_id (messageReactions db)) \<and> rx_id ` set (messageReactions db) \<subseteq> drawn db
     \<and> distinct (map reaction_key (messageReactions db))
     \<and> rx_emoji ` set (messageReactions db) \<subseteq> set ALLOWED_REACTIONS
     \<and> rx_message ` set (messageReactions db) \<subseteq> m_id ` set (messages db)"

definition block_inv :: "chat_db \<Rightarrow> bool" where
  "block_inv db \<longleftrightarrow> distinct (map (\<lambda>b. (b_blocker b, b_blocked b)) (userBlocks db))
     \<and> (\<forall>b\<in>set (userBlocks db). b_blocker b \<noteq> b_blocked b)"

text \<open>
  A schedule row outside the dispatcher is never left in \<open>sending\<close>, and each
  terminal status goes with the column that explains it. \<open>X\<close> holds the rows the
  dispatcher has claimed and not yet settled; between requests it is empty.
\<close>

definition scheduled_ok :: "scheduled_message \<Rightarrow> bool" where
  "scheduled_ok s \<longleftrightarrow> sm_status s \<noteq> Sending
     \<and> (sm_status s = Sent \<longleftrightarrow> sm_sentMessageId s \<noteq> None)
     \<and> (sm_status s = Cancelled \<longleftrightarrow> sm_cancelledAt s \<noteq> None)
     \<and> (sm_status s = Failed \<longleftrightarrow> sm_error s \<noteq> None)
     \<and> sm_type s \<noteq> CALL \<and> truthy (sm_body s)"

definition schedule_inv :: "uuid set \<Rightarrow> chat_db \<Rightarrow> bool" where
  "schedule_inv X db \<longleftrightarrow>
     distinct (map sm_id (scheduledMessages db)) \<and> sm_id ` set (scheduledMessages db) \<subseteq> drawn db
     \<and> (\<forall>s\<in>set (scheduledMessages db). sm_id s \<notin> X \<longrightarrow> scheduled_ok s)
     \<and> (\<forall>cid u. length (pending_for db cid u) \<le> 20)"

definition chat_inv :: "uuid set \<Rightarrow> chat_db \<Rightarrow> bool" where
  "chat_inv X db \<longleftrightarrow> membership_inv db \<and> message_inv db \<and> reaction_inv db \<and> block_inv db \<and> schedule_inv X db"

lemma chat_invD:
  assumes "chat_inv X db"
  shows "membership_inv db" "message_inv db" "reaction_inv db" "block_inv db" "schedule_inv X db"
  using assms by (simp_all add: chat_inv_def)

lemma chat_inv_inj: "chat_inv X db \<Longrightarrow> inj (uuid_gen db)"
  by (simp add: chat_inv_def membership_invD)

lemma reaction_inv_frame:
  assumes "reaction_inv db" and "messageReactions db' = messageReactions db"
    and "m_id ` set (messages db) \<subseteq> m_id ` set (messages db')"
    and "uuid_gen db' = uuid_gen db" and "uuid_next db \<le> uuid_next db'"
  shows "reaction_inv db'"
  using assms(1,3) drawn_mono [OF assms(4,5)] unfolding reaction_inv_def assms(2)
  by (meson order_trans)

lemma block_inv_frame: "block_inv db \<Longrightarrow> userBlocks db' = userBlocks db \<Longrightarrow> block_inv db'"
  by (simp add: block_inv_def)

lemma schedule_inv_frame:
  assumes "schedule_inv X db" and "scheduledMessages db' = scheduledMessages db"
    and "uuid_gen db' = uuid_gen db" and "uuid_next db \<le> uuid_next db'"
  shows "schedule_inv X db'"
  using assms drawn_mono [OF assms(3,4)] unfolding schedule_inv_def pending_for_def by auto

section \<open>Primitive writes keep the whole invariant\<close>

text \<open>A write to the membership side only.\<close>

lemma chat_inv_membership:
  assumes inv: "chat_inv X db" and mem: "membership_inv db'"
    and same: "messages db' = messages db" "messageReactions db' = messageReactions db"
      "userBlocks db' = userBlocks db" "scheduledMessages db' = scheduledMessages db"
      "uuid_gen db' = uuid_gen db" "uuid_next db \<le> uuid_next db'" and ct: "ctypes db \<subseteq> ctypes db'"
  shows "chat_inv X db'"
  unfolding chat_inv_def
  using mem message_inv_frame [OF chat_invD(2) [OF inv] same(1) ct same(5,6)]
    reaction_inv_frame [OF chat_invD(3) [OF inv] same(2) _ same(5,6)] same(1)
    block_inv_frame [OF chat_invD(4) [OF inv] same(3)]
    schedule_inv_frame [OF chat_invD(5) [OF inv] same(4,5,6)]
  by simp

lemma chat_inv_audit: "chat_inv X db \<Longrightarrow> chat_inv X (recordAudit k a x t i mt db)"
  by (rule chat_inv_membership [of X db])
    (simp_all add: same_rosters_inv [OF same_rosters_audit] chat_invD ctypes_def)

lemma ctypes_save_conversation:
  assumes "c_id c = c_id c0" and "c_type c = c_type c0" and "find_conversation db cid = Some c0" and "membership_inv db"
  shows "ctypes (save_conversation clk c db) = ctypes db"
proof -
  have c0: "c0 \<in> set (conversations db)" using find_conversation_Some [OF assms(3)] by simp
  have "(c_id x, c_type x) = (c_id c, c_type c)" if "x \<in> set (conversations db)" "c_id x = c_id c" for x
    using distinct_key_eq [OF membership_invD(2) [OF assms(4)] that(1) c0] that(2) assms(1,2) by simp
  then have "map (\<lambda>c. (c_id c, c_type c)) (conversations (save_conversation clk c db))
      = map (\<lambda>c. (c_id c, c_type c)) (conversations db)"
    by (auto simp: save_conversation_def)
  then show ?thesis unfolding ctypes_def by (metis list.set_map)
qed

lemma chat_inv_save_conversation:
  assumes inv: "chat_inv X db" and c: "find_conversation db cid = Some c0" and "c_id c = c_id c0"
    and "c_type c = c_type c0" and "c_pairKey c = c_pairKey c0" and "c_deletedAt c = c_deletedAt c0"
  shows "chat_inv X (save_conversation clk c db)"
  by (rule chat_inv_membership [OF inv])
    (use assms ctypes_save_conversation [OF assms(3,4) c chat_invD(1) [OF inv]]
      same_rosters_inv [OF same_rosters_conversation [OF chat_invD(1) [OF inv] c assms(3-6)]] in simp_all)

lemma chat_inv_insert_message:
  assumes inv: "chat_inv X db" and mid: "m_id m = next_uuid db"
    and ok: "message_ok (ctypes db) (mkeys db) m" and np: "m_pinnedAt m = None"
  shows "chat_inv X (insert_message m db)"
  unfolding chat_inv_def
  using message_inv_insert [OF chat_invD(2) [OF inv] chat_inv_inj [OF inv] mid ok np]
    same_rosters_inv [OF same_rosters_frame [OF chat_invD(1) [OF inv], of "insert_message m db"]]
    reaction_inv_frame [OF chat_invD(3) [OF inv], of "insert_message m db"]
    block_inv_frame [OF chat_invD(4) [OF inv], of "insert_message m db"]
    schedule_inv_frame [OF chat_invD(5) [OF inv], of "insert_message m db"]
  by (simp add: image_Un) blast

lemma find_conversation_insert_message [simp]:
  "find_conversation (insert_message m db) cid = find_conversation db cid"
  by (simp add: find_conversation_def live_conversations_def)

lemma chat_inv_store_message:
  assumes inv: "chat_inv X db" and c: "find_conversation db cid = Some c" and mid: "m_id m = next_uuid db"
    and ok: "message_ok (ctypes db) (mkeys db) m" and np: "m_pinnedAt m = None"
  shows "chat_inv X (store_message clk c m db)"
  unfolding store_message_def
  by (rule chat_inv_save_conversation [OF chat_inv_insert_message [OF inv mid ok np], of cid c])
    (use c in simp_all)

lemma chat_inv_save_message:
  assumes inv: "chat_inv X db" and m: "m \<in> set (messages db)" and same: "m_id m' = m_id m" "m_conv m' = m_conv m"
    and ok: "message_ok (ctypes db) (mkeys db) m'"
    and pins: "m_pinnedAt m' \<noteq> None \<Longrightarrow> m_deletedForEveryoneAt m' = None \<Longrightarrow>
      m_pinnedAt m \<noteq> None \<and> m_deletedForEveryoneAt m = None \<or> length (pinned_in db (m_conv m)) < 3"
  shows "chat_inv X (save_message m' db)"
proof -
  have ids: "m_id ` set (messages (save_message m' db)) = m_id ` set (messages db)"
    by (simp only: save_message_simps list.set_map [symmetric] map_key_save_row)
  show ?thesis
    unfolding chat_inv_def
    using message_inv_save [OF chat_invD(2) [OF inv] m same ok pins]
      same_rosters_inv [OF same_rosters_frame [OF chat_invD(1) [OF inv], of "save_message m' db"]]
      reaction_inv_frame [OF chat_invD(3) [OF inv], of "save_message m' db"] ids
      block_inv_frame [OF chat_invD(4) [OF inv], of "save_message m' db"]
      schedule_inv_frame [OF chat_invD(5) [OF inv], of "save_message m' db"]
    by simp
qed

text \<open>Writes to the other tables.\<close>

lemma chat_inv_side:
  assumes inv: "chat_inv X db" and "conversations db' = conversations db" and "members db' = members db"
    and "messages db' = messages db" and "uuid_gen db' = uuid_gen db" and "uuid_next db \<le> uuid_next db'"
    and "reaction_inv db'" and "block_inv db'" and "schedule_inv X db'"
  shows "chat_inv X db'"
  unfolding chat_inv_def
  using assms message_inv_frame [OF chat_invD(2) [OF inv], of db'] inv_frame [OF chat_invD(1) [OF inv], of db']
  by (simp add: ctypes_def)

end
