(* ===== verification/ChatQueries.thy ===== *)
theory ChatQueries
  imports ChatScheduled
begin

text \<open>
  The read handlers of \<open>chat.service.ts\<close>: conversation lists, message pages,
  searches and the media gallery, with PostgreSQL's \<open>ILIKE\<close> matcher that the
  searches rely on. A query's rows are ordered by \<open>createdAt DESC\<close>; equal
  instants keep insertion order.
\<close>

section \<open>ILIKE (escapeIlikePattern)\<close>

definition escapeIlikePattern :: "string \<Rightarrow> string" where
  "escapeIlikePattern value = concat (map (\<lambda>c.
     if c = CHR ''%'' \<or> c = CHR ''_'' \<or> c = CHR 0x5C then [CHR 0x5C, c] else [c]) value)"

text \<open>
  \<open>s ILIKE p ESCAPE '\'\<close>. PostgreSQL rejects a pattern that ends in the escape
  character; no pattern of the program does.
\<close>

fun ilike :: "string \<Rightarrow> string \<Rightarrow> bool" where
  "ilike [] s = (s = [])"
| "ilike (c # p) s =
     (if c = CHR ''%'' then ilike p s \<or> (case s of [] \<Rightarrow> False | _ # t \<Rightarrow> ilike (c # p) t)
      else if c = CHR ''_'' then (case s of [] \<Rightarrow> False | _ # t \<Rightarrow> ilike p t)
      else if c = CHR 0x5C then
        (case p of [] \<Rightarrow> False
         | d # p' \<Rightarrow> (case s of [] \<Rightarrow> False | x # t \<Rightarrow> lower_char x = lower_char d \<and> ilike p' t))
      else (case s of [] \<Rightarrow> False | x # t \<Rightarrow> lower_char x = lower_char c \<and> ilike p t))"

definition search_pattern :: "string \<Rightarrow> string" where
  "search_pattern query = ''%'' @ escapeIlikePattern query @ ''%''"

section \<open>Message pages\<close>

text \<open>Not hidden by the actor, and delivered or the actor's own.\<close>

definition visible_to :: "chat_db \<Rightarrow> uuid \<Rightarrow> message \<Rightarrow> bool" where
  "visible_to db actorId m \<longleftrightarrow> \<not> is_hidden db (m_id m) actorId \<and> (\<not> m_undelivered m \<or> m_sender m = actorId)"

definition view_items :: "chat_db \<Rightarrow> member list \<Rightarrow> uuid \<Rightarrow> message list \<Rightarrow> message_view list" where
  "view_items db ms actorId items =
     (let replyMap = loadReplyParents db items; rxs = loadReactionsByMessageIds db (map m_id items) in
      map (\<lambda>m. toMessageView m ms (replyMap (nullish (m_replyTo m) '''')) (nullish (rxs (m_id m)) []) actorId) items)"

text \<open>\<open>orderBy('m.createdAt', 'DESC').skip(skip).take(take).getManyAndCount()\<close>\<close>

definition page_rows :: "message list \<Rightarrow> int \<Rightarrow> int \<Rightarrow> message list" where
  "page_rows rows page limit =
     (let (s, t) = getSkipTake page limit in sql_page s t (order_desc m_createdAt rows))"

type_synonym message_page = "message_view list \<times> paginated_meta"

definition listMessages :: "uuid \<Rightarrow> uuid \<Rightarrow> int \<Rightarrow> int \<Rightarrow> chat_db \<Rightarrow> message_page rpc" where
  "listMessages actorId conversationId page limit db =
     (case requireMembership db conversationId actorId of
        Inl e \<Rightarrow> Inl e
      | Inr conv \<Rightarrow>
         (let rows = filter (\<lambda>m. m_conv m = conversationId \<and> visible_to db actorId m) (live_messages db) in
          Inr (buildPaginatedResult (view_items db (snd conv) actorId (page_rows rows page limit))
                 (int (length rows)) page limit)))"

definition searchMessages :: "uuid \<Rightarrow> uuid \<Rightarrow> string \<Rightarrow> int \<Rightarrow> int \<Rightarrow> chat_db \<Rightarrow> message_page rpc" where
  "searchMessages actorId conversationId rawQuery page limit db =
     (case requireMembership db conversationId actorId of
        Inl e \<Rightarrow> Inl e
      | Inr conv \<Rightarrow>
         (let query = trim rawQuery in
          if \<not> truthy query then Inl (badRequest ''Search query is required'')
          else let rows = filter (\<lambda>m. m_conv m = conversationId \<and> ilike (search_pattern query) (m_body m)
                     \<and> m_deletedForEveryoneAt m = None \<and> visible_to db actorId m) (live_messages db) in
            Inr (buildPaginatedResult (view_items db (snd conv) actorId (page_rows rows page limit))
                   (int (length rows)) page limit)))"

record search_hit =
  sh_message :: message_view
  sh_id :: uuid
  sh_type :: conversation_type
  sh_name :: "string option"
  sh_members :: "uuid list"

definition my_memberships :: "chat_db \<Rightarrow> uuid \<Rightarrow> member list" where
  "my_memberships db actorId = filter (\<lambda>m. mb_user m = actorId \<and> mb_leftAt m = None) (members db)"

definition searchGlobal :: "uuid \<Rightarrow> string \<Rightarrow> int \<Rightarrow> int \<Rightarrow> chat_db \<Rightarrow> (search_hit list \<times> paginated_meta) rpc" where
  "searchGlobal actorId rawQuery page limit db =
     (let query = trim rawQuery in
      if \<not> truthy query then Inl (badRequest ''Search query is required'')
      else if length query < 2 then Inr (buildPaginatedResult [] 0 page limit)
      else let conversationIds = map mb_conv (my_memberships db actorId) in
        if length conversationIds = 0 then Inr (buildPaginatedResult [] 0 page limit)
        else let rows = filter (\<lambda>m. m_conv m \<in> set conversationIds \<and> ilike (search_pattern query) (m_body m)
                   \<and> m_deletedForEveryoneAt m = None \<and> visible_to db actorId m) (live_messages db);
                 items = page_rows rows page limit;
                 replyMap = loadReplyParents db items;
                 rxs = loadReactionsByMessageIds db (map m_id items);
                 hit = (\<lambda>m. let conversation = find_conversation db (m_conv m);
                        activeMembers = (case conversation of None \<Rightarrow> []
                           | Some c \<Rightarrow> filter is_active (members_of db (c_id c))) in
                     \<lparr>sh_message = toMessageView m activeMembers (replyMap (nullish (m_replyTo m) ''''))
                         (nullish (rxs (m_id m)) []) actorId,
                      sh_id = (case conversation of None \<Rightarrow> m_conv m | Some c \<Rightarrow> c_id c),
                      sh_type = (case conversation of None \<Rightarrow> PRIVATE | Some c \<Rightarrow> c_type c),
                      sh_name = (case conversation of None \<Rightarrow> None | Some c \<Rightarrow> c_name c),
                      sh_members = map mb_user activeMembers\<rparr>) in
          Inr (buildPaginatedResult (map hit items) (int (length rows)) page limit))"

text \<open>SQL comparisons with a null column are not true.\<close>

definition mime_ilike :: "string option \<Rightarrow> string \<Rightarrow> bool" where
  "mime_ilike mime pat = (case mime of None \<Rightarrow> False | Some s \<Rightarrow> ilike pat s)"

definition media_kind :: "string \<Rightarrow> message \<Rightarrow> bool" where
  "media_kind kind m =
     (if kind = ''image'' then m_type m = IMAGE \<or> mime_ilike (m_attachmentMime m) ''image/%''
      else if kind = ''audio'' then m_type m = AUDIO \<or> mime_ilike (m_attachmentMime m) ''audio/%''
             \<or> m_attachmentMime m = Some ''video/webm''
      else if kind = ''file'' then m_type m = FILE \<or>
        (m_type m \<noteq> IMAGE \<and> m_type m \<noteq> AUDIO \<and>
          (case m_attachmentMime m of None \<Rightarrow> True
           | Some s \<Rightarrow> \<not> ilike ''image/%'' s \<and> \<not> ilike ''audio/%'' s \<and> s \<noteq> ''video/webm''))
      else True)"

definition listMedia :: "uuid \<Rightarrow> uuid \<Rightarrow> string option \<Rightarrow> int \<Rightarrow> int \<Rightarrow> chat_db \<Rightarrow> message_page rpc" where
  "listMedia actorId conversationId kind page limit db =
     (case requireMembership db conversationId actorId of
        Inl e \<Rightarrow> Inl e
      | Inr conv \<Rightarrow>
         (let rows = filter (\<lambda>m. m_conv m = conversationId \<and> opt_truthy (m_attachmentUrl m)
                \<and> m_deletedForEveryoneAt m = None \<and> visible_to db actorId m
                \<and> media_kind (nullish kind ''all'') m) (live_messages db) in
          Inr (buildPaginatedResult (view_items db (snd conv) actorId (page_rows rows page limit))
                 (int (length rows)) page limit)))"

section \<open>Conversation lists\<close>

text \<open>\<open>DISTINCT ON (conversationId)\<close>, undeleted rows first, then the newest.\<close>

definition latestMessagesByConversation :: "chat_db \<Rightarrow> uuid list \<Rightarrow> uuid \<Rightarrow> (uuid \<rightharpoonup> message)" where
  "latestMessagesByConversation db conversationIds actorId =
     (\<lambda>cid. if cid \<notin> set conversationIds then None
        else case order_asc (\<lambda>m. if m_deletedForEveryoneAt m = None then 0 else 1)
               (order_desc m_createdAt (filter (\<lambda>m. m_conv m = cid \<and> (\<not> m_undelivered m \<or> m_sender m = actorId))
                  (live_messages db))) of
             [] \<Rightarrow> None | m # _ \<Rightarrow> Some m)"

definition conversation_time :: "conversation \<Rightarrow> instant" where
  "conversation_time c = nullish (c_lastMessageAt c) (c_createdAt c)"

text \<open>The comparator's two keys as two stable sorts, the pinned flag last.\<close>

definition sort_conversations :: "(uuid \<rightharpoonup> instant option) \<Rightarrow> conversation list \<Rightarrow> conversation list" where
  "sort_conversations pinnedAt cs =
     order_desc (\<lambda>c. case pinnedAt (c_id c) of Some (Some _) \<Rightarrow> 1 | _ \<Rightarrow> 0) (order_desc conversation_time cs)"

definition listConversations :: "uuid \<Rightarrow> int \<Rightarrow> int \<Rightarrow> chat_db \<Rightarrow> (conversation_view list \<times> paginated_meta) rpc" where
  "listConversations actorId page limit db =
     (let memberships = my_memberships db actorId; conversationIds = map mb_conv memberships in
      if length conversationIds = 0 then Inr (buildPaginatedResult [] 0 page limit)
      else let pinnedAt = foldl (\<lambda>mp m. mp(mb_conv m \<mapsto> mb_pinnedAt m)) Map.empty memberships;
               items = sort_conversations pinnedAt
                 (filter (\<lambda>c. c_id c \<in> set conversationIds) (live_conversations db));
               (s, t) = getSkipTake page limit;
               pageItems = map (\<lambda>c. (c, members_of db (c_id c))) (js_slice s (s + t) items);
               ids = map (\<lambda>(c, ms). c_id c) pageItems;
               unread = unreadCounts db actorId ids;
               latest = latestMessagesByConversation db ids actorId;
               flags = blockFlagsForConversations db pageItems actorId in
        Inr (buildPaginatedResult
          (map (\<lambda>(c, ms). toConversationView (c, ms) actorId (nullish (unread (c_id c)) 0) (latest (c_id c))
             (nullish (flags (c_id c)) no_flags)) pageItems)
          (int (length items)) page limit))"

end
