(* ===== verification/ChatHandlers.thy ===== *)
theory ChatHandlers
  imports ChatMessageInv ChatQueries
begin

text \<open>
  Every mutating handler of the chat service keeps \<open>chat_inv\<close>, and the frame of
  the handlers' error paths.
\<close>

section \<open>Group handlers\<close>

text \<open>The tables that the membership side never touches.\<close>

definition membership_only :: "chat_db \<Rightarrow> chat_db \<Rightarrow> bool" where
  "membership_only db db' \<longleftrightarrow> messages db' = messages db \<and> messageReactions db' = messageReactions db
     \<and> userBlocks db' = userBlocks db \<and> scheduledMessages db' = scheduledMessages db
     \<and> uuid_gen db' = uuid_gen db \<and> uuid_next db \<le> uuid_next db' \<and> ctypes db \<subseteq> ctypes db'"

lemma membership_only_refl [simp]: "membership_only db db"
  by (simp add: membership_only_def)

lemma membership_only_trans: "membership_only db db1 \<Longrightarrow> membership_only db1 db2 \<Longrightarrow> membership_only db db2"
  unfolding membership_only_def by (auto dest: order_trans)

lemma chat_inv_membership_only:
  "chat_inv X db \<Longrightarrow> membership_inv db' \<Longrightarrow> membership_only db db' \<Longrightarrow> chat_inv X db'"
  by (rule chat_inv_membership [of X db]) (simp_all add: membership_only_def)

lemma membership_only_save_member [simp]: "membership_only db (save_member m db)"
  by (simp add: membership_only_def ctypes_def)

lemma membership_only_insert_members [simp]: "membership_only db (insert_members clk cid us db)"
  by (simp add: membership_only_def ctypes_def)

lemma membership_only_create: "membership_only db (insert_members clk cid us (insert_conversation clk ty n u pk db))"
  by (auto simp: membership_only_def ctypes_def conversations_insert)

lemma membership_only_audit [simp]: "membership_only db (recordAudit k a x t i mt db)"
  by (simp add: membership_only_def ctypes_def)

lemma membership_only_save_conversation:
  assumes "membership_inv db" and "find_conversation db cid = Some c0" and "c_id c = c_id c0" and "c_type c = c_type c0"
  shows "membership_only db (save_conversation clk c db)"
  using ctypes_save_conversation [OF assms(3,4,2,1)] by (simp add: membership_only_def)

lemma membership_only_save_members: "membership_only db (foldl (\<lambda>d m. save_member m d) db ms)"
  by (induction ms arbitrary: db) (auto intro: membership_only_trans [OF membership_only_save_member])

lemma membership_only_soft_delete [simp]: "membership_only db (soft_delete_conversation clk cid db)"
proof -
  have "map (\<lambda>c. (c_id c, c_type c)) (conversations (soft_delete_conversation clk cid db))
      = map (\<lambda>c. (c_id c, c_type c)) (conversations db)"
    by (simp add: soft_delete_conversation_def)
  then have "ctypes (soft_delete_conversation clk cid db) = ctypes db"
    unfolding ctypes_def by (metis list.set_map)
  then show ?thesis by (simp add: membership_only_def) (simp add: soft_delete_conversation_def)
qed

lemma membership_only_leave: "membership_only db (save_member m (save_member m' db))"
  by (rule membership_only_trans [OF membership_only_save_member membership_only_save_member])

lemma membership_only_delete:
  "membership_only db (soft_delete_conversation clk cid (foldl (\<lambda>d m. save_member m d) db ms))"
  by (rule membership_only_trans [OF membership_only_save_members membership_only_soft_delete])

lemma roster_op_membership_only: "membership_only db (snd (run_roster_op clk a cid oper db))"
proof (rule membership_cases [of db cid a])
  fix c me
  assume r: "requireMembership db cid a = Inr (c, active_members db cid)" and cid: "c_id c = cid"
  have "\<forall>m\<in>set (active_members db cid). is_active m" by (simp add: set_active_members)
  note lp = add_members_loop_eq [OF this, of clk c]
  show ?thesis
    by (cases oper) (auto simp: run_roster_op_def addMembers_def removeMember_def setMemberRole_def leave_def
        deleteGroup_def r lp Let_def intro: membership_only_leave membership_only_delete split: option.splits list.splits)
qed (simp add: run_roster_op_denied)

lemma createGroup_inv: "chat_inv X db \<Longrightarrow> chat_inv X (snd (createGroup clk a n ids db))"
proof (cases "fst (createGroup clk a n ids db)")
  case (Inl e)
  then show "chat_inv X db \<Longrightarrow> ?thesis" using createGroup_error [of clk a n ids db] by (metis surjective_pairing)
next
  case (Inr v)
  assume inv: "chat_inv X db"
  have eq: "createGroup clk a n ids db = (Inr v, snd (createGroup clk a n ids db))" using Inr by (metis surjective_pairing)
  have "membership_inv (snd (createGroup clk a n ids db))"
    using createGroup_effect [OF chat_invD(1) [OF inv] eq] by blast
  moreover have "membership_only db (snd (createGroup clk a n ids db))"
    by (auto simp: createGroup_def Let_def intro: membership_only_create simp del: insert_members_Cons split: option.splits)
  ultimately show ?thesis using inv chat_inv_membership_only by blast
qed

lemma createPrivate_inv: "chat_inv X db \<Longrightarrow> chat_inv X (snd (createPrivate clk a b db))"
proof (cases "fst (createPrivate clk a b db)")
  case (Inl e)
  then show "chat_inv X db \<Longrightarrow> ?thesis" using createPrivate_error [of clk a b db] by (metis surjective_pairing)
next
  case (Inr v)
  assume inv: "chat_inv X db"
  have eq: "createPrivate clk a b db = (Inr v, snd (createPrivate clk a b db))" using Inr by (metis surjective_pairing)
  have "membership_inv (snd (createPrivate clk a b db))"
    using createPrivate_effect [OF chat_invD(1) [OF inv] eq] by blast
  moreover have "membership_only db (snd (createPrivate clk a b db))"
    by (auto simp: createPrivate_def Let_def intro: membership_only_create simp del: insert_members_Cons split: option.splits)
  ultimately show ?thesis using inv chat_inv_membership_only by blast
qed

lemma run_roster_op_chat_inv: "chat_inv X db \<Longrightarrow> chat_inv X (snd (run_roster_op clk a cid oper db))"
  using chat_inv_membership_only run_roster_op_inv roster_op_membership_only chat_invD(1) by blast

lemma flags_membership_only:
  assumes inv: "membership_inv db"
  shows "membership_only db (snd (pinConversation clk a cid p db))"
    "membership_only db (snd (muteConversation clk a cid p db))"
    "membership_only db (snd (markSeen clk a cid mid db))"
    "membership_only db (snd (updateGroup clk a cid n db))"
    "membership_only db (snd (setDisappearingMessages clk a cid d db))"
  by (rule membership_cases [of db cid a];
      auto simp: pinConversation_def muteConversation_def markSeen_def updateGroup_def setDisappearingMessages_def Let_def
        intro: membership_only_save_conversation [OF inv]
          membership_only_trans [OF membership_only_save_conversation [OF inv] membership_only_audit]
        split: option.splits sum.splits)+

lemma chat_inv_same_rosters:
  "chat_inv X db \<Longrightarrow> same_rosters db db' \<Longrightarrow> membership_only db db' \<Longrightarrow> chat_inv X db'"
  using chat_inv_membership_only same_rosters_inv by blast

lemma flags_inv:
  assumes "chat_inv X db"
  shows "chat_inv X (snd (pinConversation clk a cid p db))" "chat_inv X (snd (muteConversation clk a cid p db))"
    "chat_inv X (snd (markSeen clk a cid mid db))" "chat_inv X (snd (updateGroup clk a cid n db))"
    "chat_inv X (snd (setDisappearingMessages clk a cid d db))"
  by (rule chat_inv_same_rosters [OF assms _ flags_membership_only(1) [OF chat_invD(1) [OF assms]]]
      chat_inv_same_rosters [OF assms _ flags_membership_only(2) [OF chat_invD(1) [OF assms]]]
      chat_inv_same_rosters [OF assms _ flags_membership_only(3) [OF chat_invD(1) [OF assms]]]
      chat_inv_same_rosters [OF assms _ flags_membership_only(4) [OF chat_invD(1) [OF assms]]]
      chat_inv_same_rosters [OF assms _ flags_membership_only(5) [OF chat_invD(1) [OF assms]]];
      rule pinConversation_rosters muteConversation_rosters markSeen_rosters updateGroup_rosters
        setDisappearing_rosters; rule chat_invD(1) [OF assms])+

section \<open>Message handlers\<close>

lemma in_ctypes: "find_conversation db cid = Some c \<Longrightarrow> (c_id c, c_type c) \<in> ctypes db"
  by (auto simp: ctypes_def dest: find_conversation_Some)

lemma in_mkeys: "find_message_in db mid cid = Some m \<Longrightarrow> (m_id m, cid) \<in> mkeys db"
  by (auto simp: mkeys_def dest: find_message_in_Some)

lemma undelivered_private:
  "d_undelivered (resolvePrivateDelivery db (c, ms) a) \<Longrightarrow> c_type c = PRIVATE"
  by (auto simp: resolvePrivateDelivery_def split: if_splits)

lemma new_message_simps [simp]:
  "m_id (new_message clk i c s b ty) = i" "m_conv (new_message clk i c s b ty) = c"
  "m_sender (new_message clk i c s b ty) = s" "m_body (new_message clk i c s b ty) = b"
  "m_type (new_message clk i c s b ty) = ty" "m_replyTo (new_message clk i c s b ty) = None"
  "m_deletedForEveryoneAt (new_message clk i c s b ty) = None" "m_pinnedAt (new_message clk i c s b ty) = None"
  "m_pinnedBy (new_message clk i c s b ty) = None" "m_undelivered (new_message clk i c s b ty) = False"
  "m_mentions (new_message clk i c s b ty) = []" "m_deletedAt (new_message clk i c s b ty) = None"
  "m_createdAt (new_message clk i c s b ty) = db_now clk" "m_attachmentUrl (new_message clk i c s b ty) = None"
  by (simp_all add: new_message_def)

lemma send_call_inv:
  assumes inv: "chat_inv X db"
  shows "chat_inv X (snd (send_call clk p b db))"
proof (rule membership_cases [of db "sp_conversationId p" "sp_actorId p"])
  fix c me
  assume r: "requireMembership db (sp_conversationId p) (sp_actorId p) = Inr (c, active_members db (sp_conversationId p))"
    and c: "find_conversation db (sp_conversationId p) = Some c"
  let ?m = "new_message clk (next_uuid db) (c_id c) (sp_actorId p) b CALL"
  have "c_id c \<in> fst ` ctypes db" using in_ctypes [OF c] by force
  then have "chat_inv X (store_message clk c ?m db)" if "truthy b"
    by (intro chat_inv_store_message [OF inv c]) (simp_all add: message_ok_def that)
  with r inv show ?thesis by (simp add: send_call_def Let_def)
qed (use inv in \<open>simp add: send_call_def\<close>)

lemma find_reply_target_ok:
  "find_reply_target db cid rt = Inr (Some r) \<Longrightarrow> (m_id r, cid) \<in> mkeys db"
  by (auto simp: find_reply_target_def dest: in_mkeys split: if_splits option.splits)

lemma default_body_truthy:
  "truthy b \<or> ty \<in> {IMAGE, AUDIO, FILE} \<Longrightarrow> truthy (default_body b ty)"
  by (auto simp: default_body_def)

lemma attachment_type_kind: "attachment_type m ty \<in> {IMAGE, AUDIO, FILE}"
  by (simp add: attachment_type_def)

lemma send_user_inv:
  assumes inv: "chat_inv X db" and body: "truthy b \<or> url \<noteq> None"
  shows "chat_inv X (snd (send_user clk p url b ty db))"
proof (rule membership_cases [of db "sp_conversationId p" "sp_actorId p"])
  fix c me
  assume r: "requireMembership db (sp_conversationId p) (sp_actorId p) = Inr (c, active_members db (sp_conversationId p))"
    and c: "find_conversation db (sp_conversationId p) = Some c"
  have c1: "(c_id c, c_type c) \<in> ctypes db" "c_id c \<in> fst ` ctypes db" using in_ctypes [OF c] by force+
  have b1: "truthy (default_body b ty)" if "url = None"
    using body that by (auto intro: default_body_truthy)
  have b2: "truthy (default_body b (attachment_type mi t))" for mi t
    using attachment_type_kind by (auto intro!: default_body_truthy)
  have store: "chat_inv X (recordAudit clk u x t i mt (store_message clk c m db))"
    if "m_id m = next_uuid db" "m_conv m = c_id c" "truthy (m_body m)" "m_deletedAt m = None"
      "m_undelivered m \<Longrightarrow> c_type c = PRIVATE" "\<And>r. m_replyTo m = Some r \<Longrightarrow> (r, c_id c) \<in> mkeys db"
      "m_deletedForEveryoneAt m = None" "m_pinnedAt m = None" "m_pinnedBy m = None"
      "m_sender m \<notin> set (m_mentions m)" for m u x t i mt
    using that c1 by (intro chat_inv_audit chat_inv_store_message [OF inv c]) (auto simp: message_ok_def)
  show ?thesis
  proof (cases "d_forbidden (resolvePrivateDelivery db (c, active_members db (sp_conversationId p)) (sp_actorId p))")
    case True
    with r inv show ?thesis by (simp add: send_user_def Let_def)
  next
    case False
    show ?thesis
    proof (cases "find_reply_target db (c_id c) (sp_replyTo p)")
      case (Inl e)
      with False r inv show ?thesis by (simp add: send_user_def Let_def)
    next
      case (Inr rt)
      have rts: "(m_id z, c_id c) \<in> mkeys db" if "rt = Some z" for z
        using that find_reply_target_ok [of db "c_id c" "sp_replyTo p"] Inr by auto
      from False Inr r show ?thesis
        by (simp add: send_user_def Let_def del: if_split)
          (intro conjI impI; rule store; auto simp: b1 b2 dest: rts undelivered_private simp del: if_split)
    qed
  qed
qed (use inv in \<open>simp add: send_user_def Let_def\<close>)

lemma sendMessage_inv: "chat_inv X db \<Longrightarrow> chat_inv X (snd (sendMessage clk p db))"
  by (auto simp: sendMessage_def Let_def send_call_inv intro: send_user_inv split: option.splits)

lemma message_row:
  assumes "chat_inv X db" and "find_message_in db mid cid = Some m"
  shows "m \<in> set (messages db)" "m_id m = mid" "m_conv m = cid" "message_ok (ctypes db) (mkeys db) m"
  using find_message_in_Some [OF assms(2)] message_invD(3) [OF chat_invD(2) [OF assms(1)]] by auto

lemma editMessage_inv:
  assumes inv: "chat_inv X db"
  shows "chat_inv X (snd (editMessage clk a cid mid b db))"
proof -
  have "chat_inv X (save_message (m\<lparr>m_body := trim b, m_editedAt := t\<rparr>) db)"
    if "find_message_in db mid k = Some m" "truthy (trim b)" for m k t
    using message_row [OF inv that(1)] that(2)
    by (intro chat_inv_save_message [OF inv, of m]) (auto simp: message_ok_def)
  with inv show ?thesis by (auto simp: editMessage_def Let_def split: sum.splits option.splits)
qed

lemma toggle_reaction_inv:
  assumes inv: "chat_inv X db" and m: "m \<in> set (messages db)" and e: "e \<in> set ALLOWED_REACTIONS"
  shows "chat_inv X (toggle_reaction (m_id m) u e db)"
proof -
  have ri: "reaction_inv db" by (rule chat_invD [OF inv])
  let ?db = "toggle_reaction (m_id m) u e db"
  have "reaction_inv ?db"
  proof (cases "find (\<lambda>r. rx_message r = m_id m \<and> rx_user r = u \<and> rx_emoji r = e) (messageReactions db)")
    case None
    let ?r = "\<lparr>rx_id = next_uuid db, rx_message = m_id m, rx_user = u, rx_emoji = e\<rparr>"
    have mr: "messageReactions ?db = messageReactions db @ [?r]" using None by (simp add: toggle_reaction_def)
    have dr: "drawn ?db = insert (next_uuid db) (drawn db)"
      using None by (simp add: toggle_reaction_def drawn_def lessThan_Suc next_uuid_def)
    have ms: "messages ?db = messages db" using None by (simp add: toggle_reaction_def)
    have "next_uuid db \<notin> rx_id ` set (messageReactions db)"
      using next_uuid_fresh [OF chat_inv_inj [OF inv]] ri by (auto simp: reaction_inv_def)
    moreover have "reaction_key ?r \<notin> reaction_key ` set (messageReactions db)"
      using None by (auto simp: find_None_set reaction_key_def)
    ultimately show ?thesis
      using ri e m unfolding reaction_inv_def mr dr ms by auto
  next
    case (Some x)
    have mr: "messageReactions ?db = filter (\<lambda>r. rx_id r \<noteq> rx_id x) (messageReactions db)"
      using Some by (simp add: toggle_reaction_def)
    have "drawn ?db = drawn db" "messages ?db = messages db"
      using Some by (simp_all add: toggle_reaction_def drawn_def)
    with ri show ?thesis unfolding reaction_inv_def mr by (auto simp: distinct_map_filter)
  qed
  moreover have "block_inv ?db"
    by (rule block_inv_frame [OF chat_invD(4) [OF inv]]) (simp add: toggle_reaction_def split: option.split)
  moreover have "schedule_inv X ?db"
    by (rule schedule_inv_frame [OF chat_invD(5) [OF inv]]) (simp_all add: toggle_reaction_def split: option.split)
  ultimately show ?thesis
    by (intro chat_inv_side [OF inv]) (simp_all add: toggle_reaction_def split: option.split)
qed

lemma reactMessage_inv: "chat_inv X db \<Longrightarrow> chat_inv X (snd (reactMessage a cid mid e db))"
  by (auto simp: reactMessage_def Let_def intro: toggle_reaction_inv dest: message_row split: sum.splits option.splits)

lemma pinMessage_inv:
  assumes inv: "chat_inv X db"
  shows "chat_inv X (snd (pinMessage clk a cid mid p db))"
proof -
  have pin: "chat_inv X (save_message (m\<lparr>m_pinnedAt := Some t, m_pinnedBy := Some a\<rparr>) db)"
    if "find_message_in db mid k = Some m" "m_deletedForEveryoneAt m = None" "m_type m \<noteq> CALL"
      "\<not> 3 \<le> length (pinned_in db k)" for m k t
    using message_row [OF inv that(1)] that(2-4)
    by (intro chat_inv_save_message [OF inv, of m]) (auto simp: message_ok_def)
  have unpin: "chat_inv X (save_message (m\<lparr>m_pinnedAt := None, m_pinnedBy := None\<rparr>) db)"
    if "find_message_in db mid k = Some m" for m k
    using message_row [OF inv that(1)]
    by (intro chat_inv_save_message [OF inv, of m]) (auto simp: message_ok_def)
  from inv pin unpin show ?thesis
    by (auto simp: pinMessage_def Let_def split: sum.splits option.splits)
qed

lemma wipe_ok: "message_ok cs ks m \<Longrightarrow> message_ok cs ks (wipe_message clk m)"
  by (simp add: message_ok_def wipe_message_def)

lemma wipe_simps [simp]:
  "m_id (wipe_message clk m) = m_id m" "m_conv (wipe_message clk m) = m_conv m"
  "m_pinnedAt (wipe_message clk m) = None" "m_deletedForEveryoneAt (wipe_message clk m) = Some (now clk)"
  by (simp_all add: wipe_message_def)

lemma chat_inv_hide: "chat_inv X db \<Longrightarrow> chat_inv X (hide_message mid u db)"
proof -
  assume inv: "chat_inv X db"
  have f: "messageReactions (hide_message mid u db) = messageReactions db" "messages (hide_message mid u db) = messages db"
    "userBlocks (hide_message mid u db) = userBlocks db" "scheduledMessages (hide_message mid u db) = scheduledMessages db"
    "uuid_gen (hide_message mid u db) = uuid_gen db" "uuid_next (hide_message mid u db) = uuid_next db"
    "conversations (hide_message mid u db) = conversations db" "members (hide_message mid u db) = members db"
    by (simp_all add: hide_message_def)
  show ?thesis
    by (rule chat_inv_side [OF inv])
      (simp_all add: f reaction_inv_frame [OF chat_invD(3) [OF inv]] block_inv_frame [OF chat_invD(4) [OF inv]]
        schedule_inv_frame [OF chat_invD(5) [OF inv]])
qed

lemma deleteMessage_inv:
  assumes inv: "chat_inv X db"
  shows "chat_inv X (snd (deleteMessage clk a cid mid fe db))"
proof -
  have "chat_inv X (save_message (wipe_message clk m) db)" if "find_message_in db mid k = Some m" for m k
    using message_row [OF inv that(1)]
    by (intro chat_inv_save_message [OF inv, of m]) (auto simp: wipe_ok)
  with inv chat_inv_hide show ?thesis
    by (auto simp: deleteMessage_def Let_def split: sum.splits option.splits)
qed

text \<open>The sweep reads its rows once; they stay rows of the table while it runs.\<close>

lemma expire_loop_inv:
  assumes "chat_inv X db" and "distinct (map m_id due)"
    and "\<forall>m\<in>set due. m \<in> set (messages db)"
  shows "chat_inv X (snd (expire_loop clk due db))"
  using assms
proof (induction due arbitrary: db)
  case (Cons m due)
  note inv = Cons.prems(1)
  have m: "m \<in> set (messages db)" using Cons.prems(3) by simp
  have ok: "message_ok (ctypes db) (mkeys db) m" by (rule message_invD(3) [OF chat_invD(2) [OF inv] m])
  have keep: "\<forall>x\<in>set due. x \<in> set (messages (save_message m' db))" if "m_id m' = m_id m" for m'
    using Cons.prems(2,3) that by (auto simp: save_row_def image_iff)
  have d: "distinct (map m_id due)" using Cons.prems(2) by simp
  have one: "chat_inv X (save_message (m\<lparr>m_expiresAt := None\<rparr>) db)"
    using ok by (intro chat_inv_save_message [OF inv m]) (auto simp: message_ok_def)
  have two: "chat_inv X (save_message ((wipe_message clk m)\<lparr>m_expiresAt := None\<rparr>) db)"
    using wipe_ok [OF ok] by (intro chat_inv_save_message [OF inv m]) (auto simp: message_ok_def)
  show ?case
    using Cons.IH [OF one d keep] Cons.IH [OF two d keep]
    by (auto simp: Let_def split: option.split prod.split)
qed simp

lemma due_messages_rows:
  assumes "chat_inv X db"
  shows "distinct (map m_id (due_messages clk db))" "\<forall>m\<in>set (due_messages clk db). m \<in> set (messages db)"
proof -
  let ?P = "\<lambda>m. (case m_expiresAt m of None \<Rightarrow> False | Some t \<Rightarrow> t \<le> now clk) \<and> m_deletedForEveryoneAt m = None"
  let ?s = "order_asc (\<lambda>m. nullish (m_expiresAt m) 0) (filter ?P (live_messages db))"
  have dm: "distinct (map m_id (messages db))" by (rule message_invD(1) [OF chat_invD(2) [OF assms]])
  have sub: "set ?s \<subseteq> set (messages db)" by (auto simp: live_messages_def)
  have "distinct (messages db)" using dm by (simp add: distinct_map)
  then have "distinct ?s" by (simp add: live_messages_def)
  then have "distinct (map m_id ?s)"
    using dm sub by (auto simp: distinct_map intro: inj_on_subset)
  then show "distinct (map m_id (due_messages clk db))"
    unfolding due_messages_def take_map [symmetric] by (rule distinct_take)
  show "\<forall>m\<in>set (due_messages clk db). m \<in> set (messages db)"
    using sub unfolding due_messages_def by (meson in_set_takeD subsetD)
qed

lemma expireDueMessages_inv: "chat_inv X db \<Longrightarrow> chat_inv X (snd (expireDueMessages clk db))"
  using expire_loop_inv [OF _ due_messages_rows] by (simp add: expireDueMessages_def)

lemma forwardMessage_inv:
  assumes inv: "chat_inv X db"
  shows "chat_inv X (snd (forwardMessage clk a from to mid db))"
proof (rule membership_cases [of db to a])
  fix c me
  assume r: "requireMembership db to a = Inr (c, active_members db to)" and c: "find_conversation db to = Some c"
  have store: "chat_inv X (store_message clk c (forward_copy clk c a source u db) db)"
    if s: "find_message_in db mid k = Some source" "m_deletedForEveryoneAt source = None"
      and u: "u \<longrightarrow> c_type c = PRIVATE" for k source u
  proof (rule chat_inv_store_message [OF inv c])
    have "c_id c \<in> fst ` ctypes db" "(c_id c, c_type c) \<in> ctypes db" using in_ctypes [OF c] by force+
    then show "message_ok (ctypes db) (mkeys db) (forward_copy clk c a source u db)"
      using message_row(4) [OF inv s(1)] u by (auto simp: message_ok_def forward_copy_def)
  qed (simp_all add: forward_copy_def)
  show ?thesis
  proof (cases "requireMembership db from a")
    case (Inl e)
    then show ?thesis using inv by (simp add: forwardMessage_def)
  next
    case (Inr f)
    show ?thesis
    proof (cases "find_message_in db mid (c_id (fst f))")
      case None
      with Inr r inv show ?thesis by (simp add: forwardMessage_def)
    next
      case (Some s)
      have "chat_inv X (store_message clk c (forward_copy clk c a s u db) db)"
        if "m_deletedForEveryoneAt s = None" "u \<longrightarrow> c_type c = PRIVATE" for u
        using store [OF Some that] .
      with Inr r inv Some undelivered_private [of db c "active_members db to" a] show ?thesis
        by (simp add: forwardMessage_def Let_def)
    qed
  qed
qed (use inv in \<open>auto simp: forwardMessage_def split: sum.splits\<close>)

section \<open>Scheduled messages\<close>

lemma insert_scheduled_simps [simp]:
  "conversations (insert_scheduled s db) = conversations db" "members (insert_scheduled s db) = members db"
  "messages (insert_scheduled s db) = messages db" "messageReactions (insert_scheduled s db) = messageReactions db"
  "userBlocks (insert_scheduled s db) = userBlocks db"
  "scheduledMessages (insert_scheduled s db) = scheduledMessages db @ [s]"
  "uuid_gen (insert_scheduled s db) = uuid_gen db" "uuid_next (insert_scheduled s db) = Suc (uuid_next db)"
  by (simp_all add: insert_scheduled_def)

lemma save_scheduled_simps [simp]:
  "conversations (save_scheduled s db) = conversations db" "members (save_scheduled s db) = members db"
  "messages (save_scheduled s db) = messages db" "messageReactions (save_scheduled s db) = messageReactions db"
  "userBlocks (save_scheduled s db) = userBlocks db"
  "scheduledMessages (save_scheduled s db) = save_row sm_id s (scheduledMessages db)"
  "uuid_gen (save_scheduled s db) = uuid_gen db" "uuid_next (save_scheduled s db) = uuid_next db"
  by (simp_all add: save_scheduled_def)

lemma chat_inv_schedule_side:
  assumes inv: "chat_inv X db" and "conversations db' = conversations db" and "members db' = members db"
    and "messages db' = messages db" and "messageReactions db' = messageReactions db"
    and "userBlocks db' = userBlocks db" and "uuid_gen db' = uuid_gen db" and "uuid_next db \<le> uuid_next db'"
    and "schedule_inv Y db'"
  shows "chat_inv Y db'"
  unfolding chat_inv_def
  using assms message_inv_frame [OF chat_invD(2) [OF inv], of db'] inv_frame [OF chat_invD(1) [OF inv], of db']
    reaction_inv_frame [OF chat_invD(3) [OF inv], of db'] block_inv_frame [OF chat_invD(4) [OF inv], of db']
  by (simp add: ctypes_def)

lemma chat_inv_insert_scheduled:
  assumes inv: "chat_inv X db" and sid: "sm_id s = next_uuid db" and ok: "scheduled_ok s"
    and room: "length (pending_for db (sm_conv s) (sm_sender s)) < 20"
  shows "chat_inv X (insert_scheduled s db)"
proof (rule chat_inv_schedule_side [OF inv])
  have si: "schedule_inv X db" by (rule chat_invD [OF inv])
  have fresh: "sm_id s \<notin> sm_id ` set (scheduledMessages db)"
    using next_uuid_fresh [OF chat_inv_inj [OF inv]] si sid by (auto simp: schedule_inv_def)
  have dr: "drawn (insert_scheduled s db) = insert (sm_id s) (drawn db)"
    by (simp add: drawn_def lessThan_Suc sid next_uuid_def)
  have "length (pending_for (insert_scheduled s db) cid u) \<le> 20" for cid u
    using si room by (cases "cid = sm_conv s \<and> u = sm_sender s")
      (auto simp: pending_for_def schedule_inv_def Suc_le_eq)
  then show "schedule_inv X (insert_scheduled s db)"
    using si fresh ok dr unfolding schedule_inv_def by auto
qed simp_all

lemma chat_inv_save_scheduled:
  assumes inv: "chat_inv X db" and s: "s \<in> set (scheduledMessages db)" and sid: "sm_id s' = sm_id s"
    and ok: "scheduled_ok s'" and np: "sm_status s' \<noteq> Pending"
  shows "chat_inv (X - {sm_id s}) (save_scheduled s' db)"
proof (rule chat_inv_schedule_side [OF inv])
  have si: "schedule_inv X db" by (rule chat_invD [OF inv])
  have "length (pending_for (save_scheduled s' db) cid u) \<le> length (pending_for db cid u)" for cid u
    unfolding pending_for_def save_scheduled_simps by (rule length_filter_save_le) (use np in simp)
  then have "length (pending_for (save_scheduled s' db) cid u) \<le> 20" for cid u
    using si order_trans unfolding schedule_inv_def by blast
  moreover have "sm_id ` set (scheduledMessages (save_scheduled s' db)) = sm_id ` set (scheduledMessages db)"
    by (simp only: save_scheduled_simps list.set_map [symmetric] map_key_save_row)
  moreover have "scheduled_ok x" if "x \<in> set (scheduledMessages (save_scheduled s' db))" "sm_id x \<notin> X - {sm_id s}" for x
    using that ok si sid by (auto simp: schedule_inv_def dest: set_save_row)
  ultimately show "schedule_inv (X - {sm_id s}) (save_scheduled s' db)"
    using si unfolding schedule_inv_def by (simp add: drawn_def)
qed simp_all

lemma scheduleMessage_inv:
  assumes inv: "chat_inv X db"
  shows "chat_inv X (snd (scheduleMessage clk p t db))"
proof -
  have body: "chat_inv X (snd (schedule_body clk p at url b ty (c, ms) db))"
    if "truthy b \<or> url \<noteq> None" "ty \<noteq> CALL" "\<not> 20 \<le> length (pending_for db (c_id c) (sp_actorId p))" for at url b ty c ms
  proof -
    have b1: "truthy (default_body b ty)" if "url = None"
      using \<open>truthy b \<or> url \<noteq> None\<close> that by (auto intro: default_body_truthy)
    have b2: "truthy (default_body b (attachment_type mi t)) \<and> attachment_type mi t \<noteq> CALL" for mi t
      using attachment_type_kind by (auto intro!: default_body_truthy simp: attachment_type_def)
    show ?thesis
      using that inv b1 b2
      by (auto simp: schedule_body_def Let_def scheduled_ok_def intro!: chat_inv_audit chat_inv_insert_scheduled
          split: option.splits)
  qed
  show ?thesis
  proof (rule membership_cases [of db "sp_conversationId p" "sp_actorId p"])
    fix c me
    assume "requireMembership db (sp_conversationId p) (sp_actorId p) = Inr (c, active_members db (sp_conversationId p))"
    then show ?thesis
      using inv by (auto simp: scheduleMessage_def Let_def MAX_PENDING_SCHEDULED_PER_CHAT_def
          intro!: body split: option.splits)
  qed (use inv in \<open>auto simp: scheduleMessage_def Let_def split: option.splits\<close>)
qed

lemma cancelScheduledMessage_inv:
  assumes inv: "chat_inv {} db"
  shows "chat_inv {} (snd (cancelScheduledMessage clk a cid sid db))"
proof -
  have "chat_inv {} (save_scheduled (s\<lparr>sm_status := Cancelled, sm_cancelledAt := Some t\<rparr>) db)"
    if "find (\<lambda>s. sm_id s = sid \<and> sm_conv s = cid \<and> sm_sender s = a) (scheduledMessages db) = Some s"
      "sm_status s = Pending" for s t
  proof -
    have s: "s \<in> set (scheduledMessages db)" using find_set [OF that(1)] by simp
    moreover have "scheduled_ok s" using chat_invD(5) [OF inv] s by (simp add: schedule_inv_def)
    ultimately show ?thesis
      using chat_inv_save_scheduled [OF inv s, of "s\<lparr>sm_status := Cancelled, sm_cancelledAt := Some t\<rparr>"] that(2)
      by (simp add: scheduled_ok_def)
  qed
  with inv show ?thesis by (auto simp: cancelScheduledMessage_def Let_def split: sum.splits option.splits)
qed

lemma chat_inv_claim:
  assumes inv: "chat_inv X db"
  shows "chat_inv (insert sid X) (snd (claim_scheduled sid db))"
proof (rule chat_inv_schedule_side [OF inv])
  let ?db = "snd (claim_scheduled sid db)"
  have si: "schedule_inv X db" by (rule chat_invD [OF inv])
  have ids: "map sm_id (scheduledMessages ?db) = map sm_id (scheduledMessages db)"
    by (simp add: claim_scheduled_def)
  have "length (pending_for ?db cid u) \<le> length (pending_for db cid u)" for cid u
  proof -
    have le: "length (filter P (map f xs)) \<le> length (filter P xs)" if "\<And>x. P (f x) \<Longrightarrow> P x"
      for P and f :: "scheduled_message \<Rightarrow> scheduled_message" and xs
      using that by (induction xs) auto
    have "scheduledMessages ?db = map (\<lambda>s. if sm_id s = sid \<and> sm_status s = Pending
        then s\<lparr>sm_status := Sending\<rparr> else s) (scheduledMessages db)" by (simp add: claim_scheduled_def)
    then show ?thesis unfolding pending_for_def by (simp only:) (rule le, simp split: if_splits)
  qed
  then have "length (pending_for ?db cid u) \<le> 20" for cid u
    using si order_trans unfolding schedule_inv_def by blast
  moreover have "sm_id ` set (scheduledMessages ?db) \<subseteq> drawn ?db"
    using si arg_cong [OF ids, where f = set] unfolding schedule_inv_def
    by (simp add: drawn_def) (simp add: claim_scheduled_def)
  moreover have "scheduled_ok x" if "x \<in> set (scheduledMessages ?db)" "sm_id x \<notin> insert sid X" for x
    using that si by (auto simp: schedule_inv_def claim_scheduled_def split: if_splits)
  ultimately show "schedule_inv (insert sid X) ?db"
    using si ids unfolding schedule_inv_def by simp
qed (simp_all add: claim_scheduled_def)

lemma sendMessage_schedules:
  "scheduledMessages (snd (sendMessage clk p db)) = scheduledMessages db"
  by (auto simp: sendMessage_def send_call_def send_user_def store_message_def Let_def
      split: option.splits sum.splits)

lemma dispatch_loop_inv:
  assumes "chat_inv {} db" and "\<forall>r\<in>set due. \<exists>s\<in>set (scheduledMessages db). sm_id s = sm_id r"
    and "\<forall>r\<in>set due. scheduled_ok r \<and> sm_status r = Pending"
  shows "chat_inv {} (snd (dispatch_loop clk due db))"
  using assms
proof (induction due arbitrary: db)
  case (Cons r due)
  let ?db1 = "snd (claim_scheduled (sm_id r) db)"
  let ?db2 = "snd (sendMessage clk (scheduled_payload r) ?db1)"
  have claimed: "scheduledMessages ?db1 = map (\<lambda>s. if sm_id s = sm_id r \<and> sm_status s = Pending
      then s\<lparr>sm_status := Sending\<rparr> else s) (scheduledMessages db)" by (simp add: claim_scheduled_def)
  have ids1: "sm_id ` set (scheduledMessages ?db1) = sm_id ` set (scheduledMessages db)"
  proof -
    have "map sm_id (scheduledMessages ?db1) = map sm_id (scheduledMessages db)" unfolding claimed by simp
    then show ?thesis by (metis list.set_map)
  qed
  have i2: "chat_inv {sm_id r} ?db2" using chat_inv_claim [OF Cons.prems(1)] by (intro sendMessage_inv) simp
  have r1: "sm_id r \<in> sm_id ` set (scheduledMessages ?db1)" 
  proof -
    have "\<exists>s\<in>set (scheduledMessages db). sm_id s = sm_id r" using Cons.prems(2) by simp
    then show ?thesis unfolding ids1 by (metis imageI)
  qed
  then obtain s where s: "s \<in> set (scheduledMessages ?db2)" "sm_id s = sm_id r"
    unfolding sendMessage_schedules by (metis imageE)
  have rok: "scheduled_ok r" "sm_status r = Pending" using Cons.prems(3) by auto
  have settle: "chat_inv {} (save_scheduled r' ?db2)"
    if "sm_id r' = sm_id r" "scheduled_ok r'" "sm_status r' \<noteq> Pending" for r'
    using chat_inv_save_scheduled [OF i2 s(1), of r'] that s(2) by simp
  have rows: "\<forall>x\<in>set due. \<exists>y\<in>set (scheduledMessages db'). sm_id y = sm_id x"
    if "sm_id ` set (scheduledMessages db') = sm_id ` set (scheduledMessages db)" for db'
  proof
    fix x assume "x \<in> set due"
    then have "\<exists>s\<in>set (scheduledMessages db). sm_id s = sm_id x" using Cons.prems(2) by simp
    then have "sm_id x \<in> sm_id ` set (scheduledMessages db)" by (metis imageI)
    then have "sm_id x \<in> sm_id ` set (scheduledMessages db')" unfolding that .
    then show "\<exists>y\<in>set (scheduledMessages db'). sm_id y = sm_id x" by (metis imageE)
  qed
  have rows2: "\<forall>x\<in>set due. \<exists>y\<in>set (scheduledMessages (save_scheduled r' ?db2)). sm_id y = sm_id x" for r'
    by (rule rows) (simp only: save_scheduled_simps list.set_map [symmetric] map_key_save_row,
      simp only: list.set_map sendMessage_schedules ids1)
  have due: "\<forall>r\<in>set due. scheduled_ok r \<and> sm_status r = Pending" using Cons.prems(3) by simp
  show ?case
  proof (cases "fst (claim_scheduled (sm_id r) db) = 0")
    case True
    then have "\<forall>s\<in>set (scheduledMessages db). \<not> (sm_id s = sm_id r \<and> sm_status s = Pending)"
      by (auto simp: claim_scheduled_def filter_empty_conv)
    then have "map (\<lambda>s. if sm_id s = sm_id r \<and> sm_status s = Pending then s\<lparr>sm_status := Sending\<rparr> else s)
        (scheduledMessages db) = scheduledMessages db" by (intro map_idI) auto
    then have "?db1 = db" by (simp add: claim_scheduled_def)
    then have "dispatch_loop clk (r # due) db = dispatch_loop clk due db"
      using True by (simp add: Let_def case_prod_beta)
    then show ?thesis using Cons.IH [OF Cons.prems(1) rows [OF refl] due] by simp
  next
    case False
    have ok: "chat_inv {} (save_scheduled (r\<lparr>sm_status := Sent, sm_sentMessageId := Some i, sm_error := None\<rparr>) ?db2)"
      "chat_inv {} (save_scheduled (r\<lparr>sm_status := Failed, sm_error := Some e\<rparr>) ?db2)" for i e
      using rok by (auto intro!: settle simp: scheduled_ok_def)
    show ?thesis
    proof (cases "sendMessage clk (scheduled_payload r) ?db1")
      case (Pair res db2)
      then show ?thesis
        using False Cons.IH [OF ok(1) rows2 due] Cons.IH [OF ok(2) rows2 due]
        by (cases res) (simp_all add: Let_def case_prod_beta)
    qed
  qed
qed simp

lemma dispatchDueScheduled_inv: "chat_inv {} db \<Longrightarrow> chat_inv {} (snd (dispatchDueScheduled clk db))"
proof -
  assume inv: "chat_inv {} db"
  have "\<forall>r\<in>set (due_scheduled clk db). r \<in> set (scheduledMessages db) \<and> sm_status r = Pending"
    unfolding due_scheduled_def by (auto dest!: in_set_takeD)
  then have "chat_inv {} (snd (dispatch_loop clk (due_scheduled clk db) db))"
    using chat_invD(5) [OF inv] by (intro dispatch_loop_inv [OF inv]) (auto simp: schedule_inv_def)
  then show ?thesis by (simp add: dispatchDueScheduled_def)
qed

section \<open>Blocks, audit, settings\<close>

lemma blockUser_inv:
  assumes inv: "chat_inv X db"
  shows "chat_inv X (snd (blockUser clk a u db))"
proof -
  have "chat_inv X (db\<lparr>userBlocks := userBlocks db @ [\<lparr>b_blocker = a, b_blocked = u, b_createdAt = t\<rparr>]\<rparr>)"
    if "a \<noteq> u" "find (\<lambda>b. b_blocker b = a \<and> b_blocked b = u) (userBlocks db) = None" for t
  proof (rule chat_inv_side [OF inv])
    show "block_inv (db\<lparr>userBlocks := userBlocks db @ [\<lparr>b_blocker = a, b_blocked = u, b_createdAt = t\<rparr>]\<rparr>)"
      using that chat_invD(4) [OF inv] by (auto simp: block_inv_def find_None_set)
  qed (simp_all add: reaction_inv_frame [OF chat_invD(3) [OF inv]] schedule_inv_frame [OF chat_invD(5) [OF inv]])
  with inv show ?thesis by (auto simp: blockUser_def Let_def split: option.splits)
qed

lemma unblockUser_inv: "chat_inv X db \<Longrightarrow> chat_inv X (snd (unblockUser a u db))"
proof -
  assume inv: "chat_inv X db"
  show ?thesis
    unfolding unblockUser_def Let_def snd_conv
    by (rule chat_inv_side [OF inv])
      (use chat_invD(4) [OF inv] in \<open>simp_all add: reaction_inv_frame [OF chat_invD(3) [OF inv]]
        schedule_inv_frame [OF chat_invD(5) [OF inv]] block_inv_def distinct_map_filter\<close>)
qed

lemma chat_inv_settings: "chat_inv X db \<Longrightarrow> chat_inv X (db\<lparr>workspaceSettings := s\<rparr>)"
proof -
  assume inv: "chat_inv X db"
  show ?thesis
    by (rule chat_inv_side [OF inv])
      (simp_all add: reaction_inv_frame [OF chat_invD(3) [OF inv]] schedule_inv_frame [OF chat_invD(5) [OF inv]]
        block_inv_frame [OF chat_invD(4) [OF inv]])
qed

lemma audit_settings_inv:
  assumes "chat_inv X db"
  shows "chat_inv X (snd (logAudit clk a x ty tg mt db))" "chat_inv X (snd (getWorkspaceSettings db))"
    "chat_inv X (snd (updateWorkspaceSettings clk a n tg c l db))"
  using assms by (auto simp: logAudit_def getWorkspaceSettings_def updateWorkspaceSettings_def Let_def
      intro: chat_inv_audit chat_inv_settings split: option.splits)

end
