(* ===== verification/ChatService.thy ===== *)
theory ChatService
  imports ChatHandlers
begin

text \<open>
  The message patterns of \<open>chat.controller.ts\<close>: one request constructor per
  pattern, dispatched to the service method, and the theorems about whole runs
  of requests. A request carries the clock readings of its processing.
\<close>

section \<open>Requests\<close>

datatype (plugins only: size code) chat_request =
    CreatePrivate uuid uuid
  | CreateGroup uuid string "uuid list"
  | ListConversations uuid int int
  | GetConversation uuid uuid
  | ListMessages uuid uuid int int
  | SearchMessages uuid uuid string int int
  | SearchGlobal uuid string int int
  | ListMedia uuid uuid "string option" int int
  | GetMessage uuid uuid uuid
  | SendMessage send_payload
  | EditMessage uuid uuid uuid string
  | ReactMessage uuid uuid uuid string
  | PinMessage uuid uuid uuid bool
  | ListPinnedMessages uuid uuid
  | ScheduleMessage send_payload "instant option"
  | ListScheduledMessages uuid uuid
  | CancelScheduledMessage uuid uuid uuid
  | DispatchDueScheduled
  | ForwardMessage uuid uuid uuid uuid
  | MarkSeen uuid uuid "uuid option"
  | MuteConversation uuid uuid bool
  | PinConversation uuid uuid bool
  | SetDisappearing uuid uuid int
  | ExpireDueMessages
  | DeleteMessage uuid uuid uuid bool
  | RosterRequest uuid uuid roster_op
  | UpdateGroup uuid uuid string
  | BlockUser uuid uuid
  | UnblockUser uuid uuid
  | ListBlocks uuid
  | PrepareVoiceCall uuid uuid
  | ListAudit int int
  | LogAudit uuid string "string option" "string option" "(string \<times> meta_value) list option"
  | GetWorkspace
  | UpdateWorkspace uuid "string option" "string option" "string option" "string option option"

datatype (plugins only: size code) chat_response =
    RConversation conversation_view
  | RConversations "conversation_view list \<times> paginated_meta"
  | RMessage message_view
  | RMessages message_page
  | RPinned "message_view list"
  | RHits "search_hit list \<times> paginated_meta"
  | RSent send_result
  | RSentList "send_result list"
  | RScheduled scheduled_view
  | RScheduledList "scheduled_view list"
  | RSeen seen_result
  | RDeleted delete_result
  | RExpired "delete_result list"
  | RFlag bool
  | RGroupDeleted "bool \<times> uuid list"
  | RBlock block_view
  | RBlocks "block_view list"
  | RCall call_admission
  | RAudit audit_view
  | RAudits "audit_view list \<times> paginated_meta"
  | RWorkspace workspace_settings

definition reply :: "('a \<Rightarrow> chat_response) \<Rightarrow> 'a rpc \<times> chat_db \<Rightarrow> chat_response rpc \<times> chat_db" where
  "reply f out = apfst (map_sum id f) out"

definition query :: "('a \<Rightarrow> chat_response) \<Rightarrow> 'a rpc \<Rightarrow> chat_db \<Rightarrow> chat_response rpc \<times> chat_db" where
  "query f r db = (map_sum id f r, db)"

fun roster_step :: "clock \<Rightarrow> uuid \<Rightarrow> uuid \<Rightarrow> roster_op \<Rightarrow> chat_response handler" where
  "roster_step clk a cid (AddMembers ids) db = reply RConversation (addMembers clk a cid ids db)"
| "roster_step clk a cid (RemoveMember u) db = reply RConversation (removeMember clk a cid u db)"
| "roster_step clk a cid (SetRole u r) db = reply RConversation (setMemberRole clk a cid u r db)"
| "roster_step clk a cid Leave db = reply RFlag (leave clk a cid db)"
| "roster_step clk a cid DeleteGroup db = reply RGroupDeleted (deleteGroup clk a cid db)"

primrec handle_request :: "chat_request \<Rightarrow> clock \<Rightarrow> chat_response handler" where
  "handle_request (CreatePrivate a b) clk db = reply RConversation (createPrivate clk a b db)"
| "handle_request (CreateGroup a n ids) clk db = reply RConversation (createGroup clk a n ids db)"
| "handle_request (ListConversations a p l) clk db = query RConversations (listConversations a p l db) db"
| "handle_request (GetConversation a c) clk db = query RConversation (getConversation a c db) db"
| "handle_request (ListMessages a c p l) clk db = query RMessages (listMessages a c p l db) db"
| "handle_request (SearchMessages a c q p l) clk db = query RMessages (searchMessages a c q p l db) db"
| "handle_request (SearchGlobal a q p l) clk db = query RHits (searchGlobal a q p l db) db"
| "handle_request (ListMedia a c k p l) clk db = query RMessages (listMedia a c k p l db) db"
| "handle_request (GetMessage a c m) clk db = query RMessage (getMessage a c m db) db"
| "handle_request (SendMessage p) clk db = reply RSent (sendMessage clk p db)"
| "handle_request (EditMessage a c m b) clk db = reply RSent (editMessage clk a c m b db)"
| "handle_request (ReactMessage a c m e) clk db = reply RSent (reactMessage a c m e db)"
| "handle_request (PinMessage a c m p) clk db = reply RSent (pinMessage clk a c m p db)"
| "handle_request (ListPinnedMessages a c) clk db = query RPinned (listPinnedMessages a c db) db"
| "handle_request (ScheduleMessage p t) clk db = reply RScheduled (scheduleMessage clk p t db)"
| "handle_request (ListScheduledMessages a c) clk db = query RScheduledList (listScheduledMessages a c db) db"
| "handle_request (CancelScheduledMessage a c s) clk db = reply RScheduled (cancelScheduledMessage clk a c s db)"
| "handle_request DispatchDueScheduled clk db = reply RSentList (dispatchDueScheduled clk db)"
| "handle_request (ForwardMessage a f t m) clk db = reply RSent (forwardMessage clk a f t m db)"
| "handle_request (MarkSeen a c m) clk db = reply RSeen (markSeen clk a c m db)"
| "handle_request (MuteConversation a c b) clk db = reply RConversation (muteConversation clk a c b db)"
| "handle_request (PinConversation a c b) clk db = reply RConversation (pinConversation clk a c b db)"
| "handle_request (SetDisappearing a c d) clk db = reply RConversation (setDisappearingMessages clk a c d db)"
| "handle_request ExpireDueMessages clk db = reply RExpired (expireDueMessages clk db)"
| "handle_request (DeleteMessage a c m e) clk db = reply RDeleted (deleteMessage clk a c m e db)"
| "handle_request (RosterRequest a c oper) clk db = roster_step clk a c oper db"
| "handle_request (UpdateGroup a c n) clk db = reply RConversation (updateGroup clk a c n db)"
| "handle_request (BlockUser a u) clk db = reply RBlock (blockUser clk a u db)"
| "handle_request (UnblockUser a u) clk db = reply RFlag (unblockUser a u db)"
| "handle_request (ListBlocks a) clk db = query RBlocks (listBlocks a db) db"
| "handle_request (PrepareVoiceCall a c) clk db = query RCall (prepareVoiceCall a c db) db"
| "handle_request (ListAudit p l) clk db = query RAudits (listAuditEvents p l db) db"
| "handle_request (LogAudit a x ty tg mt) clk db = reply RAudit (logAudit clk a x ty tg mt db)"
| "handle_request GetWorkspace clk db = reply RWorkspace (getWorkspaceSettings db)"
| "handle_request (UpdateWorkspace a n tg c l) clk db = reply RWorkspace (updateWorkspaceSettings clk a n tg c l db)"

definition chat_step :: "clock \<times> chat_request \<Rightarrow> chat_response handler" where
  "chat_step q db = handle_request (snd q) (fst q) db"

text \<open>The database after the migrations: no rows, an identifier source.\<close>

definition empty_db :: "(nat \<Rightarrow> uuid) \<Rightarrow> chat_db" where
  "empty_db gen = \<lparr>conversations = [], members = [], messages = [], messageHides = [], messageReactions = [],
     scheduledMessages = [], userBlocks = [], auditEvents = [], workspaceSettings = None,
     uuid_gen = gen, uuid_next = 0\<rparr>"

section \<open>Every request keeps the invariant\<close>

lemma snd_reply [simp]: "snd (reply f out) = snd out"
  by (cases out) (simp add: reply_def)

lemma snd_query [simp]: "snd (query f r db) = db"
  by (simp add: query_def)

lemma fst_reply_Inl [simp]: "fst (reply f out) = Inl e \<longleftrightarrow> fst out = Inl e"
  by (cases out; cases "fst out") (auto simp: reply_def)

lemma roster_step_op: "snd (roster_step clk a cid oper db) = snd (run_roster_op clk a cid oper db)"
  by (cases oper) (simp_all add: run_roster_op_def)

lemma map_sum_Inl [simp]: "map_sum id f x = Inl e \<longleftrightarrow> x = Inl e"
  by (cases x) auto

lemma roster_step_Inl: "fst (roster_step clk a cid oper db) = Inl e \<longleftrightarrow> fst (run_roster_op clk a cid oper db) = Inl e"
  by (cases oper) (simp_all add: run_roster_op_def)

lemma chat_step_inv: "chat_inv {} db \<Longrightarrow> chat_inv {} (snd (chat_step q db))"
proof (cases q)
  case (Pair clk r)
  assume "chat_inv {} db"
  then show ?thesis
    unfolding Pair chat_step_def fst_conv snd_conv by (cases r) (simp_all add: roster_step_op createPrivate_inv createGroup_inv sendMessage_inv
        editMessage_inv reactMessage_inv pinMessage_inv scheduleMessage_inv cancelScheduledMessage_inv
        dispatchDueScheduled_inv forwardMessage_inv flags_inv expireDueMessages_inv deleteMessage_inv
        run_roster_op_chat_inv blockUser_inv unblockUser_inv audit_settings_inv)
qed

text \<open>No handler writes anything before it fails.\<close>

lemma send_call_error: "fst (send_call clk p b db) = Inl e \<Longrightarrow> snd (send_call clk p b db) = db"
  by (auto simp: send_call_def Let_def split: option.splits sum.splits if_splits)

lemma send_user_error: "fst (send_user clk p url b ty db) = Inl e \<Longrightarrow> snd (send_user clk p url b ty db) = db"
  by (auto simp: send_user_def Let_def split: option.splits sum.splits if_splits)

lemma sendMessage_error: "fst (sendMessage clk p db) = Inl e \<Longrightarrow> snd (sendMessage clk p db) = db"
  by (auto simp: sendMessage_def Let_def send_call_error send_user_error split: option.splits if_splits)

lemma editMessage_error: "fst (editMessage clk a c m b db) = Inl e \<Longrightarrow> snd (editMessage clk a c m b db) = db"
  by (auto simp: editMessage_def Let_def split: option.splits sum.splits if_splits)

lemma reactMessage_error: "fst (reactMessage a c m x db) = Inl e \<Longrightarrow> snd (reactMessage a c m x db) = db"
  by (auto simp: reactMessage_def Let_def split: option.splits sum.splits if_splits)

lemma pinMessage_error:
  assumes "fst (pinMessage clk a c m pn db) = Inl e"
  shows "snd (pinMessage clk a c m pn db) = db"
proof (cases "requireMembership db c a")
  case (Inr conv)
  show ?thesis
  proof (cases "find_message_in db m (c_id (fst conv))")
    case (Some x)
    with Inr assms show ?thesis
      by (cases "m_deletedForEveryoneAt x \<noteq> None"; cases "m_type x = CALL";
          cases "pn \<and> m_pinnedAt x = None \<and> length (pinned_in db (c_id (fst conv))) \<ge> 3")
        (simp_all add: pinMessage_def Let_def del: if_split)
  qed (use Inr in \<open>simp add: pinMessage_def\<close>)
qed (simp add: pinMessage_def)

lemma forwardMessage_error: "fst (forwardMessage clk a f t m db) = Inl e \<Longrightarrow> snd (forwardMessage clk a f t m db) = db"
  by (auto simp: forwardMessage_def Let_def split: option.splits sum.splits if_splits)

lemma deleteMessage_error: "fst (deleteMessage clk a c m fe db) = Inl e \<Longrightarrow> snd (deleteMessage clk a c m fe db) = db"
  by (auto simp: deleteMessage_def Let_def split: option.splits sum.splits if_splits)

lemma schedule_body_error: "fst (schedule_body clk p ti url b ty conv db) = Inl e \<Longrightarrow> snd (schedule_body clk p ti url b ty conv db) = db"
  by (auto simp: schedule_body_def Let_def split: option.splits sum.splits if_splits)

lemma scheduleMessage_error: "fst (scheduleMessage clk p ti db) = Inl e \<Longrightarrow> snd (scheduleMessage clk p ti db) = db"
  by (auto simp: scheduleMessage_def Let_def schedule_body_error split: option.splits sum.splits if_splits)

lemma cancelScheduledMessage_error: "fst (cancelScheduledMessage clk a c s db) = Inl e \<Longrightarrow> snd (cancelScheduledMessage clk a c s db) = db"
  by (auto simp: cancelScheduledMessage_def Let_def split: option.splits sum.splits if_splits)

lemmas message_errors = sendMessage_error editMessage_error reactMessage_error pinMessage_error
  forwardMessage_error deleteMessage_error scheduleMessage_error cancelScheduledMessage_error

lemma other_errors:
  "fst (blockUser clk a u db) = Inl e \<Longrightarrow> snd (blockUser clk a u db) = db"
  "fst (unblockUser a u db) \<noteq> Inl e" "fst (expireDueMessages clk db) \<noteq> Inl e"
  "fst (dispatchDueScheduled clk db) \<noteq> Inl e" "fst (logAudit clk a x ty tg mt db) \<noteq> Inl e"
  "fst (getWorkspaceSettings db) \<noteq> Inl e" "fst (updateWorkspaceSettings clk a n tg c l db) \<noteq> Inl e"
  by (auto simp: blockUser_def unblockUser_def expireDueMessages_def dispatchDueScheduled_def logAudit_def
      getWorkspaceSettings_def updateWorkspaceSettings_def Let_def split: option.splits if_splits)

lemma chat_step_error:
  assumes inv: "chat_inv {} db" and err: "fst (chat_step q db) = Inl e"
  shows "snd (chat_step q db) = db"
proof -
  obtain clk r where q: "q = (clk, r)" by (cases q)
  have create: "fst (createPrivate clk a b db) = Inl e \<Longrightarrow> snd (createPrivate clk a b db) = db"
    "fst (createGroup clk a n ids db) = Inl e \<Longrightarrow> snd (createGroup clk a n ids db) = db" for a b n ids
    using createPrivate_error [of clk a b db] createGroup_error [of clk a n ids db] by (metis surjective_pairing)+
  note mem = chat_invD(1) [OF inv]
  show ?thesis
    using err unfolding q chat_step_def fst_conv snd_conv
    by (cases r) (auto simp: roster_step_op roster_step_Inl message_errors other_errors create markSeen_error
        run_roster_op_error [OF mem] pinConversation_error [OF mem] muteConversation_error [OF mem]
        updateGroup_error [OF mem] setDisappearing_error [OF mem])
qed

lemma empty_db_inv: "inj gen \<Longrightarrow> chat_inv {} (empty_db gen)"
  by (simp add: chat_inv_def membership_inv_def message_inv_def reaction_inv_def block_inv_def schedule_inv_def
      empty_db_def pinned_in_def live_messages_def pending_for_def)

interpretation chat: failing_service chat_step "chat_inv {}"
  by unfold_locales (auto intro: chat_step_inv chat_step_error)

end
