(* ===== verification/ChatProperties.thy ===== *)
theory ChatProperties
  imports ChatService
begin

text \<open>
  What the chat service promises over whole runs of requests: its invariants in
  every reachable state, the refinement of group administration to operations on
  rosters, access control, and the invisibility of failed requests.
\<close>

section \<open>A sample run\<close>

text \<open>A group of three and a private chat, with one message in each.\<close>

definition at_time :: "instant \<Rightarrow> clock" where
  "at_time t = \<lparr>now = t, db_now = t\<rparr>"

definition text_to :: "uuid \<Rightarrow> uuid \<Rightarrow> string \<Rightarrow> send_payload" where
  "text_to a cid body = \<lparr>sp_actorId = a, sp_conversationId = cid, sp_body = Some body, sp_type = None,
     sp_replyTo = None, sp_attachmentUrl = None, sp_attachmentMime = None, sp_attachmentName = None,
     sp_attachmentSize = None, sp_mentions = None, sp_linkPreview = None, sp_systemCall = False\<rparr>"

definition demo_requests :: "(clock \<times> chat_request) list" where
  "demo_requests =
    [(at_time 1000, CreateGroup ''ann'' ''Team'' [''bob'', ''cyd'']),
     (at_time 2000, CreatePrivate ''ann'' ''bob''),
     (at_time 3000, SendMessage (text_to ''ann'' (demo_ids 0) ''hello'')),
     (at_time 4000, SendMessage (text_to ''bob'' (demo_ids 4) ''hi''))]"

definition demo_chat :: chat_db where
  "demo_chat = run_requests chat_step demo_requests (empty_db demo_ids)"

lemma run_chat_inv: "inj gen \<Longrightarrow> chat_inv {} (run_requests chat_step qs (empty_db gen))"
  by (rule chat.run_inv [OF empty_db_inv])

lemma demo_chat_inv: "chat_inv {} demo_chat"
  unfolding demo_chat_def by (rule run_chat_inv [OF inj_demo_ids])

definition demo_group :: conversation where
  "demo_group = \<lparr>c_id = demo_ids 0, c_type = GROUP, c_name = Some ''Team'', c_createdBy = ''ann'', c_pairKey = None,
     c_lastMessageAt = Some 3000, c_disappearing = 0, c_createdAt = 1000, c_updatedAt = 3000, c_deletedAt = None\<rparr>"

definition demo_private :: conversation where
  "demo_private = \<lparr>c_id = demo_ids 4, c_type = PRIVATE, c_name = None, c_createdBy = ''ann'',
     c_pairKey = Some ''ann:bob'', c_lastMessageAt = Some 4000, c_disappearing = 0, c_createdAt = 2000,
     c_updatedAt = 4000, c_deletedAt = None\<rparr>"

lemma demo_conversations:
  "find_conversation demo_chat (demo_ids 0) = Some demo_group"
  "find_conversation demo_chat (demo_ids 4) = Some demo_private"
  by code_simp+

lemma demo_rosters:
  "roster demo_chat (demo_ids 0) = [(''ann'', OWNER), (''bob'', MEMBER), (''cyd'', MEMBER)]"
  "roster demo_chat (demo_ids 4) = [(''ann'', MEMBER), (''bob'', MEMBER)]"
  by code_simp+

section \<open>Invariants of every reachable state\<close>

lemma length_same_key: "distinct (map f xs) \<Longrightarrow> \<forall>x\<in>set xs. f x = k \<Longrightarrow> length xs \<le> 1"
  by (cases xs; cases "tl xs") auto

lemma live_conv_ok:
  assumes "membership_inv db" and "find_conversation db cid = Some c"
  shows "conv_ok c (roster db cid)"
  using membership_invD(7) [OF assms(1)] find_conversation_Some [OF assms(2)] by auto

text \<open>
  C1. In every state the service can reach, a group has at most fifty members, each of them once,
  and exactly one owner as long as anybody is in it; a private chat has exactly two plain members
  and is never deleted.
\<close>

theorem rosters_well_formed:
  assumes "inj gen" and "find_conversation (run_requests chat_step qs (empty_db gen)) cid = Some c"
  shows "distinct (map fst (roster (run_requests chat_step qs (empty_db gen)) cid))
    \<and> (if c_type c = GROUP
       then length (roster (run_requests chat_step qs (empty_db gen)) cid) \<le> 50
         \<and> (roster (run_requests chat_step qs (empty_db gen)) cid = []
            \<or> length (filter (\<lambda>p. snd p = OWNER) (roster (run_requests chat_step qs (empty_db gen)) cid)) = 1)
       else map snd (roster (run_requests chat_step qs (empty_db gen)) cid) = [MEMBER, MEMBER])"
proof -
  let ?r = "roster (run_requests chat_step qs (empty_db gen)) cid"
  have ok: "conv_ok c ?r"
    by (rule live_conv_ok [OF chat_invD(1) [OF run_chat_inv [OF assms(1)]] assms(2)])
  have "map snd ?r = [MEMBER, MEMBER]" if "private_ok ?r"
    using that by (cases ?r; cases "tl ?r") (auto simp: private_ok_def)
  with ok conv_ok_distinct [OF ok] show ?thesis
    by (cases "c_type c") (auto simp: conv_ok_def group_ok_def owners_def)
qed

theorem rosters_well_formed_witness:
  "distinct (map fst (roster demo_chat (demo_ids 0)))
   \<and> map snd (roster demo_chat (demo_ids 4)) = [MEMBER, MEMBER]"
  using rosters_well_formed [OF inj_demo_ids demo_conversations(1) [unfolded demo_chat_def]]
    rosters_well_formed [OF inj_demo_ids demo_conversations(2) [unfolded demo_chat_def]]
  by (simp add: demo_chat_def demo_private_def)

text \<open>
  C2. In every reachable state each message belongs to an existing conversation, is not empty,
  answers only a message of its own conversation, is withheld only in a private chat, and has
  neither attachment nor pin once deleted for everyone.
\<close>

theorem messages_well_formed:
  assumes "inj gen" and "m \<in> set (messages (run_requests chat_step qs (empty_db gen)))"
  shows "m_body m \<noteq> [] \<and> m_conv m \<in> c_id ` set (conversations (run_requests chat_step qs (empty_db gen)))
    \<and> (m_undelivered m \<longrightarrow> (\<exists>c\<in>set (conversations (run_requests chat_step qs (empty_db gen))).
         c_id c = m_conv m \<and> c_type c = PRIVATE))
    \<and> (m_replyTo m \<noteq> None \<longrightarrow> (\<exists>p\<in>set (messages (run_requests chat_step qs (empty_db gen))).
         m_replyTo m = Some (m_id p) \<and> m_conv p = m_conv m))
    \<and> (m_deletedForEveryoneAt m \<noteq> None \<longrightarrow> m_attachmentUrl m = None \<and> m_pinnedAt m = None)
    \<and> m_sender m \<notin> set (m_mentions m)"
proof -
  let ?db = "run_requests chat_step qs (empty_db gen)"
  have ok: "message_ok (ctypes ?db) (mkeys ?db) m"
    by (rule message_invD(3) [OF chat_invD(2) [OF run_chat_inv [OF assms(1)]] assms(2)])
  then have "m_conv m \<in> fst ` ctypes ?db" "m_undelivered m \<Longrightarrow> (m_conv m, PRIVATE) \<in> ctypes ?db"
    "\<And>r. m_replyTo m = Some r \<Longrightarrow> (r, m_conv m) \<in> mkeys ?db"
    by (auto simp: message_ok_def)
  with ok show ?thesis
    by (cases "m_replyTo m") (force simp: message_ok_def ctypes_def mkeys_def truthy_def)+
qed

theorem messages_well_formed_witness:
  "m_body (hd (messages demo_chat)) \<noteq> []
    \<and> m_conv (hd (messages demo_chat)) \<in> c_id ` set (conversations demo_chat)"
proof -
  have "messages demo_chat \<noteq> []" by code_simp
  then have "hd (messages demo_chat) \<in> set (messages demo_chat)" by simp
  from messages_well_formed [OF inj_demo_ids this [unfolded demo_chat_def]] show ?thesis
    by (simp add: demo_chat_def)
qed

text \<open>
  C31. In every reachable state a chat has at most three pinned messages, a member at most twenty
  pending scheduled messages in it, and a user reacts to a message with an emoji at most once,
  and only with a supported one.
\<close>

theorem quotas_hold:
  assumes "inj gen"
  shows "length (pinned_in (run_requests chat_step qs (empty_db gen)) cid) \<le> 3
    \<and> length (pending_for (run_requests chat_step qs (empty_db gen)) cid u) \<le> 20
    \<and> length (filter (\<lambda>r. rx_message r = mid \<and> rx_user r = u \<and> rx_emoji r = e)
        (messageReactions (run_requests chat_step qs (empty_db gen)))) \<le> (if e \<in> set ALLOWED_REACTIONS then 1 else 0)"
proof -
  let ?db = "run_requests chat_step qs (empty_db gen)"
  note inv = run_chat_inv [OF assms, of qs]
  let ?hit = "\<lambda>r. rx_message r = mid \<and> rx_user r = u \<and> rx_emoji r = e"
  have rx: "distinct (map reaction_key (messageReactions ?db))"
    "rx_emoji ` set (messageReactions ?db) \<subseteq> set ALLOWED_REACTIONS"
    using chat_invD(3) [OF inv] by (simp_all add: reaction_inv_def)
  have "length (filter ?hit (messageReactions ?db)) \<le> 1"
    by (rule length_same_key [of reaction_key _ "(mid, u, e)"])
      (auto simp: reaction_key_def intro: distinct_map_filter [OF rx(1)])
  moreover have "filter ?hit (messageReactions ?db) = []" if "e \<notin> set ALLOWED_REACTIONS"
    using rx(2) that by (auto simp: filter_empty_conv)
  ultimately show ?thesis
    using message_invD(4) [OF chat_invD(2) [OF inv]] chat_invD(5) [OF inv] by (auto simp: schedule_inv_def)
qed

theorem quotas_hold_witness:
  "length (pinned_in demo_chat (demo_ids 0)) \<le> 3 \<and> length (pending_for demo_chat (demo_ids 0) ''ann'') \<le> 20"
  using quotas_hold [OF inj_demo_ids, of demo_requests] by (simp add: demo_chat_def)

section \<open>Failed requests\<close>




section \<open>Access control\<close>

text \<open>The conversations a request acts on, each with the user it acts for.\<close>

definition request_scopes :: "chat_request \<Rightarrow> (uuid \<times> uuid) list" where
  "request_scopes r = (case r of
     GetConversation a c \<Rightarrow> [(a, c)] | ListMessages a c _ _ \<Rightarrow> [(a, c)] | SearchMessages a c _ _ _ \<Rightarrow> [(a, c)]
   | ListMedia a c _ _ _ \<Rightarrow> [(a, c)] | GetMessage a c _ \<Rightarrow> [(a, c)]
   | SendMessage p \<Rightarrow> [(sp_actorId p, sp_conversationId p)] | EditMessage a c _ _ \<Rightarrow> [(a, c)]
   | ReactMessage a c _ _ \<Rightarrow> [(a, c)] | PinMessage a c _ _ \<Rightarrow> [(a, c)] | ListPinnedMessages a c \<Rightarrow> [(a, c)]
   | ScheduleMessage p _ \<Rightarrow> [(sp_actorId p, sp_conversationId p)] | ListScheduledMessages a c \<Rightarrow> [(a, c)]
   | CancelScheduledMessage a c _ \<Rightarrow> [(a, c)] | ForwardMessage a f t _ \<Rightarrow> [(a, f), (a, t)]
   | MarkSeen a c _ \<Rightarrow> [(a, c)] | MuteConversation a c _ \<Rightarrow> [(a, c)] | PinConversation a c _ \<Rightarrow> [(a, c)]
   | SetDisappearing a c _ \<Rightarrow> [(a, c)] | DeleteMessage a c _ _ \<Rightarrow> [(a, c)] | RosterRequest a c _ \<Rightarrow> [(a, c)]
   | UpdateGroup a c _ \<Rightarrow> [(a, c)] | PrepareVoiceCall a c \<Rightarrow> [(a, c)] | _ \<Rightarrow> [])"

lemma requireMembership_outsider:
  assumes "find_conversation db cid = None \<or> a \<notin> fst ` set (roster db cid)"
  obtains e where "requireMembership db cid a = Inl e"
proof (cases "requireMembership db cid a")
  case (Inr conv)
  then obtain c me where "find_conversation db cid = Some c" "find (\<lambda>m. mb_user m = a) (active_members db cid) = Some me"
    by (rule requireMembership_Inr_find)
  then have False using assms active_member_props(6) by auto
  then show ?thesis ..
qed (rule that)

lemma denied_messages:
  assumes "requireMembership db cid a = Inl e"
  shows "editMessage clk a cid m b db = (Inl e, db)" "reactMessage a cid m x db = (Inl e, db)"
    "pinMessage clk a cid m pn db = (Inl e, db)" "deleteMessage clk a cid m fe db = (Inl e, db)"
    "getMessage a cid m db = Inl e" "listPinnedMessages a cid db = Inl e"
    "listScheduledMessages a cid db = Inl e" "cancelScheduledMessage clk a cid sid db = (Inl e, db)"
    "forwardMessage clk a cid t m db = (Inl e, db)" "prepareVoiceCall a cid db = Inl e"
    "listMessages a cid p l db = Inl e" "searchMessages a cid q p l db = Inl e" "listMedia a cid k p l db = Inl e"
  using assms by (simp_all add: editMessage_def reactMessage_def pinMessage_def deleteMessage_def getMessage_def
      listPinnedMessages_def listScheduledMessages_def cancelScheduledMessage_def forwardMessage_def
      prepareVoiceCall_def listMessages_def searchMessages_def listMedia_def)

lemma denied_groups:
  assumes "requireMembership db cid a = Inl e"
  shows "getConversation a cid db = Inl e" "markSeen clk a cid mid db = (Inl e, db)"
    "muteConversation clk a cid b db = (Inl e, db)" "pinConversation clk a cid b db = (Inl e, db)"
    "setDisappearingMessages clk a cid d db = (Inl e, db)" "updateGroup clk a cid n db = (Inl e, db)"
  using assms by (simp_all add: getConversation_def markSeen_def muteConversation_def pinConversation_def
      setDisappearingMessages_def updateGroup_def)

lemma denied_sends:
  assumes "requireMembership db (sp_conversationId p) (sp_actorId p) = Inl e"
  shows "\<exists>e'. fst (sendMessage clk p db) = Inl e'" "\<exists>e'. fst (scheduleMessage clk p t db) = Inl e'"
  using assms by (auto simp: sendMessage_def send_call_def send_user_def scheduleMessage_def Let_def
      split: option.splits)

lemma denied_forward_target:
  assumes "requireMembership db t a = Inl e"
  shows "\<exists>e'. fst (forwardMessage clk a f t m db) = Inl e'"
  using assms by (auto simp: forwardMessage_def split: sum.splits)

lemma outsider_refused:
  assumes "chat_inv {} db" and "(a, cid) \<in> set (request_scopes r)"
    and "find_conversation db cid = None \<or> a \<notin> fst ` set (roster db cid)"
  shows "\<exists>e. chat_step (clk, r) db = (Inl e, db)"
proof -
  obtain e where e: "requireMembership db cid a = Inl e" by (rule requireMembership_outsider [OF assms(3)])
  have "\<exists>e'. fst (chat_step (clk, r) db) = Inl e'"
    using assms(2) e denied_sends [of db _ e clk] denied_forward_target [OF e, of clk]
    unfolding chat_step_def fst_conv snd_conv
    by (cases r) (auto simp: request_scopes_def denied_messages [OF e] denied_groups [OF e]
        roster_step_Inl run_roster_op_denied [OF e] query_def)
  then show ?thesis
    using chat_step_error [OF assms(1)] by (metis prod.collapse)
qed

text \<open>
  C12. Nobody acts on or reads a conversation without being an active member of it: every request
  about a conversation that is gone, or of which the user is not a member, fails and changes nothing.
\<close>

theorem outsider_denied:
  assumes "chat_inv {} db" and "(a, cid) \<in> set (request_scopes r)"
    and "find_conversation db cid = None \<or> a \<notin> fst ` set (roster db cid)"
  shows "\<exists>e. chat_step (clk, r) db = (Inl e, db)"
  using assms by (rule outsider_refused)

theorem outsider_denied_witness:
  "\<exists>e. chat_step (at_time 6000, ListMessages ''eve'' (demo_ids 0) 1 20) demo_chat = (Inl e, demo_chat)"
proof (rule outsider_denied [OF demo_chat_inv])
  show "(''eve'', demo_ids 0) \<in> set (request_scopes (ListMessages ''eve'' (demo_ids 0) 1 20))"
    by (simp add: request_scopes_def)
  show "find_conversation demo_chat (demo_ids 0) = None \<or> ''eve'' \<notin> fst ` set (roster demo_chat (demo_ids 0))"
    by (simp add: demo_rosters)
qed

section \<open>Group administration and private chats\<close>

text \<open>
  C7. The five membership handlers implement the specification on rosters: same outcome and same
  error as \<open>roster_spec\<close> says, its roster in the database afterwards, every other conversation's
  roster untouched. The successor of a leaving owner is the longest-standing other member.
\<close>

theorem group_administration_refines:
  assumes "chat_inv {} db" and "find_conversation db cid = Some c" and "map_of (roster db cid) a = Some mine"
  shows "map_sum id (\<lambda>_. roster (snd (run_roster_op clk a cid oper db)) cid) (fst (run_roster_op clk a cid oper db))
      = roster_spec (c_type c) (c_createdBy c) (map_option mb_user (heir_row db cid a)) a mine oper (roster db cid)
    \<and> (\<forall>k. k \<noteq> cid \<longrightarrow> roster (snd (run_roster_op clk a cid oper db)) k = roster db k)
    \<and> (\<forall>h\<in>set_option (heir_row db cid a). h \<in> set (active_members db cid) \<and> mb_user h \<noteq> a
         \<and> (\<forall>m\<in>set (active_members db cid). mb_user m = a \<or> mb_joinedAt h \<le> mb_joinedAt m))"
proof -
  obtain me where me: "find (\<lambda>m. mb_user m = a) (active_members db cid) = Some me" "mb_role me = mine"
    using assms(3) by (auto simp: map_of_roster)
  have "roster_result db cid (run_roster_op clk a cid oper db)
    (roster_spec (c_type c) (c_createdBy c) (map_option mb_user (heir_row db cid a)) a mine oper (roster db cid))"
    using run_roster_op_refines [OF chat_invD(1) [OF assms(1)] assms(2) me(1)] me(2) by simp
  then show ?thesis
    using heir_row_props [of db cid a] by (auto simp: roster_result_def split: sum.splits)
qed

theorem group_administration_refines_witness:
  "roster (snd (run_roster_op (at_time 7000) ''ann'' (demo_ids 0) Leave demo_chat)) (demo_ids 0)
    = [(''bob'', OWNER), (''cyd'', MEMBER)]"
proof -
  have "map_of (roster demo_chat (demo_ids 0)) ''ann'' = Some OWNER" by (simp add: demo_rosters)
  from group_administration_refines [OF demo_chat_inv demo_conversations(1) this, of "at_time 7000" Leave]
  have ref: "map_sum id (\<lambda>_. roster (snd (run_roster_op (at_time 7000) ''ann'' (demo_ids 0) Leave demo_chat)) (demo_ids 0))
      (fst (run_roster_op (at_time 7000) ''ann'' (demo_ids 0) Leave demo_chat))
    = roster_spec GROUP ''ann'' (map_option mb_user (heir_row demo_chat (demo_ids 0) ''ann'')) ''ann'' OWNER Leave
        (roster demo_chat (demo_ids 0))"
    by (simp add: demo_group_def)
  have "map_option mb_user (heir_row demo_chat (demo_ids 0) ''ann'') = Some ''bob''" by code_simp
  with ref show ?thesis
    by (cases "fst (run_roster_op (at_time 7000) ''ann'' (demo_ids 0) Leave demo_chat)")
      (simp_all add: demo_rosters roster_role_def roster_remove_def)
qed

lemma private_found:
  assumes "membership_inv db" and "c \<in> set (conversations db)" and "c_type c = PRIVATE"
    and "c_pairKey c = Some (privatePairKey a b)"
  shows "map_option c_id (find_private db (privatePairKey a b)) = Some (c_id c)"
proof -
  have "c_deletedAt c = None" using membership_invD(7) [OF assms(1,2)] assms(3) by (simp add: conv_ok_def)
  then have "find_private db (privatePairKey a b) \<noteq> None"
    using assms by (auto simp: find_private_def live_conversations_def find_None_set)
  then obtain c' where c': "find_private db (privatePairKey a b) = Some c'" by blast
  then have "c' \<in> set (conversations db)" "c_type c' = PRIVATE" "c_pairKey c' = Some (privatePairKey a b)"
    by (auto simp: find_private_def live_conversations_def dest: find_set)
  then have "c_id c' = c_id c" using membership_inv_pair [OF assms(1) _ assms(2) _ assms(3)] assms(4) by simp
  with c' show ?thesis by simp
qed

lemma createPrivate_existing:
  assumes "a \<noteq> b" and "map_option c_id (find_private db (privatePairKey a b)) = Some cid"
  shows "\<exists>v. createPrivate clk a b db = (Inr v, db) \<and> cv_id v = cid"
  using assms by (auto simp: createPrivate_def Let_def toConversationView_def)

text \<open>
  C28. Two users share one private chat: once either has opened it, opening it again, from either
  side, finds the same conversation and changes nothing, even when a block has been set since.
\<close>

theorem private_chat_unique:
  assumes "chat_inv {} db" and "createPrivate clk a b db = (Inr v, db1)"
    and "(x, y) \<in> {(a, b), (b, a)}"
  shows "\<exists>v'. createPrivate clk' x y db1 = (Inr v', db1) \<and> cv_id v' = cv_id v"
proof -
  note eff = createPrivate_effect [OF chat_invD(1) [OF assms(1)] assms(2)]
  then obtain c where c: "c \<in> set (conversations db1)" "c_id c = cv_id v" "c_type c = PRIVATE"
    "c_pairKey c = Some (privatePairKey x y)"
    using assms(3) privatePairKey_commute [of a b] by auto
  have "map_option c_id (find_private db1 (privatePairKey x y)) = Some (cv_id v)"
    using private_found [of db1 c x y] eff c by simp
  moreover have "x \<noteq> y" using eff assms(3) by auto
  ultimately show ?thesis using createPrivate_existing by blast
qed

theorem private_chat_unique_witness:
  "\<exists>v db1 v'. createPrivate (at_time 8000) ''bob'' ''cyd'' demo_chat = (Inr v, db1) \<and> db1 \<noteq> demo_chat
    \<and> createPrivate (at_time 9000) ''cyd'' ''bob'' db1 = (Inr v', db1) \<and> cv_id v' = cv_id v"
proof -
  have c: "\<not> isl (fst (createPrivate (at_time 8000) ''bob'' ''cyd'' demo_chat))"
    "length (conversations (snd (createPrivate (at_time 8000) ''bob'' ''cyd'' demo_chat))) = 3"
    "length (conversations demo_chat) = 2" by code_simp+
  then obtain v db1 where run: "createPrivate (at_time 8000) ''bob'' ''cyd'' demo_chat = (Inr v, db1)"
    by (cases "createPrivate (at_time 8000) ''bob'' ''cyd'' demo_chat") (auto simp: isl_def, metis sum.exhaust)
  have "(''cyd'', ''bob'') \<in> {(''bob'', ''cyd''), (''cyd'', ''bob'')}" by simp
  from private_chat_unique [OF demo_chat_inv run this, of "at_time 9000"] run c show ?thesis by auto
qed

end
