(* ===== verification/ChatDelivery.thy ===== *)
theory ChatDelivery
  imports ChatProperties ChatQueries
begin

text \<open>
  What happens to messages: the block wall of private chats, the effect of sending,
  editing, reacting, deleting and forwarding, read marks, the dispatch of scheduled
  messages, the sweep of disappearing ones, and the admission of calls.
\<close>

section \<open>Members of a private chat\<close>

lemma private_users:
  assumes "membership_inv db" and "find_conversation db cid = Some c" and "c_type c = PRIVATE"
    and "a \<in> fst ` set (roster db cid)" and "b \<in> fst ` set (roster db cid)" and "a \<noteq> b"
  shows "fst ` set (roster db cid) = {a, b}"
proof -
  have ok: "private_ok (roster db cid)" using live_conv_ok [OF assms(1,2)] assms(3) by (simp add: conv_ok_def)
  have "card (fst ` set (roster db cid)) = 2"
    using ok distinct_card [of "map fst (roster db cid)"] by (simp add: private_ok_def)
  then show ?thesis
    using assms(4-6) by (intro card_subset_eq [symmetric]) (auto intro: card_ge_0_finite)
qed

lemma private_other:
  assumes "membership_inv db" and "find_conversation db cid = Some c" and "c_type c = PRIVATE"
    and "a \<in> fst ` set (roster db cid)" and "b \<in> fst ` set (roster db cid)" and "a \<noteq> b"
  obtains m where "other_member (active_members db cid) a = Some m" and "mb_user m = b"
proof -
  obtain x where "x \<in> set (active_members db cid)" "mb_user x = b"
    using assms(5) by (auto simp: roster_def)
  then have "other_member (active_members db cid) a \<noteq> None"
    using assms(6) by (auto simp: other_member_def find_None_set set_active_members)
  then obtain m where m: "other_member (active_members db cid) a = Some m" by blast
  then have "m \<in> set (active_members db cid)" "mb_user m \<noteq> a" by (auto simp: other_member_def dest: find_set)
  then have "mb_user m = b" using private_users [OF assms] roster_users [of m db cid] by simp
  with m show ?thesis by (rule that)
qed

lemma resolve_private:
  assumes "membership_inv db" and "find_conversation db cid = Some c" and "c_type c = PRIVATE"
    and "a \<in> fst ` set (roster db cid)" and "b \<in> fst ` set (roster db cid)" and "a \<noteq> b"
  shows "resolvePrivateDelivery db (c, active_members db cid) a =
    (if hasBlock db b a then \<lparr>d_forbidden = True, d_undelivered = False, d_recipientIds = []\<rparr>
     else if hasBlock db a b then \<lparr>d_forbidden = False, d_undelivered = True, d_recipientIds = [a]\<rparr>
     else \<lparr>d_forbidden = False, d_undelivered = False, d_recipientIds = recipientIds (active_members db cid)\<rparr>)"
proof -
  obtain m where "other_member (active_members db cid) a = Some m" "mb_user m = b"
    by (rule private_other [OF assms])
  then show ?thesis using assms(3) by (simp add: resolvePrivateDelivery_def Let_def)
qed

section \<open>Sending\<close>

lemma message_type_of_CALL: "message_type_of s = Some CALL \<longleftrightarrow> s = ''call''"
  by (auto simp: message_type_of_def message_type_value_def split: if_splits)

lemma attachment_type_CALL [simp]: "attachment_type x y \<noteq> CALL"
  by (simp add: attachment_type_def)

text \<open>The row a send of a user writes.\<close>

definition sent_row :: "clock \<Rightarrow> send_payload \<Rightarrow> conversation \<Rightarrow> message_type \<Rightarrow> message option \<Rightarrow> chat_db \<Rightarrow> message" where
  "sent_row clk p c ty replyTo db =
     (new_message clk (next_uuid db) (c_id c) (sp_actorId p) (default_body (trim (nullish (sp_body p) '''')) ty) ty)
       \<lparr>m_replyTo := map_option m_id replyTo,
        m_attachmentUrl := trim_or_null (sp_attachmentUrl p),
        m_attachmentMime := fix_mime (sp_attachmentMime p) (sp_type p),
        m_attachmentName := trim_or_null (sp_attachmentName p), m_attachmentSize := sp_attachmentSize p,
        m_mentions := filter (\<lambda>u. u \<in> mb_user ` set (active_members db (c_id c)))
          (filter (\<lambda>u. u \<noteq> sp_actorId p) (js_uniq (filter truthy (nullish (sp_mentions p) [])))),
        m_linkPreview := sp_linkPreview p,
        m_undelivered := d_undelivered (resolvePrivateDelivery db (c, active_members db (c_id c)) (sp_actorId p)),
        m_expiresAt := expiry_of clk c\<rparr>"

lemma sent_row_simps [simp]:
  "m_id (sent_row clk p c ty r db) = next_uuid db" "m_conv (sent_row clk p c ty r db) = c_id c"
  "m_sender (sent_row clk p c ty r db) = sp_actorId p" "m_type (sent_row clk p c ty r db) = ty"
  "m_body (sent_row clk p c ty r db) = default_body (trim (nullish (sp_body p) '''')) ty"
  "m_deletedForEveryoneAt (sent_row clk p c ty r db) = None" "m_deletedAt (sent_row clk p c ty r db) = None"
  "m_undelivered (sent_row clk p c ty r db)
    = d_undelivered (resolvePrivateDelivery db (c, active_members db (c_id c)) (sp_actorId p))"
  "m_expiresAt (sent_row clk p c ty r db) = expiry_of clk c" "m_createdAt (sent_row clk p c ty r db) = db_now clk"
  "m_replyTo (sent_row clk p c ty r db) = map_option m_id r"
  by (simp_all add: sent_row_def)

lemma sent_row_mentions:
  "set (m_mentions (sent_row clk p c ty r db)) \<subseteq> fst ` set (roster db (c_id c)) - {sp_actorId p}"
  by (auto simp: sent_row_def roster_users)

lemma send_user_run:
  assumes run: "send_user clk p (trim_or_null (sp_attachmentUrl p)) (trim (nullish (sp_body p) '''')) ty0 db = (Inr (v, rs), db')"
    and ty0: "ty0 \<noteq> CALL"
  obtains c ty r where "find_conversation db (sp_conversationId p) = Some c" and "c_id c = sp_conversationId p"
    and "sp_actorId p \<in> fst ` set (roster db (sp_conversationId p))" and "ty \<noteq> CALL"
    and "\<not> d_forbidden (resolvePrivateDelivery db (c, active_members db (c_id c)) (sp_actorId p))"
    and "rs = d_recipientIds (resolvePrivateDelivery db (c, active_members db (c_id c)) (sp_actorId p))"
    and "v = toMessageView (sent_row clk p c ty r db) (active_members db (c_id c)) r [] (sp_actorId p)"
    and "db' = recordAudit clk (sp_actorId p) ''message.sent'' (Some ''conversation'') (Some (c_id c))
      (message_audit_meta (sent_row clk p c ty r db)) (store_message clk c (sent_row clk p c ty r db) db)"
proof -
  obtain conv where req: "requireMembership db (sp_conversationId p) (sp_actorId p) = Inr conv"
    using run by (auto simp: send_user_def Let_def split: sum.splits)
  obtain c me where c: "find_conversation db (sp_conversationId p) = Some c"
    and conv: "conv = (c, active_members db (sp_conversationId p))"
    and me: "find (\<lambda>m. mb_user m = sp_actorId p) (active_members db (sp_conversationId p)) = Some me"
    by (rule requireMembership_Inr_find [OF req])
  have cid: "c_id c = sp_conversationId p" using find_conversation_Some [OF c] by simp
  note * = run [unfolded send_user_def Let_def req conv sum.case fst_conv snd_conv filter_is_active_active_members]
  have ok: "\<not> d_forbidden (resolvePrivateDelivery db (c, active_members db (sp_conversationId p)) (sp_actorId p))"
    using * by (auto split: if_splits)
  then obtain r where r: "find_reply_target db (c_id c) (sp_replyTo p) = Inr r"
    using * by (auto split: sum.splits)
  let ?ty = "if trim_or_null (sp_attachmentUrl p) \<noteq> None
    then attachment_type (fix_mime (sp_attachmentMime p) (sp_type p)) (sp_type p) else ty0"
  show ?thesis
    using * ok r by (intro that [of c ?ty r])
      (simp_all add: c cid active_member_props(6) [OF me] ty0 sent_row_def set_map)
qed

lemma sendMessage_run:
  assumes "sendMessage clk p db = (Inr (v, rs), db')" and "sp_type p \<noteq> Some ''call''"
  obtains c ty r where "find_conversation db (sp_conversationId p) = Some c" and "c_id c = sp_conversationId p"
    and "sp_actorId p \<in> fst ` set (roster db (sp_conversationId p))" and "ty \<noteq> CALL"
    and "\<not> d_forbidden (resolvePrivateDelivery db (c, active_members db (c_id c)) (sp_actorId p))"
    and "rs = d_recipientIds (resolvePrivateDelivery db (c, active_members db (c_id c)) (sp_actorId p))"
    and "v = toMessageView (sent_row clk p c ty r db) (active_members db (c_id c)) r [] (sp_actorId p)"
    and "db' = recordAudit clk (sp_actorId p) ''message.sent'' (Some ''conversation'') (Some (c_id c))
      (message_audit_meta (sent_row clk p c ty r db)) (store_message clk c (sent_row clk p c ty r db) db)"
proof -
  have "message_type_of (nullish (sp_type p) (message_type_value TEXT)) \<noteq> Some CALL"
    using assms(2) by (cases "sp_type p") (simp_all add: message_type_of_CALL, simp add: message_type_value_def)
  then obtain ty0 where "ty0 \<noteq> CALL"
    and "send_user clk p (trim_or_null (sp_attachmentUrl p)) (trim (nullish (sp_body p) '''')) ty0 db = (Inr (v, rs), db')"
    using assms(1) by (auto simp: sendMessage_def Let_def split: option.splits if_splits)
  then show ?thesis using send_user_run that by blast
qed

lemma store_message_simps [simp]:
  "messages (store_message clk c m db) = messages db @ [m]" "members (store_message clk c m db) = members db"
  "messageHides (store_message clk c m db) = messageHides db" "userBlocks (store_message clk c m db) = userBlocks db"
  "messageReactions (store_message clk c m db) = messageReactions db"
  "scheduledMessages (store_message clk c m db) = scheduledMessages db"
  by (simp_all add: store_message_def)

section \<open>The block wall\<close>

lemma forbidden_sends:
  assumes "find_conversation db cid = Some c" and "a \<in> fst ` set (roster db cid)" and "c_type c = PRIVATE"
    and "d_forbidden (resolvePrivateDelivery db (c, active_members db cid) a)"
    and "sp_actorId p = a" and "sp_conversationId p = cid"
  shows "sp_type p \<noteq> Some ''call'' \<Longrightarrow> \<exists>e. fst (sendMessage clk p db) = Inl e"
    "\<exists>e. fst (scheduleMessage clk p t db) = Inl e" "\<exists>e. fst (forwardMessage clk a f cid mid db) = Inl e"
proof -
  note req = requireMembership_ok [OF assms(1,2)]
  show "sp_type p \<noteq> Some ''call'' \<Longrightarrow> \<exists>e. fst (sendMessage clk p db) = Inl e"
  proof (rule ccontr)
    assume call: "sp_type p \<noteq> Some ''call''" and "\<not> (\<exists>e. fst (sendMessage clk p db) = Inl e)"
    then obtain v rs db' where run: "sendMessage clk p db = (Inr (v, rs), db')"
      by (cases "sendMessage clk p db"; cases "fst (sendMessage clk p db)") auto
    show False
      by (rule sendMessage_run [OF run call]) (use assms in auto)
  qed
  show "\<exists>e. fst (scheduleMessage clk p t db) = Inl e"
    using req assms(3-6) by (auto simp: scheduleMessage_def Let_def split: option.splits)
  show "\<exists>e. fst (forwardMessage clk a f cid mid db) = Inl e"
    using req assms(3,4) by (auto simp: forwardMessage_def Let_def split: option.splits sum.splits)
qed

text \<open>
  C10. A blocked user cannot reach the one who blocked them through their private chat: sending,
  scheduling and forwarding into it all fail and leave the database as it was.
\<close>

theorem blocked_user_cannot_send:
  assumes "chat_inv {} db" and "find_conversation db cid = Some c" and "c_type c = PRIVATE"
    and "a \<in> fst ` set (roster db cid)" and "b \<in> fst ` set (roster db cid)" and "a \<noteq> b" and "hasBlock db b a"
    and "sp_actorId p = a" and "sp_conversationId p = cid" and "sp_type p \<noteq> Some ''call''"
  shows "(\<exists>e. sendMessage clk p db = (Inl e, db)) \<and> (\<exists>e. scheduleMessage clk p t db = (Inl e, db))
    \<and> (\<exists>e. forwardMessage clk a f cid mid db = (Inl e, db))"
proof -
  have "d_forbidden (resolvePrivateDelivery db (c, active_members db cid) a)"
    using resolve_private [OF chat_invD(1) [OF assms(1)] assms(2-6)] assms(7) by simp
  from forbidden_sends [OF assms(2,4,3) this assms(8,9)] show ?thesis
    using sendMessage_error scheduleMessage_error forwardMessage_error assms(10) by (metis prod.collapse)
qed

text \<open>The sample with \<open>bob\<close> blocking \<open>ann\<close>.\<close>

definition blocked_chat :: chat_db where
  "blocked_chat = snd (blockUser (at_time 5000) ''bob'' ''ann'' demo_chat)"

lemma blocked_chat_inv: "chat_inv {} blocked_chat"
  unfolding blocked_chat_def by (rule blockUser_inv [OF demo_chat_inv])

lemma blocked_chat_facts:
  "find_conversation blocked_chat (demo_ids 4) = Some demo_private"
  "roster blocked_chat (demo_ids 4) = [(''ann'', MEMBER), (''bob'', MEMBER)]"
  "hasBlock blocked_chat ''bob'' ''ann''" "\<not> hasBlock blocked_chat ''ann'' ''bob''"
  by code_simp+

theorem blocked_user_cannot_send_witness:
  "\<exists>e. sendMessage (at_time 6000) (text_to ''ann'' (demo_ids 4) ''hey'') blocked_chat = (Inl e, blocked_chat)"
  by (rule blocked_user_cannot_send [OF blocked_chat_inv blocked_chat_facts(1), THEN conjunct1,
        of "''ann''" "''bob''"])
    (simp_all add: blocked_chat_facts demo_private_def text_to_def)

text \<open>Rows the other user's queries return.\<close>

lemma visible_append:
  assumes "messages db' = messages db @ [m]" and "messageHides db' = messageHides db" and "m_deletedAt m = None"
    and "m_undelivered m" and "m_sender m \<noteq> b"
  shows "filter (\<lambda>x. P x \<and> visible_to db' b x) (live_messages db') = filter (\<lambda>x. P x \<and> visible_to db b x) (live_messages db)"
  using assms by (auto simp: live_messages_def visible_to_def is_hidden_def filter_filter intro!: filter_cong)

lemma unread_append:
  assumes "messages db' = messages db @ [m]" and "members db' = members db" and "messageHides db' = messageHides db"
    and "m_undelivered m" and "m_sender m \<noteq> b"
  shows "unreadCountFor db' b cid = unreadCountFor db b cid"
proof -
  have "filter (\<lambda>(x, cm). Q x cm \<and> (\<not> m_undelivered x \<or> m_sender x = b) \<and> R x) (List.product [m] ms) = []" for Q R ms
    using assms(4,5) by (induction ms) auto
  then have "unread_join db' b cid = unread_join db b cid"
    using assms by (auto simp: unread_join_def live_messages_def is_hidden_def product_concat_map case_prod_beta
        filter_empty_conv split: if_splits)
  then show ?thesis by (simp add: unreadCountFor_def unreadCounts_def)
qed

lemma latest_append:
  assumes "messages db' = messages db @ [m]" and "m_undelivered m" and "m_sender m \<noteq> b"
  shows "latestMessagesByConversation db' ids b = latestMessagesByConversation db ids b"
  using assms by (auto simp: latestMessagesByConversation_def live_messages_def fun_eq_iff)

lemma view_ids [simp]: "map v_id (view_items db ms a items) = map m_id items"
  by (simp add: view_items_def Let_def toMessageView_def comp_def)

text \<open>
  C32. The blocker may still write, but the message stays with the writer: it is marked undelivered,
  only the sender is notified, and for the other member nothing changes, neither the messages listed,
  nor the unread count, nor the conversation preview.
\<close>

theorem blocker_message_withheld:
  assumes "chat_inv {} db" and "find_conversation db cid = Some c" and "c_type c = PRIVATE"
    and "a \<in> fst ` set (roster db cid)" and "b \<in> fst ` set (roster db cid)" and "a \<noteq> b" and "hasBlock db a b"
    and "sp_actorId p = a" and "sp_conversationId p = cid" and "sp_type p \<noteq> Some ''call''"
    and "sendMessage clk p db = (Inr (v, recipients), db')"
  shows "v_undelivered v \<and> recipients = [a] \<and> unreadCountFor db' b cid = unreadCountFor db b cid
    \<and> map_sum id (\<lambda>(vs, meta). (map v_id vs, meta)) (listMessages b cid page limit db')
      = map_sum id (\<lambda>(vs, meta). (map v_id vs, meta)) (listMessages b cid page limit db)
    \<and> latestMessagesByConversation db' ids b = latestMessagesByConversation db ids b"
proof (rule sendMessage_run [OF assms(11,10)])
  fix c' ty r
  let ?m = "sent_row clk p c' ty r db"
  assume c': "find_conversation db (sp_conversationId p) = Some c'" "c_id c' = sp_conversationId p"
    and nf: "\<not> d_forbidden (resolvePrivateDelivery db (c', active_members db (c_id c')) (sp_actorId p))"
    and rs: "recipients = d_recipientIds (resolvePrivateDelivery db (c', active_members db (c_id c')) (sp_actorId p))"
    and v: "v = toMessageView ?m (active_members db (c_id c')) r [] (sp_actorId p)"
    and db': "db' = recordAudit clk (sp_actorId p) ''message.sent'' (Some ''conversation'') (Some (c_id c'))
      (message_audit_meta ?m) (store_message clk c' ?m db)"
  have res: "c' = c" "c_id c = cid" using c' assms(2,9) by auto
  note rp = resolve_private [OF chat_invD(1) [OF assms(1)] assms(2-6)]
  have dl: "resolvePrivateDelivery db (c, active_members db cid) a
      = \<lparr>d_forbidden = False, d_undelivered = True, d_recipientIds = [a]\<rparr>"
    using rp nf assms(7,8) unfolding res by (auto split: if_splits)
  have m: "m_undelivered ?m" "m_sender ?m \<noteq> b" "m_deletedAt ?m = None" using dl assms(6,8) res by auto
  have t: "messages db' = messages db @ [?m]" "members db' = members db" "messageHides db' = messageHides db"
    by (simp_all add: db')
  have req: "requireMembership db' cid b = Inr (c2, active_members db' cid)"
    if "find_conversation db' cid = Some c2" for c2
    using assms(5) that t(2) by (intro requireMembership_ok) (simp_all add: roster_cong [of db' db])
  obtain c2 where c2: "find_conversation db' cid = Some c2"
    using find_conversation_saved [of "insert_message ?m db" cid c "c\<lparr>c_lastMessageAt := Some (db_now clk)\<rparr>" clk]
      assms(2) find_conversation_Some [OF assms(2)] by (auto simp: db' store_message_def res)
  have rows: "filter (\<lambda>x. m_conv x = cid \<and> visible_to db' b x) (live_messages db')
      = filter (\<lambda>x. m_conv x = cid \<and> visible_to db b x) (live_messages db)"
    by (rule visible_append [OF t(1,3) m(3,1,2)])
  have "map_sum id (\<lambda>(vs, meta). (map v_id vs, meta)) (listMessages b cid page limit db')
      = map_sum id (\<lambda>(vs, meta). (map v_id vs, meta)) (listMessages b cid page limit db)"
    using req [OF c2] requireMembership_ok [OF assms(2,5)]
    by (simp add: listMessages_def Let_def rows buildPaginatedResult_def)
  then show ?thesis
    using unread_append [OF t m(1,2)] latest_append [OF t(1) m(1,2)] dl rs v assms(8) res
    by (simp add: toMessageView_def Let_def)
qed

theorem blocker_message_withheld_witness:
  "\<exists>v db'. sendMessage (at_time 6000) (text_to ''bob'' (demo_ids 4) ''hey'') blocked_chat = (Inr (v, [''bob'']), db')
    \<and> v_undelivered v \<and> unreadCountFor db' ''ann'' (demo_ids 4) = 1"
proof -
  let ?run = "sendMessage (at_time 6000) (text_to ''bob'' (demo_ids 4) ''hey'') blocked_chat"
  have "\<not> isl (fst ?run)" by code_simp
  then obtain v rs db' where run: "?run = (Inr (v, rs), db')"
    by (cases ?run; cases "fst ?run") auto
  have "unreadCountFor blocked_chat ''ann'' (demo_ids 4) = 1" by code_simp
  with blocker_message_withheld [OF blocked_chat_inv blocked_chat_facts(1) _ _ _ _ _ _ _ _ run, of "''bob''" "''ann''" 1 20 "[]"] run
  show ?thesis by (simp add: blocked_chat_facts demo_private_def text_to_def)
qed

section \<open>Editing\<close>

lemma find_row_unique: "distinct (map key rs) \<Longrightarrow> r \<in> set rs \<Longrightarrow> find_row key (key r) rs = Some r"
  by (induction rs) (auto simp: find_row_def)

lemma live_messages_all: "message_inv db \<Longrightarrow> live_messages db = messages db"
  using message_invD(3) by (auto simp: live_messages_def message_ok_def filter_id_conv)

lemma save_message_lookup:
  assumes "message_inv db" and "m \<in> set (messages db)" and "m_id (f m) = m_id m"
  shows "find_row m_id k (messages (save_message (f m) db)) = (if k = m_id m then Some (f m) else find_row m_id k (messages db))"
  using message_rows.lookup_after_modify [where s = db and k = "m_id m" and r = m and f = f and k' = k] assms find_row_unique [OF message_invD(1) [OF assms(1)]]
  by simp

lemma editMessage_run:
  assumes inv: "chat_inv {} db"
  shows "editMessage clk a cid mid b db = (out, db') \<Longrightarrow>
    (case out of Inl e \<Rightarrow> db' = db \<and> \<not> (\<exists>c m. find_conversation db cid = Some c \<and> a \<in> fst ` set (roster db cid)
        \<and> find_message_in db mid cid = Some m \<and> m_sender m = a \<and> m_deletedForEveryoneAt m = None
        \<and> now clk - m_createdAt m \<le> EDIT_WINDOW_MS \<and> truthy (trim b))
     | Inr r \<Rightarrow> (\<exists>c m. find_conversation db cid = Some c \<and> a \<in> fst ` set (roster db cid)
        \<and> find_message_in db mid cid = Some m \<and> m_sender m = a \<and> m_deletedForEveryoneAt m = None
        \<and> now clk - m_createdAt m \<le> EDIT_WINDOW_MS \<and> truthy (trim b)
        \<and> db' = save_message (m\<lparr>m_body := trim b, m_editedAt := Some (now clk)\<rparr>) db
        \<and> snd r = recipientIds (active_members db cid) \<and> v_body (fst r) = trim b))"
proof (cases "requireMembership db cid a")
  case (Inl e)
  then have "\<not> (\<exists>c. find_conversation db cid = Some c \<and> a \<in> fst ` set (roster db cid))"
    using requireMembership_ok by fastforce
  moreover assume "editMessage clk a cid mid b db = (out, db')"
  ultimately show ?thesis using Inl by (auto simp: editMessage_def)
next
  case (Inr conv)
  obtain c me where c: "find_conversation db cid = Some c" "conv = (c, active_members db cid)"
    "find (\<lambda>m. mb_user m = a) (active_members db cid) = Some me"
    by (rule requireMembership_Inr_find [OF Inr])
  note a = active_member_props(6) [OF c(3)] and cid = find_conversation_Some [OF c(1)]
  have body: "v_body (stored_view d (m\<lparr>m_body := trim b, m_editedAt := x\<rparr>) ms u) = trim b"
    if "m_deletedForEveryoneAt m = None" for d m x ms u
    using that by (simp add: stored_view_def toMessageView_def Let_def)
  assume run: "editMessage clk a cid mid b db = (out, db')"
  show ?thesis
  proof (cases "find_message_in db mid cid")
    case None
    with run Inr c cid show ?thesis by (auto simp: editMessage_def)
  next
    case (Some m)
    define A where "A = fst ` set (roster db cid)"
    show ?thesis
      unfolding A_def [symmetric] using Some run Inr c(1,2) cid a [folded A_def] body [of m]
      by (auto simp: editMessage_def Let_def split: if_splits)
  qed
qed

text \<open>
  C35. A member edits a message exactly when they wrote it, it is not deleted, it is at most
  fifteen minutes old and the new text is not blank; then that row's text and edit mark change
  and nothing else does.
\<close>

theorem edit_message_rule:
  assumes "chat_inv {} db"
  shows "((\<exists>r. fst (editMessage clk a cid mid b db) = Inr r) \<longleftrightarrow>
      (\<exists>c m. find_conversation db cid = Some c \<and> a \<in> fst ` set (roster db cid)
        \<and> find_message_in db mid cid = Some m \<and> m_sender m = a \<and> m_deletedForEveryoneAt m = None
        \<and> now clk - m_createdAt m \<le> 15 * 60 * 1000 \<and> trim b \<noteq> []))
    \<and> (\<forall>k. find_row m_id k (messages (snd (editMessage clk a cid mid b db))) =
        (if k = mid \<and> (\<exists>r. fst (editMessage clk a cid mid b db) = Inr r)
         then map_option (\<lambda>m. m\<lparr>m_body := trim b, m_editedAt := Some (now clk)\<rparr>) (find_row m_id k (messages db))
         else find_row m_id k (messages db)))"
proof -
  obtain out db' where run: "editMessage clk a cid mid b db = (out, db')" by (cases "editMessage clk a cid mid b db")
  note r = editMessage_run [OF assms run]
  show ?thesis
  proof (cases out)
    case (Inl e)
    then show ?thesis using r run by (auto simp: EDIT_WINDOW_MS_def truthy_def)
  next
    case (Inr x)
    then obtain c m where c: "find_conversation db cid = Some c" "a \<in> fst ` set (roster db cid)"
        "find_message_in db mid cid = Some m" "m_sender m = a" "m_deletedForEveryoneAt m = None"
        "now clk - m_createdAt m \<le> EDIT_WINDOW_MS" "truthy (trim b)"
      and db': "db' = save_message (m\<lparr>m_body := trim b, m_editedAt := Some (now clk)\<rparr>) db"
      using r by auto
    have m: "m \<in> set (messages db)" "m_id m = mid" using find_message_in_Some [OF c(3)] by auto
    have look: "find_row m_id k (messages db') = (if k = mid then Some (m\<lparr>m_body := trim b, m_editedAt := Some (now clk)\<rparr>)
        else find_row m_id k (messages db))" for k
      using save_message_lookup [OF chat_invD(2) [OF assms] m(1), of "\<lambda>m. m\<lparr>m_body := trim b, m_editedAt := Some (now clk)\<rparr>" k]
        m(2) db' by simp
    have "find_row m_id mid (messages db) = Some m"
      using find_row_unique [OF message_invD(1) [OF chat_invD(2) [OF assms]] m(1)] m(2) by simp
    with look c Inr run show ?thesis by (auto simp: EDIT_WINDOW_MS_def truthy_def)
  qed
qed

theorem edit_message_rule_witness:
  "find_row m_id (demo_ids 7) (messages (snd (editMessage (at_time 9000) ''ann'' (demo_ids 0) (demo_ids 7) '' hullo '' demo_chat)))
    = map_option (\<lambda>m. m\<lparr>m_body := ''hullo'', m_editedAt := Some 9000\<rparr>) (find_row m_id (demo_ids 7) (messages demo_chat))"
proof -
  have "\<not> isl (fst (editMessage (at_time 9000) ''ann'' (demo_ids 0) (demo_ids 7) '' hullo '' demo_chat))"
    "trim '' hullo '' = ''hullo''" by code_simp+
  then have "\<exists>r. fst (editMessage (at_time 9000) ''ann'' (demo_ids 0) (demo_ids 7) '' hullo '' demo_chat) = Inr r"
    by (metis isl_def sum.exhaust)
  with edit_message_rule [OF demo_chat_inv, of "at_time 9000" "''ann''" "demo_ids 0" "demo_ids 7" "'' hullo ''"]
    \<open>trim _ = _\<close> show ?thesis by (simp add: at_time_def)
qed

section \<open>Reactions\<close>

lemma image_drop: "f ` {r \<in> S. f r \<noteq> k} = f ` S - {k}"
  by auto

lemma toggle_reaction_keys:
  assumes "reaction_inv db"
  shows "reaction_key ` set (messageReactions (toggle_reaction mid u e db)) =
    (if (mid, u, e) \<in> reaction_key ` set (messageReactions db)
     then reaction_key ` set (messageReactions db) - {(mid, u, e)}
     else insert (mid, u, e) (reaction_key ` set (messageReactions db)))"
proof (cases "find (\<lambda>r. rx_message r = mid \<and> rx_user r = u \<and> rx_emoji r = e) (messageReactions db)")
  case None
  then have "(mid, u, e) \<notin> reaction_key ` set (messageReactions db)" by (auto simp: reaction_key_def find_None_set)
  moreover have "messageReactions (toggle_reaction mid u e db) = messageReactions db @
      [\<lparr>rx_id = next_uuid db, rx_message = mid, rx_user = u, rx_emoji = e\<rparr>]"
    by (simp add: toggle_reaction_def None)
  ultimately show ?thesis by (simp add: reaction_key_def)
next
  case (Some x)
  then have x: "x \<in> set (messageReactions db)" "reaction_key x = (mid, u, e)"
    by (auto simp: reaction_key_def dest: find_set)
  have "(rx_id r = rx_id x) = (reaction_key r = (mid, u, e))" if "r \<in> set (messageReactions db)" for r
    using assms x that by (auto simp: reaction_inv_def dest: distinct_key_eq)
  then have "set (messageReactions (toggle_reaction mid u e db))
      = {r \<in> set (messageReactions db). reaction_key r \<noteq> (mid, u, e)}"
    by (auto simp: toggle_reaction_def Some)
  moreover have "(mid, u, e) \<in> reaction_key ` set (messageReactions db)" using x by (metis imageI)
  ultimately show ?thesis by (simp add: image_drop)
qed

lemma reactMessage_run:
  assumes "reactMessage a cid mid e db = (Inr r, db')"
  shows "db' = toggle_reaction mid a e db"
  using assms by (auto simp: reactMessage_def Let_def dest: find_message_in_Some split: sum.splits option.splits if_splits)

text \<open>
  C24. Reacting toggles: it adds the user's reaction when it is not there, takes it away when it
  is, leaves every other reaction alone, and doing it twice changes nothing.
\<close>

theorem reaction_toggles:
  assumes "chat_inv {} db" and "reactMessage a cid mid e db = (Inr r, db1)"
    and "reactMessage a cid mid e db1 = (Inr r', db2)"
  shows "((mid, a, e) \<in> reaction_key ` set (messageReactions db1) \<longleftrightarrow> (mid, a, e) \<notin> reaction_key ` set (messageReactions db))
    \<and> reaction_key ` set (messageReactions db1) - {(mid, a, e)} = reaction_key ` set (messageReactions db) - {(mid, a, e)}
    \<and> reaction_key ` set (messageReactions db2) = reaction_key ` set (messageReactions db)"
proof -
  have "chat_inv {} db1" using reactMessage_inv [OF assms(1), of a cid mid e] assms(2) by simp
  then have "reaction_inv db" "reaction_inv db1" using assms(1) by (auto dest: chat_invD)
  from this [THEN toggle_reaction_keys, of mid a e] show ?thesis
    unfolding reactMessage_run [OF assms(2), symmetric] reactMessage_run [OF assms(3), symmetric]
    by (auto split: if_splits)
qed

theorem reaction_toggles_witness:
  "\<exists>r db1 r' db2. reactMessage ''bob'' (demo_ids 0) (demo_ids 7) (hd ALLOWED_REACTIONS) demo_chat = (Inr r, db1)
    \<and> reactMessage ''bob'' (demo_ids 0) (demo_ids 7) (hd ALLOWED_REACTIONS) db1 = (Inr r', db2)
    \<and> (demo_ids 7, ''bob'', hd ALLOWED_REACTIONS) \<in> reaction_key ` set (messageReactions db1)
    \<and> reaction_key ` set (messageReactions db2) = reaction_key ` set (messageReactions demo_chat)"
proof -
  let ?f = "reactMessage ''bob'' (demo_ids 0) (demo_ids 7) (hd ALLOWED_REACTIONS)"
  have "\<not> isl (fst (?f demo_chat))" "\<not> isl (fst (?f (snd (?f demo_chat))))" "messageReactions demo_chat = []" by code_simp+
  then obtain r db1 r' db2 where run: "?f demo_chat = (Inr r, db1)" "?f db1 = (Inr r', db2)"
    by (metis isl_def prod.collapse snd_conv sum.exhaust)
  from reaction_toggles [OF demo_chat_inv run] run \<open>messageReactions demo_chat = []\<close> show ?thesis by auto
qed

end
