(* ===== verification/ChatLifecycle.thy ===== *)
theory ChatLifecycle
  imports ChatDelivery
begin

text \<open>
  The later life of a message: deletion, read marks, scheduling and dispatch, the
  sweep of disappearing messages, forwarding; and the admission of calls.
\<close>

section \<open>Deleting\<close>

lemma deleteMessage_everyone_run:
  assumes inv: "chat_inv {} db" and run: "deleteMessage clk a cid mid True db = (Inr r, db')"
  obtains m where "find_message_in db mid cid = Some m" and "m_sender m = a"
    and "m_deletedForEveryoneAt m \<noteq> None \<and> db' = db \<or> m_deletedForEveryoneAt m = None
      \<and> db' = save_message (wipe_message clk m) db \<and> dr_removedAttachmentUrl r = m_attachmentUrl m"
    and "dr_recipientIds r = map mb_user (active_members db cid)"
proof -
  obtain conv where req: "requireMembership db cid a = Inr conv"
    using run by (auto simp: deleteMessage_def split: sum.splits)
  obtain c me where c: "find_conversation db cid = Some c" "conv = (c, active_members db cid)"
    by (rule requireMembership_Inr_find [OF req])
  have cid: "c_id c = cid" using find_conversation_Some [OF c(1)] by simp
  obtain m where m: "find_message_in db mid cid = Some m"
    using run req c(2) cid by (auto simp: deleteMessage_def split: option.splits)
  show ?thesis
    using run req c(2) cid m by (intro that [OF m])
      (auto simp: deleteMessage_def Let_def DELETE_FOR_EVERYONE_WINDOW_MS_def recipientIds_def split: if_splits)
qed

text \<open>
  C24. Only the author deletes a message for everyone, at any age; afterwards no view of it shows
  text, attachment, mentions, preview, reactions or pin, the attachment to remove from storage is
  reported, and no other message changed.
\<close>

theorem delete_for_everyone_wipes:
  assumes "chat_inv {} db" and "deleteMessage clk a cid mid True db = (Inr r, db')"
  shows "\<exists>m m'. find_row m_id mid (messages db) = Some m \<and> find_row m_id mid (messages db') = Some m'
    \<and> m_sender m = a \<and> m_conv m = cid \<and> m_deletedForEveryoneAt m' \<noteq> None \<and> m_attachmentUrl m' = None
    \<and> v_body (toMessageView m' ms parent rs viewer) = '''' \<and> v_attachment (toMessageView m' ms parent rs viewer) = None
    \<and> v_mentions (toMessageView m' ms parent rs viewer) = [] \<and> v_linkPreview (toMessageView m' ms parent rs viewer) = None
    \<and> v_reactions (toMessageView m' ms parent rs viewer) = [] \<and> \<not> v_pinned (toMessageView m' ms parent rs viewer)
    \<and> (m_deletedForEveryoneAt m = None \<longrightarrow> dr_removedAttachmentUrl r = m_attachmentUrl m)
    \<and> (\<forall>k. k \<noteq> mid \<longrightarrow> find_row m_id k (messages db') = find_row m_id k (messages db))"
proof (rule deleteMessage_everyone_run [OF assms])
  fix m
  assume m: "find_message_in db mid cid = Some m" and a: "m_sender m = a"
    and cases: "m_deletedForEveryoneAt m \<noteq> None \<and> db' = db \<or> m_deletedForEveryoneAt m = None
      \<and> db' = save_message (wipe_message clk m) db \<and> dr_removedAttachmentUrl r = m_attachmentUrl m"
  have mm: "m \<in> set (messages db)" "m_id m = mid" "m_conv m = cid" using find_message_in_Some [OF m] by auto
  note minv = chat_invD(2) [OF assms(1)]
  have row: "find_row m_id mid (messages db) = Some m"
    using find_row_unique [OF message_invD(1) [OF minv] mm(1)] mm(2) by simp
  have wiped: "v_body (toMessageView x ms parent rs viewer) = '''' \<and> v_attachment (toMessageView x ms parent rs viewer) = None
    \<and> v_mentions (toMessageView x ms parent rs viewer) = [] \<and> v_linkPreview (toMessageView x ms parent rs viewer) = None
    \<and> v_reactions (toMessageView x ms parent rs viewer) = [] \<and> \<not> v_pinned (toMessageView x ms parent rs viewer)"
    if "m_deletedForEveryoneAt x \<noteq> None" for x
    using that by (simp add: toMessageView_def Let_def split: option.split)
  show ?thesis
  proof (cases "m_deletedForEveryoneAt m = None")
    case True
    with cases have db': "db' = save_message (wipe_message clk m) db" "dr_removedAttachmentUrl r = m_attachmentUrl m" by auto
    have "find_row m_id k (messages db') = (if k = mid then Some (wipe_message clk m) else find_row m_id k (messages db))" for k
      using save_message_lookup [OF minv mm(1), of "wipe_message clk" k] mm(2) db' by simp
    with row a mm(3) wiped [of "wipe_message clk m"] db'(2) show ?thesis by (auto simp: wipe_message_def)
  next
    case False
    have "m_attachmentUrl m = None" using message_invD(3) [OF minv mm(1)] False by (simp add: message_ok_def)
    with False cases row a mm(3) wiped [OF False] show ?thesis by auto
  qed
qed

theorem delete_for_everyone_wipes_witness:
  "\<exists>r db'. deleteMessage (at_time 9000) ''ann'' (demo_ids 0) (demo_ids 7) True demo_chat = (Inr r, db')
    \<and> map_option (\<lambda>m. v_body (toMessageView m [] None [] ''bob'')) (find_row m_id (demo_ids 7) (messages db')) = Some ''''"
proof -
  let ?run = "deleteMessage (at_time 9000) ''ann'' (demo_ids 0) (demo_ids 7) True demo_chat"
  have "\<not> isl (fst ?run)" by code_simp
  then obtain r db' where run: "?run = (Inr r, db')" by (cases ?run; cases "fst ?run") auto
  from delete_for_everyone_wipes [OF demo_chat_inv run, of "[]" None "[]" "''bob''"] run show ?thesis by auto
qed

text \<open>
  C37. Deleting for oneself hides the message from the actor and from nobody else, and changes no message.
\<close>

theorem delete_for_me_hides:
  assumes "deleteMessage clk a cid mid False db = (Inr r, db')"
  shows "messages db' = messages db \<and> dr_recipientIds r = [a]
    \<and> (\<forall>u m. visible_to db' u m \<longleftrightarrow> visible_to db u m \<and> \<not> (u = a \<and> m_id m = mid))"
proof -
  obtain conv m where "requireMembership db cid a = Inr conv" and m: "find_message_in db mid (c_id (fst conv)) = Some m"
    and r: "r = \<lparr>dr_message = stored_view (hide_message (m_id m) a db) m (snd conv) a, dr_forEveryone = False,
      dr_recipientIds = [a], dr_removedAttachmentUrl = None\<rparr>" and db': "db' = hide_message (m_id m) a db"
    using assms by (auto simp: deleteMessage_def Let_def split: sum.splits option.splits)
  have "m_id m = mid" using find_message_in_Some [OF m] by simp
  then show ?thesis
    by (auto simp: r db' hide_message_def visible_to_def is_hidden_def)
qed

theorem delete_for_me_hides_witness:
  "\<exists>r db'. deleteMessage (at_time 9000) ''bob'' (demo_ids 0) (demo_ids 7) False demo_chat = (Inr r, db')
    \<and> \<not> visible_to db' ''bob'' (hd (messages demo_chat)) \<and> visible_to db' ''ann'' (hd (messages demo_chat))"
proof -
  let ?run = "deleteMessage (at_time 9000) ''bob'' (demo_ids 0) (demo_ids 7) False demo_chat"
  have c: "\<not> isl (fst ?run)" "m_id (hd (messages demo_chat)) = demo_ids 7"
    "visible_to demo_chat ''ann'' (hd (messages demo_chat))" by code_simp+
  then obtain r db' where run: "?run = (Inr r, db')" by (cases ?run; cases "fst ?run") auto
  with delete_for_me_hides [OF run] c show ?thesis by auto
qed

section \<open>Read marks\<close>

text \<open>
  C25. Marking a chat as seen leaves nothing unread for the actor, provided no stored message is
  dated in the future of the service's clock.
\<close>

theorem mark_seen_reads_all:
  assumes "chat_inv {} db" and "markSeen clk a cid mid db = (Inr r, db')"
    and "list_all (\<lambda>m. m_createdAt m \<le> now clk) (filter (\<lambda>m. m_conv m = cid) (messages db))"
  shows "unreadCountFor db' a cid = 0 \<and> now clk \<le> sr_lastReadAt r \<and> sr_userId r = a"
proof -
  have "unreadCountFor db' a cid = 0"
    using assms(3) by (intro markSeen_clears_unread [OF chat_invD(1) [OF assms(1)] assms(2)]) (auto simp: list_all_iff)
  moreover have "now clk \<le> sr_lastReadAt r \<and> sr_userId r = a"
    using assms(2) by (auto simp: markSeen_def Let_def split: sum.splits option.splits if_splits)
  ultimately show ?thesis by blast
qed

theorem mark_seen_reads_all_witness:
  "\<exists>r db'. markSeen (at_time 9000) ''bob'' (demo_ids 0) None demo_chat = (Inr r, db')
    \<and> unreadCountFor demo_chat ''bob'' (demo_ids 0) = 1 \<and> unreadCountFor db' ''bob'' (demo_ids 0) = 0"
proof -
  let ?run = "markSeen (at_time 9000) ''bob'' (demo_ids 0) None demo_chat"
  have c: "\<not> isl (fst ?run)" "unreadCountFor demo_chat ''bob'' (demo_ids 0) = 1"
    "list_all (\<lambda>m. m_createdAt m \<le> now (at_time 9000)) (filter (\<lambda>m. m_conv m = demo_ids 0) (messages demo_chat))"
    by code_simp+
  then obtain r db' where run: "?run = (Inr r, db')" by (cases ?run; cases "fst ?run") auto
  from mark_seen_reads_all [OF demo_chat_inv run c(3)] run c(2) show ?thesis by auto
qed

section \<open>Scheduled messages\<close>

lemma scheduleMessage_run:
  assumes "scheduleMessage clk p t db = (Inr v, db')"
  obtains i s where "t = Some i" and "now clk + SCHEDULE_MIN_DELAY_MS \<le> i" and "i \<le> now clk + SCHEDULE_MAX_AHEAD_MS"
    and "scheduledMessages db' = scheduledMessages db @ [s]" and "messages db' = messages db"
    and "sm_scheduledFor s = i" and "sm_status s = Pending" and "sm_sender s = sp_actorId p"
    and "sm_conv s = sp_conversationId p" and "v = toScheduledMessageView s" and "sm_type s \<noteq> CALL"
    and "length (pending_for db (sp_conversationId p) (sp_actorId p)) < 20"
proof -
  obtain i conv ty where i: "t = Some i" "\<not> i < now clk + SCHEDULE_MIN_DELAY_MS" "\<not> i > now clk + SCHEDULE_MAX_AHEAD_MS"
    and req: "requireMembership db (sp_conversationId p) (sp_actorId p) = Inr conv" and ty: "ty \<noteq> CALL"
    and room: "\<not> length (pending_for db (c_id (fst conv)) (sp_actorId p)) \<ge> MAX_PENDING_SCHEDULED_PER_CHAT"
    and body: "schedule_body clk p i (trim_or_null (sp_attachmentUrl p)) (trim (nullish (sp_body p) '''')) ty conv db = (Inr v, db')"
    using assms by (auto simp: scheduleMessage_def Let_def split: option.splits sum.splits if_splits)
  have cid: "c_id (fst conv) = sp_conversationId p"
    by (rule requireMembership_InrE [OF req]) simp
  show ?thesis
    using body i ty room cid that by (auto simp: schedule_body_def Let_def MAX_PENDING_SCHEDULED_PER_CHAT_def split: if_splits)
qed

text \<open>
  C26. A message is scheduled at least one minute and at most thirty days ahead, as one new pending
  row of the actor in that chat, and nothing is sent yet.
\<close>

theorem schedule_window:
  assumes "scheduleMessage clk p t db = (Inr v, db')"
  shows "\<exists>i s. t = Some i \<and> 60000 \<le> i - now clk \<and> i - now clk \<le> 30 * 86400000
    \<and> scheduledMessages db' = scheduledMessages db @ [s] \<and> messages db' = messages db
    \<and> sm_status s = Pending \<and> sm_scheduledFor s = i \<and> sm_sender s = sp_actorId p \<and> sm_conv s = sp_conversationId p
    \<and> length (pending_for db' (sp_conversationId p) (sp_actorId p)) \<le> 20"
  by (rule scheduleMessage_run [OF assms])
    (auto simp: SCHEDULE_MIN_DELAY_MS_def SCHEDULE_MAX_AHEAD_MS_def pending_for_def)

definition scheduled_chat :: chat_db where
  "scheduled_chat = snd (scheduleMessage (at_time 5000) (text_to ''ann'' (demo_ids 0) ''later'') (Some 65000) demo_chat)"

lemma scheduled_chat_inv: "chat_inv {} scheduled_chat"
  unfolding scheduled_chat_def by (rule scheduleMessage_inv [OF demo_chat_inv])

theorem schedule_window_witness:
  "\<exists>v. scheduleMessage (at_time 5000) (text_to ''ann'' (demo_ids 0) ''later'') (Some 65000) demo_chat = (Inr v, scheduled_chat)
    \<and> messages scheduled_chat = messages demo_chat"
proof -
  let ?run = "scheduleMessage (at_time 5000) (text_to ''ann'' (demo_ids 0) ''later'') (Some 65000) demo_chat"
  have "\<not> isl (fst ?run)" by code_simp
  then obtain v where run: "?run = (Inr v, scheduled_chat)"
    by (cases ?run; cases "fst ?run") (auto simp: scheduled_chat_def)
  from schedule_window [OF run] run show ?thesis by blast
qed

text \<open>The dispatch of one claimed row.\<close>

lemma claim_one:
  assumes "distinct (map sm_id rows)" and "r \<in> set rows" and "sm_status r = Pending"
  shows "filter (\<lambda>s. sm_id s = sm_id r \<and> sm_status s = Pending) rows = [r]"
proof -
  have "filter (\<lambda>s. sm_id s = sm_id r) rows = [r]"
    by (rule filter_key_single [OF assms(1,2)])
  then have "filter (\<lambda>s. sm_status s = Pending) (filter (\<lambda>s. sm_id s = sm_id r) rows) = [r]" using assms(3) by simp
  then show ?thesis by (simp add: conj_commute)
qed

lemma settle_rows:
  fixes r :: scheduled_message
  defines "f \<equiv> (\<lambda>s. if sm_id s = sm_id r \<and> sm_status s = Pending then s\<lparr>sm_status := Sending\<rparr> else s)"
  assumes "distinct (map sm_id rows)" and "r \<in> set rows" and "sm_id r' = sm_id r"
  shows "set (save_row sm_id r' (map f rows)) = insert r' (set rows - {r})"
    and "map sm_id (save_row sm_id r' (map f rows)) = map sm_id rows"
proof -
  have ids: "map sm_id (map f rows) = map sm_id rows" by (simp add: f_def)
  show "map sm_id (save_row sm_id r' (map f rows)) = map sm_id rows" using ids by simp
  have d: "distinct (map sm_id (map f rows))" unfolding ids by (rule assms(2))
  have mem: "f r \<in> set (map f rows)" using assms(3) by simp
  have "set (save_row sm_id r' (map f rows)) = insert r' (set (map f rows) - {f r})"
    by (rule save_row_eq [OF d mem]) (simp add: assms(4) f_def)
  also have "set (map f rows) - {f r} = set rows - {r}"
  proof -
    have other: "f x = x" if "x \<in> set rows - {r}" for x
      using distinct_key_eq [OF assms(2) _ assms(3), of x] that by (auto simp: f_def)
    have "f r = r" if "f r \<in> set rows"
      by (rule distinct_key_eq [OF assms(2) that assms(3)]) (simp add: f_def)
    then have "f r \<notin> set rows - {r}" by auto
    moreover have "set (map f rows) = insert (f r) (f ` (set rows - {r}))" using assms(3) by auto
    moreover have "f ` (set rows - {r}) = set rows - {r}" 
      using image_cong [of "set rows - {r}" "set rows - {r}" f "\<lambda>x. x", OF refl other] by simp
    ultimately show ?thesis by simp
  qed
  finally show "set (save_row sm_id r' (map f rows)) = insert r' (set rows - {r})" .
qed

lemma sendMessage_messages:
  assumes "sendMessage clk p db = (Inr (v, rs), db')" and "sp_type p \<noteq> Some ''call''"
  shows "\<exists>m. messages db' = messages db @ [m] \<and> m_id m = v_id v \<and> m_sender m = sp_actorId p \<and> m_conv m = sp_conversationId p"
  by (rule sendMessage_run [OF assms]) (auto simp: toMessageView_def Let_def)

text \<open>What the dispatcher guarantees of the rows it was given.\<close>

definition settled :: "send_result list \<Rightarrow> scheduled_message \<Rightarrow> bool" where
  "settled results s \<longleftrightarrow> sm_status s = Sent \<and> (\<exists>r\<in>set results. sm_sentMessageId s = Some (v_id (fst r)))
     \<or> sm_status s = Failed \<and> sm_error s \<noteq> None"

lemma settled_mono: "settled rs s \<Longrightarrow> set rs \<subseteq> set rs' \<Longrightarrow> settled rs' s"
  by (auto simp: settled_def)

lemma dispatch_loop_spec:
  assumes "distinct (map sm_id due)" and "distinct (map sm_id (scheduledMessages db))"
    and "\<forall>r\<in>set due. r \<in> set (scheduledMessages db) \<and> sm_status r = Pending \<and> sm_type r \<noteq> CALL"
    and "dispatch_loop clk due db = (rs, db')"
  shows "map sm_id (scheduledMessages db') = map sm_id (scheduledMessages db)
    \<and> (\<forall>s\<in>set (scheduledMessages db'). if sm_id s \<in> sm_id ` set due then settled rs s else s \<in> set (scheduledMessages db))
    \<and> (\<exists>new. messages db' = messages db @ new \<and> map m_id new = map (v_id \<circ> fst) rs)
    \<and> length rs \<le> length due"
  using assms
proof (induction due arbitrary: db rs)
  case (Cons row due)
  have row: "row \<in> set (scheduledMessages db)" "sm_status row = Pending" "sm_type row \<noteq> CALL" using Cons.prems(3) by auto
  obtain db1 where claim: "claim_scheduled (sm_id row) db = (1, db1)"
    and db1: "db1 = db\<lparr>scheduledMessages := map (\<lambda>s. if sm_id s = sm_id row \<and> sm_status s = Pending
        then s\<lparr>sm_status := Sending\<rparr> else s) (scheduledMessages db)\<rparr>"
    using claim_one [OF Cons.prems(2) row(1,2)] by (simp add: claim_scheduled_def)
  have type: "sp_type (scheduled_payload row) \<noteq> Some ''call''"
    using row(3) by (cases "sm_type row") (simp_all add: scheduled_payload_def message_type_value_def)
  obtain out db2 where send: "sendMessage clk (scheduled_payload row) db1 = (out, db2)"
    by (cases "sendMessage clk (scheduled_payload row) db1")
  have sched: "scheduledMessages db2 = scheduledMessages db1"
    using sendMessage_schedules [of clk "scheduled_payload row" db1] send by simp
  define row' where "row' = (case out of
     Inr result \<Rightarrow> row\<lparr>sm_status := Sent, sm_sentMessageId := Some (v_id (fst result)), sm_error := None\<rparr>
   | Inl e \<Rightarrow> row\<lparr>sm_status := Failed, sm_error := Some (js_slice 0 500 (err_message e))\<rparr>)"
  let ?db3 = "save_scheduled row' db2"
  have rid: "sm_id row' = sm_id row" by (simp add: row'_def split: sum.split)
  have set3: "set (scheduledMessages ?db3) = insert row' (set (scheduledMessages db) - {row})"
    and ids3: "map sm_id (scheduledMessages ?db3) = map sm_id (scheduledMessages db)"
    using settle_rows [OF Cons.prems(2) row(1) rid] by (simp_all add: sched db1)
  obtain rs3 db4 where t: "dispatch_loop clk due ?db3 = (rs3, db4)" by (cases "dispatch_loop clk due ?db3")
  then have "rs = (case out of Inr result \<Rightarrow> result # rs3 | Inl _ \<Rightarrow> rs3) \<and> db' = db4"
    using Cons.prems(4) by (cases out) (simp_all add: claim send row'_def)
  with t have tail: "dispatch_loop clk due ?db3 = (rs3, db')"
    and rs: "rs = (case out of Inr result \<Rightarrow> result # rs3 | Inl _ \<Rightarrow> rs3)" by auto
  have pre: "distinct (map sm_id due)" "distinct (map sm_id (scheduledMessages ?db3))"
    using Cons.prems(1,2) unfolding ids3 by auto
  have pre3: "\<forall>r\<in>set due. r \<in> set (scheduledMessages ?db3) \<and> sm_status r = Pending \<and> sm_type r \<noteq> CALL"
    using Cons.prems(1,3) unfolding set3 by auto
  note IH = Cons.IH [OF pre pre3 tail]
  have msgs: "\<exists>new. messages db2 = messages db @ new \<and> map m_id new = (case out of Inr result \<Rightarrow> [v_id (fst result)] | Inl _ \<Rightarrow> [])"
  proof (cases out)
    case (Inl e)
    then have "db2 = db1" using sendMessage_error [of clk "scheduled_payload row" db1 e] send by simp
    with Inl show ?thesis by (simp add: db1)
  next
    case (Inr result)
    then show ?thesis
      using sendMessage_messages [OF _ type, of clk db1 "fst result" "snd result" db2] send
      by (auto simp: db1)
  qed
  have st: "settled rs row'"
    by (cases out) (auto simp: settled_def row'_def rs)
  have sub: "set rs3 \<subseteq> set rs" by (auto simp: rs split: sum.split)
  have "if sm_id s \<in> sm_id ` set (row # due) then settled rs s else s \<in> set (scheduledMessages db)"
    if s: "s \<in> set (scheduledMessages db')" for s
  proof (cases "sm_id s \<in> sm_id ` set due")
    case True
    then show ?thesis using IH s settled_mono [OF _ sub] by auto
  next
    case False
    then have s3: "s \<in> insert row' (set (scheduledMessages db) - {row})" using IH s set3 by auto
    show ?thesis
    proof (cases "s = row'")
      case True
      then show ?thesis using st rid by simp
    next
      case False
      with s3 have "s \<in> set (scheduledMessages db)" "s \<noteq> row" by auto
      moreover have "sm_id s \<noteq> sm_id row" using calculation distinct_key_eq [OF Cons.prems(2) _ row(1)] by blast
      ultimately show ?thesis using \<open>sm_id s \<notin> sm_id ` set due\<close> by simp
    qed
  qed
  moreover obtain new1 new2 where "messages db2 = messages db @ new1"
    "map m_id new1 = (case out of Inr result \<Rightarrow> [v_id (fst result)] | Inl _ \<Rightarrow> [])"
    "messages db' = messages ?db3 @ new2" "map m_id new2 = map (v_id \<circ> fst) rs3"
    using msgs IH by blast
  then have "messages db' = messages db @ (new1 @ new2) \<and> map m_id (new1 @ new2) = map (v_id \<circ> fst) rs"
    by (cases out) (simp_all add: rs)
  moreover have "length rs \<le> length (row # due)" using IH by (cases out) (simp_all add: rs)
  ultimately show ?case using IH ids3 by metis
qed auto

lemma due_scheduled_rows:
  assumes "chat_inv {} db"
  shows "distinct (map sm_id (due_scheduled clk db))" "length (due_scheduled clk db) \<le> 25"
    "\<forall>r\<in>set (due_scheduled clk db). r \<in> set (scheduledMessages db) \<and> sm_status r = Pending \<and> sm_type r \<noteq> CALL
      \<and> sm_scheduledFor r \<le> now clk"
proof -
  have inv: "distinct (map sm_id (scheduledMessages db))" "\<forall>s\<in>set (scheduledMessages db). scheduled_ok s"
    using chat_invD(5) [OF assms] by (simp_all add: schedule_inv_def)
  have "distinct (map sm_id (order_asc sm_scheduledFor (filter P (scheduledMessages db))))" for P
    unfolding order_asc_def distinct_map using inv(1) by (auto simp: distinct_map inj_on_def)
  then show "distinct (map sm_id (due_scheduled clk db))"
    unfolding due_scheduled_def take_map [symmetric] by (rule distinct_take)
  show "length (due_scheduled clk db) \<le> 25" by (simp add: due_scheduled_def)
  show "\<forall>r\<in>set (due_scheduled clk db). r \<in> set (scheduledMessages db) \<and> sm_status r = Pending \<and> sm_type r \<noteq> CALL
      \<and> sm_scheduledFor r \<le> now clk"
    using inv(2) by (auto simp: due_scheduled_def scheduled_ok_def dest!: in_set_takeD)
qed

text \<open>
  C23. One dispatch settles each due row it takes (at most 25, the earliest first) exactly once:
  the row ends sent, with the message stored for it, or failed with the error; one message is
  appended per result; all other rows stay; and no settled row is ever due again.
\<close>

theorem dispatch_settles_once:
  assumes "chat_inv {} db"
  shows "\<exists>rs new. fst (dispatchDueScheduled clk db) = Inr rs
    \<and> messages (snd (dispatchDueScheduled clk db)) = messages db @ new \<and> map m_id new = map (v_id \<circ> fst) rs
    \<and> length rs \<le> length (due_scheduled clk db) \<and> length (due_scheduled clk db) \<le> 25
    \<and> (\<forall>s\<in>set (scheduledMessages (snd (dispatchDueScheduled clk db))).
         if sm_id s \<in> sm_id ` set (due_scheduled clk db)
         then sm_status s = Sent \<and> (\<exists>r\<in>set rs. sm_sentMessageId s = Some (v_id (fst r)))
           \<or> sm_status s = Failed \<and> sm_error s \<noteq> None
         else s \<in> set (scheduledMessages db))
    \<and> (\<forall>clk'. sm_id ` set (due_scheduled clk' (snd (dispatchDueScheduled clk db))) \<inter> sm_id ` set (due_scheduled clk db) = {})"
proof -
  obtain rs db' where run: "dispatch_loop clk (due_scheduled clk db) db = (rs, db')"
    by (cases "dispatch_loop clk (due_scheduled clk db) db")
  have d: "distinct (map sm_id (scheduledMessages db))"
    using chat_invD(5) [OF assms] by (simp add: schedule_inv_def)
  have rows: "\<forall>r\<in>set (due_scheduled clk db). r \<in> set (scheduledMessages db) \<and> sm_status r = Pending \<and> sm_type r \<noteq> CALL"
    using due_scheduled_rows(3) [OF assms] by blast
  note spec = dispatch_loop_spec [OF due_scheduled_rows(1) [OF assms] d rows run]
  have "chat_inv {} db'" using dispatchDueScheduled_inv [OF assms, of clk] run by (simp add: dispatchDueScheduled_def)
  then have "sm_id s \<notin> sm_id ` set (due_scheduled clk db)" if "s \<in> set (due_scheduled clk' db')" for s clk'
    using due_scheduled_rows(3) [of db' clk'] that spec by (fastforce simp: settled_def)
  then have never: "\<forall>clk'. sm_id ` set (due_scheduled clk' db') \<inter> sm_id ` set (due_scheduled clk db) = {}" by blast
  show ?thesis
    unfolding dispatchDueScheduled_def run apfst_conv fst_conv snd_conv
    using spec [unfolded settled_def] never due_scheduled_rows(2) [OF assms, of clk] by blast
qed

theorem dispatch_settles_once_witness:
  "\<exists>rs new. fst (dispatchDueScheduled (at_time 70000) scheduled_chat) = Inr rs \<and> length rs = 1
    \<and> messages (snd (dispatchDueScheduled (at_time 70000) scheduled_chat)) = messages scheduled_chat @ new
    \<and> map m_id new = map (v_id \<circ> fst) rs"
proof -
  have len: "length (fst (dispatch_loop (at_time 70000) (due_scheduled (at_time 70000) scheduled_chat) scheduled_chat)) = 1"
    by code_simp
  show ?thesis
    using dispatch_settles_once [OF scheduled_chat_inv, of "at_time 70000"] len
    by (auto simp: dispatchDueScheduled_def)
qed

section \<open>Disappearing messages\<close>

lemma find_conversation_save_message [simp]: "find_conversation (save_message m db) cid = find_conversation db cid"
  by (simp add: find_conversation_def live_conversations_def)

text \<open>What the sweep makes of a row it was given.\<close>

definition swept :: "clock \<Rightarrow> chat_db \<Rightarrow> message \<Rightarrow> bool" where
  "swept clk db x \<longleftrightarrow> m_expiresAt x = None \<and> (find_conversation db (m_conv x) \<noteq> None \<longrightarrow>
     m_deletedForEveryoneAt x = Some (now clk) \<and> m_attachmentUrl x = None \<and> m_pinnedAt x = None)"

lemma save_message_rows:
  assumes "distinct (map m_id (messages db))" and "m \<in> set (messages db)" and "m_id m' = m_id m"
  shows "set (messages (save_message m' db)) = insert m' (set (messages db) - {m})"
  using save_row_eq [OF assms] by simp

lemma expire_loop_spec:
  assumes "distinct (map m_id due)" and "distinct (map m_id (messages db))" and "set due \<subseteq> set (messages db)"
    and "expire_loop clk due db = (rs, db')"
  shows "map m_id (messages db') = map m_id (messages db)
    \<and> (\<forall>x\<in>set (messages db'). if m_id x \<in> m_id ` set due then swept clk db x else x \<in> set (messages db))
    \<and> length rs = length (filter (\<lambda>m. find_conversation db (m_conv m) \<noteq> None) due)"
  using assms
proof (induction due arbitrary: db rs)
  case (Cons m due)
  define m' where "m' = (if find_conversation db (m_conv m) = None then m\<lparr>m_expiresAt := None\<rparr>
    else (wipe_message clk m)\<lparr>m_expiresAt := None\<rparr>)"
  let ?db1 = "save_message m' db"
  have m: "m \<in> set (messages db)" using Cons.prems(3) by simp
  have mid: "m_id m' = m_id m" by (simp add: m'_def)
  have sw: "swept clk db m'" by (simp add: swept_def m'_def wipe_message_def)
  note rows = save_message_rows [OF Cons.prems(2) m mid]
  have ids: "map m_id (messages ?db1) = map m_id (messages db)" by simp
  obtain rs1 db2 where t: "expire_loop clk due ?db1 = (rs1, db2)" by (cases "expire_loop clk due ?db1")
  have split: "db' = db2 \<and> length rs = (if find_conversation db (m_conv m) = None then 0 else 1) + length rs1"
    using Cons.prems(4) t by (cases "find_conversation db (m_conv m)") (auto simp: m'_def Let_def)
  have pre: "distinct (map m_id due)" "distinct (map m_id (messages ?db1))" using Cons.prems(1,2) ids by simp_all
  have pre3: "set due \<subseteq> set (messages ?db1)" using Cons.prems(1,3) unfolding rows by auto
  note IH = Cons.IH [OF pre pre3 t [folded conjunct1 [OF split]]]
  have "if m_id x \<in> m_id ` set (m # due) then swept clk db x else x \<in> set (messages db)"
    if x: "x \<in> set (messages db')" for x
  proof (cases "m_id x \<in> m_id ` set due")
    case True
    moreover have "swept clk ?db1 x = swept clk db x" by (simp add: swept_def)
    ultimately show ?thesis using IH x by auto
  next
    case False
    then have x1: "x \<in> insert m' (set (messages db) - {m})" using IH x rows by auto
    show ?thesis
    proof (cases "x = m'")
      case False
      with x1 have "x \<in> set (messages db)" "m_id x \<noteq> m_id m"
        using distinct_key_eq [OF Cons.prems(2) _ m, of x] by auto
      then show ?thesis using \<open>m_id x \<notin> m_id ` set due\<close> by simp
    qed (simp add: sw mid)
  qed
  then show ?case using IH split ids by simp
qed auto

lemma due_messages_expiring: "m \<in> set (due_messages clk db) \<Longrightarrow> m_expiresAt m \<noteq> None \<and> m_deletedForEveryoneAt m = None"
  by (auto simp: due_messages_def dest!: in_set_takeD split: option.splits)

text \<open>
  C16. One sweep deletes for everyone each expired message it takes (at most 40, the earliest first)
  whose conversation still exists, and only lifts the expiry of the others; no other message
  changes, and no message is swept twice.
\<close>

theorem sweep_expires_once:
  assumes "chat_inv {} db"
  shows "length (due_messages clk db) \<le> 40
    \<and> map m_id (messages (snd (expireDueMessages clk db))) = map m_id (messages db)
    \<and> (\<forall>x\<in>set (messages (snd (expireDueMessages clk db))).
         if m_id x \<in> m_id ` set (due_messages clk db)
         then m_expiresAt x = None \<and> (find_conversation db (m_conv x) \<noteq> None \<longrightarrow>
           m_deletedForEveryoneAt x = Some (now clk) \<and> m_attachmentUrl x = None \<and> m_pinnedAt x = None)
         else x \<in> set (messages db))
    \<and> (\<forall>clk'. m_id ` set (due_messages clk' (snd (expireDueMessages clk db))) \<inter> m_id ` set (due_messages clk db) = {})"
proof -
  obtain rs db' where run: "expire_loop clk (due_messages clk db) db = (rs, db')"
    by (cases "expire_loop clk (due_messages clk db) db")
  have rows: "set (due_messages clk db) \<subseteq> set (messages db)" using due_messages_rows(2) [OF assms] by blast
  note spec = expire_loop_spec [OF due_messages_rows(1) [OF assms] message_invD(1) [OF chat_invD(2) [OF assms]] rows run]
  have inv': "chat_inv {} db'" using expireDueMessages_inv [OF assms, of clk] run by (simp add: expireDueMessages_def)
  have "m_id x \<notin> m_id ` set (due_messages clk db)" if x: "x \<in> set (due_messages clk' db')" for x clk'
  proof -
    have "x \<in> set (messages db')" using due_messages_rows(2) [OF inv'] x by blast
    then show ?thesis using spec due_messages_expiring [OF x] by (metis swept_def)
  qed
  then have never: "\<forall>clk'. m_id ` set (due_messages clk' db') \<inter> m_id ` set (due_messages clk db) = {}" by blast
  have "length (due_messages clk db) \<le> 40" by (simp add: due_messages_def)
  then show ?thesis
    unfolding expireDueMessages_def run apfst_conv fst_conv snd_conv
    using spec [unfolded swept_def] never by blast
qed

text \<open>The sample after its owner set messages to disappear in thirty seconds and wrote another.\<close>

definition expiring_chat :: chat_db where
  "expiring_chat = snd (sendMessage (at_time 6000) (text_to ''ann'' (demo_ids 0) ''soon gone'')
     (snd (setDisappearingMessages (at_time 5000) ''ann'' (demo_ids 0) 30 demo_chat)))"

lemma expiring_chat_inv: "chat_inv {} expiring_chat"
  unfolding expiring_chat_def by (intro sendMessage_inv flags_inv demo_chat_inv)

theorem sweep_expires_once_witness:
  "list_ex (\<lambda>x. m_deletedForEveryoneAt x = Some 36000) (messages (snd (expireDueMessages (at_time 36000) expiring_chat)))
    \<and> due_messages (at_time 36001) (snd (expireDueMessages (at_time 36000) expiring_chat)) = []
    \<and> map m_id (messages (snd (expireDueMessages (at_time 36000) expiring_chat))) = map m_id (messages expiring_chat)"
proof -
  have "list_ex (\<lambda>x. m_deletedForEveryoneAt x = Some 36000) (messages (snd (expireDueMessages (at_time 36000) expiring_chat)))"
    "due_messages (at_time 36001) (snd (expireDueMessages (at_time 36000) expiring_chat)) = []"
    by code_simp+
  with sweep_expires_once [OF expiring_chat_inv, of "at_time 36000"] show ?thesis by blast
qed

section \<open>Forwarding\<close>

text \<open>
  C38. Forwarding needs membership of both chats and a source that is not deleted; it appends one
  message of the actor to the target with the source's content and a reference to it, without the
  source's mentions, reply or preview.
\<close>

theorem forward_copies_content:
  assumes "forwardMessage clk a from to mid db = (Inr (v, recipients), db')"
  shows "a \<in> fst ` set (roster db from) \<and> a \<in> fst ` set (roster db to)
    \<and> (\<exists>s m. find_message_in db mid from = Some s \<and> m_deletedForEveryoneAt s = None
      \<and> messages db' = messages db @ [m] \<and> m_conv m = to \<and> m_sender m = a \<and> m_id m = v_id v
      \<and> m_body m = m_body s \<and> m_type m = m_type s \<and> m_attachmentUrl m = m_attachmentUrl s
      \<and> m_forwardedFrom m = Some mid \<and> m_mentions m = [] \<and> m_replyTo m = None \<and> m_linkPreview m = None)"
proof -
  obtain cf ct where req: "requireMembership db from a = Inr cf" "requireMembership db to a = Inr ct"
    using assms by (auto simp: forwardMessage_def split: sum.splits)
  obtain c1 where c1: "cf = (c1, active_members db from)" "c_id c1 = from" "a \<in> fst ` set (roster db from)"
    by (rule requireMembership_InrE [OF req(1)]) (use roster_users in fastforce)
  obtain c2 where c2: "ct = (c2, active_members db to)" "c_id c2 = to" "a \<in> fst ` set (roster db to)"
    by (rule requireMembership_InrE [OF req(2)]) (use roster_users in fastforce)
  obtain s where s: "find_message_in db mid from = Some s" "m_deletedForEveryoneAt s = None"
    using assms req c1(1,2) by (auto simp: forwardMessage_def split: option.splits if_splits)
  have copy: "m_conv (forward_copy clk c2 a s u db) = to \<and> m_sender (forward_copy clk c2 a s u db) = a
      \<and> m_body (forward_copy clk c2 a s u db) = m_body s \<and> m_type (forward_copy clk c2 a s u db) = m_type s
      \<and> m_attachmentUrl (forward_copy clk c2 a s u db) = m_attachmentUrl s
      \<and> m_forwardedFrom (forward_copy clk c2 a s u db) = Some mid \<and> m_mentions (forward_copy clk c2 a s u db) = []
      \<and> m_replyTo (forward_copy clk c2 a s u db) = None \<and> m_linkPreview (forward_copy clk c2 a s u db) = None" for u
    using c2(2) find_message_in_Some [OF s(1)] by (simp add: forward_copy_def new_message_def)
  have "\<exists>u. messages db' = messages db @ [forward_copy clk c2 a s u db] \<and> v_id v = m_id (forward_copy clk c2 a s u db)"
    using assms req c1(1,2) c2(1,2) s
    by (auto simp: forwardMessage_def Let_def toMessageView_def split: if_splits)
  with copy c1(3) c2(3) s show ?thesis by metis
qed

theorem forward_copies_content_witness:
  "\<exists>v recipients db'. forwardMessage (at_time 9000) ''bob'' (demo_ids 0) (demo_ids 4) (demo_ids 7) demo_chat = (Inr (v, recipients), db')
    \<and> ''bob'' \<in> fst ` set (roster demo_chat (demo_ids 4)) \<and> m_body (last (messages db')) = m_body (hd (messages demo_chat))"
proof -
  let ?run = "forwardMessage (at_time 9000) ''bob'' (demo_ids 0) (demo_ids 4) (demo_ids 7) demo_chat"
  have c: "\<not> isl (fst ?run)" "find_message_in demo_chat (demo_ids 7) (demo_ids 0) = Some (hd (messages demo_chat))"
    by code_simp+
  then obtain v rs db' where run: "?run = (Inr (v, rs), db')" by (cases ?run; cases "fst ?run") auto
  from forward_copies_content [OF run] c(2) run show ?thesis by auto
qed

section \<open>Call admission\<close>

lemma call_peers_group:
  "ty \<noteq> PRIVATE \<Longrightarrow> call_peers db ty a ms acc
    = Inr (acc @ map mb_user (filter (\<lambda>m. mb_user m \<noteq> a \<and> \<not> isBlockedEitherWay db a (mb_user m)) ms))"
  by (induction ms arbitrary: acc) auto

lemma call_peers_private:
  "call_peers db PRIVATE a ms acc =
    (if \<exists>m\<in>set ms. mb_user m \<noteq> a \<and> isBlockedEitherWay db a (mb_user m) then Inl (forbidden ''You cannot call this user'')
     else Inr (acc @ map mb_user (filter (\<lambda>m. mb_user m \<noteq> a) ms)))"
  by (induction ms arbitrary: acc) auto

text \<open>
  C39. A call is admitted only for a member, with somebody to ring: exactly the other active members
  with no block in either direction, nobody twice; in a private chat a block refuses the call
  altogether, and a group of more than eight members cannot call.
\<close>

theorem call_admission_sound:
  assumes "chat_inv {} db" and "prepareVoiceCall a cid db = Inr adm"
  shows "a \<in> set (ca_memberIds adm) \<and> ca_memberIds adm = map fst (roster db cid)
    \<and> ca_peerIds adm = filter (\<lambda>u. u \<noteq> a \<and> \<not> isBlockedEitherWay db a u) (ca_memberIds adm)
    \<and> ca_peerIds adm \<noteq> [] \<and> distinct (ca_peerIds adm) \<and> 2 \<le> length (ca_memberIds adm) \<and> length (ca_memberIds adm) \<le> 8"
proof -
  obtain conv where req: "requireMembership db cid a = Inr conv"
    using assms(2) by (auto simp: prepareVoiceCall_def split: sum.splits)
  obtain c me where c: "find_conversation db cid = Some c" "conv = (c, active_members db cid)"
    "find (\<lambda>m. mb_user m = a) (active_members db cid) = Some me"
    by (rule requireMembership_Inr_find [OF req])
  let ?ms = "active_members db cid"
  have ok: "conv_ok c (roster db cid)" by (rule live_conv_ok [OF chat_invD(1) [OF assms(1)] c(1)])
  have len: "length (roster db cid) = length ?ms" by (simp add: roster_def)
  obtain peers where peers: "call_peers db (c_type c) a ?ms [] = Inr peers" "peers \<noteq> []"
    and adm: "adm = \<lparr>ca_conversationId = c_id c, ca_group = (c_type c = GROUP), ca_peerIds = peers, ca_memberIds = map mb_user ?ms\<rparr>"
    and size: "2 \<le> length ?ms" "c_type c = GROUP \<Longrightarrow> length ?ms \<le> 8"
    using assms(2) req c(2) by (auto simp: prepareVoiceCall_def Let_def ChatScheduled.MAX_GROUP_CALL_def split: sum.splits if_splits)
  have le8: "length ?ms \<le> 8" using size ok len by (cases "c_type c") (auto simp: conv_ok_def private_ok_def)
  have eq: "peers = filter (\<lambda>u. u \<noteq> a \<and> \<not> isBlockedEitherWay db a u) (map mb_user ?ms)"
  proof (cases "c_type c")
    case PRIVATE
    then show ?thesis
      using peers(1) by (auto simp: call_peers_private filter_map comp_def
          intro!: arg_cong [of _ _ "map mb_user"] filter_cong split: if_splits)
  next
    case GROUP
    then show ?thesis using peers(1) by (simp add: call_peers_group filter_map comp_def)
  qed
  have "distinct (map mb_user ?ms)" using conv_ok_distinct [OF ok] by (simp add: map_fst_roster)
  then have "distinct peers" unfolding eq by (rule distinct_filter)
  moreover have "a \<in> set (map mb_user ?ms)" using c(3) by (auto dest: find_set)
  ultimately show ?thesis using eq peers(2) size(1) le8 by (simp add: adm map_fst_roster)
qed

theorem call_admission_sound_witness:
  "\<exists>adm. prepareVoiceCall ''ann'' (demo_ids 0) demo_chat = Inr adm \<and> ca_peerIds adm = [''bob'', ''cyd'']"
proof -
  have c: "\<not> isl (prepareVoiceCall ''ann'' (demo_ids 0) demo_chat)" "userBlocks demo_chat = []" by code_simp+
  then obtain adm where run: "prepareVoiceCall ''ann'' (demo_ids 0) demo_chat = Inr adm"
    by (cases "prepareVoiceCall ''ann'' (demo_ids 0) demo_chat") auto
  from call_admission_sound [OF demo_chat_inv run] run c(2) show ?thesis
    by (auto simp: demo_rosters isBlockedEitherWay_def)
qed

end
