(* ===== verification/ChatReads.thy ===== *)
theory ChatReads
  imports ChatDelivery
begin

text \<open>
  The read side: the escaped search pattern against plain substring search, pages
  against the whole listing, the bulk loaders against their single-row versions, the
  summary of reactions, unread counts and the order of the conversation list.
\<close>

section \<open>Search\<close>

lemma ilike_percent: "ilike (CHR ''%'' # p) s \<longleftrightarrow> (\<exists>pre rest. s = pre @ rest \<and> ilike p rest)"
proof (induction s)
  case (Cons x s)
  have "ilike (CHR ''%'' # p) (x # s) \<longleftrightarrow> ilike p (x # s) \<or> ilike (CHR ''%'' # p) s"
    by (subst ilike.simps) simp
  also have "\<dots> \<longleftrightarrow> (\<exists>pre rest. x # s = pre @ rest \<and> ilike p rest)"
    unfolding Cons.IH by (metis append_Cons append_Nil list.inject neq_Nil_conv)
  finally show ?case .
qed simp

lemma ilike_escape:
  "ilike (escapeIlikePattern q @ p) s \<longleftrightarrow> (\<exists>mid rest. s = mid @ rest \<and> to_lower mid = to_lower q \<and> ilike p rest)"
proof (induction q arbitrary: s)
  case Nil
  then show ?case by (simp add: escapeIlikePattern_def to_lower_def)
next
  case (Cons c q)
  have esc: "escapeIlikePattern (c # q) @ p =
      (if c = CHR ''%'' \<or> c = CHR ''_'' \<or> c = CHR 0x5C then [CHR 0x5C, c] else [c]) @ escapeIlikePattern q @ p"
    by (simp add: escapeIlikePattern_def)
  have "ilike (escapeIlikePattern (c # q) @ p) s \<longleftrightarrow>
      (\<exists>x t. s = x # t \<and> lower_char x = lower_char c \<and> ilike (escapeIlikePattern q @ p) t)"
    unfolding esc by (cases s) auto
  also have "\<dots> \<longleftrightarrow> (\<exists>mid rest. s = mid @ rest \<and> to_lower mid = to_lower (c # q) \<and> ilike p rest)"
  proof
    assume "\<exists>x t. s = x # t \<and> lower_char x = lower_char c \<and> ilike (escapeIlikePattern q @ p) t"
    then obtain x mid rest where "s = (x # mid) @ rest" "lower_char x = lower_char c" "to_lower mid = to_lower q" "ilike p rest"
      unfolding Cons.IH by auto
    then show "\<exists>mid rest. s = mid @ rest \<and> to_lower mid = to_lower (c # q) \<and> ilike p rest"
      by (intro exI [of _ "x # mid"] exI [of _ rest]) (simp add: to_lower_def)
  next
    assume "\<exists>mid rest. s = mid @ rest \<and> to_lower mid = to_lower (c # q) \<and> ilike p rest"
    then obtain mid rest where *: "s = mid @ rest" "to_lower mid = to_lower (c # q)" "ilike p rest" by blast
    then obtain x mid' where "mid = x # mid'" by (cases mid) (auto simp: to_lower_def)
    with * show "\<exists>x t. s = x # t \<and> lower_char x = lower_char c \<and> ilike (escapeIlikePattern q @ p) t"
      unfolding Cons.IH by (auto simp: to_lower_def)
  qed
  finally show ?case .
qed

lemma ilike_search_pattern:
  "ilike (search_pattern q) s \<longleftrightarrow> (\<exists>pre mid post. s = pre @ mid @ post \<and> to_lower mid = to_lower q)"
proof -
  have tail: "ilike ''%'' rest" for rest
    unfolding ilike_percent by (rule exI [of _ rest]) simp
  show ?thesis
    by (simp add: search_pattern_def ilike_percent [of "escapeIlikePattern q @ ''%''"] ilike_escape tail del: ilike.simps) blast
qed

lemma view_items_props [simp]: "length (view_items db ms a items) = length items"
  by (simp add: view_items_def Let_def)

text \<open>
  C29. Searching a chat finds exactly the messages visible to the member that contain the trimmed
  query, ignoring case and taking percent sign, underscore and backslash literally.
\<close>

theorem search_is_substring:
  assumes "searchMessages a cid raw page limit db = Inr (vs, meta)"
  shows "pg_total meta = int (length (filter (\<lambda>m. m_conv m = cid \<and> m_deletedForEveryoneAt m = None \<and> visible_to db a m
      \<and> (\<exists>pre mid post. m_body m = pre @ mid @ post \<and> to_lower mid = to_lower (trim raw))) (live_messages db)))
    \<and> map v_id vs = map m_id (page_rows (filter (\<lambda>m. m_conv m = cid \<and> m_deletedForEveryoneAt m = None \<and> visible_to db a m
      \<and> (\<exists>pre mid post. m_body m = pre @ mid @ post \<and> to_lower mid = to_lower (trim raw))) (live_messages db)) page limit)"
proof -
  have rows: "filter (\<lambda>m. m_conv m = cid \<and> ilike (search_pattern (trim raw)) (m_body m)
        \<and> m_deletedForEveryoneAt m = None \<and> visible_to db a m) (live_messages db)
      = filter (\<lambda>m. m_conv m = cid \<and> m_deletedForEveryoneAt m = None \<and> visible_to db a m
        \<and> (\<exists>pre mid post. m_body m = pre @ mid @ post \<and> to_lower mid = to_lower (trim raw))) (live_messages db)"
    by (intro filter_cong) (auto simp: ilike_search_pattern)
  show ?thesis
    using assms by (auto simp: searchMessages_def Let_def buildPaginatedResult_def rows split: sum.splits if_splits)
qed

theorem search_is_substring_witness:
  "\<exists>vs meta. searchMessages ''bob'' (demo_ids 0) '' ELL '' 1 20 demo_chat = Inr (vs, meta)
    \<and> pg_total meta = int (length (filter (\<lambda>m. m_conv m = demo_ids 0 \<and> m_deletedForEveryoneAt m = None
        \<and> visible_to demo_chat ''bob'' m \<and> (\<exists>pre mid post. m_body m = pre @ mid @ post \<and> to_lower mid = ''ell'')) (live_messages demo_chat)))"
proof -
  have c: "\<not> isl (searchMessages ''bob'' (demo_ids 0) '' ELL '' 1 20 demo_chat)" "to_lower (trim '' ELL '') = ''ell''" by code_simp+
  then obtain vs meta where run: "searchMessages ''bob'' (demo_ids 0) '' ELL '' 1 20 demo_chat = Inr (vs, meta)"
    by (cases "searchMessages ''bob'' (demo_ids 0) '' ELL '' 1 20 demo_chat") auto
  from search_is_substring [OF run] run c(2) show ?thesis by simp
qed

section \<open>Pages\<close>

text \<open>
  C29. Paging through a chat shows each message visible to the member exactly once, newest first,
  and no other: the pages in sequence are the whole listing.
\<close>

definition shown_ids :: "message_page rpc \<Rightarrow> uuid list" where
  "shown_ids r = (case r of Inl _ \<Rightarrow> [] | Inr (vs, meta) \<Rightarrow> map v_id vs)"

lemma shown_listMessages:
  assumes "requireMembership db cid a = Inr conv"
  shows "shown_ids (listMessages a cid page limit db) = page_of page limit (map m_id
    (order_desc m_createdAt (filter (\<lambda>m. m_conv m = cid \<and> visible_to db a m) (live_messages db))))"
  using assms by (simp add: shown_ids_def listMessages_def Let_def buildPaginatedResult_def page_rows_def page_of_def
      sql_page_def case_prod_beta take_map drop_map)

theorem pages_cover_listing:
  assumes "chat_inv {} db" and "requireMembership db cid a = Inr conv" and "0 < l"
    and "length (filter (\<lambda>m. m_conv m = cid \<and> visible_to db a m) (messages db)) \<le> n * l"
  shows "concat (map (\<lambda>p. shown_ids (listMessages a cid (int p + 1) (int l) db)) [0..<n])
      = map m_id (order_desc m_createdAt (filter (\<lambda>m. m_conv m = cid \<and> visible_to db a m) (messages db)))
    \<and> distinct (concat (map (\<lambda>p. shown_ids (listMessages a cid (int p + 1) (int l) db)) [0..<n]))"
proof -
  note minv = chat_invD(2) [OF assms(1)]
  let ?rows = "order_desc m_createdAt (filter (\<lambda>m. m_conv m = cid \<and> visible_to db a m) (messages db))"
  have eq: "concat (map (\<lambda>p. shown_ids (listMessages a cid (int p + 1) (int l) db)) [0..<n]) = take (n * l) (map m_id ?rows)"
    unfolding shown_listMessages [OF assms(2)] live_messages_all [OF minv] by (rule concat_pages [OF assms(3)])
  have "distinct (map m_id ?rows)"
    using message_invD(1) [OF minv] by (auto simp: distinct_map inj_on_def)
  then show ?thesis using eq assms(4) by simp
qed

theorem pages_cover_listing_witness:
  "concat (map (\<lambda>p. shown_ids (listMessages ''bob'' (demo_ids 0) (int p + 1) (int 1) demo_chat)) [0..<2]) = [demo_ids 7]"
proof -
  obtain conv where req: "requireMembership demo_chat (demo_ids 0) ''bob'' = Inr conv"
    using requireMembership_ok [OF demo_conversations(1), of "''bob''"] by (auto simp: demo_rosters)
  have c: "length (filter (\<lambda>m. m_conv m = demo_ids 0 \<and> visible_to demo_chat ''bob'' m) (messages demo_chat)) \<le> 2 * 1"
    "map m_id (order_desc m_createdAt (filter (\<lambda>m. m_conv m = demo_ids 0 \<and> visible_to demo_chat ''bob'' m) (messages demo_chat)))
      = [demo_ids 7]" by code_simp+
  from pages_cover_listing [OF demo_chat_inv req _ c(1)] c(2) show ?thesis by simp
qed

section \<open>Bulk loaders\<close>

lemma foldl_upd_other: "k \<notin> f ` set xs \<Longrightarrow> foldl (\<lambda>m x. m(f x \<mapsto> g x)) m0 xs k = m0 k"
  by (induction xs arbitrary: m0) auto

lemma foldl_upd_mem: "distinct (map f xs) \<Longrightarrow> x \<in> set xs \<Longrightarrow> foldl (\<lambda>m x. m(f x \<mapsto> g x)) m0 xs (f x) = Some (g x)"
proof (induction xs arbitrary: m0)
  case (Cons y xs)
  show ?case
  proof (cases "x = y")
    case True
    then have "f y \<notin> f ` set xs" using Cons.prems by auto
    then show ?thesis
      using True foldl_upd_other [of "f y" f xs g "m0(f y \<mapsto> g y)"] by (simp del: fun_upd_apply) simp
  next
    case False
    then show ?thesis using Cons by simp
  qed
qed simp

lemma reply_loaders_agree:
  assumes "message_inv db" and "m \<in> set items"
  shows "loadReplyParents db items (nullish (m_replyTo m) '''') = reply_parent db m"
proof -
  let ?ids = "js_uniq (filter truthy (concat (map (\<lambda>m. case m_replyTo m of None \<Rightarrow> [] | Some i \<Rightarrow> [i]) items)))"
  let ?rows = "filter (\<lambda>p. m_id p \<in> set ?ids) (live_messages db)"
  have dist: "distinct (map m_id ?rows)"
    unfolding live_messages_all [OF assms(1)] by (rule distinct_map_filter [OF message_invD(1) [OF assms(1)]])
  have look: "loadReplyParents db items k = find (\<lambda>p. m_id p = k) ?rows" for k
  proof (cases "find (\<lambda>p. m_id p = k) ?rows")
    case None
    then have "k \<notin> m_id ` set ?rows" unfolding find_None_set by blast
    then show ?thesis using None by (simp add: loadReplyParents_def foldl_upd_other del: set_filter)
  next
    case (Some p)
    then have "p \<in> set ?rows" "m_id p = k" by (auto dest: find_set)
    then show ?thesis using foldl_upd_mem [OF dist, of p] Some by (simp add: loadReplyParents_def)
  qed
  show ?thesis
  proof (cases "m_replyTo m = None \<or> m_replyTo m = Some []")
    case True
    have "find (\<lambda>p. m_id p = []) ?rows = None" unfolding find_None_set by auto
    then show ?thesis using True by (auto simp: look reply_parent_def)
  next
    case False
    then obtain i where i: "m_replyTo m = Some i" "truthy i" by (auto simp: truthy_def)
    have "i \<in> set ?ids" using i assms(2) by force
    then have "find (\<lambda>p. m_id p = i) ?rows = find (\<lambda>p. m_id p = i) (live_messages db)"
      unfolding find_filter by (intro find_cong) auto
    then show ?thesis using i by (simp add: look reply_parent_def find_message_def)
  qed
qed

lemma reactions_fold:
  "foldl (\<lambda>mp r. mp(rx_message r \<mapsto> nullish (mp (rx_message r)) [] @ [r])) m0 rs k =
    (if filter (\<lambda>r. rx_message r = k) rs = [] then m0 k else Some (nullish (m0 k) [] @ filter (\<lambda>r. rx_message r = k) rs))"
  by (induction rs arbitrary: m0) auto

lemma reaction_loaders_agree:
  "i \<in> set ids \<Longrightarrow> nullish (loadReactionsByMessageIds db ids i) [] = reactions_of db i"
proof -
  assume "i \<in> set ids"
  then have "filter (\<lambda>r. rx_message r = i) (filter (\<lambda>r. rx_message r \<in> set ids) (messageReactions db))
      = filter (\<lambda>r. rx_message r = i) (messageReactions db)"
    by (auto simp: filter_filter intro: filter_cong)
  then show ?thesis by (simp add: loadReactionsByMessageIds_def reactions_fold reactions_of_def)
qed

text \<open>
  C32. A page loads its reply parents and reactions in bulk; every item of it is the same view as
  loading that message alone.
\<close>

theorem bulk_views_agree:
  assumes "chat_inv {} db"
  shows "view_items db ms a items = map (\<lambda>m. stored_view db m ms a) items"
  unfolding view_items_def Let_def stored_view_def
  by (intro map_cong refl) (simp add: reply_loaders_agree [OF chat_invD(2) [OF assms]] reaction_loaders_agree)

theorem bulk_views_agree_witness:
  "view_items demo_chat [] ''ann'' (messages demo_chat) = map (\<lambda>m. stored_view demo_chat m [] ''ann'') (messages demo_chat)"
  by (rule bulk_views_agree [OF demo_chat_inv])

lemma hasBlock_iff: "hasBlock db x y \<longleftrightarrow> (\<exists>b\<in>set (userBlocks db). b_blocker b = x \<and> b_blocked b = y)"
  by (auto simp: hasBlock_def filter_empty_conv)

text \<open>
  C40. The block flags of a page of conversations, computed from one query, are those that
  single-conversation lookups give.
\<close>

theorem bulk_block_flags_agree:
  assumes "distinct (map (\<lambda>conv. c_id (fst conv)) convs)" and "(c, ms) \<in> set convs"
  shows "blockFlagsForConversations db convs a (c_id c) = Some (blockFlagsForConversation db (c, ms) a)"
proof -
  define peers where "peers = concat (map (\<lambda>(c, ms). case other_member ms a of None \<Rightarrow> []
     | Some other \<Rightarrow> [(c_id c, mb_user other)]) (filter (\<lambda>(c, ms). c_type c = PRIVATE) convs))"
  define m0 where "m0 = foldl (\<lambda>m conv. m(c_id (fst conv) \<mapsto> no_flags)) Map.empty convs"
  have m0: "m0 (c_id c) = Some no_flags"
    using foldl_upd_mem [OF assms, of "\<lambda>_. no_flags" Map.empty] by (simp add: m0_def)
  have fst_peers: "fst ` set peers \<subseteq> (\<lambda>conv. c_id (fst conv)) ` set convs"
    by (force simp: peers_def split: option.splits)
  have "distinct (map fst peers)"
    using assms(1) unfolding peers_def
  proof (induction convs)
    case (Cons x convs)
    obtain c0 ms0 where x: "x = (c0, ms0)" by (cases x)
    let ?tail = "concat (map (\<lambda>(c, ms). case other_member ms a of None \<Rightarrow> []
     | Some other \<Rightarrow> [(c_id c, mb_user other)]) (filter (\<lambda>(c, ms). c_type c = PRIVATE) convs))"
    have "fst ` set ?tail \<subseteq> (\<lambda>conv. c_id (fst conv)) ` set convs" by (force split: option.splits)
    moreover have "c_id c0 \<notin> (\<lambda>conv. c_id (fst conv)) ` set convs" using Cons.prems x by simp
    ultimately have "c_id c0 \<notin> fst ` set ?tail" by (rule contra_subsetD)
    moreover have "distinct (map fst ?tail)" using Cons by simp
    ultimately show ?case by (simp add: x split: option.split)
  qed simp
  then have dist: "distinct (map fst peers)" .
  have peer: "(c_id c, p) \<in> set peers \<longleftrightarrow> c_type c = PRIVATE \<and> (\<exists>o'. other_member ms a = Some o' \<and> p = mb_user o')" for p
  proof -
    have same: "conv = (c, ms)" if "conv \<in> set convs" "c_id (fst conv) = c_id c" for conv
      using distinct_key_eq [OF assms(1) that(1) assms(2)] that(2) by simp
    have "set peers = (\<Union>conv\<in>{conv \<in> set convs. c_type (fst conv) = PRIVATE}.
        set (case other_member (snd conv) a of None \<Rightarrow> [] | Some other \<Rightarrow> [(c_id (fst conv), mb_user other)]))"
      by (simp add: peers_def case_prod_beta)
    moreover have "(c_id c, p) \<in> set (case w of None \<Rightarrow> [] | Some other \<Rightarrow> [(k, mb_user other)])
        \<longleftrightarrow> k = c_id c \<and> (\<exists>o'. w = Some o' \<and> p = mb_user o')" for w k
      by (auto split: option.split)
    ultimately have "(c_id c, p) \<in> set peers \<longleftrightarrow> (\<exists>conv\<in>set convs. c_type (fst conv) = PRIVATE \<and> c_id (fst conv) = c_id c
        \<and> (\<exists>o'. other_member (snd conv) a = Some o' \<and> p = mb_user o'))"
      by (simp only: UN_iff mem_Collect_eq) blast
    also have "\<dots> \<longleftrightarrow> c_type c = PRIVATE \<and> (\<exists>o'. other_member ms a = Some o' \<and> p = mb_user o')"
    proof
      assume "\<exists>conv\<in>set convs. c_type (fst conv) = PRIVATE \<and> c_id (fst conv) = c_id c
          \<and> (\<exists>o'. other_member (snd conv) a = Some o' \<and> p = mb_user o')"
      then obtain conv where conv: "conv \<in> set convs" "c_id (fst conv) = c_id c" "c_type (fst conv) = PRIVATE"
        "\<exists>o'. other_member (snd conv) a = Some o' \<and> p = mb_user o'" by blast
      from conv(3,4) same [OF conv(1,2)] show "c_type c = PRIVATE \<and> (\<exists>o'. other_member ms a = Some o' \<and> p = mb_user o')" by simp
    next
      assume "c_type c = PRIVATE \<and> (\<exists>o'. other_member ms a = Some o' \<and> p = mb_user o')"
      then show "\<exists>conv\<in>set convs. c_type (fst conv) = PRIVATE \<and> c_id (fst conv) = c_id c
          \<and> (\<exists>o'. other_member (snd conv) a = Some o' \<and> p = mb_user o')"
        by (intro bexI [OF _ assms(2)]) simp
    qed
    finally show ?thesis .
  qed
  let ?blocks = "filter (\<lambda>b. b_blocker b = a \<and> b_blocked b \<in> set (js_uniq (map snd peers))
       \<or> b_blocker b \<in> set (js_uniq (map snd peers)) \<and> b_blocked b = a) (userBlocks db)"
  let ?byMe = "set (map b_blocked (filter (\<lambda>b. b_blocker b = a) ?blocks))"
  let ?ofMe = "set (map b_blocker (filter (\<lambda>b. b_blocked b = a) ?blocks))"
  have flags: "blockFlagsForConversations db convs a = (if peers = [] then m0
      else foldl (\<lambda>m p. m(fst p \<mapsto> \<lparr>blockedByMe = snd p \<in> ?byMe, blockedMe = snd p \<in> ?ofMe\<rparr>)) m0 peers)"
    unfolding blockFlagsForConversations_def Let_def peers_def [symmetric] m0_def by (simp only: case_prod_unfold)
  have sets: "p \<in> ?byMe \<longleftrightarrow> hasBlock db a p" "p \<in> ?ofMe \<longleftrightarrow> hasBlock db p a" if "(k, p) \<in> set peers" for k p
    using that by (force simp: hasBlock_iff)+
  show ?thesis
  proof (cases "\<exists>p. (c_id c, p) \<in> set peers")
    case True
    then obtain p where p: "(c_id c, p) \<in> set peers" by blast
    obtain o' where o': "c_type c = PRIVATE" "other_member ms a = Some o'" "p = mb_user o'" using peer p by blast
    have ne: "peers \<noteq> []" using p by auto
    have "blockFlagsForConversations db convs a (c_id c) = Some \<lparr>blockedByMe = p \<in> ?byMe, blockedMe = p \<in> ?ofMe\<rparr>"
      using foldl_upd_mem [OF dist p, of "\<lambda>p. \<lparr>blockedByMe = snd p \<in> ?byMe, blockedMe = snd p \<in> ?ofMe\<rparr>" m0] ne
      unfolding flags by simp
    then show ?thesis using o' sets [OF p] by (simp add: blockFlagsForConversation_def)
  next
    case False
    then have "c_id c \<notin> fst ` set peers" by force
    then have "blockFlagsForConversations db convs a (c_id c) = Some no_flags"
      unfolding flags using m0 by (simp add: foldl_upd_other)
    moreover have "blockFlagsForConversation db (c, ms) a = no_flags"
      using False peer by (auto simp: blockFlagsForConversation_def split: option.splits)
    ultimately show ?thesis by simp
  qed
qed

theorem bulk_block_flags_agree_witness:
  "blockFlagsForConversations blocked_chat [(demo_private, active_members blocked_chat (demo_ids 4))] ''ann'' (demo_ids 4)
    = Some (blockFlagsForConversation blocked_chat (demo_private, active_members blocked_chat (demo_ids 4)) ''ann'')"
  using bulk_block_flags_agree [of "[(demo_private, active_members blocked_chat (demo_ids 4))]" demo_private
      "active_members blocked_chat (demo_ids 4)" blocked_chat "''ann''"]
  by (simp add: demo_private_def)

end
