(* ===== verification/CallStore.thy ===== *)
theory CallStore
  imports RelayCommon
begin

text \<open>
  The Redis keys of \<open>apps/api-gateway/src/chat/call-session.service.ts\<close>: a store of
  values with expiry instants, the interface the call service relies on, the
  session payload and its JSON form.

  Redis itself is not part of the repository; the definitions below are the
  documented meaning of \<open>GET\<close>, \<open>SET key value EX seconds\<close>, \<open>DEL\<close> and \<open>TTL\<close>. A
  \<open>pipeline\<close> runs its commands in order.
\<close>

section \<open>Redis\<close>

type_synonym 'v redis = "string \<rightharpoonup> ('v \<times> instant)"

definition redis_get :: "instant \<Rightarrow> string \<Rightarrow> 'v redis \<Rightarrow> 'v option" where
  "redis_get t key r = (case r key of None \<Rightarrow> None | Some (v, expiry) \<Rightarrow> (if t < expiry then Some v else None))"

definition redis_setex :: "instant \<Rightarrow> int \<Rightarrow> string \<Rightarrow> 'v \<Rightarrow> 'v redis \<Rightarrow> 'v redis" where
  "redis_setex t ttl key v r = r(key \<mapsto> (v, t + ttl * 1000))"

definition redis_del :: "string \<Rightarrow> 'v redis \<Rightarrow> 'v redis" where
  "redis_del key r = r(key := None)"

text \<open>\<open>TTL\<close>: seconds left, rounded; -2 for a missing key.\<close>

definition redis_ttl :: "instant \<Rightarrow> string \<Rightarrow> 'v redis \<Rightarrow> int" where
  "redis_ttl t key r = (case r key of None \<Rightarrow> -2
     | Some (v, expiry) \<Rightarrow> (if t < expiry then (expiry - t + 500) div 1000 else -2))"

text \<open>
  The contract: a key-value store with writes and deletes. The services' index
  keys are maintained by sequences of such writes.
\<close>

locale kv_store =
  fixes lookup :: "'s \<Rightarrow> 'k \<Rightarrow> 'v option"
    and store :: "'k \<Rightarrow> 'v \<Rightarrow> 's \<Rightarrow> 's"
    and remove :: "'k \<Rightarrow> 's \<Rightarrow> 's"
  assumes lookup_store: "lookup (store k v s) k' = (if k' = k then Some v else lookup s k')"
    and lookup_remove: "lookup (remove k s) k' = (if k' = k then None else lookup s k')"
begin

lemma lookup_remove_all:
  "lookup (foldl (\<lambda>s x. remove (f x) s) s xs) k = (if k \<in> f ` set xs then None else lookup s k)"
  by (induction xs arbitrary: s) (auto simp: lookup_remove)

lemma lookup_store_or_remove:
  assumes "inj f"
  shows "lookup (foldl (\<lambda>s x. if P x then store (f x) v s else remove (f x) s) s xs) k
    = (if k \<in> f ` set xs then (if \<exists>x. k = f x \<and> P x then Some v else None) else lookup s k)"
proof (induction xs arbitrary: s)
  case (Cons x xs)
  show ?case
    using Cons assms by (auto simp: lookup_store lookup_remove dest: injD)
qed simp

lemma store_remove: "lookup (remove k (store k v s)) k' = lookup (remove k s) k'"
  by (simp add: lookup_store lookup_remove)

end

lemma redis_get_setex:
  "0 < ttl \<Longrightarrow> redis_get t k' (redis_setex t ttl k v r) = (if k' = k then Some v else redis_get t k' r)"
  by (simp add: redis_get_def redis_setex_def)

lemma redis_get_del: "redis_get t k' (redis_del k r) = (if k' = k then None else redis_get t k' r)"
  by (simp add: redis_get_def redis_del_def)

section \<open>Session payloads\<close>

datatype call_status = Ringing | Active | Ended
datatype call_kind = PrivateCall | GroupCall
datatype call_media = Audio | Video

record call_session =
  cs_callId :: uuid
  cs_conversationId :: uuid
  cs_kind :: call_kind
  cs_media :: call_media
  cs_hostId :: uuid
  cs_memberIds :: "uuid list"
  cs_joinedIds :: "uuid list"
  cs_declinedIds :: "uuid list"
  cs_leftIds :: "uuid list"
  cs_onHold :: bool
  cs_heldBy :: "uuid option"
  cs_forceMuted :: bool
  cs_screenSharerId :: "uuid option"
  cs_status :: call_status
  cs_createdAt :: instant
  cs_connectedAt :: "instant option"

text \<open>
  A parsed payload: the fields that older gateways did not write may be
  \<open>undefined\<close> (\<open>None\<close>).
\<close>

record raw_session =
  raw_callId :: uuid
  raw_conversationId :: uuid
  raw_kind :: call_kind
  raw_media :: "call_media option"
  raw_hostId :: uuid
  raw_memberIds :: "uuid list"
  raw_joinedIds :: "uuid list"
  raw_declinedIds :: "uuid list option"
  raw_leftIds :: "uuid list option"
  raw_onHold :: "bool option"
  raw_heldBy :: "uuid option option"
  raw_forceMuted :: "bool option"
  raw_screenSharerId :: "uuid option option"
  raw_status :: call_status
  raw_createdAt :: instant
  raw_connectedAt :: "instant option option"

definition normalize :: "raw_session \<Rightarrow> call_session" where
  "normalize s = \<lparr>cs_callId = raw_callId s, cs_conversationId = raw_conversationId s, cs_kind = raw_kind s,
     cs_media = nullish (raw_media s) Audio, cs_hostId = raw_hostId s, cs_memberIds = raw_memberIds s,
     cs_joinedIds = raw_joinedIds s, cs_declinedIds = nullish (raw_declinedIds s) [],
     cs_leftIds = nullish (raw_leftIds s) [], cs_onHold = nullish (raw_onHold s) False,
     cs_heldBy = nullish (raw_heldBy s) None, cs_forceMuted = nullish (raw_forceMuted s) False,
     cs_screenSharerId = nullish (raw_screenSharerId s) None, cs_status = raw_status s,
     cs_createdAt = raw_createdAt s, cs_connectedAt = nullish (raw_connectedAt s) None\<rparr>"

text \<open>\<open>JSON.stringify(session)\<close> of a normalized session writes every field.\<close>

definition to_json :: "call_session \<Rightarrow> raw_session" where
  "to_json s = \<lparr>raw_callId = cs_callId s, raw_conversationId = cs_conversationId s, raw_kind = cs_kind s,
     raw_media = Some (cs_media s), raw_hostId = cs_hostId s, raw_memberIds = cs_memberIds s,
     raw_joinedIds = cs_joinedIds s, raw_declinedIds = Some (cs_declinedIds s), raw_leftIds = Some (cs_leftIds s),
     raw_onHold = Some (cs_onHold s), raw_heldBy = Some (cs_heldBy s), raw_forceMuted = Some (cs_forceMuted s),
     raw_screenSharerId = Some (cs_screenSharerId s), raw_status = cs_status s,
     raw_createdAt = cs_createdAt s, raw_connectedAt = Some (cs_connectedAt s)\<rparr>"

lemma normalize_to_json [simp]: "normalize (to_json s) = s"
  by (simp add: normalize_def to_json_def)

text \<open>A stored value: a session, an unparsable payload, or a call identifier.\<close>

datatype call_value = Session raw_session | Corrupt string | CallRef uuid

type_synonym call_redis = "call_value redis"

definition SESSION_PREFIX :: string where "SESSION_PREFIX = ''chat:call:session:''"
definition USER_PREFIX :: string where "USER_PREFIX = ''chat:call:user:''"
definition CONVO_PREFIX :: string where "CONVO_PREFIX = ''chat:call:conversation:''"

definition sessionKey :: "uuid \<Rightarrow> string" where "sessionKey callId = SESSION_PREFIX @ callId"
definition userKey :: "uuid \<Rightarrow> string" where "userKey userId = USER_PREFIX @ userId"
definition convoKey :: "uuid \<Rightarrow> string" where "convoKey conversationId = CONVO_PREFIX @ conversationId"

lemma key_inject [simp]:
  "sessionKey a = sessionKey b \<longleftrightarrow> a = b" "userKey a = userKey b \<longleftrightarrow> a = b" "convoKey a = convoKey b \<longleftrightarrow> a = b"
  by (simp_all add: sessionKey_def userKey_def convoKey_def)

lemma key_disjoint [simp]:
  "sessionKey a \<noteq> userKey b" "userKey b \<noteq> sessionKey a" "sessionKey a \<noteq> convoKey b" "convoKey b \<noteq> sessionKey a"
  "userKey a \<noteq> convoKey b" "convoKey b \<noteq> userKey a"
  by (simp_all add: sessionKey_def userKey_def convoKey_def SESSION_PREFIX_def USER_PREFIX_def CONVO_PREFIX_def)

lemma inj_userKey: "inj userKey"
  by (simp add: inj_def)

definition RINGING_TTL_SECONDS :: int where "RINGING_TTL_SECONDS = 50"
definition ACTIVE_TTL_SECONDS :: int where "ACTIVE_TTL_SECONDS = 60 * 60"

interpretation ringing_kv: kv_store "\<lambda>r k. redis_get t k r" "redis_setex t RINGING_TTL_SECONDS" redis_del for t
  by unfold_locales (simp_all add: redis_get_setex redis_get_del RINGING_TTL_SECONDS_def)

interpretation active_kv: kv_store "\<lambda>r k. redis_get t k r" "redis_setex t ACTIVE_TTL_SECONDS" redis_del for t
  by unfold_locales (simp_all add: redis_get_setex redis_get_del ACTIVE_TTL_SECONDS_def)

section \<open>Typed reads\<close>

text \<open>What a session key, a user key and a conversation key hold at an instant.\<close>

definition session_at :: "instant \<Rightarrow> call_redis \<Rightarrow> uuid \<Rightarrow> call_session option" where
  "session_at t r callId = (case redis_get t (sessionKey callId) r of Some (Session s) \<Rightarrow> Some (normalize s) | _ \<Rightarrow> None)"

definition call_ref :: "call_value option \<Rightarrow> uuid option" where
  "call_ref v = (case v of Some (CallRef c) \<Rightarrow> Some c | _ \<Rightarrow> None)"

definition busy_at :: "instant \<Rightarrow> call_redis \<Rightarrow> uuid \<Rightarrow> uuid option" where
  "busy_at t r userId = call_ref (redis_get t (userKey userId) r)"

definition convo_at :: "instant \<Rightarrow> call_redis \<Rightarrow> uuid \<Rightarrow> uuid option" where
  "convo_at t r conversationId = call_ref (redis_get t (convoKey conversationId) r)"

lemmas typed_reads = session_at_def busy_at_def convo_at_def

lemma call_ref_simps [simp]: "call_ref None = None" "call_ref (Some (CallRef c)) = Some c"
  by (simp_all add: call_ref_def)

end
