(* ===== verification/CallSession.thy ===== *)
theory CallSession
  imports CallStore
begin

text \<open>
  The operations of \<open>CallSessionService\<close>. Each takes the instant of the call and the
  Redis store and returns its result with the store it leaves; an
  \<open>{ error }\<close> result is \<open>Inl\<close>. \<open>keys\<close> is the key list that the \<open>SCAN\<close> loop of
  \<open>findSessionByConversation\<close> sees, \<open>newId\<close> the next \<open>randomUUID()\<close>.
\<close>

section \<open>Reading and writing sessions\<close>

definition isMember :: "call_session \<Rightarrow> uuid \<Rightarrow> bool" where
  "isMember s u = (u \<in> set (cs_memberIds s))"

definition isJoined :: "call_session \<Rightarrow> uuid \<Rightarrow> bool" where
  "isJoined s u = (u \<in> set (cs_joinedIds s))"

definition ringingIds :: "call_session \<Rightarrow> uuid list" where
  "ringingIds s = filter (\<lambda>u. u \<notin> set (cs_joinedIds s) \<and> u \<notin> set (cs_declinedIds s) \<and> u \<notin> set (cs_leftIds s))
     (cs_memberIds s)"

definition canRejoin :: "call_session \<Rightarrow> uuid \<Rightarrow> bool" where
  "canRejoin s u = (cs_kind s = GroupCall \<and> cs_status s \<noteq> Ended \<and> isMember s u \<and> \<not> isJoined s u
     \<and> length (cs_joinedIds s) > 0)"

definition live_ttl :: "instant \<Rightarrow> string \<Rightarrow> call_redis \<Rightarrow> int" where
  "live_ttl t key r = (let n = redis_ttl t key r in if n > 0 then n else ACTIVE_TTL_SECONDS)"

definition get_call :: "instant \<Rightarrow> uuid \<Rightarrow> call_redis \<Rightarrow> call_session option \<times> call_redis" where
  "get_call t callId r =
     (case session_at t r callId of
        None \<Rightarrow> (None, r)
      | Some s \<Rightarrow>
         (Some s,
          if truthy (cs_conversationId s) \<and> cs_status s \<noteq> Ended \<and> convo_at t r (cs_conversationId s) \<noteq> Some callId
          then redis_setex t (live_ttl t (sessionKey callId) r) (convoKey (cs_conversationId s)) (CallRef callId) r
          else r))"

fun findSessionByConversation ::
  "instant \<Rightarrow> string list \<Rightarrow> uuid \<Rightarrow> call_redis \<Rightarrow> call_session option \<times> call_redis" where
  "findSessionByConversation t [] cid r = (None, r)"
| "findSessionByConversation t (key # keys) cid r =
     (case redis_get t key r of
        Some (Session raw) \<Rightarrow>
          (if raw_conversationId raw = cid \<and> raw_status raw \<noteq> Ended \<and> raw_joinedIds raw \<noteq> []
           then (Some (normalize raw),
                 redis_setex t (live_ttl t key r) (convoKey cid) (CallRef (raw_callId raw)) r)
           else findSessionByConversation t keys cid r)
      | _ \<Rightarrow> findSessionByConversation t keys cid r)"

definition getByConversation ::
  "instant \<Rightarrow> string list \<Rightarrow> uuid \<Rightarrow> call_redis \<Rightarrow> call_session option \<times> call_redis" where
  "getByConversation t keys cid r =
     (case convo_at t r cid of
        None \<Rightarrow> findSessionByConversation t keys cid r
      | Some callId \<Rightarrow>
         (case get_call t callId r of
            (Some s, r1) \<Rightarrow>
              (if cs_conversationId s = cid \<and> cs_status s \<noteq> Ended then (Some s, r1)
               else findSessionByConversation t keys cid (redis_del (convoKey cid) r1))
          | (None, r1) \<Rightarrow> findSessionByConversation t keys cid (redis_del (convoKey cid) r1)))"

definition clearUserBusy :: "instant \<Rightarrow> uuid \<Rightarrow> uuid option \<Rightarrow> call_redis \<Rightarrow> call_redis" where
  "clearUserBusy t userId callId r =
     (case busy_at t r userId of
        None \<Rightarrow> r
      | Some current \<Rightarrow> (if callId \<noteq> None \<and> callId \<noteq> Some current then r else redis_del (userKey userId) r))"

definition busy_ids :: "call_session \<Rightarrow> uuid set" where
  "busy_ids s = set (cs_joinedIds s) \<union> set (ringingIds s) \<union> {cs_hostId s}"

definition persist :: "instant \<Rightarrow> int \<Rightarrow> call_session \<Rightarrow> call_redis \<Rightarrow> call_redis" where
  "persist t ttl s r =
     foldl (\<lambda>r u. if u \<in> busy_ids s then redis_setex t ttl (userKey u) (CallRef (cs_callId s)) r
                  else redis_del (userKey u) r)
       (redis_setex t ttl (convoKey (cs_conversationId s)) (CallRef (cs_callId s))
         (redis_setex t ttl (sessionKey (cs_callId s)) (Session (to_json s)) r))
       (cs_memberIds s)"

definition index_active :: "instant \<Rightarrow> call_session \<Rightarrow> call_redis \<Rightarrow> call_redis" where
  "index_active t s r =
     redis_setex t ACTIVE_TTL_SECONDS (convoKey (cs_conversationId s)) (CallRef (cs_callId s)) r"

definition status_ttl :: "call_session \<Rightarrow> int" where
  "status_ttl s = (if cs_status s = Active then ACTIVE_TTL_SECONDS else RINGING_TTL_SECONDS)"

definition end_call :: "instant \<Rightarrow> uuid \<Rightarrow> call_redis \<Rightarrow> call_session option \<times> call_redis" where
  "end_call t callId r =
     (case get_call t callId r of
        (None, r1) \<Rightarrow> (None, r1)
      | (Some s, r1) \<Rightarrow>
         (Some (s\<lparr>cs_status := Ended\<rparr>),
          foldl (\<lambda>r u. redis_del (userKey u) r)
            (redis_del (convoKey (cs_conversationId s)) (redis_del (sessionKey callId) r1)) (cs_memberIds s)))"

section \<open>Starting a call\<close>

record call_input =
  ci_conversationId :: uuid
  ci_kind :: call_kind
  ci_hostId :: uuid
  ci_memberIds :: "uuid list"
  ci_media :: "call_media option"

text \<open>The host's own lock: whether it refuses the call, and the store after releasing it.\<close>

definition release_host :: "instant \<Rightarrow> uuid \<Rightarrow> call_redis \<Rightarrow> bool \<times> call_redis" where
  "release_host t host r =
     (case busy_at t r host of
        None \<Rightarrow> (False, r)
      | Some busy \<Rightarrow>
         (case get_call t busy r of
            (None, r1) \<Rightarrow> (False, clearUserBusy t host (Some busy) r1)
          | (Some existing, r1) \<Rightarrow>
             (if cs_status existing = Ended then (False, clearUserBusy t host (Some busy) r1)
              else if host \<in> set (cs_joinedIds existing) \<or> cs_hostId existing = host then (True, r1)
              else (False, clearUserBusy t host (Some busy) r1))))"

text \<open>One live call per conversation.\<close>

definition replace_lobby :: "instant \<Rightarrow> string list \<Rightarrow> call_input \<Rightarrow> call_redis \<Rightarrow> bool \<times> call_redis" where
  "replace_lobby t keys i r =
     (case getByConversation t keys (ci_conversationId i) r of
        (None, r1) \<Rightarrow> (False, r1)
      | (Some s, r1) \<Rightarrow>
         (if cs_hostId s = ci_hostId i \<or> length (cs_joinedIds s) \<le> 1
          then (False, snd (end_call t (cs_callId s) r1)) else (True, r1)))"

definition call_members :: "call_input \<Rightarrow> uuid list" where
  "call_members i = (let ms = js_uniq (ci_memberIds i) in
     if ci_hostId i \<in> set ms then ms else ms @ [ci_hostId i])"

definition new_session :: "instant \<Rightarrow> uuid \<Rightarrow> call_input \<Rightarrow> call_session" where
  "new_session t newId i =
     \<lparr>cs_callId = newId, cs_conversationId = ci_conversationId i, cs_kind = ci_kind i,
      cs_media = (if ci_media i = Some Video then Video else Audio), cs_hostId = ci_hostId i,
      cs_memberIds = call_members i, cs_joinedIds = [ci_hostId i], cs_declinedIds = [], cs_leftIds = [],
      cs_onHold = False, cs_heldBy = None, cs_forceMuted = False, cs_screenSharerId = None,
      cs_status = Ringing, cs_createdAt = t, cs_connectedAt = None\<rparr>"

type_synonym 'a call_op = "call_redis \<Rightarrow> (string + 'a) \<times> call_redis"

definition createCall :: "instant \<Rightarrow> string list \<Rightarrow> uuid \<Rightarrow> call_input \<Rightarrow> call_session call_op" where
  "createCall t keys newId i r =
     (case release_host t (ci_hostId i) r of
        (True, r1) \<Rightarrow> (Inl ''You are already in a call'', r1)
      | (False, r1) \<Rightarrow>
         (case replace_lobby t keys i r1 of
            (True, r2) \<Rightarrow> (Inl ''A call is already in progress in this group'', r2)
          | (False, r2) \<Rightarrow>
             (if length (call_members i) < 2 then (Inl ''Not enough participants for a call'', r2)
              else if ci_kind i = PrivateCall \<and>
                (case find (\<lambda>u. u \<noteq> ci_hostId i) (call_members i) of
                   None \<Rightarrow> False | Some other \<Rightarrow> busy_at t r2 other \<noteq> None)
              then (Inl ''User is busy on another call'', r2)
              else let s = new_session t newId i in
                (Inr s, redis_setex t RINGING_TTL_SECONDS (convoKey (cs_conversationId s)) (CallRef newId)
                          (persist t RINGING_TTL_SECONDS s r2)))))"

section \<open>Answering and leaving\<close>

definition add_unique :: "uuid list \<Rightarrow> uuid \<Rightarrow> uuid list" where
  "add_unique xs u = js_uniq (xs @ [u])"

definition accept :: "instant \<Rightarrow> uuid \<Rightarrow> uuid \<Rightarrow> call_session call_op" where
  "accept t callId userId r =
     (case get_call t callId r of
        (None, r1) \<Rightarrow> (Inl ''Call is no longer available'', r1)
      | (Some s, r1) \<Rightarrow>
         (if cs_status s = Ended then (Inl ''Call is no longer available'', r1)
          else if \<not> isMember s userId then (Inl ''You are not invited to this call'', r1)
          else if isJoined s userId then (Inr s, r1)
          else if cs_kind s = PrivateCall \<and> userId = cs_hostId s then (Inl ''Host is already in the call'', r1)
          else if (case busy_at t r1 userId of None \<Rightarrow> False | Some busy \<Rightarrow> busy \<noteq> callId)
          then (Inl ''You are already in another call'', r1)
          else let joined = add_unique (cs_joinedIds s) userId;
                   s' = s\<lparr>cs_joinedIds := joined,
                          cs_declinedIds := filter (\<lambda>u. u \<noteq> userId) (cs_declinedIds s),
                          cs_leftIds := filter (\<lambda>u. u \<noteq> userId) (cs_leftIds s),
                          cs_status := Active,
                          cs_connectedAt := (if cs_connectedAt s = None \<and> length joined \<ge> 2
                             then Some t else cs_connectedAt s)\<rparr> in
            (Inr s', index_active t s' (persist t ACTIVE_TTL_SECONDS s' r1))))"

definition decline :: "instant \<Rightarrow> uuid \<Rightarrow> uuid \<Rightarrow> (call_session \<times> bool \<times> nat option) call_op" where
  "decline t callId userId r =
     (case get_call t callId r of
        (None, r1) \<Rightarrow> (Inl ''Call is no longer available'', r1)
      | (Some s, r1) \<Rightarrow>
         (if cs_status s = Ended then (Inl ''Call is no longer available'', r1)
          else if \<not> isMember s userId \<or> isJoined s userId then (Inl ''Cannot decline this call'', r1)
          else let s' = s\<lparr>cs_declinedIds := add_unique (cs_declinedIds s) userId\<rparr> in
            if cs_kind s = PrivateCall
            then (Inr (s'\<lparr>cs_status := Ended\<rparr>, True, None), snd (end_call t callId r1))
            else let pending = filter (\<lambda>u. u \<notin> set (cs_joinedIds s') \<and> u \<notin> set (cs_declinedIds s'))
                   (cs_memberIds s') in
              (Inr (s', False, Some (length pending)), persist t (status_ttl s') s' r1)))"

record leave_result =
  lr_session :: call_session
  lr_ended :: bool
  lr_remainingIds :: "uuid list"

definition leave_call :: "instant \<Rightarrow> uuid \<Rightarrow> uuid \<Rightarrow> leave_result call_op" where
  "leave_call t callId userId r =
     (case get_call t callId r of
        (None, r1) \<Rightarrow> (Inl ''Call not found'', r1)
      | (Some s, r1) \<Rightarrow>
         (if \<not> isMember s userId then (Inl ''You are not part of this call'', r1)
          else let s' = s\<lparr>cs_joinedIds := filter (\<lambda>u. u \<noteq> userId) (cs_joinedIds s),
                          cs_leftIds := add_unique (cs_leftIds s) userId\<rparr>;
                   r2 = redis_del (userKey userId) r1 in
            if length (cs_joinedIds s') = 0 \<or> cs_kind s = PrivateCall
            then (Inr \<lparr>lr_session = s'\<lparr>cs_status := Ended\<rparr>, lr_ended = True, lr_remainingIds = []\<rparr>,
                  snd (end_call t callId r2))
            else (Inr \<lparr>lr_session = s', lr_ended = False, lr_remainingIds = cs_joinedIds s'\<rparr>,
                  index_active t s' (persist t ACTIVE_TTL_SECONDS s' r2))))"

text \<open>The session without a removed user, and with a new host when the host was removed.\<close>

definition drop_user :: "call_session \<Rightarrow> uuid \<Rightarrow> call_session" where
  "drop_user s userId = s\<lparr>cs_memberIds := filter (\<lambda>u. u \<noteq> userId) (cs_memberIds s),
     cs_joinedIds := filter (\<lambda>u. u \<noteq> userId) (cs_joinedIds s),
     cs_declinedIds := filter (\<lambda>u. u \<noteq> userId) (cs_declinedIds s),
     cs_leftIds := add_unique (cs_leftIds s) userId,
     cs_screenSharerId := (if cs_screenSharerId s = Some userId then None else cs_screenSharerId s),
     cs_onHold := (if cs_heldBy s = Some userId then False else cs_onHold s),
     cs_heldBy := (if cs_heldBy s = Some userId then None else cs_heldBy s)\<rparr>"

definition pass_host :: "call_session \<Rightarrow> uuid \<Rightarrow> call_session" where
  "pass_host s userId = (if cs_hostId s = userId then s\<lparr>cs_hostId := hd (cs_joinedIds s)\<rparr> else s)"

definition revokeUserFromConversation ::
  "instant \<Rightarrow> string list \<Rightarrow> uuid \<Rightarrow> uuid \<Rightarrow> call_redis \<Rightarrow> leave_result option \<times> call_redis" where
  "revokeUserFromConversation t keys conversationId userId r =
     (case getByConversation t keys conversationId r of
        (None, r1) \<Rightarrow> (None, r1)
      | (Some s, r1) \<Rightarrow>
         (if cs_status s = Ended \<or> (\<not> isMember s userId \<and> \<not> isJoined s userId) then (None, r1)
          else let s1 = drop_user s userId; r2 = redis_del (userKey userId) r1 in
            if length (cs_joinedIds s1) = 0 \<or> length (cs_memberIds s1) = 0 \<or> cs_kind s = PrivateCall
            then (Some \<lparr>lr_session = s1\<lparr>cs_status := Ended\<rparr>, lr_ended = True, lr_remainingIds = []\<rparr>,
                  snd (end_call t (cs_callId s) r2))
            else let s2 = pass_host s1 userId in
              (Some \<lparr>lr_session = s2, lr_ended = False, lr_remainingIds = cs_joinedIds s2\<rparr>,
               index_active t s2 (persist t ACTIVE_TTL_SECONDS s2 r2))))"

section \<open>During a call\<close>

definition MAX_GROUP_CALL :: nat where "MAX_GROUP_CALL = 8"

text \<open>The loop of \<open>inviteMore\<close>, over the session and the identifiers to ring.\<close>

fun invite_loop :: "instant \<Rightarrow> uuid \<Rightarrow> call_redis \<Rightarrow> uuid list \<Rightarrow> call_session \<Rightarrow> uuid list \<Rightarrow>
    call_session \<times> uuid list" where
  "invite_loop t callId r [] s invited = (s, invited)"
| "invite_loop t callId r (u # us) s invited =
     (if u \<in> set (cs_joinedIds s) then invite_loop t callId r us s invited
      else if (case busy_at t r u of None \<Rightarrow> False | Some busy \<Rightarrow> busy \<noteq> callId)
      then invite_loop t callId r us s invited
      else if u \<notin> set (cs_memberIds s) \<and> length (cs_memberIds s) \<ge> MAX_GROUP_CALL
      then invite_loop t callId r us s invited
      else invite_loop t callId r us
        (s\<lparr>cs_memberIds := (if u \<in> set (cs_memberIds s) then cs_memberIds s else cs_memberIds s @ [u]),
           cs_declinedIds := filter (\<lambda>x. x \<noteq> u) (cs_declinedIds s),
           cs_leftIds := filter (\<lambda>x. x \<noteq> u) (cs_leftIds s)\<rparr>) (invited @ [u]))"

definition inviteMore :: "instant \<Rightarrow> uuid \<Rightarrow> uuid \<Rightarrow> uuid list \<Rightarrow> uuid list \<Rightarrow>
    (call_session \<times> uuid list) call_op" where
  "inviteMore t callId actorId userIds allowedMemberIds r =
     (case get_call t callId r of
        (None, r1) \<Rightarrow> (Inl ''Call is no longer available'', r1)
      | (Some s, r1) \<Rightarrow>
         (if cs_status s = Ended then (Inl ''Call is no longer available'', r1)
          else if cs_kind s \<noteq> GroupCall then (Inl ''Can only add people to group calls'', r1)
          else if \<not> isJoined s actorId then (Inl ''Join the call before inviting others'', r1)
          else let requested = filter (\<lambda>u. u \<in> set allowedMemberIds \<and> u \<noteq> actorId) (js_uniq userIds) in
            if length requested = 0 then (Inl ''No valid members to invite'', r1)
            else let (s', invitedIds) = invite_loop t callId r1 requested s [] in
              if length invitedIds = 0 then (Inl ''Those members cannot be invited right now'', r1)
              else (Inr (s', invitedIds), persist t (status_ttl s') s' r1)))"

definition setHold :: "instant \<Rightarrow> uuid \<Rightarrow> uuid \<Rightarrow> bool \<Rightarrow> call_session call_op" where
  "setHold t callId actorId onHold r =
     (case get_call t callId r of
        (None, r1) \<Rightarrow> (Inl ''Call is no longer available'', r1)
      | (Some s, r1) \<Rightarrow>
         (if cs_status s = Ended then (Inl ''Call is no longer available'', r1)
          else if \<not> isJoined s actorId then (Inl ''You are not in this call'', r1)
          else if \<not> onHold \<and> cs_heldBy s \<noteq> None \<and> cs_heldBy s \<noteq> Some actorId \<and> cs_hostId s \<noteq> actorId
          then (Inl ''Only the person who put the call on hold can resume'', r1)
          else let s' = s\<lparr>cs_onHold := onHold, cs_heldBy := (if onHold then Some actorId else None)\<rparr> in
            (Inr s', persist t ACTIVE_TTL_SECONDS s' r1)))"

definition setForceMute :: "instant \<Rightarrow> uuid \<Rightarrow> uuid \<Rightarrow> bool \<Rightarrow> call_session call_op" where
  "setForceMute t callId actorId muted r =
     (case get_call t callId r of
        (None, r1) \<Rightarrow> (Inl ''Call is no longer available'', r1)
      | (Some s, r1) \<Rightarrow>
         (if cs_status s = Ended then (Inl ''Call is no longer available'', r1)
          else if cs_hostId s \<noteq> actorId then (Inl ''Only the call host can mute everyone'', r1)
          else if \<not> isJoined s actorId then (Inl ''You are not in this call'', r1)
          else let s' = s\<lparr>cs_forceMuted := muted\<rparr> in (Inr s', persist t ACTIVE_TTL_SECONDS s' r1)))"

definition setScreenShare :: "instant \<Rightarrow> uuid \<Rightarrow> uuid \<Rightarrow> bool \<Rightarrow> call_session call_op" where
  "setScreenShare t callId actorId active r =
     (case get_call t callId r of
        (None, r1) \<Rightarrow> (Inl ''Call is no longer available'', r1)
      | (Some s, r1) \<Rightarrow>
         (if cs_status s = Ended then (Inl ''Call is no longer available'', r1)
          else if \<not> isJoined s actorId then (Inl ''You are not in this call'', r1)
          else if \<not> active \<and> cs_screenSharerId s \<noteq> Some actorId \<and> cs_hostId s \<noteq> actorId
          then (Inl ''You are not sharing the screen'', r1)
          else let s' = s\<lparr>cs_screenSharerId := (if active then Some actorId else None)\<rparr> in
            (Inr s', persist t ACTIVE_TTL_SECONDS s' r1)))"

text \<open>The loop of \<open>markUnansweredAsLeft\<close>: the session, whether it changed, the store.\<close>

fun unanswered_loop :: "instant \<Rightarrow> uuid \<Rightarrow> uuid list \<Rightarrow> call_session \<Rightarrow> bool \<Rightarrow> call_redis \<Rightarrow>
    call_session \<times> bool \<times> call_redis" where
  "unanswered_loop t callId [] s changed r = (s, changed, r)"
| "unanswered_loop t callId (u # us) s changed r =
     (if u \<in> set (cs_joinedIds s) \<or> u \<in> set (cs_declinedIds s) then unanswered_loop t callId us s changed r
      else if u \<in> set (cs_leftIds s) then unanswered_loop t callId us s changed (clearUserBusy t u (Some callId) r)
      else unanswered_loop t callId us (s\<lparr>cs_leftIds := cs_leftIds s @ [u]\<rparr>) True
             (clearUserBusy t u (Some callId) r))"

definition markUnansweredAsLeft ::
  "instant \<Rightarrow> uuid \<Rightarrow> uuid list \<Rightarrow> call_redis \<Rightarrow> call_session option \<times> call_redis" where
  "markUnansweredAsLeft t callId userIds r =
     (case get_call t callId r of
        (None, r1) \<Rightarrow> (None, r1)
      | (Some s, r1) \<Rightarrow>
         (if cs_status s = Ended then (None, r1)
          else case unanswered_loop t callId userIds s False r1 of
            (s', changed, r2) \<Rightarrow> (Some s', if changed then persist t (status_ttl s') s' r2 else r2)))"

section \<open>Views\<close>

record call_lobby =
  cl_callId :: uuid
  cl_conversationId :: uuid
  cl_kind :: call_kind
  cl_media :: call_media
  cl_hostId :: uuid
  cl_memberIds :: "uuid list"
  cl_joinedIds :: "uuid list"
  cl_declinedIds :: "uuid list"
  cl_leftIds :: "uuid list"
  cl_ringingIds :: "uuid list"
  cl_onHold :: bool
  cl_heldBy :: "uuid option"
  cl_forceMuted :: bool
  cl_screenSharerId :: "uuid option"
  cl_active :: bool

definition toLobby :: "call_session \<Rightarrow> bool \<Rightarrow> call_lobby" where
  "toLobby s active = \<lparr>cl_callId = cs_callId s, cl_conversationId = cs_conversationId s, cl_kind = cs_kind s,
     cl_media = cs_media s, cl_hostId = cs_hostId s, cl_memberIds = cs_memberIds s,
     cl_joinedIds = cs_joinedIds s, cl_declinedIds = cs_declinedIds s, cl_leftIds = cs_leftIds s,
     cl_ringingIds = ringingIds s, cl_onHold = cs_onHold s, cl_heldBy = cs_heldBy s,
     cl_forceMuted = cs_forceMuted s, cl_screenSharerId = cs_screenSharerId s, cl_active = active\<rparr>"

record call_roster =
  cr_callId :: uuid
  cr_conversationId :: uuid
  cr_hostId :: uuid
  cr_joinedIds :: "uuid list"
  cr_ringingIds :: "uuid list"
  cr_declinedIds :: "uuid list"
  cr_leftIds :: "uuid list"
  cr_memberIds :: "uuid list"
  cr_onHold :: bool
  cr_heldBy :: "uuid option"
  cr_forceMuted :: bool
  cr_screenSharerId :: "uuid option"

definition toRoster :: "call_session \<Rightarrow> call_roster" where
  "toRoster s = \<lparr>cr_callId = cs_callId s, cr_conversationId = cs_conversationId s, cr_hostId = cs_hostId s,
     cr_joinedIds = cs_joinedIds s, cr_ringingIds = ringingIds s, cr_declinedIds = cs_declinedIds s,
     cr_leftIds = cs_leftIds s, cr_memberIds = cs_memberIds s, cr_onHold = cs_onHold s, cr_heldBy = cs_heldBy s,
     cr_forceMuted = cs_forceMuted s, cr_screenSharerId = cs_screenSharerId s\<rparr>"

end
