(* ===== verification/CallInvariant.thy ===== *)
theory CallInvariant
  imports CallSession
begin

text \<open>
  The invariants of the call sessions: what a stored session looks like, which
  users and conversations may point to it, and that every operation of
  \<open>CallSessionService\<close> keeps both, whatever has expired meanwhile.
\<close>

section \<open>Invariants\<close>

text \<open>A stored session: who is in it, and when it counts as connected.\<close>

definition session_ok :: "call_session \<Rightarrow> bool" where
  "session_ok s \<longleftrightarrow>
     distinct (cs_memberIds s) \<and> distinct (cs_joinedIds s)
     \<and> cs_joinedIds s \<noteq> [] \<and> set (cs_joinedIds s) \<subseteq> set (cs_memberIds s)
     \<and> cs_hostId s \<in> set (cs_memberIds s)
     \<and> set (cs_declinedIds s) \<inter> set (cs_joinedIds s) = {}
     \<and> set (cs_leftIds s) \<inter> set (cs_joinedIds s) = {}
     \<and> cs_status s \<noteq> Ended
     \<and> (cs_status s = Active \<longleftrightarrow> cs_connectedAt s \<noteq> None)
     \<and> (cs_onHold s \<longleftrightarrow> cs_heldBy s \<noteq> None)"

text \<open>The value a key holds, expired or not.\<close>

definition held :: "'v redis \<Rightarrow> string \<Rightarrow> 'v option" where
  "held r k = map_option fst (r k)"

definition session_keys_ok :: "call_redis \<Rightarrow> bool" where
  "session_keys_ok r \<longleftrightarrow> (\<forall>k raw. held r k = Some (Session raw) \<longrightarrow>
     (\<exists>s. raw = to_json s \<and> k = sessionKey (cs_callId s) \<and> session_ok s))"

text \<open>
  Only members are marked busy with a call; only its conversation is indexed to
  it. \<open>I\<close> holds the call identifiers drawn so far.
\<close>

definition refs_for :: "call_redis \<Rightarrow> call_session \<Rightarrow> bool" where
  "refs_for r s \<longleftrightarrow> (\<forall>u. held r (userKey u) = Some (CallRef (cs_callId s)) \<longrightarrow> u \<in> set (cs_memberIds s))
     \<and> (\<forall>cid. held r (convoKey cid) = Some (CallRef (cs_callId s)) \<longrightarrow> cid = cs_conversationId s)"

definition call_store_inv :: "uuid set \<Rightarrow> call_redis \<Rightarrow> bool" where
  "call_store_inv I r \<longleftrightarrow> session_keys_ok r
     \<and> (\<forall>s. held r (sessionKey (cs_callId s)) = Some (Session (to_json s)) \<longrightarrow> refs_for r s \<and> cs_callId s \<in> I)
     \<and> (\<forall>k c. held r k = Some (CallRef c) \<longrightarrow> c \<in> I)"

section \<open>Writes\<close>

interpretation held_kv: kv_store held "redis_setex t ttl" redis_del for t ttl
  by unfold_locales (simp_all add: held_def redis_setex_def redis_del_def)

lemma held_setex [simp]: "held (redis_setex t ttl k v r) k' = (if k' = k then Some v else held r k')"
  by (rule held_kv.lookup_store)

lemma held_del [simp]: "held (redis_del k r) k' = (if k' = k then None else held r k')"
  by (rule held_kv.lookup_remove)

lemma redis_get_held: "redis_get t k r = Some v \<Longrightarrow> held r k = Some v"
  by (auto simp: redis_get_def held_def split: option.splits if_splits)

lemma held_persist:
  "held (persist t ttl s r) k =
    (if k \<in> userKey ` set (cs_memberIds s)
     then (if \<exists>u. k = userKey u \<and> u \<in> busy_ids s then Some (CallRef (cs_callId s)) else None)
     else if k = convoKey (cs_conversationId s) then Some (CallRef (cs_callId s))
     else if k = sessionKey (cs_callId s) then Some (Session (to_json s)) else held r k)"
  unfolding persist_def
  by (subst held_kv.lookup_store_or_remove [OF inj_userKey]) auto

lemma held_end_keys:
  "held (foldl (\<lambda>r u. redis_del (userKey u) r) r us) k = (if k \<in> userKey ` set us then None else held r k)"
  by (rule held_kv.lookup_remove_all)

lemma to_json_inject [simp]: "to_json s = to_json s' \<longleftrightarrow> s = s'"
  by (metis normalize_to_json)

lemma call_store_invD:
  assumes "call_store_inv I r"
  shows "held r k = Some (Session raw) \<Longrightarrow> \<exists>s. raw = to_json s \<and> k = sessionKey (cs_callId s) \<and> session_ok s"
    "held r (sessionKey (cs_callId s)) = Some (Session (to_json s)) \<Longrightarrow> refs_for r s"
    "held r (sessionKey (cs_callId s)) = Some (Session (to_json s)) \<Longrightarrow> cs_callId s \<in> I"
    "held r k = Some (CallRef c) \<Longrightarrow> c \<in> I"
  using assms unfolding call_store_inv_def session_keys_ok_def by blast+

lemma call_store_invI:
  assumes "\<And>k raw. held r k = Some (Session raw) \<Longrightarrow> \<exists>s. raw = to_json s \<and> k = sessionKey (cs_callId s) \<and> session_ok s"
    and "\<And>s. held r (sessionKey (cs_callId s)) = Some (Session (to_json s)) \<Longrightarrow> refs_for r s"
    and "\<And>s. held r (sessionKey (cs_callId s)) = Some (Session (to_json s)) \<Longrightarrow> cs_callId s \<in> I"
    and "\<And>k c. held r k = Some (CallRef c) \<Longrightarrow> c \<in> I"
  shows "call_store_inv I r"
  unfolding call_store_inv_def session_keys_ok_def using assms by blast

lemma call_store_inv_mono: "call_store_inv I r \<Longrightarrow> I \<subseteq> J \<Longrightarrow> call_store_inv J r"
  unfolding call_store_inv_def by blast

lemma refs_for_mono:
  assumes "refs_for r s" and "\<And>k c. held r' k = Some (CallRef c) \<Longrightarrow> held r k = Some (CallRef c)"
  shows "refs_for r' s"
  using assms unfolding refs_for_def by blast

lemma store_inv_del: "call_store_inv I r \<Longrightarrow> call_store_inv I (redis_del k r)"
proof (rule call_store_invI)
  assume inv: "call_store_inv I r"
  show "\<exists>s. raw = to_json s \<and> k' = sessionKey (cs_callId s) \<and> session_ok s"
    if "held (redis_del k r) k' = Some (Session raw)" for k' raw
    using that by (intro call_store_invD(1) [OF inv]) (simp split: if_splits)
  show "refs_for (redis_del k r) s"
    if "held (redis_del k r) (sessionKey (cs_callId s)) = Some (Session (to_json s))" for s
    using that by (intro refs_for_mono [OF call_store_invD(2) [OF inv, of s]]) (simp_all split: if_splits)
  show "cs_callId s \<in> I" if "held (redis_del k r) (sessionKey (cs_callId s)) = Some (Session (to_json s))" for s
    using that by (intro call_store_invD(3) [OF inv]) (simp split: if_splits)
  show "c \<in> I" if "held (redis_del k r) k' = Some (CallRef c)" for k' c
    using that by (intro call_store_invD(4) [OF inv]) (simp split: if_splits)
qed

lemma store_inv_del_all: "call_store_inv I r \<Longrightarrow> call_store_inv I (foldl (\<lambda>r u. redis_del (userKey u) r) r us)"
  by (induction us arbitrary: r) (auto intro: store_inv_del)

lemma store_inv_index:
  assumes inv: "call_store_inv I r" and s: "held r (sessionKey (cs_callId s)) = Some (Session (to_json s))"
  shows "call_store_inv I (redis_setex t ttl (convoKey (cs_conversationId s)) (CallRef (cs_callId s)) r)"
proof (rule call_store_invI)
  let ?r = "redis_setex t ttl (convoKey (cs_conversationId s)) (CallRef (cs_callId s)) r"
  show "\<exists>s. raw = to_json s \<and> k = sessionKey (cs_callId s) \<and> session_ok s"
    if "held ?r k = Some (Session raw)" for k raw
    using that by (intro call_store_invD(1) [OF inv]) (simp split: if_splits)
  show "refs_for ?r s'" if "held ?r (sessionKey (cs_callId s')) = Some (Session (to_json s'))" for s'
  proof -
    have h: "held r (sessionKey (cs_callId s')) = Some (Session (to_json s'))" using that by simp
    have "refs_for r s'" by (rule call_store_invD(2) [OF inv h])
    moreover have "s' = s" if "cs_callId s' = cs_callId s" using h s unfolding that by simp
    ultimately show ?thesis unfolding refs_for_def by (simp split: if_split_asm) metis
  qed
  show "cs_callId s' \<in> I" if "held ?r (sessionKey (cs_callId s')) = Some (Session (to_json s'))" for s'
    using that by (intro call_store_invD(3) [OF inv]) simp
  show "c \<in> I" if "held ?r k = Some (CallRef c)" for k c
    using that call_store_invD(3) [OF inv s] call_store_invD(4) [OF inv, of k c] by (simp split: if_splits)
qed

lemma held_persist_session:
  "held (persist t ttl s r) (sessionKey c) = (if c = cs_callId s then Some (Session (to_json s)) else held r (sessionKey c))"
  by (auto simp: held_persist)

lemma held_persist_user:
  "held (persist t ttl s r) (userKey u) = (if u \<in> set (cs_memberIds s)
     then (if u \<in> busy_ids s then Some (CallRef (cs_callId s)) else None) else held r (userKey u))"
  by (auto simp: held_persist)

lemma held_persist_convo:
  "held (persist t ttl s r) (convoKey c) = (if c = cs_conversationId s then Some (CallRef (cs_callId s)) else held r (convoKey c))"
  by (auto simp: held_persist)

lemma store_inv_persist:
  assumes inv: "call_store_inv I r" and ok: "session_ok s" and refs: "refs_for r s" and id: "cs_callId s \<in> I"
  shows "call_store_inv I (persist t ttl s r)"
proof (rule call_store_invI)
  let ?r = "persist t ttl s r"
  show "\<exists>s. raw = to_json s \<and> k = sessionKey (cs_callId s) \<and> session_ok s"
    if h: "held ?r k = Some (Session raw)" for k raw
  proof (cases "k = sessionKey (cs_callId s)")
    case True
    then show ?thesis using h ok by (auto simp: held_persist_session)
  next
    case False
    then have "held r k = Some (Session raw)" using h by (simp add: held_persist split: if_splits)
    then show ?thesis by (rule call_store_invD(1) [OF inv])
  qed
  show "refs_for ?r s'" if h: "held ?r (sessionKey (cs_callId s')) = Some (Session (to_json s'))" for s'
  proof (cases "cs_callId s' = cs_callId s")
    case True
    then have "s' = s" using h by (simp add: held_persist_session)
    then show ?thesis using refs unfolding refs_for_def held_persist_user held_persist_convo by auto
  next
    case False
    then have "held r (sessionKey (cs_callId s')) = Some (Session (to_json s'))"
      using h by (simp add: held_persist_session)
    then have "refs_for r s'" by (rule call_store_invD(2) [OF inv])
    with False show ?thesis unfolding refs_for_def held_persist_user held_persist_convo by auto
  qed
  show "cs_callId s' \<in> I" if "held ?r (sessionKey (cs_callId s')) = Some (Session (to_json s'))" for s'
  proof (cases "cs_callId s' = cs_callId s")
    case True
    then show ?thesis using id by (simp only:)
  next
    case False
    with that show ?thesis by (intro call_store_invD(3) [OF inv]) (simp add: held_persist_session)
  qed
  show "c \<in> I" if "held ?r k = Some (CallRef c)" for k c
    using that id call_store_invD(4) [OF inv, of k c] by (simp add: held_persist split: if_splits)
qed

section \<open>Reads\<close>

lemma session_at_held:
  assumes "call_store_inv I r" and "session_at t r c = Some s"
  shows "held r (sessionKey c) = Some (Session (to_json s))" "cs_callId s = c" "session_ok s" "refs_for r s"
proof -
  obtain raw where g: "redis_get t (sessionKey c) r = Some (Session raw)" "s = normalize raw"
    using assms(2) by (auto simp: session_at_def split: option.splits call_value.splits)
  have h: "held r (sessionKey c) = Some (Session raw)" by (rule redis_get_held [OF g(1)])
  then obtain s' where "raw = to_json s'" "sessionKey c = sessionKey (cs_callId s')" "session_ok s'"
    using call_store_invD(1) [OF assms(1)] by blast
  with g h show "held r (sessionKey c) = Some (Session (to_json s))" "cs_callId s = c" "session_ok s" by auto
  then show "refs_for r s" using call_store_invD(2) [OF assms(1)] by simp
qed

text \<open>What every operation starts from: the loaded session and the store after the index repair.\<close>

lemma get_call_props:
  assumes inv: "call_store_inv I r" and get: "get_call t c r = (so, r1)"
  shows "call_store_inv I r1" "so = session_at t r c"
    "\<And>s. so = Some s \<Longrightarrow> held r1 (sessionKey c) = Some (Session (to_json s)) \<and> cs_callId s = c \<and> session_ok s \<and> refs_for r1 s"
    "held r1 (userKey u) = held r (userKey u)" "redis_get t (userKey u) r1 = redis_get t (userKey u) r"
    "redis_get t (sessionKey k) r1 = redis_get t (sessionKey k) r"
proof -
  show so: "so = session_at t r c" using get by (auto simp: get_call_def split: option.splits)
  have eq: "r1 = r \<or> (\<exists>s ttl. session_at t r c = Some s \<and> r1 = redis_setex t ttl (convoKey (cs_conversationId s)) (CallRef c) r)"
  proof (cases "session_at t r c")
    case None
    then show ?thesis using get by (simp add: get_call_def)
  next
    case (Some s)
    then have "r1 = r \<or> r1 = redis_setex t (live_ttl t (sessionKey c) r) (convoKey (cs_conversationId s)) (CallRef c) r"
      using get by (auto simp: get_call_def split: if_splits)
    with Some show ?thesis by blast
  qed
  have inv1: "call_store_inv I r1"
    using eq inv store_inv_index session_at_held [OF inv] by metis
  show "call_store_inv I r1" by (rule inv1)
  show "held r1 (userKey u) = held r (userKey u)" using eq by auto
  show "redis_get t (userKey u) r1 = redis_get t (userKey u) r"
    using eq by (auto simp: redis_get_def redis_setex_def)
  show "redis_get t (sessionKey k) r1 = redis_get t (sessionKey k) r" for k
    using eq by (auto simp: redis_get_def redis_setex_def)
  then have "session_at t r1 c = session_at t r c" by (simp add: session_at_def)
  then show "held r1 (sessionKey c) = Some (Session (to_json s)) \<and> cs_callId s = c \<and> session_ok s \<and> refs_for r1 s"
    if "so = Some s" for s using that so session_at_held [OF inv1] by metis
qed

lemma findSession_props:
  assumes inv: "call_store_inv I r" and find: "findSessionByConversation t keys cid r = (so, r1)"
  shows "call_store_inv I r1"
    "\<And>s. so = Some s \<Longrightarrow> held r1 (sessionKey (cs_callId s)) = Some (Session (to_json s)) \<and> session_ok s \<and> refs_for r1 s
       \<and> cs_conversationId s = cid \<and> session_at t r (cs_callId s) = Some s"
proof -
  have "call_store_inv I r1 \<and> (\<forall>s. so = Some s \<longrightarrow> held r1 (sessionKey (cs_callId s)) = Some (Session (to_json s))
      \<and> session_ok s \<and> refs_for r1 s \<and> cs_conversationId s = cid \<and> session_at t r (cs_callId s) = Some s)"
    using find
  proof (induction keys)
    case Nil
    then show ?case using inv by auto
  next
    case (Cons k keys)
    show ?case
    proof (cases "\<exists>raw. redis_get t k r = Some (Session raw) \<and> raw_conversationId raw = cid
        \<and> raw_status raw \<noteq> Ended \<and> raw_joinedIds raw \<noteq> []")
      case True
      then obtain raw where raw: "redis_get t k r = Some (Session raw)" "raw_conversationId raw = cid"
        "raw_status raw \<noteq> Ended" "raw_joinedIds raw \<noteq> []" by blast
      then obtain s where s: "raw = to_json s" "k = sessionKey (cs_callId s)" "session_ok s"
        using call_store_invD(1) [OF inv redis_get_held] by blast
      have res: "so = Some s" "r1 = redis_setex t (live_ttl t k r) (convoKey cid) (CallRef (cs_callId s)) r"
        using Cons.prems raw s by (auto simp: to_json_def) (metis normalize_to_json to_json_def)
      have cid: "cs_conversationId s = cid" using raw(2) s(1) by (simp add: to_json_def)
      have h: "held r (sessionKey (cs_callId s)) = Some (Session (to_json s))"
        using redis_get_held [OF raw(1)] s by simp
      have inv1: "call_store_inv I r1" using store_inv_index [OF inv h] res cid by simp
      moreover have "held r1 (sessionKey (cs_callId s)) = Some (Session (to_json s))" using h res by simp
      moreover from this have "refs_for r1 s" by (rule call_store_invD(2) [OF inv1])
      moreover have "session_at t r (cs_callId s) = Some s" using raw(1) s by (simp add: session_at_def)
      ultimately show ?thesis using res s cid by simp
    next
      case False
      then have "findSessionByConversation t (k # keys) cid r = findSessionByConversation t keys cid r"
        by (auto split: option.splits call_value.splits)
      with Cons show ?thesis by simp
    qed
  qed
  then show "call_store_inv I r1"
    "\<And>s. so = Some s \<Longrightarrow> held r1 (sessionKey (cs_callId s)) = Some (Session (to_json s)) \<and> session_ok s \<and> refs_for r1 s
       \<and> cs_conversationId s = cid \<and> session_at t r (cs_callId s) = Some s" by auto
qed

lemma getByConversation_props:
  assumes inv: "call_store_inv I r" and get: "getByConversation t keys cid r = (so, r1)"
  shows "call_store_inv I r1"
    "\<And>s. so = Some s \<Longrightarrow> held r1 (sessionKey (cs_callId s)) = Some (Session (to_json s)) \<and> session_ok s \<and> refs_for r1 s
       \<and> cs_conversationId s = cid"
proof -
  have "call_store_inv I r1 \<and> (\<forall>s. so = Some s \<longrightarrow> held r1 (sessionKey (cs_callId s)) = Some (Session (to_json s))
      \<and> session_ok s \<and> refs_for r1 s \<and> cs_conversationId s = cid)"
  proof (cases "convo_at t r cid")
    case None
    then show ?thesis using get findSession_props [OF inv] by (auto simp: getByConversation_def)
  next
    case (Some c)
    obtain s1 r2 where g: "get_call t c r = (s1, r2)" by (cases "get_call t c r")
    note p = get_call_props [OF inv g]
    show ?thesis
    proof (cases "\<exists>s. s1 = Some s \<and> cs_conversationId s = cid \<and> cs_status s \<noteq> Ended")
      case True
      then show ?thesis using get Some g p(1) p(3) by (auto simp: getByConversation_def)
    next
      case False
      then have "findSessionByConversation t keys cid (redis_del (convoKey cid) r2) = (so, r1)"
        using get Some g by (auto simp: getByConversation_def split: option.splits if_splits)
      then show ?thesis using findSession_props [OF store_inv_del [OF p(1)]] by blast
    qed
  qed
  then show "call_store_inv I r1"
    "\<And>s. so = Some s \<Longrightarrow> held r1 (sessionKey (cs_callId s)) = Some (Session (to_json s)) \<and> session_ok s \<and> refs_for r1 s
       \<and> cs_conversationId s = cid" by auto
qed

lemma store_inv_clearUserBusy: "call_store_inv I r \<Longrightarrow> call_store_inv I (clearUserBusy t u c r)"
  by (auto simp: clearUserBusy_def intro: store_inv_del split: option.splits)

lemma store_inv_end: "call_store_inv I r \<Longrightarrow> call_store_inv I (snd (end_call t c r))"
  by (auto simp: end_call_def intro!: store_inv_del_all store_inv_del dest: get_call_props(1)
      split: option.splits prod.splits)

section \<open>Operations\<close>

lemma refs_for_grow:
  assumes "refs_for r s" and "cs_callId s' = cs_callId s" and "cs_conversationId s' = cs_conversationId s"
    and "set (cs_memberIds s) \<subseteq> set (cs_memberIds s')"
  shows "refs_for r s'"
  using assms unfolding refs_for_def by auto

text \<open>Persisting a changed session, and persisting it with the conversation index renewed.\<close>

lemma store_inv_update:
  assumes inv: "call_store_inv I r" and h: "held r (sessionKey (cs_callId s)) = Some (Session (to_json s))"
    and ok: "session_ok s'" and same: "cs_callId s' = cs_callId s" "cs_conversationId s' = cs_conversationId s"
    and grow: "set (cs_memberIds s) \<subseteq> set (cs_memberIds s')"
  shows "call_store_inv I (persist t ttl s' r)" "call_store_inv I (index_active t s' (persist t ttl s' r))"
proof -
  have "refs_for r s'" by (rule refs_for_grow [OF call_store_invD(2) [OF inv h] same grow])
  moreover have "cs_callId s' \<in> I" using call_store_invD(3) [OF inv h] same by simp
  ultimately show p: "call_store_inv I (persist t ttl s' r)" by (intro store_inv_persist [OF inv ok])
  show "call_store_inv I (index_active t s' (persist t ttl s' r))"
    unfolding index_active_def by (rule store_inv_index [OF p]) (simp add: held_persist_session)
qed

lemma set_add_unique [simp]: "set (add_unique xs u) = insert u (set xs)"
  by (simp add: add_unique_def)

lemma distinct_add_unique [simp]: "distinct (add_unique xs u)"
  by (simp add: add_unique_def)

lemma add_unique_fresh: "distinct xs \<Longrightarrow> u \<notin> set xs \<Longrightarrow> add_unique xs u = xs @ [u]"
  by (simp add: add_unique_def js_uniq_snoc js_uniq_distinct)

lemma accept_inv: "call_store_inv I r \<Longrightarrow> call_store_inv I (snd (accept t c u r))"
proof -
  assume inv: "call_store_inv I r"
  obtain so r1 where g: "get_call t c r = (so, r1)" by (cases "get_call t c r")
  note p = get_call_props [OF inv g]
  show ?thesis
  proof (cases so)
    case (Some s)
    let ?s = "s\<lparr>cs_joinedIds := add_unique (cs_joinedIds s) u, cs_declinedIds := filter (\<lambda>x. x \<noteq> u) (cs_declinedIds s),
      cs_leftIds := filter (\<lambda>x. x \<noteq> u) (cs_leftIds s), cs_status := Active,
      cs_connectedAt := (if cs_connectedAt s = None \<and> length (add_unique (cs_joinedIds s) u) \<ge> 2
         then Some t else cs_connectedAt s)\<rparr>"
    have s: "held r1 (sessionKey (cs_callId s)) = Some (Session (to_json s))" "session_ok s" using p(3) [OF Some] by auto
    have "session_ok ?s" if "isMember s u" "\<not> isJoined s u"
    proof -
      have "length (add_unique (cs_joinedIds s) u) \<ge> 2"
        using s(2) that by (cases "cs_joinedIds s") (auto simp: session_ok_def isJoined_def add_unique_fresh)
      then show ?thesis using s(2) that by (auto simp: session_ok_def isMember_def isJoined_def add_unique_fresh)
    qed
    then have "call_store_inv I (index_active t ?s (persist t ACTIVE_TTL_SECONDS ?s r1))" if "isMember s u" "\<not> isJoined s u"
      using that by (intro store_inv_update(2) [OF p(1) s(1)]) simp_all
    with p(1) Some g show ?thesis by (simp add: accept_def Let_def del: if_split split: if_split)
  qed (use g p in \<open>simp add: accept_def\<close>)
qed

lemma decline_inv: "call_store_inv I r \<Longrightarrow> call_store_inv I (snd (decline t c u r))"
proof -
  assume inv: "call_store_inv I r"
  obtain so r1 where g: "get_call t c r = (so, r1)" by (cases "get_call t c r")
  note p = get_call_props [OF inv g]
  show ?thesis
  proof (cases so)
    case (Some s)
    let ?s = "s\<lparr>cs_declinedIds := add_unique (cs_declinedIds s) u\<rparr>"
    have s: "held r1 (sessionKey (cs_callId s)) = Some (Session (to_json s))" "session_ok s" using p(3) [OF Some] by auto
    have "call_store_inv I (persist t ttl ?s r1)" if "\<not> isJoined s u" for ttl
      using that s(2) by (intro store_inv_update(1) [OF p(1) s(1)]) (auto simp: session_ok_def isJoined_def)
    with p(1) Some g store_inv_end [OF p(1)] show ?thesis by (simp add: decline_def Let_def)
  qed (use g p in \<open>simp add: decline_def\<close>)
qed

lemma leave_call_inv: "call_store_inv I r \<Longrightarrow> call_store_inv I (snd (leave_call t c u r))"
proof -
  assume inv: "call_store_inv I r"
  obtain so r1 where g: "get_call t c r = (so, r1)" by (cases "get_call t c r")
  note p = get_call_props [OF inv g]
  show ?thesis
  proof (cases so)
    case (Some s)
    let ?s = "s\<lparr>cs_joinedIds := filter (\<lambda>x. x \<noteq> u) (cs_joinedIds s), cs_leftIds := add_unique (cs_leftIds s) u\<rparr>"
    let ?r = "redis_del (userKey u) r1"
    have s: "held ?r (sessionKey (cs_callId s)) = Some (Session (to_json s))" "session_ok s" using p(3) [OF Some] by auto
    have "call_store_inv I (index_active t ?s (persist t ACTIVE_TTL_SECONDS ?s ?r))"
      if "filter (\<lambda>x. x \<noteq> u) (cs_joinedIds s) \<noteq> []"
      using that s(2) by (intro store_inv_update(2) [OF store_inv_del [OF p(1)] s(1)]) (auto simp: session_ok_def)
    with p(1) Some g store_inv_end [OF store_inv_del [OF p(1)]] show ?thesis
      by (simp add: leave_call_def Let_def)
  qed (use g p in \<open>simp add: leave_call_def\<close>)
qed

text \<open>A removed member's key is deleted before the smaller member list is stored.\<close>

lemma drop_user_simps [simp]:
  "cs_callId (drop_user s u) = cs_callId s" "cs_conversationId (drop_user s u) = cs_conversationId s"
  "cs_memberIds (drop_user s u) = filter (\<lambda>x. x \<noteq> u) (cs_memberIds s)"
  "cs_joinedIds (drop_user s u) = filter (\<lambda>x. x \<noteq> u) (cs_joinedIds s)"
  "cs_kind (drop_user s u) = cs_kind s"
  by (simp_all add: drop_user_def)

lemma pass_host_simps [simp]:
  "cs_callId (pass_host s u) = cs_callId s" "cs_conversationId (pass_host s u) = cs_conversationId s"
  "cs_memberIds (pass_host s u) = cs_memberIds s" "cs_joinedIds (pass_host s u) = cs_joinedIds s"
  "cs_kind (pass_host s u) = cs_kind s"
  by (simp_all add: pass_host_def)

lemma session_ok_drop:
  assumes ok: "session_ok s" and ne: "cs_joinedIds (drop_user s u) \<noteq> []"
  shows "session_ok (pass_host (drop_user s u) u)"
proof -
  have hd: "hd (filter (\<lambda>x. x \<noteq> u) (cs_joinedIds s)) \<in> set (filter (\<lambda>x. x \<noteq> u) (cs_joinedIds s))"
    using ne by (intro hd_in_set) simp
  show ?thesis
  proof (cases "cs_hostId s = u")
    case True
    then show ?thesis using ok ne hd by (auto simp: session_ok_def drop_user_def pass_host_def)
  next
    case False
    then show ?thesis using ok ne by (auto simp: session_ok_def drop_user_def pass_host_def)
  qed
qed

lemma revoke_inv:
  assumes inv: "call_store_inv I r"
  shows "call_store_inv I (snd (revokeUserFromConversation t keys cid u r))"
proof -
  obtain so r1 where g: "getByConversation t keys cid r = (so, r1)" by (cases "getByConversation t keys cid r")
  note p = getByConversation_props [OF inv g]
  show ?thesis
  proof (cases so)
    case (Some s)
    let ?r = "redis_del (userKey u) r1" and ?s = "pass_host (drop_user s u) u"
    have s: "held ?r (sessionKey (cs_callId s)) = Some (Session (to_json s))" "session_ok s" "refs_for r1 s"
      using p(2) [OF Some] by auto
    have inv2: "call_store_inv I ?r" by (rule store_inv_del [OF p(1)])
    have "call_store_inv I (index_active t ?s (persist t ACTIVE_TTL_SECONDS ?s ?r))"
      if ne: "filter (\<lambda>x. x \<noteq> u) (cs_joinedIds s) \<noteq> []"
    proof -
      have "refs_for ?r ?s" using s(3) by (auto simp: refs_for_def split: if_splits)
      moreover have "cs_callId ?s \<in> I" using call_store_invD(3) [OF inv2 s(1)] by simp
      moreover have "session_ok ?s" using session_ok_drop [OF s(2)] ne by simp
      ultimately have "call_store_inv I (persist t ACTIVE_TTL_SECONDS ?s ?r)" by (intro store_inv_persist [OF inv2])
      then show ?thesis unfolding index_active_def by (rule store_inv_index) (simp add: held_persist_session)
    qed
    with p(1) store_inv_end [OF inv2] Some g show ?thesis
      by (simp add: revokeUserFromConversation_def Let_def)
  qed (use g p in \<open>simp add: revokeUserFromConversation_def\<close>)
qed

lemma invite_loop_props:
  assumes "session_ok s" and "invite_loop t c r us s inv0 = (s', inv1)"
  shows "session_ok s' \<and> cs_callId s' = cs_callId s \<and> cs_conversationId s' = cs_conversationId s
    \<and> cs_kind s' = cs_kind s \<and> cs_joinedIds s' = cs_joinedIds s \<and> cs_hostId s' = cs_hostId s
    \<and> set (cs_memberIds s) \<subseteq> set (cs_memberIds s')
    \<and> set (cs_memberIds s') \<subseteq> set (cs_memberIds s) \<union> set us
    \<and> length (cs_memberIds s') \<le> max MAX_GROUP_CALL (length (cs_memberIds s))
    \<and> set inv1 \<subseteq> set inv0 \<union> (set us - set (cs_joinedIds s))
    \<and> (set inv0 \<subseteq> set (cs_memberIds s) \<longrightarrow> set inv1 \<subseteq> set (cs_memberIds s'))
    \<and> (\<forall>u\<in>set inv1. u \<in> set inv0 \<or> busy_at t r u \<in> {None, Some c})"
  using assms
proof (induction us arbitrary: s inv0)
  case (Cons u us)
  let ?s = "s\<lparr>cs_memberIds := (if u \<in> set (cs_memberIds s) then cs_memberIds s else cs_memberIds s @ [u]),
    cs_declinedIds := filter (\<lambda>x. x \<noteq> u) (cs_declinedIds s), cs_leftIds := filter (\<lambda>x. x \<noteq> u) (cs_leftIds s)\<rparr>"
  show ?case
  proof (cases "u \<in> set (cs_joinedIds s) \<or> (case busy_at t r u of None \<Rightarrow> False | Some b \<Rightarrow> b \<noteq> c)
      \<or> u \<notin> set (cs_memberIds s) \<and> length (cs_memberIds s) \<ge> MAX_GROUP_CALL")
    case True
    then have "invite_loop t c r us s inv0 = (s', inv1)" using Cons.prems(2) by (auto split: option.splits if_splits)
    from Cons.IH [OF Cons.prems(1) this] show ?thesis by auto
  next
    case False
    then have step: "invite_loop t c r us ?s (inv0 @ [u]) = (s', inv1)" using Cons.prems(2) by auto
    have ok: "session_ok ?s" using Cons.prems(1) by (auto simp: session_ok_def)
    have free: "busy_at t r u \<in> {None, Some c}" using False by (auto split: option.splits)
    have m: "set (cs_memberIds ?s) = insert u (set (cs_memberIds s))"
      and len: "length (cs_memberIds ?s) \<le> max MAX_GROUP_CALL (length (cs_memberIds s))" using False by auto
    note ih = Cons.IH [OF ok step]
    show ?thesis
    proof (intro conjI)
      show "set (cs_memberIds s') \<subseteq> set (cs_memberIds s) \<union> set (u # us)"
        using ih m by auto
      show "set (cs_memberIds s) \<subseteq> set (cs_memberIds s')"
        using ih m by blast
      show "length (cs_memberIds s') \<le> max MAX_GROUP_CALL (length (cs_memberIds s))"
        using ih len by linarith
      show "set inv1 \<subseteq> set inv0 \<union> (set (u # us) - set (cs_joinedIds s))"
        using ih False by (simp add: subset_iff) blast
      show "set inv0 \<subseteq> set (cs_memberIds s) \<longrightarrow> set inv1 \<subseteq> set (cs_memberIds s')"
        using ih m by (simp only: set_append list.set) blast
      show "\<forall>v\<in>set inv1. v \<in> set inv0 \<or> busy_at t r v \<in> {None, Some c}"
        using ih free by (simp only: set_append list.set) blast
    qed (use ih in simp_all)
  qed
qed auto

lemma inviteMore_inv:
  assumes inv: "call_store_inv I r"
  shows "call_store_inv I (snd (inviteMore t c a us al r))"
proof -
  obtain so r1 where g: "get_call t c r = (so, r1)" by (cases "get_call t c r")
  note p = get_call_props [OF inv g]
  show ?thesis
  proof (cases so)
    case (Some s)
    have s: "held r1 (sessionKey (cs_callId s)) = Some (Session (to_json s))" "session_ok s" using p(3) [OF Some] by auto
    have "call_store_inv I (persist t ttl s' r1)" if "invite_loop t c r1 xs s [] = (s', inv1)" for ttl s' inv1 xs
      using invite_loop_props [OF s(2) that] by (intro store_inv_update(1) [OF p(1) s(1)]) auto
    with p(1) Some g show ?thesis by (auto simp: inviteMore_def Let_def split: prod.split)
  qed (use g p in \<open>simp add: inviteMore_def\<close>)
qed

lemma set_flags_inv:
  assumes inv: "call_store_inv I r"
  shows "call_store_inv I (snd (setHold t c a b r))" "call_store_inv I (snd (setForceMute t c a b r))"
    "call_store_inv I (snd (setScreenShare t c a b r))"
proof -
  obtain so r1 where g: "get_call t c r = (so, r1)" by (cases "get_call t c r")
  note p = get_call_props [OF inv g]
  have s: "held r1 (sessionKey (cs_callId s)) = Some (Session (to_json s))" "session_ok s" if "so = Some s" for s
    using p(3) [OF that] by auto
  have up: "call_store_inv I (persist t ttl s' r1)"
    if "so = Some s" "session_ok s'" "cs_callId s' = cs_callId s" "cs_conversationId s' = cs_conversationId s"
      "cs_memberIds s' = cs_memberIds s" for s s' ttl
    using that by (intro store_inv_update(1) [OF p(1) s(1) [OF that(1)]]) auto
  show "call_store_inv I (snd (setHold t c a b r))"
    using p(1) by (auto simp: setHold_def g Let_def session_ok_def dest: s(2) intro!: up split: option.split)
  show "call_store_inv I (snd (setForceMute t c a b r))"
    using p(1) by (auto simp: setForceMute_def g Let_def session_ok_def dest: s(2) intro!: up split: option.split)
  show "call_store_inv I (snd (setScreenShare t c a b r))"
    using p(1) by (auto simp: setScreenShare_def g Let_def session_ok_def dest: s(2) intro!: up split: option.split)
qed

lemma held_clearUserBusy_session [simp]: "held (clearUserBusy t u c r) (sessionKey k) = held r (sessionKey k)"
  by (simp add: clearUserBusy_def split: option.split)

lemma unanswered_loop_props:
  assumes "session_ok s" and "call_store_inv I r" and "unanswered_loop t c us s b r = (s', b', r')"
  shows "session_ok s' \<and> call_store_inv I r' \<and> cs_callId s' = cs_callId s \<and> cs_conversationId s' = cs_conversationId s
    \<and> cs_memberIds s' = cs_memberIds s \<and> cs_joinedIds s' = cs_joinedIds s \<and> cs_declinedIds s' = cs_declinedIds s
    \<and> cs_hostId s' = cs_hostId s \<and> (\<forall>k. held r' (sessionKey k) = held r (sessionKey k))
    \<and> set (cs_leftIds s') = set (cs_leftIds s) \<union> {u\<in>set us. u \<notin> set (cs_joinedIds s) \<and> u \<notin> set (cs_declinedIds s)}"
  using assms
proof (induction us arbitrary: s b r)
  case (Cons u us)
  show ?case
  proof (cases "u \<in> set (cs_joinedIds s) \<or> u \<in> set (cs_declinedIds s)")
    case True
    then have "unanswered_loop t c us s b r = (s', b', r')" using Cons.prems(3) by auto
    from Cons.IH [OF Cons.prems(1,2) this] True show ?thesis by auto
  next
    case F: False
    note inv2 = store_inv_clearUserBusy [OF Cons.prems(2)]
    show ?thesis
    proof (cases "u \<in> set (cs_leftIds s)")
      case True
      then have "unanswered_loop t c us s b (clearUserBusy t u (Some c) r) = (s', b', r')" using Cons.prems(3) F by auto
      from Cons.IH [OF Cons.prems(1) inv2 this] True show ?thesis by auto
    next
      case False
      then have step: "unanswered_loop t c us (s\<lparr>cs_leftIds := cs_leftIds s @ [u]\<rparr>) True (clearUserBusy t u (Some c) r) = (s', b', r')"
        using Cons.prems(3) F by auto
      have "session_ok (s\<lparr>cs_leftIds := cs_leftIds s @ [u]\<rparr>)" using Cons.prems(1) F by (auto simp: session_ok_def)
      from Cons.IH [OF this inv2 step] F show ?thesis by auto
    qed
  qed
qed auto

lemma markUnanswered_inv:
  assumes inv: "call_store_inv I r"
  shows "call_store_inv I (snd (markUnansweredAsLeft t c us r))"
proof -
  obtain so r1 where g: "get_call t c r = (so, r1)" by (cases "get_call t c r")
  note p = get_call_props [OF inv g]
  show ?thesis
  proof (cases so)
    case (Some s)
    have s: "held r1 (sessionKey (cs_callId s)) = Some (Session (to_json s))" "session_ok s" using p(3) [OF Some] by auto
    obtain s' b' r' where l: "unanswered_loop t c us s False r1 = (s', b', r')" by (metis prod_cases3)
    note q = unanswered_loop_props [OF s(2) p(1) l]
    have h: "held r' (sessionKey (cs_callId s)) = Some (Session (to_json s))" using q s(1) by simp
    have "call_store_inv I (persist t ttl s' r')" for ttl
      using q by (intro store_inv_update(1) [OF _ h]) auto
    with p(1) Some g l q show ?thesis by (simp add: markUnansweredAsLeft_def)
  qed (use g p in \<open>simp add: markUnansweredAsLeft_def\<close>)
qed

lemma release_host_inv: "call_store_inv I r \<Longrightarrow> call_store_inv I (snd (release_host t h r))"
  by (auto simp: release_host_def intro!: store_inv_clearUserBusy dest: get_call_props(1) split: option.splits prod.splits)

lemma replace_lobby_inv: "call_store_inv I r \<Longrightarrow> call_store_inv I (snd (replace_lobby t keys i r))"
  by (auto simp: replace_lobby_def intro!: store_inv_end dest: getByConversation_props(1) split: option.splits prod.splits)

lemma set_call_members [simp]: "set (call_members i) = insert (ci_hostId i) (set (ci_memberIds i))"
  by (auto simp: call_members_def Let_def)

lemma distinct_call_members [simp]: "distinct (call_members i)"
  by (auto simp: call_members_def Let_def)

lemma new_session_ok: "session_ok (new_session t n i)"
  by (simp add: session_ok_def new_session_def)

lemma store_inv_new:
  assumes inv: "call_store_inv I r" and fresh: "newId \<notin> I"
  shows "call_store_inv (insert newId I) (redis_setex t ttl (convoKey (ci_conversationId i)) (CallRef newId)
     (persist t ttl' (new_session t newId i) r))"
proof -
  let ?s = "new_session t newId i"
  have inv2: "call_store_inv (insert newId I) r" using inv by (rule call_store_inv_mono) auto
  have "refs_for r ?s" using call_store_invD(4) [OF inv] fresh by (auto simp: refs_for_def new_session_def)
  then have p: "call_store_inv (insert newId I) (persist t ttl' ?s r)"
    by (intro store_inv_persist [OF inv2 new_session_ok]) (simp_all add: new_session_def)
  show ?thesis
    using store_inv_index [OF p, of ?s t ttl] by (simp add: held_persist_session) (simp add: new_session_def)
qed

lemma createCall_inv:
  assumes inv: "call_store_inv I r" and fresh: "newId \<notin> I"
  shows "call_store_inv (insert newId I) (snd (createCall t keys newId i r))"
proof -
  obtain b1 r1 where h: "release_host t (ci_hostId i) r = (b1, r1)" by (cases "release_host t (ci_hostId i) r")
  have i1: "call_store_inv I r1" using release_host_inv [OF inv, of t "ci_hostId i"] h by simp
  obtain b2 r2 where l: "replace_lobby t keys i r1 = (b2, r2)" by (cases "replace_lobby t keys i r1")
  have i2: "call_store_inv I r2" using replace_lobby_inv [OF i1, of t keys i] l by simp
  have m: "call_store_inv (insert newId I) r1" "call_store_inv (insert newId I) r2"
    using i1 i2 by (auto intro: call_store_inv_mono)
  have new: "call_store_inv (insert newId I) (redis_setex t RINGING_TTL_SECONDS
      (convoKey (cs_conversationId (new_session t newId i))) (CallRef newId)
      (persist t RINGING_TTL_SECONDS (new_session t newId i) r2))"
    using store_inv_new [OF i2 fresh, of t RINGING_TTL_SECONDS i] by (simp add: new_session_def)
  show ?thesis
    using m new h l by (cases b1; cases b2) (simp_all add: createCall_def Let_def)
qed

lemma createCall_refused_inv:
  assumes inv: "call_store_inv I r" and run: "createCall t keys c i r = (Inl e, r')"
  shows "call_store_inv I r'"
proof -
  obtain b1 r1 where h: "release_host t (ci_hostId i) r = (b1, r1)" by (cases "release_host t (ci_hostId i) r")
  obtain b2 r2 where l: "replace_lobby t keys i r1 = (b2, r2)" by (cases "replace_lobby t keys i r1")
  have i1: "call_store_inv I r1" using release_host_inv [OF inv, of t "ci_hostId i"] h by simp
  have "call_store_inv I r2" using replace_lobby_inv [OF i1, of t keys i] l by simp
  with i1 run h l show ?thesis by (cases b1; cases b2) (auto simp: createCall_def Let_def split: if_splits)
qed

section \<open>Runs\<close>

text \<open>
  The operations as requests. \<open>cw_gen\<close> is the sequence of identifiers that
  \<open>randomUUID()\<close> produces; every request comes with its instant and the keys its
  \<open>SCAN\<close> sees, in any order and number.
\<close>

record call_world =
  cw_redis :: call_redis
  cw_gen :: "nat \<Rightarrow> uuid"
  cw_next :: nat

datatype call_request =
    CreateCall call_input
  | GetCall uuid
  | GetByConversation uuid
  | Accept uuid uuid
  | Decline uuid uuid
  | LeaveCall uuid uuid
  | RevokeUser uuid uuid
  | EndCall uuid
  | InviteMore uuid uuid "uuid list" "uuid list"
  | SetHold uuid uuid bool
  | SetForceMute uuid uuid bool
  | SetScreenShare uuid uuid bool
  | MarkUnanswered uuid "uuid list"
  | ClearUserBusy uuid "uuid option"

fun call_effect :: "instant \<Rightarrow> string list \<Rightarrow> uuid \<Rightarrow> call_request \<Rightarrow> call_redis \<Rightarrow> call_redis" where
  "call_effect t keys newId (CreateCall i) r = snd (createCall t keys newId i r)"
| "call_effect t keys newId (GetCall c) r = snd (get_call t c r)"
| "call_effect t keys newId (GetByConversation cid) r = snd (getByConversation t keys cid r)"
| "call_effect t keys newId (Accept c u) r = snd (accept t c u r)"
| "call_effect t keys newId (Decline c u) r = snd (decline t c u r)"
| "call_effect t keys newId (LeaveCall c u) r = snd (leave_call t c u r)"
| "call_effect t keys newId (RevokeUser cid u) r = snd (revokeUserFromConversation t keys cid u r)"
| "call_effect t keys newId (EndCall c) r = snd (end_call t c r)"
| "call_effect t keys newId (InviteMore c a us al) r = snd (inviteMore t c a us al r)"
| "call_effect t keys newId (SetHold c a b) r = snd (setHold t c a b r)"
| "call_effect t keys newId (SetForceMute c a b) r = snd (setForceMute t c a b r)"
| "call_effect t keys newId (SetScreenShare c a b) r = snd (setScreenShare t c a b r)"
| "call_effect t keys newId (MarkUnanswered c us) r = snd (markUnansweredAsLeft t c us r)"
| "call_effect t keys newId (ClearUserBusy u c) r = clearUserBusy t u c r"

definition call_step :: "instant \<times> string list \<times> call_request \<Rightarrow> call_world \<Rightarrow> unit \<times> call_world" where
  "call_step q w = (case q of (t, keys, req) \<Rightarrow>
     ((), w\<lparr>cw_redis := call_effect t keys (cw_gen w (cw_next w)) req (cw_redis w), cw_next := Suc (cw_next w)\<rparr>))"

definition call_world_inv :: "call_world \<Rightarrow> bool" where
  "call_world_inv w \<longleftrightarrow> inj (cw_gen w) \<and> call_store_inv (cw_gen w ` {..<cw_next w}) (cw_redis w)"

definition empty_calls :: "(nat \<Rightarrow> uuid) \<Rightarrow> call_world" where
  "empty_calls gen = \<lparr>cw_redis = Map.empty, cw_gen = gen, cw_next = 0\<rparr>"

lemma call_effect_keeps:
  assumes inv: "call_store_inv I r" and "\<forall>i. req \<noteq> CreateCall i"
  shows "call_store_inv I (call_effect t keys newId req r)"
proof (cases req)
  case (GetCall c)
  then show ?thesis using get_call_props(1) [OF inv] by (metis surjective_pairing call_effect.simps(2))
next
  case (GetByConversation cid)
  then show ?thesis using getByConversation_props(1) [OF inv] by (metis surjective_pairing call_effect.simps(3))
qed (use assms in \<open>auto intro!: accept_inv decline_inv leave_call_inv revoke_inv
    store_inv_end inviteMore_inv set_flags_inv markUnanswered_inv store_inv_clearUserBusy\<close>)

lemma call_effect_inv:
  assumes "call_store_inv I r" and "newId \<notin> I"
  shows "call_store_inv (insert newId I) (call_effect t keys newId req r)"
proof (cases "\<exists>i. req = CreateCall i")
  case True
  then show ?thesis using createCall_inv [OF assms] by auto
next
  case False
  then show ?thesis using call_effect_keeps [OF assms(1), of req] by (auto intro: call_store_inv_mono [of I])
qed

lemma call_step_inv: "call_world_inv w \<Longrightarrow> call_world_inv (snd (call_step q w))"
proof -
  assume inv: "call_world_inv w"
  obtain t keys req where q: "q = (t, keys, req)" by (cases q)
  have "cw_gen w (cw_next w) \<notin> cw_gen w ` {..<cw_next w}"
    using inv by (auto simp: call_world_inv_def dest: injD)
  moreover have "insert (cw_gen w (cw_next w)) (cw_gen w ` {..<cw_next w}) = cw_gen w ` {..<Suc (cw_next w)}"
    by (simp add: lessThan_Suc)
  ultimately show ?thesis
    using inv call_effect_inv [of "cw_gen w ` {..<cw_next w}" "cw_redis w" "cw_gen w (cw_next w)" t keys req]
    by (simp add: call_world_inv_def call_step_def q)
qed

lemma empty_calls_inv: "inj gen \<Longrightarrow> call_world_inv (empty_calls gen)"
  by (simp add: call_world_inv_def empty_calls_def call_store_inv_def session_keys_ok_def held_def)

interpretation calls: service call_step call_world_inv
  by unfold_locales (rule call_step_inv)

end
