(* ===== verification/CallProperties.thy ===== *)
theory CallProperties
  imports CallInvariant
begin

text \<open>
  What the call service promises: who can be found in a live call, what each
  operation does to the session and to the busy and conversation indexes, and a
  run on which the busy index fails to keep a user in one call.
\<close>

section \<open>Reads after writes\<close>

interpretation ttl_kv: kv_store "\<lambda>r k. redis_get t k r" "redis_setex t (int (Suc n))" redis_del for t n
  by unfold_locales (simp_all add: redis_get_setex redis_get_del)

lemma redis_get_persist:
  assumes "0 < ttl"
  shows "redis_get t k (persist t ttl s r) =
    (if k \<in> userKey ` set (cs_memberIds s)
     then (if \<exists>u. k = userKey u \<and> u \<in> busy_ids s then Some (CallRef (cs_callId s)) else None)
     else if k = convoKey (cs_conversationId s) then Some (CallRef (cs_callId s))
     else if k = sessionKey (cs_callId s) then Some (Session (to_json s)) else redis_get t k r)"
proof -
  obtain n where n: "ttl = int (Suc n)" using assms by (metis zero_less_imp_eq_int gr0_conv_Suc)
  show ?thesis
    unfolding persist_def n by (subst ttl_kv.lookup_store_or_remove [OF inj_userKey]) (auto simp: redis_get_setex)
qed

lemma ttl_pos [simp]: "0 < ACTIVE_TTL_SECONDS" "0 < RINGING_TTL_SECONDS" "0 < status_ttl s"
  by (simp_all add: ACTIVE_TTL_SECONDS_def RINGING_TTL_SECONDS_def status_ttl_def)

lemma reads_persist:
  assumes "0 < ttl"
  shows "session_at t (persist t ttl s r) c = (if c = cs_callId s then Some s else session_at t r c)"
    "busy_at t (persist t ttl s r) u = (if u \<in> set (cs_memberIds s)
       then (if u \<in> busy_ids s then Some (cs_callId s) else None) else busy_at t r u)"
    "convo_at t (persist t ttl s r) cid = (if cid = cs_conversationId s then Some (cs_callId s) else convo_at t r cid)"
  by (auto simp: typed_reads redis_get_persist [OF assms])

lemma reads_index_active:
  "session_at t (index_active t s r) c = session_at t r c" "busy_at t (index_active t s r) u = busy_at t r u"
  "convo_at t (index_active t s r) cid = (if cid = cs_conversationId s then Some (cs_callId s) else convo_at t r cid)"
  by (auto simp: typed_reads index_active_def redis_get_setex)

lemma reads_del_user:
  "session_at t (redis_del (userKey u) r) c = session_at t r c"
  "busy_at t (redis_del (userKey u) r) v = (if v = u then None else busy_at t r v)"
  "convo_at t (redis_del (userKey u) r) cid = convo_at t r cid"
  by (auto simp: typed_reads redis_get_del)

lemma redis_get_end:
  assumes inv: "call_store_inv I r" and s: "session_at t r c = Some s"
  shows "redis_get t' k (snd (end_call t c r)) =
    (if k \<in> userKey ` set (cs_memberIds s) \<or> k = convoKey (cs_conversationId s) \<or> k = sessionKey c then None
     else redis_get t' k r)"
proof -
  obtain r1 where g: "get_call t c r = (Some s, r1)" using s by (simp add: get_call_def)
  have "r1 = r \<or> (\<exists>ttl. r1 = redis_setex t ttl (convoKey (cs_conversationId s)) (CallRef c) r)"
    using g s by (auto simp: get_call_def split: if_splits)
  then have other: "redis_get t' k r1 = redis_get t' k r" if "k \<noteq> convoKey (cs_conversationId s)"
    using that by (auto simp: redis_get_def redis_setex_def)
  show ?thesis
    using other by (auto simp: end_call_def g ttl_kv.lookup_remove_all redis_get_del)
qed

lemma end_call_gone:
  assumes "call_store_inv I r" and "session_at t r c = Some s"
  shows "session_at t' (snd (end_call t c r)) c = None"
    "convo_at t' (snd (end_call t c r)) (cs_conversationId s) = None"
    "u \<in> set (cs_memberIds s) \<Longrightarrow> busy_at t' (snd (end_call t c r)) u = None"
  by (simp_all add: typed_reads redis_get_end [OF assms])

lemma session_at_get:
  assumes "call_store_inv I r" and "get_call t c r = (so, r1)"
  shows "session_at t r1 k = session_at t r k" "busy_at t r1 u = busy_at t r u"
  using get_call_props(5,6) [OF assms] by (simp_all add: typed_reads)

section \<open>Operations\<close>

lemma accept_effect:
  assumes inv: "call_store_inv I r" and run: "accept t c u r = (Inr s', r')" and s: "session_at t r c = Some s"
    and new: "\<not> isJoined s u"
  shows "session_at t r' c = Some s'" "cs_joinedIds s' = cs_joinedIds s @ [u]" "cs_status s' = Active"
    "convo_at t r' (cs_conversationId s) = Some c" "busy_at t r u \<in> {None, Some c}" "isMember s u"
    "\<forall>v\<in>set (cs_joinedIds s'). busy_at t r' v = Some c"
proof -
  obtain r1 where g: "get_call t c r = (Some s, r1)" using s by (simp add: get_call_def)
  have ok: "session_ok s" and id: "cs_callId s = c" using session_at_held [OF inv s] by auto
  have mem: "isMember s u" and busy: "\<not> (case busy_at t r1 u of None \<Rightarrow> False | Some b \<Rightarrow> b \<noteq> c)"
    and s': "s' = s\<lparr>cs_joinedIds := add_unique (cs_joinedIds s) u,
      cs_declinedIds := filter (\<lambda>x. x \<noteq> u) (cs_declinedIds s), cs_leftIds := filter (\<lambda>x. x \<noteq> u) (cs_leftIds s),
      cs_status := Active, cs_connectedAt := (if cs_connectedAt s = None \<and> length (add_unique (cs_joinedIds s) u) \<ge> 2
        then Some t else cs_connectedAt s)\<rparr>"
    and r': "r' = index_active t s' (persist t ACTIVE_TTL_SECONDS s' r1)"
    using run new by (auto simp: accept_def g Let_def split: if_splits)
  show "isMember s u" by (rule mem)
  show j: "cs_joinedIds s' = cs_joinedIds s @ [u]"
    using s' ok new by (simp add: session_ok_def isJoined_def add_unique_fresh)
  show "cs_status s' = Active" using s' by simp
  have id': "cs_callId s' = c" "cs_conversationId s' = cs_conversationId s" "cs_memberIds s' = cs_memberIds s"
    using s' id by simp_all
  show "session_at t r' c = Some s'" "convo_at t r' (cs_conversationId s) = Some c"
    by (simp_all add: r' reads_index_active reads_persist id')
  show "busy_at t r u \<in> {None, Some c}"
    using busy session_at_get(2) [OF inv g, of u] by (auto split: option.splits)
  have "set (cs_joinedIds s') \<subseteq> set (cs_memberIds s')" using j id'(3) ok mem by (auto simp: session_ok_def isMember_def)
  then show "\<forall>v\<in>set (cs_joinedIds s'). busy_at t r' v = Some c"
    by (auto simp: r' reads_index_active reads_persist id' busy_ids_def)
qed

lemma leave_effect:
  assumes inv: "call_store_inv I r" and run: "leave_call t c u r = (Inr res, r')" and s: "session_at t r c = Some s"
  shows "lr_ended res \<longleftrightarrow> cs_kind s = PrivateCall \<or> set (cs_joinedIds s) \<subseteq> {u}"
    "lr_ended res \<Longrightarrow> session_at t r' c = None"
    "\<not> lr_ended res \<Longrightarrow> session_at t r' c = Some (lr_session res)
       \<and> cs_joinedIds (lr_session res) = filter (\<lambda>x. x \<noteq> u) (cs_joinedIds s)
       \<and> lr_remainingIds res = filter (\<lambda>x. x \<noteq> u) (cs_joinedIds s)"
proof -
  obtain r1 where g: "get_call t c r = (Some s, r1)" using s by (simp add: get_call_def)
  note p = get_call_props [OF inv g]
  have ok: "session_ok s" and id: "cs_callId s = c" using session_at_held [OF inv s] by auto
  have ne: "filter (\<lambda>x. x \<noteq> u) (cs_joinedIds s) = [] \<longleftrightarrow> set (cs_joinedIds s) \<subseteq> {u}"
    by (auto simp: filter_empty_conv)
  have gone: "session_at t (snd (end_call t c (redis_del (userKey u) r1))) c = None"
    using s by (intro end_call_gone(1) [OF store_inv_del [OF p(1)], of _ _ _ s])
      (simp add: reads_del_user session_at_get [OF inv g])
  show "lr_ended res \<longleftrightarrow> cs_kind s = PrivateCall \<or> set (cs_joinedIds s) \<subseteq> {u}"
    using run ne by (auto simp: leave_call_def g Let_def split: if_splits)
  show "lr_ended res \<Longrightarrow> session_at t r' c = None"
    using run gone by (auto simp: leave_call_def g Let_def split: if_splits)
  show "\<not> lr_ended res \<Longrightarrow> session_at t r' c = Some (lr_session res)
       \<and> cs_joinedIds (lr_session res) = filter (\<lambda>x. x \<noteq> u) (cs_joinedIds s)
       \<and> lr_remainingIds res = filter (\<lambda>x. x \<noteq> u) (cs_joinedIds s)"
    using run id by (auto simp: leave_call_def g Let_def reads_index_active reads_persist split: if_splits)
qed

lemma getByConversation_session:
  assumes inv: "call_store_inv I r" and get: "getByConversation t keys cid r = (Some s, r1)"
  shows "session_at t r1 (cs_callId s) = Some s"
proof -
  have find: "session_at t r1 (cs_callId s) = Some s"
    if "call_store_inv I r0" "findSessionByConversation t keys cid r0 = (Some s, r1)" for r0 keys
  proof -
    have "\<exists>x ttl. r1 = redis_setex t ttl (convoKey cid) x r0"
      using that(2) by (induction keys) (auto split: option.splits call_value.splits if_splits)
    then have "session_at t r1 k = session_at t r0 k" for k
      by (auto simp: session_at_def redis_get_def redis_setex_def)
    then show ?thesis using findSession_props(2) [OF that] by simp
  qed
  show ?thesis
  proof (cases "convo_at t r cid")
    case None
    then show ?thesis using get find [OF inv] by (simp add: getByConversation_def)
  next
    case (Some c)
    obtain s1 r2 where g: "get_call t c r = (s1, r2)" by (cases "get_call t c r")
    note p = get_call_props [OF inv g]
    show ?thesis
    proof (cases "\<exists>s. s1 = Some s \<and> cs_conversationId s = cid \<and> cs_status s \<noteq> Ended")
      case True
      then have "s1 = Some s" "r1 = r2" using get Some g by (auto simp: getByConversation_def)
      then show ?thesis using p(2,3) session_at_get(1) [OF inv g] by auto
    next
      case False
      then have "findSessionByConversation t keys cid (redis_del (convoKey cid) r2) = (Some s, r1)"
        using get Some g by (auto simp: getByConversation_def split: option.splits if_splits)
      then show ?thesis by (rule find [OF store_inv_del [OF p(1)]])
    qed
  qed
qed

lemma revoke_effect:
  assumes inv: "call_store_inv I r" and run: "revokeUserFromConversation t keys cid u r = (Some res, r')"
  shows "cs_conversationId (lr_session res) = cid"
    "u \<notin> set (cs_memberIds (lr_session res)) \<and> u \<notin> set (cs_joinedIds (lr_session res))"
    "busy_at t r' u = None"
    "if lr_ended res then session_at t r' (cs_callId (lr_session res)) = None
     else session_at t r' (cs_callId (lr_session res)) = Some (lr_session res)
       \<and> cs_hostId (lr_session res) \<in> set (cs_memberIds (lr_session res))
       \<and> cs_heldBy (lr_session res) \<noteq> Some u \<and> cs_screenSharerId (lr_session res) \<noteq> Some u"
proof -
  obtain so r1 where g: "getByConversation t keys cid r = (so, r1)" by (cases "getByConversation t keys cid r")
  note p = getByConversation_props [OF inv g]
  obtain s where so: "so = Some s" using run g by (cases so) (auto simp: revokeUserFromConversation_def)
  have s1: "session_at t r1 (cs_callId s) = Some s"
    using getByConversation_session [OF inv] g so by simp
  have cid: "cs_conversationId s = cid" and ok: "session_ok s" using p(2) [OF so] by auto
  let ?r = "redis_del (userKey u) r1" and ?s = "pass_host (drop_user s u) u"
  let ?over = "length (cs_joinedIds (drop_user s u)) = 0 \<or> length (cs_memberIds (drop_user s u)) = 0 \<or> cs_kind s = PrivateCall"
  have inv2: "call_store_inv I ?r" by (rule store_inv_del [OF p(1)])
  have s2: "session_at t ?r (cs_callId s) = Some s" using s1 by (simp add: reads_del_user)
  have cases: "if ?over then res = \<lparr>lr_session = (drop_user s u)\<lparr>cs_status := Ended\<rparr>, lr_ended = True, lr_remainingIds = []\<rparr>
        \<and> r' = snd (end_call t (cs_callId s) ?r)
      else res = \<lparr>lr_session = ?s, lr_ended = False, lr_remainingIds = cs_joinedIds ?s\<rparr>
        \<and> r' = index_active t ?s (persist t ACTIVE_TTL_SECONDS ?s ?r)"
    using run by (auto simp: revokeUserFromConversation_def g so Let_def split: if_splits)
  show "cs_conversationId (lr_session res) = cid"
    using cases cid by (auto split: if_splits)
  show "u \<notin> set (cs_memberIds (lr_session res)) \<and> u \<notin> set (cs_joinedIds (lr_session res))"
    using cases by (auto split: if_splits)
  have "busy_at t (snd (end_call t (cs_callId s) ?r)) u = None"
    by (simp add: busy_at_def redis_get_end [OF inv2 s2] redis_get_del)
  then show "busy_at t r' u = None"
    using cases by (auto simp: reads_index_active reads_persist reads_del_user split: if_splits)
  have "session_at t (snd (end_call t (cs_callId s) ?r)) (cs_callId s) = None"
    by (rule end_call_gone(1) [OF inv2 s2])
  moreover have "session_ok ?s" if "\<not> ?over" using session_ok_drop [OF ok, of u] that by simp
  moreover have "cs_heldBy ?s \<noteq> Some u \<and> cs_screenSharerId ?s \<noteq> Some u"
    by (simp add: pass_host_def drop_user_def)
  ultimately show "if lr_ended res then session_at t r' (cs_callId (lr_session res)) = None
     else session_at t r' (cs_callId (lr_session res)) = Some (lr_session res)
       \<and> cs_hostId (lr_session res) \<in> set (cs_memberIds (lr_session res))
       \<and> cs_heldBy (lr_session res) \<noteq> Some u \<and> cs_screenSharerId (lr_session res) \<noteq> Some u"
    using cases by (auto simp: reads_index_active reads_persist session_ok_def split: if_splits)
qed

lemma findSession_complete:
  assumes "sessionKey (cs_callId s) \<in> set keys" and "session_at t r (cs_callId s) = Some s"
    and "cs_conversationId s = cid" and "session_ok s" and "call_store_inv I r"
  shows "fst (findSessionByConversation t keys cid r) \<noteq> None"
  using assms(1)
proof (induction keys)
  case (Cons k keys)
  show ?case
  proof (cases "k = sessionKey (cs_callId s)")
    case True
    obtain raw where raw: "redis_get t k r = Some (Session raw)" "s = normalize raw"
      using assms(2) True by (auto simp: session_at_def split: option.splits call_value.splits)
    then show ?thesis using assms(3,4) by (auto simp: session_ok_def normalize_def)
  next
    case False
    then show ?thesis using Cons by (auto split: option.splits call_value.splits)
  qed
qed simp

lemma getByConversation_complete:
  assumes inv: "call_store_inv I r" and s: "session_at t r (cs_callId s) = Some s" and cid: "cs_conversationId s = cid"
    and key: "sessionKey (cs_callId s) \<in> set keys"
  shows "fst (getByConversation t keys cid r) \<noteq> None"
proof (cases "convo_at t r cid")
  case None
  then show ?thesis
    using findSession_complete [OF key s cid session_at_held(3) [OF inv s] inv] by (simp add: getByConversation_def)
next
  case (Some c)
  obtain s1 r2 where g: "get_call t c r = (s1, r2)" by (cases "get_call t c r")
  note p = get_call_props [OF inv g]
  let ?r = "redis_del (convoKey cid) r2"
  have inv2: "call_store_inv I ?r" by (rule store_inv_del [OF p(1)])
  have s2: "session_at t ?r (cs_callId s) = Some s"
    using s session_at_get(1) [OF inv g] by (simp add: session_at_def redis_get_del)
  have "fst (findSessionByConversation t keys cid ?r) \<noteq> None"
    by (rule findSession_complete [OF key s2 cid session_at_held(3) [OF inv s] inv2])
  then show ?thesis using Some g by (auto simp: getByConversation_def split: option.split)
qed

section \<open>A sample run\<close>

text \<open>A group call of three members that one of them has joined.\<close>

definition group_call :: "uuid \<Rightarrow> uuid \<Rightarrow> uuid list \<Rightarrow> call_input" where
  "group_call cid host ms = \<lparr>ci_conversationId = cid, ci_kind = GroupCall, ci_hostId = host,
     ci_memberIds = ms, ci_media = None\<rparr>"

definition demo_run :: "(instant \<times> string list \<times> call_request) list" where
  "demo_run =
    [(0, [], CreateCall (group_call ''c1'' ''ann'' [''ann'', ''bob'', ''cyd''])),
     (1, [], Accept (demo_ids 0) ''bob'')]"

definition demo_calls :: call_world where
  "demo_calls = run_requests call_step demo_run (empty_calls demo_ids)"

lemma demo_calls_inv: "call_world_inv demo_calls"
  unfolding demo_calls_def by (rule calls.run_inv [OF empty_calls_inv [OF inj_demo_ids]])

definition demo_session :: call_session where
  "demo_session = \<lparr>cs_callId = demo_ids 0, cs_conversationId = ''c1'', cs_kind = GroupCall, cs_media = Audio,
     cs_hostId = ''ann'', cs_memberIds = [''ann'', ''bob'', ''cyd''], cs_joinedIds = [''ann'', ''bob''],
     cs_declinedIds = [], cs_leftIds = [], cs_onHold = False, cs_heldBy = None, cs_forceMuted = False,
     cs_screenSharerId = None, cs_status = Active, cs_createdAt = 0, cs_connectedAt = Some 1\<rparr>"

lemma demo_session_at: "session_at 2 (cw_redis demo_calls) (demo_ids 0) = Some demo_session"
  by code_simp

section \<open>Properties\<close>

text \<open>
  C4. Whatever sequence of call operations has run, a live session is well formed: distinct
  members, joined users among them, a host among them, nobody both joined and declined or left,
  and connected exactly when active; and only its members are marked busy with it.
\<close>

theorem call_sessions_wf:
  assumes "inj gen" and "session_at t (cw_redis (run_requests call_step qs (empty_calls gen))) c = Some s"
  shows "session_ok s \<and> cs_callId s = c
    \<and> (\<forall>u. busy_at t (cw_redis (run_requests call_step qs (empty_calls gen))) u = Some c \<longrightarrow> isMember s u)"
proof -
  let ?w = "run_requests call_step qs (empty_calls gen)"
  have inv: "call_store_inv (cw_gen ?w ` {..<cw_next ?w}) (cw_redis ?w)"
    using calls.run_inv [OF empty_calls_inv [OF assms(1)], of qs] by (simp add: call_world_inv_def)
  note p = session_at_held [OF inv assms(2)]
  have "isMember s u" if "busy_at t (cw_redis ?w) u = Some c" for u
  proof -
    have "redis_get t (userKey u) (cw_redis ?w) = Some (CallRef c)"
      using that by (auto simp: busy_at_def call_ref_def split: option.splits call_value.splits)
    from redis_get_held [OF this] show ?thesis using p(2,4) by (auto simp: refs_for_def isMember_def)
  qed
  with p show ?thesis by blast
qed

theorem call_sessions_wf_witness:
  "session_ok demo_session \<and> cs_callId demo_session = demo_ids 0 \<and> isMember demo_session ''bob''"
proof -
  have "busy_at 2 (cw_redis (run_requests call_step demo_run (empty_calls demo_ids))) ''bob'' = Some (demo_ids 0)"
    by code_simp
  with call_sessions_wf [OF inj_demo_ids demo_session_at [unfolded demo_calls_def]] show ?thesis by blast
qed

text \<open>
  C16. Accepting: a member who was not in the call and not busy elsewhere is appended to the
  joined users, the call becomes active, the conversation points to it and everybody joined is
  marked busy with it.
\<close>

theorem accept_joins:
  assumes "call_world_inv w" and "session_at t (cw_redis w) c = Some s" and "\<not> isJoined s u"
    and "accept t c u (cw_redis w) = (Inr s', r')"
  shows "isMember s u \<and> busy_at t (cw_redis w) u \<in> {None, Some c}
    \<and> session_at t r' c = Some s' \<and> cs_joinedIds s' = cs_joinedIds s @ [u] \<and> cs_status s' = Active
    \<and> convo_at t r' (cs_conversationId s) = Some c \<and> (\<forall>v\<in>set (cs_joinedIds s'). busy_at t r' v = Some c)"
proof -
  have inv: "call_store_inv (cw_gen w ` {..<cw_next w}) (cw_redis w)" using assms(1) by (simp add: call_world_inv_def)
  show ?thesis using accept_effect [OF inv assms(4,2,3)] by blast
qed

theorem accept_joins_witness:
  "\<exists>s' r'. accept 2 (demo_ids 0) ''cyd'' (cw_redis demo_calls) = (Inr s', r')
    \<and> cs_joinedIds s' = [''ann'', ''bob'', ''cyd''] \<and> busy_at 2 r' ''cyd'' = Some (demo_ids 0)"
proof -
  have "isl (fst (accept 2 (demo_ids 0) ''cyd'' (cw_redis demo_calls))) = False" by code_simp
  then obtain s' r' where run: "accept 2 (demo_ids 0) ''cyd'' (cw_redis demo_calls) = (Inr s', r')"
    by (cases "accept 2 (demo_ids 0) ''cyd'' (cw_redis demo_calls)") (auto simp: isl_def, metis sum.exhaust)
  have "\<not> isJoined demo_session ''cyd''" by code_simp
  from accept_joins [OF demo_calls_inv demo_session_at this run] run show ?thesis
    by (auto simp: demo_session_def)
qed

text \<open>
  C22. Leaving ends a private call, and a group call when nobody else is joined; otherwise the
  call goes on with exactly the other joined users.
\<close>

theorem leave_ends_or_goes_on:
  assumes "call_world_inv w" and "session_at t (cw_redis w) c = Some s"
    and "leave_call t c u (cw_redis w) = (Inr res, r')"
  shows "(lr_ended res \<longleftrightarrow> cs_kind s = PrivateCall \<or> set (cs_joinedIds s) \<subseteq> {u})
    \<and> session_at t r' c = (if lr_ended res then None else Some (lr_session res))
    \<and> lr_remainingIds res = (if lr_ended res then [] else filter (\<lambda>x. x \<noteq> u) (cs_joinedIds s))"
proof -
  have inv: "call_store_inv (cw_gen w ` {..<cw_next w}) (cw_redis w)" using assms(1) by (simp add: call_world_inv_def)
  have "lr_ended res \<Longrightarrow> lr_remainingIds res = []"
    using assms(3) by (auto simp: leave_call_def Let_def split: prod.splits option.splits if_splits)
  then show ?thesis using leave_effect [OF inv assms(3,2)] by auto
qed

theorem leave_ends_or_goes_on_witness:
  "\<exists>res r'. leave_call 2 (demo_ids 0) ''ann'' (cw_redis demo_calls) = (Inr res, r')
    \<and> \<not> lr_ended res \<and> lr_remainingIds res = [''bob'']"
proof -
  have "isl (fst (leave_call 2 (demo_ids 0) ''ann'' (cw_redis demo_calls))) = False" by code_simp
  then obtain res r' where run: "leave_call 2 (demo_ids 0) ''ann'' (cw_redis demo_calls) = (Inr res, r')"
    by (cases "leave_call 2 (demo_ids 0) ''ann'' (cw_redis demo_calls)") (auto simp: isl_def, metis sum.exhaust)
  from leave_ends_or_goes_on [OF demo_calls_inv demo_session_at run] run show ?thesis
    by (auto simp: demo_session_def)
qed

text \<open>
  C18. Revoking a user who was removed from the group takes them out of the live call: neither
  member nor joined, not busy, not holding or sharing; a call that goes on has a member as its host.
\<close>

theorem revoke_evicts:
  assumes "call_world_inv w" and "revokeUserFromConversation t keys cid u (cw_redis w) = (Some res, r')"
  shows "cs_conversationId (lr_session res) = cid
    \<and> \<not> isMember (lr_session res) u \<and> \<not> isJoined (lr_session res) u \<and> busy_at t r' u = None
    \<and> (if lr_ended res then session_at t r' (cs_callId (lr_session res)) = None
       else session_at t r' (cs_callId (lr_session res)) = Some (lr_session res)
         \<and> isMember (lr_session res) (cs_hostId (lr_session res))
         \<and> cs_heldBy (lr_session res) \<noteq> Some u \<and> cs_screenSharerId (lr_session res) \<noteq> Some u)"
proof -
  have inv: "call_store_inv (cw_gen w ` {..<cw_next w}) (cw_redis w)" using assms(1) by (simp add: call_world_inv_def)
  show ?thesis using revoke_effect [OF inv assms(2)] by (simp add: isMember_def isJoined_def)
qed

theorem revoke_evicts_witness:
  "\<exists>res r'. revokeUserFromConversation 2 [] ''c1'' ''ann'' (cw_redis demo_calls) = (Some res, r')
    \<and> \<not> lr_ended res \<and> cs_hostId (lr_session res) = ''bob'' \<and> \<not> isJoined (lr_session res) ''ann''"
proof -
  have c: "map_option (\<lambda>x. (lr_ended x, cs_hostId (lr_session x)))
      (fst (revokeUserFromConversation 2 [] ''c1'' ''ann'' (cw_redis demo_calls))) = Some (False, ''bob'')" by code_simp
  then obtain res r' where run: "revokeUserFromConversation 2 [] ''c1'' ''ann'' (cw_redis demo_calls) = (Some res, r')"
    by (cases "revokeUserFromConversation 2 [] ''c1'' ''ann'' (cw_redis demo_calls)") auto
  from revoke_evicts [OF demo_calls_inv run] run c show ?thesis by auto
qed

text \<open>
  C30. Ending a call leaves nothing of it: no session, no conversation index, no busy mark of a member.
\<close>

theorem end_call_clears:
  assumes "call_world_inv w" and "session_at t (cw_redis w) c = Some s"
  shows "session_at t' (snd (end_call t c (cw_redis w))) c = None
    \<and> convo_at t' (snd (end_call t c (cw_redis w))) (cs_conversationId s) = None
    \<and> list_all (\<lambda>u. busy_at t' (snd (end_call t c (cw_redis w))) u = None) (cs_memberIds s)"
proof -
  have inv: "call_store_inv (cw_gen w ` {..<cw_next w}) (cw_redis w)" using assms(1) by (simp add: call_world_inv_def)
  show ?thesis using end_call_gone [OF inv assms(2)] by (simp add: list_all_iff)
qed

theorem end_call_clears_witness:
  "session_at 9 (snd (end_call 2 (demo_ids 0) (cw_redis demo_calls))) (demo_ids 0) = None
    \<and> convo_at 9 (snd (end_call 2 (demo_ids 0) (cw_redis demo_calls))) ''c1'' = None
    \<and> busy_at 9 (snd (end_call 2 (demo_ids 0) (cw_redis demo_calls))) ''bob'' = None"
  using end_call_clears [OF demo_calls_inv demo_session_at, of 9] by (simp add: demo_session_def)

text \<open>
  C31. A live call is found through its conversation even when the conversation index is lost or
  stale, provided the scan sees its key.
\<close>

theorem lost_index_recovered:
  assumes "call_world_inv w" and "session_at t (cw_redis w) c = Some s"
    and "sessionKey c \<in> set keys"
  shows "fst (getByConversation t keys (cs_conversationId s) (cw_redis w)) \<noteq> None"
proof -
  have inv: "call_store_inv (cw_gen w ` {..<cw_next w}) (cw_redis w)" using assms(1) by (simp add: call_world_inv_def)
  have "cs_callId s = c" by (rule session_at_held(2) [OF inv assms(2)])
  then show ?thesis using getByConversation_complete [OF inv _ refl, of t s keys] assms(2,3) by simp
qed

theorem lost_index_recovered_witness:
  "fst (getByConversation 2 [sessionKey (demo_ids 0)] ''c1'' (cw_redis demo_calls)) \<noteq> None"
  using lost_index_recovered [OF demo_calls_inv demo_session_at, of "[sessionKey (demo_ids 0)]"]
  by (simp add: demo_session_def)

text \<open>
  C32. A mid-call invitation rings only allowed users who are neither joined nor busy in another
  call, never the inviter, and never grows a call beyond eight members.
\<close>

theorem invite_more_bounds:
  assumes "call_world_inv w" and "session_at t (cw_redis w) c = Some s"
    and "inviteMore t c a us allowed (cw_redis w) = (Inr (s', invited), r')"
  shows "set invited \<subseteq> (set us \<inter> set allowed) - {a} - set (cs_joinedIds s)
    \<and> set invited \<subseteq> set (cs_memberIds s') \<and> length (cs_memberIds s') \<le> max 8 (length (cs_memberIds s))
    \<and> list_all (\<lambda>u. busy_at t (cw_redis w) u \<in> {None, Some c}) invited
    \<and> cs_joinedIds s' = cs_joinedIds s \<and> session_at t r' c = Some s'"
proof -
  have inv: "call_store_inv (cw_gen w ` {..<cw_next w}) (cw_redis w)" using assms(1) by (simp add: call_world_inv_def)
  obtain r1 where g: "get_call t c (cw_redis w) = (Some s, r1)" using assms(2) by (simp add: get_call_def)
  have ok: "session_ok s" and id: "cs_callId s = c" using session_at_held [OF inv assms(2)] by auto
  let ?req = "filter (\<lambda>u. u \<in> set allowed \<and> u \<noteq> a) (js_uniq us)"
  have l: "invite_loop t c r1 ?req s [] = (s', invited)" and r': "r' = persist t (status_ttl s') s' r1"
    using assms(3) by (auto simp: inviteMore_def g Let_def split: if_splits prod.splits)
  note p = invite_loop_props [OF ok l]
  have "set invited \<subseteq> set ?req - set (cs_joinedIds s)" using p by simp
  moreover have "session_at t r' c = Some s'" using p id by (simp add: r' reads_persist)
  ultimately show ?thesis
    using p by (auto simp: session_at_get [OF inv g] list_all_iff MAX_GROUP_CALL_def)
qed

theorem invite_more_bounds_witness:
  "\<exists>s' invited r'. inviteMore 2 (demo_ids 0) ''bob'' [''dan'', ''ann'', ''eve''] [''dan'', ''ann''] (cw_redis demo_calls)
      = (Inr (s', invited), r') \<and> set invited \<subseteq> {''dan''} \<and> length (cs_memberIds s') \<le> 8"
proof -
  have "isl (fst (inviteMore 2 (demo_ids 0) ''bob'' [''dan'', ''ann'', ''eve''] [''dan'', ''ann''] (cw_redis demo_calls)))
      = False" by code_simp
  then obtain s' invited r' where run: "inviteMore 2 (demo_ids 0) ''bob'' [''dan'', ''ann'', ''eve''] [''dan'', ''ann'']
      (cw_redis demo_calls) = (Inr (s', invited), r')"
    by (cases "inviteMore 2 (demo_ids 0) ''bob'' [''dan'', ''ann'', ''eve''] [''dan'', ''ann''] (cw_redis demo_calls)")
      (auto simp: isl_def, metis sum.exhaust surj_pair)
  from invite_more_bounds [OF demo_calls_inv demo_session_at run] run show ?thesis
    by (auto simp: demo_session_def)
qed

section \<open>Gaps of the busy index\<close>

text \<open>
  Ending a call clears the busy mark of all its members, also of one who is joined in another
  call; that user can then start a third call and is joined in two live calls at once.
\<close>

definition overlap_run :: "(instant \<times> string list \<times> call_request) list" where
  "overlap_run = demo_run @
    [(2, [], CreateCall (group_call ''c2'' ''cyd'' [''cyd'', ''bob''])),
     (3, [], LeaveCall (demo_ids 2) ''cyd''),
     (4, [], CreateCall (group_call ''c3'' ''bob'' [''bob'', ''dan'']))]"

lemma joined_in_two_calls:
  "map_option (\<lambda>s. isJoined s ''bob'')
     (session_at 5 (cw_redis (run_requests call_step overlap_run (empty_calls demo_ids))) (demo_ids 0)) = Some True
   \<and> map_option (\<lambda>s. isJoined s ''bob'')
     (session_at 5 (cw_redis (run_requests call_step overlap_run (empty_calls demo_ids))) (demo_ids 4)) = Some True"
  by code_simp

text \<open>A host who has left a group call that goes on stays marked busy and cannot start another.\<close>

lemma departed_host_stays_busy:
  "fst (createCall 3 [] (demo_ids 9) (group_call ''c2'' ''ann'' [''ann'', ''dan''])
     (snd (leave_call 2 (demo_ids 0) ''ann'' (cw_redis demo_calls)))) = Inl ''You are already in a call''"
  by code_simp

text \<open>A holder who leaves keeps the hold: nobody but the host can resume the call.\<close>

lemma hold_outlives_holder:
  "fst (setHold 4 (demo_ids 0) ''cyd'' False
     (snd (leave_call 3 (demo_ids 0) ''bob''
       (snd (setHold 2 (demo_ids 0) ''bob'' True
         (snd (accept 2 (demo_ids 0) ''cyd'' (cw_redis demo_calls)))))))) 
   = Inl ''Only the person who put the call on hold can resume''"
  by code_simp

end
