(* ===== verification/AuthService.thy ===== *)
theory AuthService
  imports RelayCommon
begin

text \<open>
  The authentication service: \<open>apps/auth-service/src/auth/auth.service.ts\<close> (accounts,
  refresh-token rotation, revocation) and \<open>auth-token.service.ts\<close> (single-use email
  verification and password reset tokens, invites).

  What the service gets from packages is a parameter of the model, the record
  \<open>crypto\<close>: bcrypt, SHA-256, the JWT signer and verifier, the mail transport and
  the configuration values. \<open>randomBytes\<close> and generated identifiers come from the
  sequences \<open>rnd\<close> and \<open>ids\<close> of the database record, drawn in order.
\<close>

section \<open>Data\<close>

record auth_user =
  au_id :: uuid
  au_email :: string
  au_password :: string
  au_role :: user_role
  au_isActive :: bool
  au_isEmailVerified :: bool
  au_createdAt :: instant
  au_updatedAt :: instant
  au_deletedAt :: "instant option"

record refresh_token =
  rt_id :: uuid
  rt_userId :: uuid
  rt_tokenHash :: string
  rt_expiresAt :: instant
  rt_revoked :: bool
  rt_userAgent :: "string option"
  rt_ip :: "string option"

datatype auth_token_type = EMAIL_VERIFY | PASSWORD_RESET | INVITE

record auth_token =
  tk_id :: uuid
  tk_type :: auth_token_type
  tk_tokenHash :: string
  tk_email :: "string option"
  tk_userId :: "uuid option"
  tk_createdByUserId :: "uuid option"
  tk_maxUses :: int
  tk_usedCount :: int
  tk_expiresAt :: instant
  tk_revokedAt :: "instant option"
  tk_createdAt :: instant

record auth_db =
  users :: "auth_user list"
  refreshTokens :: "refresh_token list"
  tokens :: "auth_token list"
  ids :: "nat \<Rightarrow> uuid"
  ids_next :: nat
  rnd :: "nat \<Rightarrow> string"
  rnd_next :: nat

record crypto =
  hashPassword :: "nat \<Rightarrow> string \<Rightarrow> string"
  verifyPassword :: "string \<Rightarrow> string \<Rightarrow> bool"
  sha256 :: "string \<Rightarrow> string"
  signAccess :: "auth_user \<Rightarrow> instant \<Rightarrow> string"
  signRefresh :: "auth_user \<Rightarrow> uuid \<Rightarrow> instant \<Rightarrow> string"
  jwtVerify :: "instant \<Rightarrow> string \<Rightarrow> string option"
  refreshExpiresIn :: string
  accessExpiresIn :: string
  emailVerifyHours :: int
  passwordResetHours :: int
  publicAppUrl :: string
  mailPreview :: "string \<Rightarrow> string option"
  mailDelivered :: "string \<Rightarrow> bool"

type_synonym 'a auth_handler = "auth_db \<Rightarrow> 'a rpc \<times> auth_db"

definition live_users :: "auth_db \<Rightarrow> auth_user list" where
  "live_users db = filter (\<lambda>u. au_deletedAt u = None) (users db)"

definition find_user :: "auth_db \<Rightarrow> uuid \<Rightarrow> auth_user option" where
  "find_user db uid = find (\<lambda>u. au_id u = uid) (live_users db)"

definition find_email :: "auth_db \<Rightarrow> string \<Rightarrow> auth_user option" where
  "find_email db email = find (\<lambda>u. au_email u = email) (live_users db)"

text \<open>\<open>users.save\<close> of a loaded user: \<open>updatedAt\<close> moves when a column changed.\<close>

definition save_user :: "clock \<Rightarrow> auth_user \<Rightarrow> auth_db \<Rightarrow> auth_db" where
  "save_user clk u db = db\<lparr>users :=
     map (\<lambda>x. if au_id x = au_id u then (if x = u then x else u\<lparr>au_updatedAt := db_now clk\<rparr>) else x) (users db)\<rparr>"

definition insert_user :: "clock \<Rightarrow> string \<Rightarrow> string \<Rightarrow> user_role \<Rightarrow> bool \<Rightarrow> auth_db \<Rightarrow> auth_user \<times> auth_db" where
  "insert_user clk email password role verified db =
     (let u = \<lparr>au_id = ids db (ids_next db), au_email = email, au_password = password, au_role = role,
               au_isActive = True, au_isEmailVerified = verified, au_createdAt = db_now clk,
               au_updatedAt = db_now clk, au_deletedAt = None\<rparr> in
      (u, db\<lparr>users := users db @ [u], ids_next := Suc (ids_next db)\<rparr>))"

definition save_token :: "auth_token \<Rightarrow> auth_db \<Rightarrow> auth_db" where
  "save_token tk db = db\<lparr>tokens := save_row tk_id tk (tokens db)\<rparr>"

definition hash_pw :: "crypto \<Rightarrow> string \<Rightarrow> auth_db \<Rightarrow> string \<times> auth_db" where
  "hash_pw cr plain db = (hashPassword cr (rnd_next db) plain, db\<lparr>rnd_next := Suc (rnd_next db)\<rparr>)"

record auth_view =
  uv_id :: uuid
  uv_email :: string
  uv_role :: user_role
  uv_isActive :: bool
  uv_isEmailVerified :: bool
  uv_createdAt :: instant
  uv_updatedAt :: instant

definition toView :: "auth_user \<Rightarrow> auth_view" where
  "toView u = \<lparr>uv_id = au_id u, uv_email = au_email u, uv_role = au_role u, uv_isActive = au_isActive u,
     uv_isEmailVerified = au_isEmailVerified u, uv_createdAt = au_createdAt u, uv_updatedAt = au_updatedAt u\<rparr>"

record token_pair =
  tp_accessToken :: string
  tp_refreshToken :: string
  tp_expiresIn :: string

type_synonym auth_result = "auth_view \<times> token_pair"

section \<open>Single-use tokens and invites (auth-token.service.ts)\<close>

definition ttlMs :: "int \<Rightarrow> int" where
  "ttlMs hours = max 1 hours * 60 * 60 * 1000"

definition revoke_previous :: "clock \<Rightarrow> auth_token_type \<Rightarrow> uuid option \<Rightarrow> auth_db \<Rightarrow> auth_db" where
  "revoke_previous clk ty userId db = db\<lparr>tokens :=
     map (\<lambda>k. if tk_type k = ty \<and> tk_userId k \<noteq> None \<and> tk_userId k = userId \<and> tk_revokedAt k = None
              then k\<lparr>tk_revokedAt := Some (db_now clk)\<rparr> else k) (tokens db)\<rparr>"

definition issueToken :: "crypto \<Rightarrow> clock \<Rightarrow> auth_token_type \<Rightarrow> string option \<Rightarrow> uuid option \<Rightarrow>
    uuid option \<Rightarrow> int \<Rightarrow> int \<Rightarrow> auth_db \<Rightarrow> string \<times> auth_db" where
  "issueToken cr clk ty email userId createdBy maxUses ttl db =
     (let db1 = (if ty = EMAIL_VERIFY \<or> ty = PASSWORD_RESET then revoke_previous clk ty userId db else db);
          raw = rnd db1 (rnd_next db1);
          entity = \<lparr>tk_id = ids db1 (ids_next db1), tk_type = ty, tk_tokenHash = sha256 cr raw, tk_email = email,
                    tk_userId = userId, tk_createdByUserId = createdBy, tk_maxUses = maxUses, tk_usedCount = 0,
                    tk_expiresAt = now clk + ttl, tk_revokedAt = None, tk_createdAt = db_now clk\<rparr> in
      (raw, db1\<lparr>tokens := tokens db1 @ [entity], rnd_next := Suc (rnd_next db1), ids_next := Suc (ids_next db1)\<rparr>))"

definition token_valid :: "clock \<Rightarrow> auth_token \<Rightarrow> bool" where
  "token_valid clk k \<longleftrightarrow> tk_revokedAt k = None \<and> \<not> tk_expiresAt k < now clk \<and> \<not> tk_usedCount k \<ge> tk_maxUses k"

definition findValidToken :: "crypto \<Rightarrow> clock \<Rightarrow> string \<Rightarrow> auth_token_type \<Rightarrow> auth_db \<Rightarrow> auth_token option" where
  "findValidToken cr clk raw ty db =
     (if length raw < 16 then None
      else case find (\<lambda>k. tk_tokenHash k = sha256 cr raw \<and> tk_type k = ty) (tokens db) of
        None \<Rightarrow> None
      | Some k \<Rightarrow> (if token_valid clk k then Some k else None))"

definition use_token :: "clock \<Rightarrow> auth_token \<Rightarrow> auth_token" where
  "use_token clk k = (let n = tk_usedCount k + 1 in
     k\<lparr>tk_usedCount := n, tk_revokedAt := (if n \<ge> tk_maxUses k then Some (now clk) else tk_revokedAt k)\<rparr>)"

definition consumeToken :: "crypto \<Rightarrow> clock \<Rightarrow> string \<Rightarrow> auth_token_type \<Rightarrow> auth_token auth_handler" where
  "consumeToken cr clk raw ty db =
     (case findValidToken cr clk raw ty db of
        None \<Rightarrow> (Inl (badRequest ''Token is invalid or expired''), db)
      | Some k \<Rightarrow> (Inr (use_token clk k), save_token (use_token clk k) db))"

record verification_result =
  vr_sent :: bool
  vr_debugUrl :: "string option"

definition debug_url :: "crypto \<Rightarrow> string \<Rightarrow> string \<Rightarrow> string option" where
  "debug_url cr to url = (case mailPreview cr to of Some p \<Rightarrow> Some p
     | None \<Rightarrow> (if mailDelivered cr to then None else Some url))"

definition requestEmailVerification :: "crypto \<Rightarrow> clock \<Rightarrow> uuid \<Rightarrow> verification_result auth_handler" where
  "requestEmailVerification cr clk userId db =
     (case find_user db userId of
        None \<Rightarrow> (Inl (notFound ''User''), db)
      | Some u \<Rightarrow>
         (if au_isEmailVerified u then (Inr \<lparr>vr_sent = False, vr_debugUrl = None\<rparr>, db)
          else let (raw, db') = issueToken cr clk EMAIL_VERIFY (Some (au_email u)) (Some (au_id u)) None 1
                     (ttlMs (emailVerifyHours cr)) db;
                   verifyUrl = publicAppUrl cr @ ''/verify-email?token='' @ raw in
            (Inr \<lparr>vr_sent = True, vr_debugUrl = debug_url cr (au_email u) verifyUrl\<rparr>, db')))"

definition verifyEmail :: "crypto \<Rightarrow> clock \<Rightarrow> string \<Rightarrow> bool auth_handler" where
  "verifyEmail cr clk token db =
     (case consumeToken cr clk token EMAIL_VERIFY db of
        (Inl e, db1) \<Rightarrow> (Inl e, db1)
      | (Inr k, db1) \<Rightarrow>
         (case tk_userId k of
            None \<Rightarrow> (Inl (badRequest ''Verification token is invalid''), db1)
          | Some uid \<Rightarrow>
             (case find_user db1 uid of
                None \<Rightarrow> (Inl (notFound ''User''), db1)
              | Some u \<Rightarrow> (Inr True, save_user clk (u\<lparr>au_isEmailVerified := True\<rparr>) db1))))"

definition normalize_email :: "string \<Rightarrow> string" where
  "normalize_email e = trim (to_lower e)"

definition forgotPassword :: "crypto \<Rightarrow> clock \<Rightarrow> string \<Rightarrow> string option auth_handler" where
  "forgotPassword cr clk emailRaw db =
     (case find_email db (normalize_email emailRaw) of
        None \<Rightarrow> (Inr None, db)
      | Some u \<Rightarrow>
         (if \<not> au_isActive u then (Inr None, db)
          else let (raw, db') = issueToken cr clk PASSWORD_RESET (Some (au_email u)) (Some (au_id u)) None 1
                     (ttlMs (passwordResetHours cr)) db in
            (Inr (debug_url cr (au_email u) (publicAppUrl cr @ ''/reset-password?token='' @ raw)), db')))"

definition reset_with_token :: "crypto \<Rightarrow> clock \<Rightarrow> string \<Rightarrow> string \<Rightarrow> uuid auth_handler" where
  "reset_with_token cr clk token passwordHash db =
     (case consumeToken cr clk token PASSWORD_RESET db of
        (Inl e, db1) \<Rightarrow> (Inl e, db1)
      | (Inr k, db1) \<Rightarrow>
         (case tk_userId k of
            None \<Rightarrow> (Inl (badRequest ''Reset token is invalid''), db1)
          | Some uid \<Rightarrow>
             (case find_user db1 uid of
                None \<Rightarrow> (Inl (notFound ''User''), db1)
              | Some u \<Rightarrow> (Inr (au_id u), save_user clk (u\<lparr>au_password := passwordHash\<rparr>) db1))))"

record invite_view =
  iv_id :: uuid
  iv_email :: "string option"
  iv_inviteUrl :: string
  iv_maxUses :: int
  iv_usedCount :: int
  iv_expiresAt :: instant
  iv_revokedAt :: "instant option"
  iv_createdAt :: instant
  iv_createdByUserId :: "uuid option"
  iv_token :: "string option"

definition toInviteView :: "crypto \<Rightarrow> auth_token \<Rightarrow> string option \<Rightarrow> invite_view" where
  "toInviteView cr k rawToken = \<lparr>iv_id = tk_id k, iv_email = tk_email k,
     iv_inviteUrl = (if opt_truthy rawToken then publicAppUrl cr @ ''/invite/'' @ nullish rawToken ''''
        else publicAppUrl cr @ ''/invite''),
     iv_maxUses = tk_maxUses k, iv_usedCount = tk_usedCount k, iv_expiresAt = tk_expiresAt k,
     iv_revokedAt = tk_revokedAt k, iv_createdAt = tk_createdAt k, iv_createdByUserId = tk_createdByUserId k,
     iv_token = (if opt_truthy rawToken then rawToken else None)\<rparr>"

definition invite_email :: "string option \<Rightarrow> string option" where
  "invite_email e = (case e of None \<Rightarrow> None
     | Some s \<Rightarrow> (if truthy (normalize_email s) then Some (normalize_email s) else None))"

definition createInvite :: "crypto \<Rightarrow> clock \<Rightarrow> uuid \<Rightarrow> string option \<Rightarrow> int option \<Rightarrow> int option \<Rightarrow>
    invite_view auth_handler" where
  "createInvite cr clk createdBy emailRaw expiresInDays maxUsesRaw db =
     (let email = invite_email emailRaw in
      if (case email of None \<Rightarrow> False | Some e \<Rightarrow> find_email db e \<noteq> None)
      then (Inl (conflict ''An account with this email already exists''), db)
      else let days = min (max (nullish expiresInDays 7) 1) 90;
               maxUses = (if email \<noteq> None then 1 else min (max (nullish maxUsesRaw 25) 1) 500);
               (raw, db') = issueToken cr clk INVITE email None (Some createdBy) maxUses
                 (days * 24 * 60 * 60 * 1000) db in
        case find (\<lambda>k. tk_tokenHash k = sha256 cr raw) (tokens db') of
          None \<Rightarrow> (Inl (throwRpcError 500 ''EntityNotFoundError'' ''Internal Server Error''), db')
        | Some saved \<Rightarrow> (Inr (toInviteView cr saved (Some raw)), db'))"

definition listInvites :: "crypto \<Rightarrow> auth_db \<Rightarrow> invite_view list" where
  "listInvites cr db = map (\<lambda>k. toInviteView cr k None)
     (take 100 (order_desc tk_createdAt (filter (\<lambda>k. tk_type k = INVITE) (tokens db))))"

record public_invite =
  pi_email :: "string option"
  pi_expiresAt :: instant
  pi_valid :: bool

definition getInvite :: "crypto \<Rightarrow> clock \<Rightarrow> string \<Rightarrow> auth_db \<Rightarrow> public_invite" where
  "getInvite cr clk token db = (case findValidToken cr clk token INVITE db of
     None \<Rightarrow> \<lparr>pi_email = None, pi_expiresAt = 0, pi_valid = False\<rparr>
   | Some k \<Rightarrow> \<lparr>pi_email = tk_email k, pi_expiresAt = tk_expiresAt k, pi_valid = True\<rparr>)"

definition assertInviteForRegister :: "crypto \<Rightarrow> clock \<Rightarrow> string \<Rightarrow> string \<Rightarrow> auth_db \<Rightarrow> auth_token rpc" where
  "assertInviteForRegister cr clk token email db = (case findValidToken cr clk token INVITE db of
     None \<Rightarrow> Inl (badRequest ''Invite link is invalid or expired'')
   | Some k \<Rightarrow> (if opt_truthy (tk_email k) \<and> tk_email k \<noteq> Some email
       then Inl (badRequest ''This invite is for a different email address'') else Inr k))"

definition consumeInvite :: "clock \<Rightarrow> uuid \<Rightarrow> auth_db \<Rightarrow> auth_db" where
  "consumeInvite clk tokenId db = (case find (\<lambda>k. tk_id k = tokenId) (tokens db) of
     None \<Rightarrow> db | Some k \<Rightarrow> save_token (use_token clk k) db)"

definition revokeInvite :: "clock \<Rightarrow> uuid \<Rightarrow> bool auth_handler" where
  "revokeInvite clk inviteId db = (case find (\<lambda>k. tk_id k = inviteId \<and> tk_type k = INVITE) (tokens db) of
     None \<Rightarrow> (Inl (notFound ''Invite''), db)
   | Some k \<Rightarrow> (Inr True, save_token (k\<lparr>tk_revokedAt := Some (now clk)\<rparr>) db))"

section \<open>Accounts and refresh tokens (auth.service.ts)\<close>

text \<open>\<open>refreshTokens.update({ userId, revoked: false }, { revoked: true })\<close>\<close>

definition revoke_all :: "uuid \<Rightarrow> auth_db \<Rightarrow> auth_db" where
  "revoke_all userId db = db\<lparr>refreshTokens :=
     map (\<lambda>k. if rt_userId k = userId \<and> \<not> rt_revoked k then k\<lparr>rt_revoked := True\<rparr> else k) (refreshTokens db)\<rparr>"

definition issueTokens :: "crypto \<Rightarrow> clock \<Rightarrow> auth_user \<Rightarrow> string option \<Rightarrow> string option \<Rightarrow> auth_db \<Rightarrow>
    token_pair \<times> auth_db" where
  "issueTokens cr clk u ip userAgent db =
     (let accessToken = signAccess cr u (now clk);
          refreshToken = signRefresh cr u (ids db (ids_next db)) (now clk);
          entity = \<lparr>rt_id = ids db (Suc (ids_next db)), rt_userId = au_id u, rt_tokenHash = sha256 cr refreshToken,
                    rt_expiresAt = now clk + parseDurationMs (refreshExpiresIn cr) (7 * 86400000),
                    rt_revoked = False, rt_userAgent = userAgent, rt_ip = ip\<rparr> in
      (\<lparr>tp_accessToken = accessToken, tp_refreshToken = refreshToken, tp_expiresIn = accessExpiresIn cr\<rparr>,
       db\<lparr>refreshTokens := refreshTokens db @ [entity], ids_next := Suc (Suc (ids_next db))\<rparr>))"

text \<open>The verification mail of \<open>register\<close> is not awaited; its token write follows the answer's.\<close>

definition register :: "crypto \<Rightarrow> clock \<Rightarrow> string \<Rightarrow> string \<Rightarrow> string option \<Rightarrow> auth_result auth_handler" where
  "register cr clk emailRaw password inviteToken db =
     (let email = normalize_email emailRaw in
      if find_email db email \<noteq> None
      then (Inl (conflict ''An account with this email already exists''), db)
      else case (if opt_truthy inviteToken
                 then map_sum id Some (assertInviteForRegister cr clk (nullish inviteToken '''') email db)
                 else Inr None) of
        Inl e \<Rightarrow> (Inl e, db)
      | Inr invite \<Rightarrow>
         (let verified = (case invite of None \<Rightarrow> False | Some k \<Rightarrow> opt_truthy (tk_email k) \<and> tk_email k = Some email);
              (hashed, db1) = hash_pw cr password db;
              (saved, db2) = insert_user clk email hashed ROLE_USER verified db1;
              db3 = (case invite of None \<Rightarrow> db2 | Some k \<Rightarrow> consumeInvite clk (tk_id k) db2);
              (pair, db4) = issueTokens cr clk saved None None db3;
              db5 = (if au_isEmailVerified saved then db4
                     else snd (requestEmailVerification cr clk (au_id saved) db4)) in
          (Inr (toView saved, pair), db5)))"

definition login :: "crypto \<Rightarrow> clock \<Rightarrow> string \<Rightarrow> string \<Rightarrow> string option \<Rightarrow> string option \<Rightarrow>
    auth_result auth_handler" where
  "login cr clk emailRaw password ip userAgent db =
     (case find_email db (normalize_email emailRaw) of
        None \<Rightarrow> (Inl (unauthorized ''Invalid email or password''), db)
      | Some u \<Rightarrow>
         (if \<not> verifyPassword cr password (au_password u)
          then (Inl (unauthorized ''Invalid email or password''), db)
          else if \<not> au_isActive u then (Inl (forbidden ''This account has been deactivated''), db)
          else case issueTokens cr clk u ip userAgent db of
            (pair, db') \<Rightarrow> (Inr (toView u, pair), db')))"

definition refresh :: "crypto \<Rightarrow> clock \<Rightarrow> string \<Rightarrow> string option \<Rightarrow> string option \<Rightarrow> auth_result auth_handler" where
  "refresh cr clk refreshToken ip userAgent db =
     (if jwtVerify cr (now clk) refreshToken \<noteq> Some ''refresh''
      then (Inl (unauthorized ''Refresh token is invalid or expired''), db)
      else case find (\<lambda>k. rt_tokenHash k = sha256 cr refreshToken \<and> find_user db (rt_userId k) \<noteq> None)
                  (refreshTokens db) of
        None \<Rightarrow> (Inl (unauthorized ''Refresh token is invalid or expired''), db)
      | Some stored \<Rightarrow>
         (case find_user db (rt_userId stored) of
            None \<Rightarrow> (Inl (unauthorized ''Refresh token is invalid or expired''), db)
          | Some u \<Rightarrow>
             (if rt_revoked stored \<or> rt_expiresAt stored < now clk
              then (Inl (unauthorized ''Refresh token is invalid or expired''), db)
              else if \<not> au_isActive u then (Inl (forbidden ''This account has been deactivated''), db)
              else let db1 = db\<lparr>refreshTokens :=
                         save_row rt_id (stored\<lparr>rt_revoked := True\<rparr>) (refreshTokens db)\<rparr> in
                case issueTokens cr clk u ip userAgent db1 of
                  (pair, db2) \<Rightarrow> (Inr (toView u, pair), db2))))"

definition logout :: "crypto \<Rightarrow> uuid \<Rightarrow> string option \<Rightarrow> bool auth_handler" where
  "logout cr userId refreshToken db =
     (Inr True,
      if opt_truthy refreshToken
      then db\<lparr>refreshTokens := map (\<lambda>k. if rt_tokenHash k = sha256 cr (nullish refreshToken '''') \<and> rt_userId k = userId
               then k\<lparr>rt_revoked := True\<rparr> else k) (refreshTokens db)\<rparr>
      else revoke_all userId db)"

definition validate :: "uuid \<Rightarrow> auth_db \<Rightarrow> auth_view rpc" where
  "validate userId db = (case find_user db userId of
     None \<Rightarrow> Inl (unauthorized ''User session is no longer valid'')
   | Some u \<Rightarrow> (if \<not> au_isActive u then Inl (forbidden ''This account has been deactivated'') else Inr (toView u)))"

definition me :: "uuid \<Rightarrow> auth_db \<Rightarrow> auth_view rpc" where
  "me userId db = (case find_user db userId of None \<Rightarrow> Inl (notFound ''User'') | Some u \<Rightarrow> Inr (toView u))"

definition changePassword :: "crypto \<Rightarrow> clock \<Rightarrow> uuid \<Rightarrow> string \<Rightarrow> string \<Rightarrow> bool auth_handler" where
  "changePassword cr clk userId currentPassword newPassword db =
     (case find_user db userId of
        None \<Rightarrow> (Inl (notFound ''User''), db)
      | Some u \<Rightarrow>
         (if \<not> verifyPassword cr currentPassword (au_password u)
          then (Inl (unauthorized ''Current password is incorrect''), db)
          else let (hashed, db1) = hash_pw cr newPassword db in
            (Inr True, revoke_all (au_id u) (save_user clk (u\<lparr>au_password := hashed\<rparr>) db1))))"

definition resetPassword :: "crypto \<Rightarrow> clock \<Rightarrow> string \<Rightarrow> string \<Rightarrow> bool auth_handler" where
  "resetPassword cr clk token password db =
     (let (hashed, db1) = hash_pw cr password db in
      case reset_with_token cr clk token hashed db1 of
        (Inl e, db2) \<Rightarrow> (Inl e, db2)
      | (Inr uid, db2) \<Rightarrow> (Inr True, revoke_all uid db2))"

definition deactivate :: "clock \<Rightarrow> uuid \<Rightarrow> bool auth_handler" where
  "deactivate clk userId db =
     (case find_user db userId of
        None \<Rightarrow> (Inl (notFound ''User''), db)
      | Some u \<Rightarrow>
         (let db1 = save_user clk (u\<lparr>au_isActive := False\<rparr>) db;
              db2 = revoke_all (au_id u) db1 in
          (Inr True, db2\<lparr>users := map (\<lambda>x. if au_id x = au_id u then x\<lparr>au_deletedAt := Some (db_now clk)\<rparr> else x)
             (users db2)\<rparr>)))"

definition ensureAdmin :: "crypto \<Rightarrow> clock \<Rightarrow> string option \<Rightarrow> string option \<Rightarrow> auth_db \<Rightarrow> auth_db" where
  "ensureAdmin cr clk adminEmail adminPassword db =
     (case map_option normalize_email adminEmail of
        None \<Rightarrow> db
      | Some email \<Rightarrow>
         (if \<not> truthy email then db
          else case find_email db email of
            Some u \<Rightarrow> (if au_role u \<noteq> ROLE_ADMIN then save_user clk (u\<lparr>au_role := ROLE_ADMIN\<rparr>) db else db)
          | None \<Rightarrow>
             (if \<not> opt_truthy adminPassword then db
              else let (hashed, db1) = hash_pw cr (nullish adminPassword '''') db in
                snd (insert_user clk email hashed ROLE_ADMIN True db1))))"

section \<open>The message patterns (auth.controller.ts)\<close>

datatype auth_request =
    Register string string "string option"
  | Login string string "string option" "string option"
  | Refresh string "string option" "string option"
  | Logout uuid "string option"
  | Validate uuid
  | Me uuid
  | ChangePassword uuid string string
  | Deactivate uuid
  | ForgotPassword string
  | ResetPassword string string
  | RequestEmailVerification uuid
  | VerifyEmail string
  | CreateInvite uuid "string option" "int option" "int option"
  | ListInvites
  | GetInvite string
  | RevokeInvite uuid

datatype (plugins only: size code) auth_answer =
    SessionAnswer auth_result
  | AccountAnswer auth_view
  | FlagAnswer bool
  | SentAnswer verification_result
  | AcceptedAnswer "string option"
  | InviteAnswer invite_view
  | InvitesAnswer "invite_view list"
  | PublicInviteAnswer public_invite

definition answer_as :: "('a \<Rightarrow> auth_answer) \<Rightarrow> 'a rpc \<times> auth_db \<Rightarrow> auth_answer rpc \<times> auth_db" where
  "answer_as f r = (map_sum id f (fst r), snd r)"

fun auth_step :: "crypto \<Rightarrow> clock \<times> auth_request \<Rightarrow> auth_answer auth_handler" where
  "auth_step cr (clk, Register email password inviteToken) db =
     answer_as SessionAnswer (register cr clk email password inviteToken db)"
| "auth_step cr (clk, Login email password ip userAgent) db =
     answer_as SessionAnswer (login cr clk email password ip userAgent db)"
| "auth_step cr (clk, Refresh refreshToken ip userAgent) db =
     answer_as SessionAnswer (refresh cr clk refreshToken ip userAgent db)"
| "auth_step cr (clk, Logout userId refreshToken) db = answer_as FlagAnswer (logout cr userId refreshToken db)"
| "auth_step cr (clk, Validate userId) db = answer_as AccountAnswer (validate userId db, db)"
| "auth_step cr (clk, Me userId) db = answer_as AccountAnswer (me userId db, db)"
| "auth_step cr (clk, ChangePassword userId current new) db =
     answer_as FlagAnswer (changePassword cr clk userId current new db)"
| "auth_step cr (clk, Deactivate userId) db = answer_as FlagAnswer (deactivate clk userId db)"
| "auth_step cr (clk, ForgotPassword email) db = answer_as AcceptedAnswer (forgotPassword cr clk email db)"
| "auth_step cr (clk, ResetPassword token password) db = answer_as FlagAnswer (resetPassword cr clk token password db)"
| "auth_step cr (clk, RequestEmailVerification userId) db =
     answer_as SentAnswer (requestEmailVerification cr clk userId db)"
| "auth_step cr (clk, VerifyEmail token) db = answer_as FlagAnswer (verifyEmail cr clk token db)"
| "auth_step cr (clk, CreateInvite userId email expiresInDays maxUses) db =
     answer_as InviteAnswer (createInvite cr clk userId email expiresInDays maxUses db)"
| "auth_step cr (clk, ListInvites) db = (Inr (InvitesAnswer (listInvites cr db)), db)"
| "auth_step cr (clk, GetInvite token) db = (Inr (PublicInviteAnswer (getInvite cr clk token db)), db)"
| "auth_step cr (clk, RevokeInvite inviteId) db = answer_as FlagAnswer (revokeInvite clk inviteId db)"

text \<open>\<open>onModuleInit\<close> on the tables of a new deployment.\<close>

definition boot_auth :: "crypto \<Rightarrow> clock \<Rightarrow> string option \<Rightarrow> string option \<Rightarrow> (nat \<Rightarrow> uuid) \<Rightarrow> (nat \<Rightarrow> string) \<Rightarrow> auth_db" where
  "boot_auth cr clk adminEmail adminPassword uuids randoms = ensureAdmin cr clk adminEmail adminPassword
     \<lparr>users = [], refreshTokens = [], tokens = [], ids = uuids, ids_next = 0, rnd = randoms, rnd_next = 0\<rparr>"

end
