(* ===== verification/AuthInvariant.thy ===== *)
theory AuthInvariant
  imports AuthService
begin

text \<open>
  The invariant of the authentication database and the order in which it evolves: rows
  are never dropped, a revoked or spent token stays so, a removed account stays
  removed. Both are proved of the primitive writes first, then of every handler and
  of every sequence of requests.
\<close>

section \<open>Requests of a monotone service\<close>

text \<open>A service whose every step moves its state up in a preorder.\<close>

locale monotone_service = service step inv
  for step :: "'q \<Rightarrow> 's \<Rightarrow> 'a \<times> 's" and inv :: "'s \<Rightarrow> bool" +
  fixes before :: "'s \<Rightarrow> 's \<Rightarrow> bool"
  assumes before_refl: "before s s"
    and before_trans: "before s t \<Longrightarrow> before t u \<Longrightarrow> before s u"
    and step_before: "inv s \<Longrightarrow> before s (snd (step q s))"
begin

lemma run_before: "inv s \<Longrightarrow> before s (run_requests step qs s)"
proof (induction qs arbitrary: s)
  case Nil
  then show ?case by (simp add: before_refl)
next
  case (Cons q qs)
  show ?case using before_trans [OF step_before [OF Cons.prems] Cons.IH [OF step_inv [OF Cons.prems]]] by simp
qed

end

section \<open>The invariant\<close>

text \<open>
  What the service relies on of its packages: generated identifiers and random strings
  do not repeat, SHA-256 tells the random strings apart, and a refresh token carries its
  own identifier (\<open>jwtid\<close>), so that no two of them have the same hash.
\<close>

definition source_ok :: "crypto \<Rightarrow> auth_db \<Rightarrow> bool" where
  "source_ok cr db \<longleftrightarrow> inj (ids db) \<and> inj (rnd db) \<and> inj_on (sha256 cr) (range (rnd db))
     \<and> (\<forall>u j t u' j' t'. sha256 cr (signRefresh cr u j t) = sha256 cr (signRefresh cr u' j' t') \<longrightarrow> j = j')"

definition drawn :: "auth_db \<Rightarrow> uuid set" where
  "drawn db = ids db ` {..<ids_next db}"

definition drawn_hashes :: "crypto \<Rightarrow> auth_db \<Rightarrow> string set" where
  "drawn_hashes cr db = sha256 cr ` rnd db ` {..<rnd_next db}"

definition accounts_ok :: "auth_db \<Rightarrow> bool" where
  "accounts_ok db \<longleftrightarrow> distinct (map au_id (users db)) \<and> au_id ` set (users db) \<subseteq> drawn db
     \<and> distinct (map au_email (live_users db)) \<and> (\<forall>u\<in>set (users db). au_deletedAt u = None \<longrightarrow> au_isActive u)"

definition refresh_ok :: "crypto \<Rightarrow> auth_db \<Rightarrow> bool" where
  "refresh_ok cr db \<longleftrightarrow> distinct (map rt_id (refreshTokens db)) \<and> rt_id ` set (refreshTokens db) \<subseteq> drawn db
     \<and> distinct (map rt_tokenHash (refreshTokens db))
     \<and> (\<forall>k\<in>set (refreshTokens db). \<exists>u t. \<exists>j\<in>drawn db. rt_tokenHash k = sha256 cr (signRefresh cr u j t))"

definition token_ok :: "auth_token \<Rightarrow> bool" where
  "token_ok k \<longleftrightarrow> 0 \<le> tk_usedCount k \<and> tk_usedCount k \<le> tk_maxUses k \<and> 1 \<le> tk_maxUses k
     \<and> (tk_usedCount k = tk_maxUses k \<longrightarrow> tk_revokedAt k \<noteq> None)
     \<and> (tk_type k \<noteq> INVITE \<longrightarrow> tk_maxUses k = 1 \<and> tk_userId k \<noteq> None)"

text \<open>At most one open verification token and one open reset token per account.\<close>

definition one_open :: "auth_token list \<Rightarrow> bool" where
  "one_open ks \<longleftrightarrow> (\<forall>k\<in>set ks. \<forall>k'\<in>set ks. tk_type k \<noteq> INVITE \<and> tk_type k' = tk_type k \<and> tk_userId k' = tk_userId k
     \<and> tk_revokedAt k = None \<and> tk_revokedAt k' = None \<longrightarrow> k' = k)"

definition singles_ok :: "crypto \<Rightarrow> auth_db \<Rightarrow> bool" where
  "singles_ok cr db \<longleftrightarrow> distinct (map tk_id (tokens db)) \<and> tk_id ` set (tokens db) \<subseteq> drawn db
     \<and> distinct (map tk_tokenHash (tokens db)) \<and> tk_tokenHash ` set (tokens db) \<subseteq> drawn_hashes cr db
     \<and> (\<forall>k\<in>set (tokens db). token_ok k) \<and> one_open (tokens db)"

definition auth_inv :: "crypto \<Rightarrow> auth_db \<Rightarrow> bool" where
  "auth_inv cr db \<longleftrightarrow> source_ok cr db \<and> accounts_ok db \<and> refresh_ok cr db \<and> singles_ok cr db"

lemma auth_invI: "source_ok cr db \<Longrightarrow> accounts_ok db \<Longrightarrow> refresh_ok cr db \<Longrightarrow> singles_ok cr db \<Longrightarrow> auth_inv cr db"
  by (simp add: auth_inv_def)

lemma auth_invD:
  assumes "auth_inv cr db"
  shows "source_ok cr db" "accounts_ok db" "refresh_ok cr db" "singles_ok cr db"
  using assms by (simp_all add: auth_inv_def)

section \<open>The order of states\<close>

definition advance :: "auth_db \<Rightarrow> auth_db \<Rightarrow> bool" where
  "advance db db' \<longleftrightarrow>
     (\<forall>k\<in>set (tokens db). \<exists>k'\<in>set (tokens db'). tk_tokenHash k' = tk_tokenHash k \<and> tk_type k' = tk_type k
        \<and> tk_usedCount k \<le> tk_usedCount k' \<and> (tk_revokedAt k \<noteq> None \<longrightarrow> tk_revokedAt k' \<noteq> None))
     \<and> (\<forall>k\<in>set (refreshTokens db). \<exists>k'\<in>set (refreshTokens db'). rt_tokenHash k' = rt_tokenHash k
        \<and> rt_userId k' = rt_userId k \<and> (rt_revoked k \<longrightarrow> rt_revoked k'))
     \<and> (\<forall>u\<in>set (users db). \<exists>u'\<in>set (users db'). au_id u' = au_id u
        \<and> (au_deletedAt u \<noteq> None \<longrightarrow> au_deletedAt u' \<noteq> None))"

lemma advance_refl: "advance db db"
  by (auto simp: advance_def)

lemma advance_users:
  assumes "tokens db' = tokens db" and "refreshTokens db' = refreshTokens db"
    and "\<And>u. u \<in> set (users db) \<Longrightarrow> \<exists>u'\<in>set (users db'). au_id u' = au_id u
        \<and> (au_deletedAt u \<noteq> None \<longrightarrow> au_deletedAt u' \<noteq> None)"
  shows "advance db db'"
  using assms unfolding advance_def by auto

lemma advance_refresh:
  assumes "tokens db' = tokens db" and "users db' = users db"
    and "\<And>k. k \<in> set (refreshTokens db) \<Longrightarrow> \<exists>k'\<in>set (refreshTokens db'). rt_tokenHash k' = rt_tokenHash k
        \<and> rt_userId k' = rt_userId k \<and> (rt_revoked k \<longrightarrow> rt_revoked k')"
  shows "advance db db'"
  using assms unfolding advance_def by auto

lemma advance_tokens:
  assumes "refreshTokens db' = refreshTokens db" and "users db' = users db"
    and "\<And>k. k \<in> set (tokens db) \<Longrightarrow> \<exists>k'\<in>set (tokens db'). tk_tokenHash k' = tk_tokenHash k \<and> tk_type k' = tk_type k
        \<and> tk_usedCount k \<le> tk_usedCount k' \<and> (tk_revokedAt k \<noteq> None \<longrightarrow> tk_revokedAt k' \<noteq> None)"
  shows "advance db db'"
  using assms unfolding advance_def by auto

lemma advance_trans:
  assumes "advance a b" and "advance b c"
  shows "advance a c"
proof -
  have "\<exists>k'\<in>set (tokens c). tk_tokenHash k' = tk_tokenHash k \<and> tk_type k' = tk_type k
        \<and> tk_usedCount k \<le> tk_usedCount k' \<and> (tk_revokedAt k \<noteq> None \<longrightarrow> tk_revokedAt k' \<noteq> None)"
    if k: "k \<in> set (tokens a)" for k
  proof -
    obtain l where l: "l \<in> set (tokens b)" "tk_tokenHash l = tk_tokenHash k" "tk_type l = tk_type k"
      "tk_usedCount k \<le> tk_usedCount l" "tk_revokedAt k \<noteq> None \<longrightarrow> tk_revokedAt l \<noteq> None"
      using assms(1) k unfolding advance_def by blast
    obtain m where "m \<in> set (tokens c)" "tk_tokenHash m = tk_tokenHash l" "tk_type m = tk_type l"
      "tk_usedCount l \<le> tk_usedCount m" "tk_revokedAt l \<noteq> None \<longrightarrow> tk_revokedAt m \<noteq> None"
      using assms(2) l(1) unfolding advance_def by blast
    with l show ?thesis by (intro bexI [of _ m]) auto
  qed
  moreover have "\<exists>k'\<in>set (refreshTokens c). rt_tokenHash k' = rt_tokenHash k
        \<and> rt_userId k' = rt_userId k \<and> (rt_revoked k \<longrightarrow> rt_revoked k')" if "k \<in> set (refreshTokens a)" for k
    using assms that unfolding advance_def by metis
  moreover have "\<exists>u'\<in>set (users c). au_id u' = au_id u \<and> (au_deletedAt u \<noteq> None \<longrightarrow> au_deletedAt u' \<noteq> None)"
    if "u \<in> set (users a)" for u
    using assms that unfolding advance_def by metis
  ultimately show ?thesis unfolding advance_def by blast
qed

text \<open>A write that keeps the invariant and moves the state up.\<close>

definition sound :: "crypto \<Rightarrow> auth_db \<Rightarrow> auth_db \<Rightarrow> bool" where
  "sound cr db db' \<longleftrightarrow> (auth_inv cr db \<longrightarrow> auth_inv cr db' \<and> advance db db')"

lemma soundD:
  assumes "sound cr db db'" and "auth_inv cr db"
  shows "auth_inv cr db'" "advance db db'"
  using assms by (simp_all add: sound_def)

lemma sound_refl [simp]: "sound cr db db"
  by (simp add: sound_def advance_refl)

lemma sound_trans: "sound cr a b \<Longrightarrow> sound cr b c \<Longrightarrow> sound cr a c"
  unfolding sound_def using advance_trans by blast

lemma drawn_simps [simp]:
  "drawn (db\<lparr>users := us\<rparr>) = drawn db" "drawn (db\<lparr>refreshTokens := rs\<rparr>) = drawn db"
  "drawn (db\<lparr>tokens := ks\<rparr>) = drawn db" "drawn (db\<lparr>rnd_next := n\<rparr>) = drawn db"
  "drawn_hashes cr (db\<lparr>users := us\<rparr>) = drawn_hashes cr db" "drawn_hashes cr (db\<lparr>refreshTokens := rs\<rparr>) = drawn_hashes cr db"
  "drawn_hashes cr (db\<lparr>tokens := ks\<rparr>) = drawn_hashes cr db" "drawn_hashes cr (db\<lparr>ids_next := n\<rparr>) = drawn_hashes cr db"
  by (simp_all add: drawn_def drawn_hashes_def)

lemma drawn_grows: "n = ids_next db + j \<Longrightarrow> drawn db \<subseteq> drawn (db\<lparr>ids_next := n\<rparr>)"
  by (auto simp: drawn_def)

lemma fresh_id: "source_ok cr db \<Longrightarrow> ids db (ids_next db + j) \<notin> drawn db"
  by (auto simp: source_ok_def drawn_def dest: injD)

lemma fresh_hash: "source_ok cr db \<Longrightarrow> sha256 cr (rnd db (rnd_next db)) \<notin> drawn_hashes cr db"
  by (auto simp: source_ok_def drawn_hashes_def dest: injD inj_onD)

lemma refresh_hash_inj:
  "source_ok cr db \<Longrightarrow> sha256 cr (signRefresh cr u j t) = sha256 cr (signRefresh cr u' j' t') \<Longrightarrow> j = j'"
  unfolding source_ok_def by blast

lemma source_ok_simps [simp]:
  "source_ok cr (db\<lparr>users := us\<rparr>) = source_ok cr db" "source_ok cr (db\<lparr>refreshTokens := rs\<rparr>) = source_ok cr db"
  "source_ok cr (db\<lparr>tokens := ks\<rparr>) = source_ok cr db" "source_ok cr (db\<lparr>rnd_next := n\<rparr>) = source_ok cr db"
  "source_ok cr (db\<lparr>ids_next := n\<rparr>) = source_ok cr db"
  by (simp_all add: source_ok_def)

lemma accounts_ok_mono:
  assumes "accounts_ok db" "users db' = users db" "drawn db \<subseteq> drawn db'"
  shows "accounts_ok db'"
  using assms by (auto simp: accounts_ok_def live_users_def)

lemma refresh_ok_mono:
  assumes "refresh_ok cr db" "refreshTokens db' = refreshTokens db" "drawn db \<subseteq> drawn db'"
  shows "refresh_ok cr db'"
  unfolding refresh_ok_def assms(2)
proof (intro conjI ballI)
  show "distinct (map rt_id (refreshTokens db))" "distinct (map rt_tokenHash (refreshTokens db))"
    using assms(1) by (simp_all add: refresh_ok_def)
  show "rt_id ` set (refreshTokens db) \<subseteq> drawn db'" using assms(1,3) unfolding refresh_ok_def by blast
  fix k assume "k \<in> set (refreshTokens db)"
  then obtain u t j where "j \<in> drawn db" "rt_tokenHash k = sha256 cr (signRefresh cr u j t)"
    using assms(1) unfolding refresh_ok_def by blast
  then show "\<exists>u t. \<exists>j\<in>drawn db'. rt_tokenHash k = sha256 cr (signRefresh cr u j t)" using assms(3) by blast
qed

lemma refresh_ok_map:
  assumes ok: "refresh_ok cr db" and keep: "\<And>k. rt_id (f k) = rt_id k" "\<And>k. rt_tokenHash (f k) = rt_tokenHash k"
  shows "refresh_ok cr (db\<lparr>refreshTokens := map f (refreshTokens db)\<rparr>)"
proof -
  have maps: "map rt_id (map f ks) = map rt_id ks" "map rt_tokenHash (map f ks) = map rt_tokenHash ks" for ks
    by (simp_all add: keep)
  have ids: "rt_id ` set (map f ks) = rt_id ` set ks" for ks using maps(1) [of ks] by (metis set_map)
  show ?thesis
    unfolding refresh_ok_def drawn_simps
  proof (intro conjI ballI)
    fix k assume "k \<in> set (refreshTokens (db\<lparr>refreshTokens := map f (refreshTokens db)\<rparr>))"
    then obtain k0 where "k0 \<in> set (refreshTokens db)" "rt_tokenHash k = rt_tokenHash k0" by (auto simp: keep)
    then show "\<exists>u t. \<exists>j\<in>drawn db. rt_tokenHash k = sha256 cr (signRefresh cr u j t)"
      using ok unfolding refresh_ok_def by simp
  qed (use ok maps ids in \<open>simp_all add: refresh_ok_def del: map_map set_map\<close>)
qed

lemma singles_ok_mono:
  assumes "singles_ok cr db" "tokens db' = tokens db" "drawn db \<subseteq> drawn db'" "drawn_hashes cr db \<subseteq> drawn_hashes cr db'"
  shows "singles_ok cr db'"
  using assms by (auto simp: singles_ok_def)

section \<open>Primitive writes\<close>

lemma sound_hash_pw: "sound cr db (snd (hash_pw cr p db))"
proof -
  have "drawn_hashes cr db \<subseteq> drawn_hashes cr (db\<lparr>rnd_next := Suc (rnd_next db)\<rparr>)" by (auto simp: drawn_hashes_def)
  moreover have "advance db (db\<lparr>rnd_next := Suc (rnd_next db)\<rparr>)" by (rule advance_users) auto
  ultimately show ?thesis
    unfolding sound_def auth_inv_def hash_pw_def
    by (auto intro: accounts_ok_mono refresh_ok_mono singles_ok_mono)
qed

text \<open>Rewriting the rows of accounts, none of which changes its identity.\<close>

lemma sound_map_users:
  assumes "\<And>u. u \<in> set (users db) \<Longrightarrow> au_id (f u) = au_id u \<and> au_email (f u) = au_email u
      \<and> (au_deletedAt u \<noteq> None \<longrightarrow> au_deletedAt (f u) \<noteq> None)
      \<and> (au_deletedAt (f u) = None \<longrightarrow> au_isActive u \<longrightarrow> au_isActive (f u))"
  shows "sound cr db (db\<lparr>users := map f (users db)\<rparr>)"
proof -
  have id: "map au_id (map f (users db)) = map au_id (users db)" using assms by simp
  have eq: "map au_email (filter (\<lambda>u. au_deletedAt u = None) (map f us)) =
      map au_email (filter (\<lambda>u. au_deletedAt (f u) = None) us)" if "set us \<subseteq> set (users db)" for us
    using assms that by (induction us) auto
  have sub: "distinct (map au_email (filter (\<lambda>u. au_deletedAt (f u) = None) (users db)))"
    if "distinct (map au_email (filter (\<lambda>u. au_deletedAt u = None) (users db)))"
  proof -
    have "filter (\<lambda>u. au_deletedAt (f u) = None) (users db)
        = filter (\<lambda>u. au_deletedAt (f u) = None) (filter (\<lambda>u. au_deletedAt u = None) (users db))"
      unfolding filter_filter by (intro filter_cong refl) (use assms in \<open>metis\<close>)
    then show ?thesis using that by (simp only: distinct_map_filter)
  qed
  have img: "au_id ` f ` set (users db) = au_id ` set (users db)"
    using assms unfolding image_image by (intro image_cong) auto
  have act: "\<forall>u\<in>set (map f (users db)). au_deletedAt u = None \<longrightarrow> au_isActive u"
    if "\<forall>u\<in>set (users db). au_deletedAt u = None \<longrightarrow> au_isActive u"
    using assms that by fastforce
  have adv: "\<forall>u\<in>set (users db). \<exists>u'\<in>set (map f (users db)). au_id u' = au_id u
        \<and> (au_deletedAt u \<noteq> None \<longrightarrow> au_deletedAt u' \<noteq> None)"
    using assms by fastforce
  let ?db = "db\<lparr>users := map f (users db)\<rparr>"
  have "accounts_ok ?db" if ok: "accounts_ok db"
    unfolding accounts_ok_def live_users_def drawn_simps
  proof (intro conjI)
    show "distinct (map au_id (users ?db))" using ok id by (simp add: accounts_ok_def del: map_map)
    show "au_id ` set (users ?db) \<subseteq> drawn db" using ok img by (simp add: accounts_ok_def)
    show "distinct (map au_email (filter (\<lambda>u. au_deletedAt u = None) (users ?db)))"
      using ok eq [OF subset_refl] sub by (simp add: accounts_ok_def live_users_def)
    show "\<forall>u\<in>set (users ?db). au_deletedAt u = None \<longrightarrow> au_isActive u" using ok act by (simp add: accounts_ok_def)
  qed
  moreover have "advance db ?db" by (rule advance_users) (use adv in auto)
  ultimately show ?thesis
    unfolding sound_def auth_inv_def by (auto intro: refresh_ok_mono singles_ok_mono)
qed

lemma sound_save_user:
  assumes "\<And>x. x \<in> set (users db) \<Longrightarrow> au_id x = au_id u \<Longrightarrow> au_email u = au_email x
      \<and> (au_deletedAt x \<noteq> None \<longrightarrow> au_deletedAt u \<noteq> None) \<and> (au_deletedAt u = None \<longrightarrow> au_isActive x \<longrightarrow> au_isActive u)"
  shows "sound cr db (save_user clk u db)"
  unfolding save_user_def
proof (rule sound_map_users)
  fix x assume "x \<in> set (users db)"
  note * = assms [OF this]
  show "au_id (if au_id x = au_id u then if x = u then x else u\<lparr>au_updatedAt := db_now clk\<rparr> else x) = au_id x \<and>
    au_email (if au_id x = au_id u then if x = u then x else u\<lparr>au_updatedAt := db_now clk\<rparr> else x) = au_email x \<and>
    (au_deletedAt x \<noteq> None \<longrightarrow>
      au_deletedAt (if au_id x = au_id u then if x = u then x else u\<lparr>au_updatedAt := db_now clk\<rparr> else x) \<noteq> None) \<and>
    (au_deletedAt (if au_id x = au_id u then if x = u then x else u\<lparr>au_updatedAt := db_now clk\<rparr> else x) = None \<longrightarrow>
      au_isActive x \<longrightarrow> au_isActive (if au_id x = au_id u then if x = u then x else u\<lparr>au_updatedAt := db_now clk\<rparr> else x))"
  proof (cases "au_id x = au_id u")
    case True
    show ?thesis using * [OF True] True by (cases "x = u") simp_all
  qed simp
qed

lemma find_user_row: "find_user db uid = Some u \<Longrightarrow> u \<in> set (users db) \<and> au_id u = uid \<and> au_deletedAt u = None"
  by (auto simp: find_user_def live_users_def dest: find_set)

lemma find_email_row: "find_email db e = Some u \<Longrightarrow> u \<in> set (users db) \<and> au_email u = e \<and> au_deletedAt u = None"
  by (auto simp: find_email_def live_users_def dest: find_set)

text \<open>Saving a loaded account with other columns changed.\<close>

lemma sound_save_loaded:
  assumes "u \<in> set (users db)" and "au_deletedAt u = None" and "au_id u' = au_id u" "au_email u' = au_email u"
    "au_deletedAt u' = None" "au_isActive u \<longrightarrow> au_isActive u'"
  shows "sound cr db (save_user clk u' db)"
proof -
  have "sound cr db (save_user clk u' db)" if "auth_inv cr db"
  proof (rule sound_save_user)
    fix x assume "x \<in> set (users db)" "au_id x = au_id u'"
    then have "x = u"
      using distinct_key_eq [of au_id "users db" x u] auth_invD(2) [OF that] assms(1,3) by (simp add: accounts_ok_def)
    then show "au_email u' = au_email x \<and> (au_deletedAt x \<noteq> None \<longrightarrow> au_deletedAt u' \<noteq> None)
      \<and> (au_deletedAt u' = None \<longrightarrow> au_isActive x \<longrightarrow> au_isActive u')" using assms by simp
  qed
  then show ?thesis by (auto simp: sound_def)
qed

lemma sound_insert_user:
  assumes "find_email db e = None"
  shows "sound cr db (snd (insert_user clk e pw r v db))"
proof -
  have new: "e \<notin> au_email ` set (live_users db)" using assms by (auto simp: find_email_def find_None_set)
  have mono: "drawn db \<subseteq> drawn (db\<lparr>ids_next := Suc (ids_next db)\<rparr>)" by (rule drawn_grows [of _ _ 1]) simp
  have mem: "ids db (ids_next db) \<in> drawn (db\<lparr>ids_next := Suc (ids_next db)\<rparr>)" by (simp add: drawn_def)
  show ?thesis
    unfolding sound_def
  proof
    assume inv: "auth_inv cr db"
    let ?u = "\<lparr>au_id = ids db (ids_next db), au_email = e, au_password = pw, au_role = r, au_isActive = True,
      au_isEmailVerified = v, au_createdAt = db_now clk, au_updatedAt = db_now clk, au_deletedAt = None\<rparr>"
    let ?db = "db\<lparr>users := users db @ [?u], ids_next := Suc (ids_next db)\<rparr>"
    have eq: "snd (insert_user clk e pw r v db) = ?db" by (simp add: insert_user_def Let_def)
    have fresh: "ids db (ids_next db) \<notin> drawn db" using fresh_id [OF auth_invD(1) [OF inv], of 0] by simp
    have "accounts_ok ?db"
      using auth_invD(2) [OF inv] fresh mono mem new by (auto simp: accounts_ok_def live_users_def drawn_def)
    moreover have "refresh_ok cr ?db"
      by (rule refresh_ok_mono [OF auth_invD(3) [OF inv]]) (auto simp: drawn_def)
    moreover have "singles_ok cr ?db"
      by (rule singles_ok_mono [OF auth_invD(4) [OF inv]]) (auto simp: drawn_def drawn_hashes_def)
    ultimately show "auth_inv cr (snd (insert_user clk e pw r v db)) \<and> advance db (snd (insert_user clk e pw r v db))"
      unfolding eq using auth_invD(1) [OF inv] by (auto intro!: auth_invI advance_users)
  qed
qed

text \<open>Revoking refresh tokens by a condition.\<close>

lemma sound_revoke_where:
  "sound cr db (db\<lparr>refreshTokens := map (\<lambda>k. if P k then k\<lparr>rt_revoked := True\<rparr> else k) (refreshTokens db)\<rparr>)"
proof -
  let ?f = "\<lambda>k. if P k then k\<lparr>rt_revoked := True\<rparr> else k"
  have "refresh_ok cr (db\<lparr>refreshTokens := map ?f (refreshTokens db)\<rparr>)" if "refresh_ok cr db"
    by (rule refresh_ok_map [OF that]) simp_all
  moreover have "advance db (db\<lparr>refreshTokens := map ?f (refreshTokens db)\<rparr>)"  proof (rule advance_refresh)
    fix k assume "k \<in> set (refreshTokens db)"
    then show "\<exists>k'\<in>set (refreshTokens (db\<lparr>refreshTokens := map ?f (refreshTokens db)\<rparr>)). rt_tokenHash k' = rt_tokenHash k
        \<and> rt_userId k' = rt_userId k \<and> (rt_revoked k \<longrightarrow> rt_revoked k')"
      by (intro bexI [of _ "?f k"]) auto
  qed simp_all
  ultimately show ?thesis
    unfolding sound_def auth_inv_def by (auto intro: accounts_ok_mono singles_ok_mono)
qed

lemma sound_revoke_all: "sound cr db (revoke_all uid db)"
  unfolding revoke_all_def by (rule sound_revoke_where)

lemma sound_issueTokens: "sound cr db (snd (issueTokens cr clk u ip ua db))"
  unfolding sound_def
proof
  assume inv: "auth_inv cr db"
  note src = auth_invD(1) [OF inv]
  let ?k = "\<lparr>rt_id = ids db (Suc (ids_next db)), rt_userId = au_id u,
    rt_tokenHash = sha256 cr (signRefresh cr u (ids db (ids_next db)) (now clk)),
    rt_expiresAt = now clk + parseDurationMs (refreshExpiresIn cr) (7 * 86400000),
    rt_revoked = False, rt_userAgent = ua, rt_ip = ip\<rparr>"
  let ?db = "db\<lparr>refreshTokens := refreshTokens db @ [?k], ids_next := Suc (Suc (ids_next db))\<rparr>"
  have eq: "snd (issueTokens cr clk u ip ua db) = ?db" by (simp add: issueTokens_def Let_def)
  have fresh: "ids db (ids_next db) \<notin> drawn db" "ids db (Suc (ids_next db)) \<notin> drawn db"
    using fresh_id [OF src, of 0] fresh_id [OF src, of 1] by simp_all
  have mono: "drawn db \<subseteq> drawn ?db" by (auto simp: drawn_def)
  have mem: "ids db (ids_next db) \<in> drawn ?db" "ids db (Suc (ids_next db)) \<in> drawn ?db"
    by (auto simp: drawn_def)
  have hash: "rt_tokenHash ?k \<notin> rt_tokenHash ` set (refreshTokens db)"
  proof
    assume "rt_tokenHash ?k \<in> rt_tokenHash ` set (refreshTokens db)"
    then obtain k where k: "rt_tokenHash ?k = rt_tokenHash k" "k \<in> set (refreshTokens db)" by (rule imageE)
    then obtain u' t j where "j \<in> drawn db" "rt_tokenHash k = sha256 cr (signRefresh cr u' j t)"
      using auth_invD(3) [OF inv] k(2) unfolding refresh_ok_def by blast
    moreover from this k(1) have "sha256 cr (signRefresh cr u' j t) = sha256 cr (signRefresh cr u (ids db (ids_next db)) (now clk))"
      by simp
    then have "j = ids db (ids_next db)" by (rule refresh_hash_inj [OF src])
    ultimately show False using fresh(1) by simp
  qed
  have "refresh_ok cr ?db"
    unfolding refresh_ok_def
  proof (intro conjI ballI)
    have ids: "distinct (map rt_id (refreshTokens db))" "rt_id ` set (refreshTokens db) \<subseteq> drawn db"
      using auth_invD(3) [OF inv] by (simp_all add: refresh_ok_def)
    then have "ids db (Suc (ids_next db)) \<notin> rt_id ` set (refreshTokens db)" using fresh(2) by blast
    then show "distinct (map rt_id (refreshTokens ?db))" using ids(1) by simp
    have "rt_id ` set (refreshTokens ?db) = insert (ids db (Suc (ids_next db))) (rt_id ` set (refreshTokens db))" by simp
    then show "rt_id ` set (refreshTokens ?db) \<subseteq> drawn ?db" using subset_trans [OF ids(2) mono] mem(2) by simp
    have "distinct (map rt_tokenHash (refreshTokens db))" using auth_invD(3) [OF inv] by (simp add: refresh_ok_def)
    with hash show "distinct (map rt_tokenHash (refreshTokens ?db))" by simp
    fix k assume "k \<in> set (refreshTokens ?db)"
    then show "\<exists>u t. \<exists>j\<in>drawn ?db. rt_tokenHash k = sha256 cr (signRefresh cr u j t)"
    proof (cases "k \<in> set (refreshTokens db)")
      case True
      then obtain u' t j where "j \<in> drawn db" "rt_tokenHash k = sha256 cr (signRefresh cr u' j t)"
        using auth_invD(3) [OF inv] unfolding refresh_ok_def by blast
      then show ?thesis using mono by blast
    next
      case False
      then have "rt_tokenHash k = sha256 cr (signRefresh cr u (ids db (ids_next db)) (now clk))"
        using \<open>k \<in> set (refreshTokens ?db)\<close> by simp
      then show ?thesis using mem(1) by blast
    qed
  qed
  moreover have "accounts_ok ?db" by (rule accounts_ok_mono [OF auth_invD(2) [OF inv]]) (use mono in auto)
  moreover have "singles_ok cr ?db" by (rule singles_ok_mono [OF auth_invD(4) [OF inv]]) (use mono in \<open>auto simp: drawn_hashes_def\<close>)
  ultimately show "auth_inv cr (snd (issueTokens cr clk u ip ua db)) \<and> advance db (snd (issueTokens cr clk u ip ua db))"
    unfolding eq using src by (auto intro!: auth_invI advance_refresh)
qed

text \<open>Rewriting the rows of single-use tokens, none of which changes its identity.\<close>

definition token_up :: "auth_token \<Rightarrow> auth_token \<Rightarrow> bool" where
  "token_up k k' \<longleftrightarrow> tk_id k' = tk_id k \<and> tk_tokenHash k' = tk_tokenHash k
      \<and> tk_type k' = tk_type k \<and> tk_userId k' = tk_userId k \<and> tk_maxUses k' = tk_maxUses k
      \<and> tk_usedCount k \<le> tk_usedCount k' \<and> tk_usedCount k' \<le> tk_maxUses k
      \<and> (tk_usedCount k' = tk_maxUses k \<longrightarrow> tk_revokedAt k' \<noteq> None)
      \<and> (tk_revokedAt k \<noteq> None \<longrightarrow> tk_revokedAt k' \<noteq> None)"

lemma token_up_refl: "token_ok k \<Longrightarrow> token_up k k"
  by (auto simp: token_ok_def token_up_def)

lemma token_up_ok: "token_ok k \<Longrightarrow> token_up k k' \<Longrightarrow> token_ok k'"
  by (auto simp: token_ok_def token_up_def)

lemma token_up_use: "token_ok k \<Longrightarrow> tk_usedCount k < tk_maxUses k \<Longrightarrow> token_up k (use_token clk k)"
  by (auto simp: token_ok_def token_up_def use_token_def Let_def)

lemma token_up_revoke: "token_ok k \<Longrightarrow> token_up k (k\<lparr>tk_revokedAt := Some t\<rparr>)"
  by (auto simp: token_ok_def token_up_def)

lemma sound_map_tokens:
  assumes up: "\<And>k. auth_inv cr db \<Longrightarrow> k \<in> set (tokens db) \<Longrightarrow> token_ok k \<Longrightarrow> token_up k (f k)"
  shows "sound cr db (db\<lparr>tokens := map f (tokens db)\<rparr>)"
  unfolding sound_def
proof
  assume inv: "auth_inv cr db"
  let ?db = "db\<lparr>tokens := map f (tokens db)\<rparr>"
  have ok: "singles_ok cr db" by (rule auth_invD(4) [OF inv])
  have good: "token_ok k" if "k \<in> set (tokens db)" for k using ok that by (simp add: singles_ok_def)
  have rise: "token_up k (f k)" if "k \<in> set (tokens db)" for k by (rule up [OF inv that good [OF that]])
  have keep: "tk_id (f k) = tk_id k" "tk_tokenHash (f k) = tk_tokenHash k" if "k \<in> set (tokens db)" for k
    using rise [OF that] by (simp_all add: token_up_def)
  have "singles_ok cr ?db"
    unfolding singles_ok_def drawn_simps
  proof (intro conjI ballI)
    show "distinct (map tk_id (tokens ?db))" "distinct (map tk_tokenHash (tokens ?db))"
      using ok keep by (simp_all add: singles_ok_def comp_def cong: map_cong)
    show "tk_id ` set (tokens ?db) \<subseteq> drawn db" "tk_tokenHash ` set (tokens ?db) \<subseteq> drawn_hashes cr db"
      using ok keep by (simp_all add: singles_ok_def image_image cong: image_cong)
    show "token_ok k'" if "k' \<in> set (tokens ?db)" for k'
    proof -
      obtain k where k: "k \<in> set (tokens db)" "k' = f k" using \<open>k' \<in> set (tokens ?db)\<close> by auto
      show ?thesis unfolding k(2) by (rule token_up_ok [OF good [OF k(1)] rise [OF k(1)]])
    qed
    show "one_open (tokens ?db)"
      unfolding one_open_def
    proof (intro ballI impI)
      fix a b assume ab: "a \<in> set (tokens ?db)" "b \<in> set (tokens ?db)"
        "tk_type a \<noteq> INVITE \<and> tk_type b = tk_type a \<and> tk_userId b = tk_userId a \<and> tk_revokedAt a = None \<and> tk_revokedAt b = None"
      obtain a0 b0 where o: "a0 \<in> set (tokens db)" "a = f a0" "b0 \<in> set (tokens db)" "b = f b0" using ab(1,2) by auto
      have "tk_type a0 \<noteq> INVITE \<and> tk_type b0 = tk_type a0 \<and> tk_userId b0 = tk_userId a0 \<and> tk_revokedAt a0 = None \<and> tk_revokedAt b0 = None"
        using ab(3) rise [OF o(1)] rise [OF o(3)] unfolding o(2,4) token_up_def by simp
      then have "b0 = a0" using ok o(1,3) unfolding singles_ok_def one_open_def by blast
      then show "b = a" using o by simp
    qed
  qed
  moreover have "advance db ?db"
  proof (rule advance_tokens)
    fix k assume k: "k \<in> set (tokens db)"
    then show "\<exists>k'\<in>set (tokens ?db). tk_tokenHash k' = tk_tokenHash k \<and> tk_type k' = tk_type k
        \<and> tk_usedCount k \<le> tk_usedCount k' \<and> (tk_revokedAt k \<noteq> None \<longrightarrow> tk_revokedAt k' \<noteq> None)"
      using rise [OF k] by (intro bexI [of _ "f k"]) (simp_all add: token_up_def)
  qed simp_all
  ultimately show "auth_inv cr ?db \<and> advance db ?db"
    using auth_invD [OF inv] by (auto intro!: auth_invI intro: accounts_ok_mono refresh_ok_mono)
qed

text \<open>Loading a token, using or revoking it, and saving it.\<close>

lemma sound_save_token:
  assumes k: "k \<in> set (tokens db)" and up: "token_ok k \<Longrightarrow> token_up k k'"
  shows "sound cr db (save_token k' db)"
  unfolding save_token_def save_row_def
proof (rule sound_map_tokens)
  fix x assume inv: "auth_inv cr db" and x: "x \<in> set (tokens db)" "token_ok x"
  note ok = auth_invD(4) [OF inv]
  have "token_up k k'" using ok k up by (simp add: singles_ok_def)
  moreover from this have "x = k" if "tk_id x = tk_id k'"
    using distinct_key_eq [of tk_id "tokens db" x k] ok x(1) k that by (simp add: singles_ok_def token_up_def)
  ultimately show "token_up x (if tk_id x = tk_id k' then k' else x)" using token_up_refl [OF x(2)] by auto
qed

lemma sound_use_token:
  "k \<in> set (tokens db) \<Longrightarrow> tk_usedCount k < tk_maxUses k \<Longrightarrow> sound cr db (save_token (use_token clk k) db)"
  by (rule sound_save_token, assumption, rule token_up_use)

lemma sound_revoke_token:
  "k \<in> set (tokens db) \<Longrightarrow> sound cr db (save_token (k\<lparr>tk_revokedAt := Some t\<rparr>) db)"
  by (rule sound_save_token, assumption, rule token_up_revoke)

lemma sound_revoke_previous: "sound cr db (revoke_previous clk ty uid db)"
  unfolding revoke_previous_def by (rule sound_map_tokens) (simp add: token_up_refl token_up_revoke)

end
