(* ===== verification/AuthProperties.thy ===== *)
theory AuthProperties
  imports AuthInvariant
begin

text \<open>
  Properties of the authentication service over arbitrary sequences of requests: the
  invariant of its tables, single use of tokens, rotation and revocation of refresh tokens,
  registration by invite, passwords, and the end of an account.
\<close>

section \<open>Handlers\<close>

lemma soundI:
  assumes "auth_inv cr db \<Longrightarrow> sound cr db db'"
  shows "sound cr db db'"
  using assms by (auto simp: sound_def)

lemma previous_revoked:
  assumes "k \<in> set (tokens (revoke_previous clk ty uid db))" "tk_type k = ty" "tk_userId k = uid" "uid \<noteq> None"
  shows "tk_revokedAt k \<noteq> None"
proof -
  let ?f = "\<lambda>x. if tk_type x = ty \<and> tk_userId x \<noteq> None \<and> tk_userId x = uid \<and> tk_revokedAt x = None
      then x\<lparr>tk_revokedAt := Some (db_now clk)\<rparr> else x"
  have "k \<in> ?f ` set (tokens db)" using assms(1) by (simp add: revoke_previous_def)
  then obtain x where "k = ?f x" by (rule imageE)
  then show ?thesis using assms(2-4) by (cases "tk_revokedAt x = None") (simp_all split: if_splits)
qed

lemma sound_append_token:
  assumes inv: "auth_inv cr db" and fresh: "tk_id k = ids db (ids_next db)" "tk_tokenHash k = sha256 cr (rnd db (rnd_next db))"
    and ok: "token_ok k" and alone: "\<And>x. x \<in> set (tokens db) \<Longrightarrow> tk_type k \<noteq> INVITE \<Longrightarrow> tk_type x = tk_type k \<Longrightarrow>
      tk_userId x = tk_userId k \<Longrightarrow> tk_revokedAt x \<noteq> None"
  shows "sound cr db (db\<lparr>tokens := tokens db @ [k], rnd_next := Suc (rnd_next db), ids_next := Suc (ids_next db)\<rparr>)"
proof -
  let ?db = "db\<lparr>tokens := tokens db @ [k], rnd_next := Suc (rnd_next db), ids_next := Suc (ids_next db)\<rparr>"
  note src = auth_invD(1) [OF inv]
  have mono: "drawn db \<subseteq> drawn ?db" "drawn_hashes cr db \<subseteq> drawn_hashes cr ?db" by (auto simp: drawn_def drawn_hashes_def)
  have mem: "tk_id k \<in> drawn ?db" "tk_tokenHash k \<in> drawn_hashes cr ?db" by (simp_all add: fresh drawn_def drawn_hashes_def)
  have old: "distinct (map tk_id (tokens db))" "tk_id ` set (tokens db) \<subseteq> drawn db" "distinct (map tk_tokenHash (tokens db))"
    "tk_tokenHash ` set (tokens db) \<subseteq> drawn_hashes cr db" "\<forall>k\<in>set (tokens db). token_ok k" "one_open (tokens db)"
    using auth_invD(4) [OF inv] by (simp_all add: singles_ok_def)
  have new: "tk_id k \<notin> tk_id ` set (tokens db)"
    by (rule contra_subsetD [OF old(2)]) (use fresh_id [OF src, of 0] in \<open>simp add: fresh\<close>)
  have new': "tk_tokenHash k \<notin> tk_tokenHash ` set (tokens db)"
    by (rule contra_subsetD [OF old(4)]) (use fresh_hash [OF src] in \<open>simp add: fresh\<close>)
  have "one_open (tokens ?db)"
    unfolding one_open_def
  proof (intro ballI impI)
    fix a b assume ab: "a \<in> set (tokens ?db)" "b \<in> set (tokens ?db)"
      "tk_type a \<noteq> INVITE \<and> tk_type b = tk_type a \<and> tk_userId b = tk_userId a \<and> tk_revokedAt a = None \<and> tk_revokedAt b = None"
    then consider "a = k" "b = k" | "a \<in> set (tokens db)" "b = k" | "a = k" "b \<in> set (tokens db)"
      | "a \<in> set (tokens db)" "b \<in> set (tokens db)" by auto
    then show "b = a"
    proof cases
      case 2
      then have "tk_revokedAt a \<noteq> None" using ab(3) by (intro alone) simp_all
      then show ?thesis using ab(3) by simp
    next
      case 3
      then have "tk_revokedAt b \<noteq> None" using ab(3) by (intro alone) simp_all
      then show ?thesis using ab(3) by simp
    next
      case 4
      then show ?thesis using old(6) ab(3) unfolding one_open_def by blast
    qed simp
  qed
  moreover have "tk_id ` set (tokens ?db) = insert (tk_id k) (tk_id ` set (tokens db))"
    "tk_tokenHash ` set (tokens ?db) = insert (tk_tokenHash k) (tk_tokenHash ` set (tokens db))" by simp_all
  ultimately have "singles_ok cr ?db"
    unfolding singles_ok_def using old mono mem new new' ok subset_trans [OF old(2) mono(1)] subset_trans [OF old(4) mono(2)] by simp
  moreover have "accounts_ok ?db" by (rule accounts_ok_mono [OF auth_invD(2) [OF inv]]) (use mono in simp_all)
  moreover have "refresh_ok cr ?db" by (rule refresh_ok_mono [OF auth_invD(3) [OF inv]]) (use mono in simp_all)
  moreover have "advance db ?db" by (rule advance_tokens) auto
  ultimately show ?thesis using src unfolding sound_def by (simp add: auth_invI)
qed

lemma sound_issueToken:
  assumes "1 \<le> mx" and "ty \<noteq> INVITE \<Longrightarrow> uid \<noteq> None \<and> mx = 1"
  shows "sound cr db (snd (issueToken cr clk ty email uid cb mx ttl db))"
proof (rule soundI)
  assume inv: "auth_inv cr db"
  define db1 where "db1 = (if ty = EMAIL_VERIFY \<or> ty = PASSWORD_RESET then revoke_previous clk ty uid db else db)"
  let ?k = "\<lparr>tk_id = ids db1 (ids_next db1), tk_type = ty, tk_tokenHash = sha256 cr (rnd db1 (rnd_next db1)), tk_email = email,
    tk_userId = uid, tk_createdByUserId = cb, tk_maxUses = mx, tk_usedCount = 0,
    tk_expiresAt = now clk + ttl, tk_revokedAt = None, tk_createdAt = db_now clk\<rparr>"
  have step: "sound cr db db1" by (simp add: db1_def sound_revoke_previous)
  have "sound cr db1 (db1\<lparr>tokens := tokens db1 @ [?k], rnd_next := Suc (rnd_next db1), ids_next := Suc (ids_next db1)\<rparr>)"
  proof (rule sound_append_token [OF soundD(1) [OF step inv]])
    show "token_ok ?k" using assms by (simp add: token_ok_def)
    fix x assume "x \<in> set (tokens db1)" "tk_type ?k \<noteq> INVITE" "tk_type x = tk_type ?k" "tk_userId x = tk_userId ?k"
    then show "tk_revokedAt x \<noteq> None"
      using assms(2) previous_revoked [of x clk ty uid db] by (cases ty) (simp_all add: db1_def)
  qed simp_all
  then show "sound cr db (snd (issueToken cr clk ty email uid cb mx ttl db))"
    using sound_trans [OF step] by (simp add: issueToken_def Let_def db1_def [symmetric])
qed

lemma findValidToken_row:
  assumes "findValidToken cr clk raw ty db = Some k"
  shows "k \<in> set (tokens db)" "tk_tokenHash k = sha256 cr raw" "tk_type k = ty" "token_valid clk k"
  using assms by (auto simp: findValidToken_def dest!: find_set split: if_splits option.splits)

lemma sound_consumeToken: "sound cr db (snd (consumeToken cr clk raw ty db))"
proof (cases "findValidToken cr clk raw ty db")
  case (Some k)
  then show ?thesis
    using sound_use_token [of k db cr clk] findValidToken_row [OF Some] by (simp add: consumeToken_def token_valid_def)
qed (simp add: consumeToken_def)

lemma sound_verified: "find_user db uid = Some u \<Longrightarrow> sound cr db (save_user clk (u\<lparr>au_isEmailVerified := True\<rparr>) db)"
  by (rule sound_save_loaded [of u]) (auto dest: find_user_row)

lemma sound_password: "find_user db uid = Some u \<Longrightarrow> sound cr db (save_user clk (u\<lparr>au_password := p\<rparr>) db)"
  by (rule sound_save_loaded [of u]) (auto dest: find_user_row)

lemma sound_verifyEmail: "sound cr db (snd (verifyEmail cr clk token db))"
proof -
  obtain r db1 where c: "consumeToken cr clk token EMAIL_VERIFY db = (r, db1)" by fastforce
  then have "sound cr db db1" using sound_consumeToken [of cr db clk token EMAIL_VERIFY] by simp
  then show ?thesis
    by (auto simp: verifyEmail_def c intro: sound_trans sound_verified split: sum.split option.split)
qed

lemma sound_reset: "sound cr db (snd (reset_with_token cr clk token p db))"
proof -
  obtain r db1 where c: "consumeToken cr clk token PASSWORD_RESET db = (r, db1)" by fastforce
  then have "sound cr db db1" using sound_consumeToken [of cr db clk token PASSWORD_RESET] by simp
  then show ?thesis
    by (auto simp: reset_with_token_def c intro: sound_trans sound_password split: sum.split option.split)
qed

lemma sound_requestEmailVerification: "sound cr db (snd (requestEmailVerification cr clk uid db))"
  by (auto simp: requestEmailVerification_def case_prod_beta split: option.split intro!: sound_issueToken)

lemma sound_forgotPassword: "sound cr db (snd (forgotPassword cr clk e db))"
  by (auto simp: forgotPassword_def case_prod_beta split: option.split intro!: sound_issueToken)

lemma sound_createInvite: "sound cr db (snd (createInvite cr clk uid e days uses db))"
  by (auto simp: createInvite_def Let_def case_prod_beta split: option.split intro!: sound_issueToken)

lemma sound_revokeInvite: "sound cr db (snd (revokeInvite clk i db))"
  by (auto simp: revokeInvite_def split: option.split intro!: sound_revoke_token dest: find_set)

lemma sound_consumeInvite:
  assumes "k \<in> set (tokens db)" and "token_valid clk k"
  shows "sound cr db (consumeInvite clk (tk_id k) db)"
proof (rule soundI)
  assume inv: "auth_inv cr db"
  have "find (\<lambda>x. tk_id x = tk_id k) (tokens db) = Some k"
  proof (cases "find (\<lambda>x. tk_id x = tk_id k) (tokens db)")
    case None
    then show ?thesis using assms(1) unfolding find_None_set by blast
  next
    case (Some x)
    then have "x = k" using find_set [OF Some] auth_invD(4) [OF inv] assms(1)
      distinct_key_eq [of tk_id "tokens db" x k] by (simp add: singles_ok_def)
    then show ?thesis using Some by simp
  qed
  then show "sound cr db (consumeInvite clk (tk_id k) db)"
    using assms by (simp add: consumeInvite_def sound_use_token token_valid_def)
qed

lemma sound_login: "sound cr db (snd (login cr clk e p ip ua db))"
  by (auto simp: login_def case_prod_beta split: option.split intro: sound_issueTokens)

lemma rotate_map:
  assumes "auth_inv cr db" and "k \<in> set (refreshTokens db)"
  shows "save_row rt_id (k\<lparr>rt_revoked := True\<rparr>) (refreshTokens db)
    = map (\<lambda>x. if rt_id x = rt_id k then x\<lparr>rt_revoked := True\<rparr> else x) (refreshTokens db)"
proof -
  have "x = k" if "x \<in> set (refreshTokens db)" "rt_id x = rt_id k" for x
    using distinct_key_eq [of rt_id "refreshTokens db" x k] auth_invD(3) [OF assms(1)] assms(2) that
    by (simp add: refresh_ok_def)
  then show ?thesis by (auto simp: save_row_def)
qed

text \<open>The row a refresh token names, and the answer to it.\<close>

definition refresh_row :: "crypto \<Rightarrow> string \<Rightarrow> auth_db \<Rightarrow> refresh_token option" where
  "refresh_row cr tok db =
     find (\<lambda>k. rt_tokenHash k = sha256 cr tok \<and> find_user db (rt_userId k) \<noteq> None) (refreshTokens db)"

lemma refresh_cases:
  assumes "fst (refresh cr clk tok ip ua db) = Inr v"
  obtains k u where "refresh_row cr tok db = Some k" "k \<in> set (refreshTokens db)" "rt_tokenHash k = sha256 cr tok"
    "find_user db (rt_userId k) = Some u" "\<not> rt_revoked k" "now clk \<le> rt_expiresAt k"
    "refresh cr clk tok ip ua db = (let (pair, db2) = issueTokens cr clk u ip ua
       (db\<lparr>refreshTokens := save_row rt_id (k\<lparr>rt_revoked := True\<rparr>) (refreshTokens db)\<rparr>) in (Inr (toView u, pair), db2))"
proof -
  obtain k where k: "refresh_row cr tok db = Some k"
    using assms by (auto simp: refresh_def refresh_row_def split: if_splits option.splits)
  then obtain u where u: "find_user db (rt_userId k) = Some u"
    by (auto simp: refresh_row_def dest!: find_set)
  have "k \<in> set (refreshTokens db)" "rt_tokenHash k = sha256 cr tok" using k by (auto simp: refresh_row_def dest!: find_set)
  moreover have "\<not> rt_revoked k" "now clk \<le> rt_expiresAt k"
    "refresh cr clk tok ip ua db = (let (pair, db2) = issueTokens cr clk u ip ua
       (db\<lparr>refreshTokens := save_row rt_id (k\<lparr>rt_revoked := True\<rparr>) (refreshTokens db)\<rparr>) in (Inr (toView u, pair), db2))"
    using assms k u unfolding refresh_def refresh_row_def [symmetric]
    by (auto simp: Let_def case_prod_beta split: if_splits)
  ultimately show ?thesis using that k u by blast
qed

lemma refresh_error_frame: "fst (refresh cr clk tok ip ua db) = Inl e \<Longrightarrow> snd (refresh cr clk tok ip ua db) = db"
  by (auto simp: refresh_def Let_def case_prod_beta split: if_splits option.splits)

lemma sound_refresh: "sound cr db (snd (refresh cr clk tok ip ua db))"
proof (cases "fst (refresh cr clk tok ip ua db)")
  case (Inl e)
  then show ?thesis by (simp add: refresh_error_frame)
next
  case (Inr v)
  then obtain k u where *: "k \<in> set (refreshTokens db)"
    "refresh cr clk tok ip ua db = (let (pair, db2) = issueTokens cr clk u ip ua
       (db\<lparr>refreshTokens := save_row rt_id (k\<lparr>rt_revoked := True\<rparr>) (refreshTokens db)\<rparr>) in (Inr (toView u, pair), db2))"
    by (rule refresh_cases) blast
  show ?thesis
  proof (rule soundI)
    assume inv: "auth_inv cr db"
    show "sound cr db (snd (refresh cr clk tok ip ua db))"
      unfolding *(2) rotate_map [OF inv *(1)]
      by (simp add: case_prod_beta Let_def sound_trans [OF sound_revoke_where sound_issueTokens])
  qed
qed

lemma sound_logout: "sound cr db (snd (logout cr uid tok db))"
  by (simp add: logout_def sound_revoke_all sound_revoke_where)

lemma sound_changePassword: "sound cr db (snd (changePassword cr clk uid old new db))"
proof (cases "find_user db uid")
  case (Some u)
  obtain h db1 where h: "hash_pw cr new db = (h, db1)" by fastforce
  then have "sound cr db db1" using sound_hash_pw [of cr db new] by simp
  moreover have "find_user db1 uid = Some u"
    using Some h by (auto simp: hash_pw_def find_user_def live_users_def)
  ultimately have "sound cr db (revoke_all (au_id u) (save_user clk (u\<lparr>au_password := h\<rparr>) db1))"
    by (blast intro: sound_trans sound_password sound_revoke_all)
  then show ?thesis using Some h by (simp add: changePassword_def)
qed (simp add: changePassword_def)

lemma sound_resetPassword: "sound cr db (snd (resetPassword cr clk tok p db))"
proof -
  obtain h db1 where h: "hash_pw cr p db = (h, db1)" by fastforce
  obtain r db2 where r: "reset_with_token cr clk tok h db1 = (r, db2)" by fastforce
  have "sound cr db db1" using sound_hash_pw [of cr db p] h by simp
  moreover have "sound cr db1 db2" using sound_reset [of cr db1 clk tok h] r by simp
  ultimately have "sound cr db db2" by (rule sound_trans)
  then show ?thesis by (auto simp: resetPassword_def h r intro: sound_trans sound_revoke_all split: sum.split)
qed

text \<open>Deactivation is one rewriting of the account's row and one of its refresh tokens.\<close>

lemma deactivate_run:
  assumes "find_user db uid = Some u"
  shows "deactivate clk uid db = (Inr True, revoke_all uid (db\<lparr>users := map (\<lambda>x. if au_id x = uid
     then (if x = u\<lparr>au_isActive := False\<rparr> then x else u\<lparr>au_isActive := False, au_updatedAt := db_now clk\<rparr>)\<lparr>au_deletedAt := Some (db_now clk)\<rparr>
     else x) (users db)\<rparr>))"
  using assms find_user_row [OF assms]
  by (auto simp: deactivate_def save_user_def revoke_all_def Let_def comp_def intro!: map_cong)

lemma sound_deactivate: "sound cr db (snd (deactivate clk uid db))"
proof (cases "find_user db uid")
  case (Some u)
  note row = find_user_row [OF Some]
  show ?thesis
  proof (rule soundI)
    assume inv: "auth_inv cr db"
    have only: "x = u" if "x \<in> set (users db)" "au_id x = uid" for x
      using distinct_key_eq [of au_id "users db" x u] auth_invD(2) [OF inv] row that by (simp add: accounts_ok_def)
    show "sound cr db (snd (deactivate clk uid db))"
      unfolding deactivate_run [OF Some] snd_conv
      by (rule sound_trans [OF sound_map_users sound_revoke_all]) (auto dest!: only)
  qed
qed (simp add: deactivate_def)

lemma sound_ensureAdmin: "sound cr db (ensureAdmin cr clk e p db)"
proof -
  have new: "sound cr db (snd (insert_user clk e h ROLE_ADMIN True db1))"
    if "find_email db e = None" "hash_pw cr pw db = (h, db1)" for e h db1 pw
  proof -
    have "sound cr db db1" using sound_hash_pw [of cr db pw] that(2) by simp
    moreover have "find_email db1 e = None"
      using that by (auto simp: hash_pw_def find_email_def live_users_def)
    ultimately show ?thesis by (blast intro: sound_trans sound_insert_user)
  qed
  have promote: "sound cr db (save_user clk (u\<lparr>au_role := ROLE_ADMIN\<rparr>) db)" if "find_email db e = Some u" for e u
    by (rule sound_save_loaded [of u]) (use find_email_row [OF that] in auto)
  show ?thesis
    by (auto simp: ensureAdmin_def split: option.split prod.split intro: promote new)
qed

text \<open>A registration, written as its sequence of writes.\<close>

lemma register_cases:
  assumes "fst (register cr clk e p ivt db) = Inr v"
  obtains ik where "find_email db (normalize_email e) = None"
    "ik = None \<and> \<not> opt_truthy ivt \<or> (\<exists>k. ik = Some k \<and> opt_truthy ivt \<and> findValidToken cr clk (nullish ivt '''') INVITE db = Some k
        \<and> \<not> (opt_truthy (tk_email k) \<and> tk_email k \<noteq> Some (normalize_email e)))"
    "register cr clk e p ivt db = (let email = normalize_email e;
        verified = (case ik of None \<Rightarrow> False | Some k \<Rightarrow> opt_truthy (tk_email k) \<and> tk_email k = Some email);
        (hashed, db1) = hash_pw cr p db;
        (saved, db2) = insert_user clk email hashed ROLE_USER verified db1;
        db3 = (case ik of None \<Rightarrow> db2 | Some k \<Rightarrow> consumeInvite clk (tk_id k) db2);
        (pair, db4) = issueTokens cr clk saved None None db3;
        db5 = (if au_isEmailVerified saved then db4 else snd (requestEmailVerification cr clk (au_id saved) db4)) in
      (Inr (toView saved, pair), db5))"
proof -
  have free: "find_email db (normalize_email e) = None"
    using assms by (auto simp: register_def Let_def split: if_splits)
  show ?thesis
  proof (cases "opt_truthy ivt")
    case False
    then show ?thesis using free by (intro that [of None]) (simp_all add: register_def)
  next
    case True
    then obtain k where k: "assertInviteForRegister cr clk (nullish ivt '''') (normalize_email e) db = Inr k"
      using assms free by (cases "assertInviteForRegister cr clk (nullish ivt '''') (normalize_email e) db")
        (auto simp: register_def Let_def)
    then have "findValidToken cr clk (nullish ivt '''') INVITE db = Some k
        \<and> \<not> (opt_truthy (tk_email k) \<and> tk_email k \<noteq> Some (normalize_email e))"
      by (auto simp: assertInviteForRegister_def split: option.splits if_splits)
    then show ?thesis using free True k by (intro that [of "Some k"]) (simp_all add: register_def)
  qed
qed

lemma register_error_frame: "fst (register cr clk e p ivt db) = Inl x \<Longrightarrow> snd (register cr clk e p ivt db) = db"
  by (auto simp: register_def Let_def case_prod_beta split: if_splits sum.splits)

lemma sound_register: "sound cr db (snd (register cr clk e p ivt db))"
proof (cases "fst (register cr clk e p ivt db)")
  case (Inl x)
  then show ?thesis by (simp add: register_error_frame)
next
  case (Inr v)
  then obtain ik where free: "find_email db (normalize_email e) = None"
    and ik: "ik = None \<and> \<not> opt_truthy ivt \<or> (\<exists>k. ik = Some k \<and> opt_truthy ivt \<and> findValidToken cr clk (nullish ivt '''') INVITE db = Some k
        \<and> \<not> (opt_truthy (tk_email k) \<and> tk_email k \<noteq> Some (normalize_email e)))"
    and run: "register cr clk e p ivt db = (let email = normalize_email e;
        verified = (case ik of None \<Rightarrow> False | Some k \<Rightarrow> opt_truthy (tk_email k) \<and> tk_email k = Some email);
        (hashed, db1) = hash_pw cr p db;
        (saved, db2) = insert_user clk email hashed ROLE_USER verified db1;
        db3 = (case ik of None \<Rightarrow> db2 | Some k \<Rightarrow> consumeInvite clk (tk_id k) db2);
        (pair, db4) = issueTokens cr clk saved None None db3;
        db5 = (if au_isEmailVerified saved then db4 else snd (requestEmailVerification cr clk (au_id saved) db4)) in
      (Inr (toView saved, pair), db5))"
    by (rule register_cases)
  define verified where "verified = (case ik of None \<Rightarrow> False | Some k \<Rightarrow> opt_truthy (tk_email k) \<and> tk_email k = Some (normalize_email e))"
  obtain h db1 where h: "hash_pw cr p db = (h, db1)" by fastforce
  obtain u db2 where u: "insert_user clk (normalize_email e) h ROLE_USER verified db1 = (u, db2)" by fastforce
  define db3 where "db3 = (case ik of None \<Rightarrow> db2 | Some k \<Rightarrow> consumeInvite clk (tk_id k) db2)"
  obtain pair db4 where t: "issueTokens cr clk u None None db3 = (pair, db4)" by fastforce
  have "sound cr db db1" using sound_hash_pw [of cr db p] h by simp
  moreover have "sound cr db1 db2"
    using sound_insert_user [of db1 "normalize_email e" cr clk h ROLE_USER verified] free h u
    by (auto simp: hash_pw_def find_email_def live_users_def)
  moreover have "sound cr db2 db3"
  proof (cases ik)
    case (Some k)
    then have "k \<in> set (tokens db2)" "token_valid clk k"
      using ik h u by (auto simp: hash_pw_def insert_user_def Let_def dest: findValidToken_row)
    then show ?thesis by (simp add: db3_def Some sound_consumeInvite)
  qed (simp add: db3_def)
  moreover have "sound cr db3 db4" using sound_issueTokens [of cr db3 clk u None None] t by simp
  ultimately have "sound cr db db4" by (blast intro: sound_trans)
  moreover have "snd (register cr clk e p ivt db) = (if au_isEmailVerified u then db4 else snd (requestEmailVerification cr clk (au_id u) db4))"
    unfolding run by (simp add: Let_def h verified_def [symmetric] u db3_def [symmetric] t)
  ultimately show ?thesis by (auto intro: sound_trans sound_requestEmailVerification)
qed

lemma snd_answer_as [simp]: "snd (answer_as f r) = snd r"
  by (simp add: answer_as_def)

lemma fst_answer_as [simp]: "fst (answer_as f r) = map_sum id f (fst r)"
  by (simp add: answer_as_def)

lemma sound_auth_step: "sound cr db (snd (auth_step cr q db))"
proof (cases q)
  case (Pair clk r)
  then show ?thesis
    by (cases r) (simp_all add: sound_register sound_login sound_refresh sound_logout sound_changePassword
        sound_deactivate sound_forgotPassword sound_resetPassword sound_requestEmailVerification sound_verifyEmail
        sound_createInvite sound_revokeInvite)
qed

interpretation auth: monotone_service "auth_step cr" "auth_inv cr" advance for cr
  by unfold_locales (auto intro: soundD [OF sound_auth_step] advance_refl advance_trans)

section \<open>The tables\<close>

lemma boot_auth_inv:
  assumes "inj uuids" "inj randoms" "inj_on (sha256 cr) (range randoms)"
    "\<forall>u j t u' j' t'. sha256 cr (signRefresh cr u j t) = sha256 cr (signRefresh cr u' j' t') \<longrightarrow> j = j'"
  shows "auth_inv cr (boot_auth cr clk ae ap uuids randoms)"
proof -
  let ?db = "\<lparr>users = [], refreshTokens = [], tokens = [], ids = uuids, ids_next = 0, rnd = randoms, rnd_next = 0\<rparr>"
  have "source_ok cr ?db" using assms unfolding source_ok_def by (simp only: auth_db.simps)
  then have "auth_inv cr ?db"
    by (rule auth_invI) (auto simp: accounts_ok_def live_users_def refresh_ok_def singles_ok_def one_open_def)
  then show ?thesis unfolding boot_auth_def by (rule soundD(1) [OF sound_ensureAdmin])
qed

text \<open>
  C3. From a new deployment on, whatever requests arrive: no two accounts in use share an email
  address, every one of them is active, each single-use token and invite is used at most as often as
  it allows and is revoked when used up, and an account has at most one open verification token and
  one open reset token.
\<close>

theorem auth_tables_wf:
  assumes "inj uuids" "inj randoms" "inj_on (sha256 cr) (range randoms)"
    "\<forall>u j t u' j' t'. sha256 cr (signRefresh cr u j t) = sha256 cr (signRefresh cr u' j' t') \<longrightarrow> j = j'"
    and "db = run_requests (auth_step cr) qs (boot_auth cr clk ae ap uuids randoms)"
  shows "distinct (map au_email (live_users db)) \<and> (\<forall>u\<in>set (live_users db). au_isActive u)
    \<and> (\<forall>k\<in>set (tokens db). 0 \<le> tk_usedCount k \<and> tk_usedCount k \<le> tk_maxUses k
        \<and> (tk_usedCount k = tk_maxUses k \<longrightarrow> tk_revokedAt k \<noteq> None))
    \<and> (\<forall>k\<in>set (tokens db). \<forall>k'\<in>set (tokens db). tk_type k \<noteq> INVITE \<and> tk_type k' = tk_type k \<and> tk_userId k' = tk_userId k
        \<and> tk_revokedAt k = None \<and> tk_revokedAt k' = None \<longrightarrow> k' = k)"
proof -
  have inv: "auth_inv cr db" unfolding assms(5) by (rule auth.run_inv [OF boot_auth_inv [OF assms(1-4)]])
  have "distinct (map au_email (live_users db))" "\<forall>u\<in>set (live_users db). au_isActive u"
    using auth_invD(2) [OF inv] by (auto simp: accounts_ok_def live_users_def)
  moreover have "\<forall>k\<in>set (tokens db). token_ok k" "one_open (tokens db)"
    using auth_invD(4) [OF inv] by (simp_all add: singles_ok_def)
  ultimately show ?thesis unfolding token_ok_def one_open_def by blast
qed

section \<open>A sample deployment\<close>

text \<open>Transparent stand-ins for the packages, which satisfy what the properties assume of them.\<close>

definition demo_crypto :: crypto where
  "demo_crypto = \<lparr>hashPassword = (\<lambda>n p. CHR ''#'' # p), verifyPassword = (\<lambda>p h. h = CHR ''#'' # p), sha256 = id,
     signAccess = (\<lambda>u t. ''access''), signRefresh = (\<lambda>u j t. CHR ''R'' # j),
     jwtVerify = (\<lambda>t s. if starts_with s ''R'' then Some ''refresh'' else None),
     refreshExpiresIn = ''7d'', accessExpiresIn = ''1d'', emailVerifyHours = 48, passwordResetHours = 2,
     publicAppUrl = ''app'', mailPreview = (\<lambda>_. None), mailDelivered = (\<lambda>_. False)\<rparr>"

definition demo_random :: "nat \<Rightarrow> string" where
  "demo_random n = replicate (16 + n) (CHR ''r'')"

definition auth_at :: "int \<Rightarrow> clock" where
  "auth_at t = \<lparr>now = t, db_now = t\<rparr>"

lemma demo_sources:
  "inj demo_ids" "inj demo_random" "inj_on (sha256 demo_crypto) (range demo_random)"
  "\<forall>u j t u' j' t'. sha256 demo_crypto (signRefresh demo_crypto u j t) = sha256 demo_crypto (signRefresh demo_crypto u' j' t') \<longrightarrow> j = j'"
proof -
  show "inj demo_ids" by (rule inj_demo_ids)
  have "length (demo_random n) = 16 + n" for n by (simp add: demo_random_def)
  then show "inj demo_random" by (metis add_left_cancel injI)
qed (auto simp: demo_crypto_def)

definition boot_demo :: auth_db where
  "boot_demo = boot_auth demo_crypto (auth_at 0) None None demo_ids demo_random"

text \<open>Ann registers, asks for a reset mail and invites bob; she holds one refresh token.\<close>

definition demo_auth :: auth_db where
  "demo_auth = run_requests (auth_step demo_crypto)
     [(auth_at 1, Register '' Ann@x.io '' ''secret'' None),
      (auth_at 2, ForgotPassword ''ann@x.io''),
      (auth_at 3, CreateInvite (demo_ids 0) (Some ''bob@x.io'') None None)] boot_demo"

lemma run_auth_inv: "auth_inv demo_crypto (run_requests (auth_step demo_crypto) qs boot_demo)"
  unfolding boot_demo_def by (rule auth.run_inv [OF boot_auth_inv [OF demo_sources]])

lemma demo_auth_inv: "auth_inv demo_crypto demo_auth"
  unfolding demo_auth_def by (rule run_auth_inv)

theorem auth_tables_wf_witness:
  "distinct (map au_email (live_users demo_auth)) \<and> map au_email (live_users demo_auth) = [''ann@x.io'']"
proof -
  have "distinct (map au_email (live_users demo_auth))"
    using auth_tables_wf [OF demo_sources refl] unfolding demo_auth_def boot_demo_def by blast
  moreover have "map au_email (live_users demo_auth) = [''ann@x.io'']" by code_simp
  ultimately show ?thesis by simp
qed

section \<open>Single-use tokens\<close>

lemma used_up_invalid:
  assumes inv: "auth_inv cr db" and k: "k \<in> set (tokens db)" "tk_tokenHash k = sha256 cr tok" "tk_revokedAt k \<noteq> None"
  shows "findValidToken cr clk tok ty db = None"
proof (cases "findValidToken cr clk tok ty db")
  case (Some x)
  note row = findValidToken_row [OF Some]
  have "x = k" using distinct_key_eq [of tk_tokenHash "tokens db" x k] auth_invD(4) [OF inv] row(1,2) k(1,2)
    by (simp add: singles_ok_def)
  then show ?thesis using row(4) k(3) by (simp add: token_valid_def)
qed

lemma used_up_later:
  assumes inv: "auth_inv cr db" and k: "k \<in> set (tokens db)" "tk_tokenHash k = sha256 cr tok" "tk_revokedAt k \<noteq> None"
  shows "findValidToken cr clk tok ty (run_requests (auth_step cr) qs db) = None"
proof -
  obtain k' where "k' \<in> set (tokens (run_requests (auth_step cr) qs db))" "tk_tokenHash k' = tk_tokenHash k"
    "tk_revokedAt k' \<noteq> None"
    using auth.run_before [OF inv, of qs] k unfolding advance_def by blast
  then show ?thesis using used_up_invalid [OF auth.run_inv [OF inv, of qs]] k(2) by simp
qed

text \<open>Consuming a verification or reset token uses it up.\<close>

lemma consume_uses_up:
  assumes inv: "auth_inv cr db" and c: "consumeToken cr clk tok ty db = (Inr k, db1)" and ty: "ty \<noteq> INVITE"
  shows "auth_inv cr db1" "k \<in> set (tokens db1)" "tk_tokenHash k = sha256 cr tok" "tk_revokedAt k \<noteq> None"
    "users db1 = users db" "refreshTokens db1 = refreshTokens db"
proof -
  obtain k0 where k0: "findValidToken cr clk tok ty db = Some k0" "k = use_token clk k0" "db1 = save_token k db"
    using c by (auto simp: consumeToken_def split: option.splits)
  note row = findValidToken_row [OF k0(1)]
  show "auth_inv cr db1" using soundD(1) [OF sound_consumeToken inv, of clk tok ty] c by simp
  have id: "tk_id k = tk_id k0" by (simp add: k0(2) use_token_def Let_def)
  show "k \<in> set (tokens db1)"
    using row(1) id by (auto simp: k0(3) save_token_def save_row_def image_iff intro!: bexI [of _ k0])
  have ok: "token_ok k0" using auth_invD(4) [OF inv] row(1) by (simp add: singles_ok_def)
  show "tk_tokenHash k = sha256 cr tok" using row(2) by (simp add: k0(2) use_token_def Let_def)
  show "tk_revokedAt k \<noteq> None" using ok row(3) ty by (auto simp: k0(2) use_token_def Let_def token_ok_def)
  show "users db1 = users db" "refreshTokens db1 = refreshTokens db" by (simp_all add: k0(3) save_token_def)
qed

lemma verifyEmail_invalid:
  "findValidToken cr clk tok EMAIL_VERIFY db = None \<Longrightarrow> fst (verifyEmail cr clk tok db) = Inl (badRequest ''Token is invalid or expired'')"
  by (simp add: verifyEmail_def consumeToken_def)

lemma findValidToken_hash_pw [simp]: "findValidToken cr clk tok ty (db\<lparr>rnd_next := n\<rparr>) = findValidToken cr clk tok ty db"
  by (simp add: findValidToken_def)

lemma resetPassword_invalid:
  "findValidToken cr clk tok PASSWORD_RESET db = None \<Longrightarrow>
    fst (resetPassword cr clk tok p db) = Inl (badRequest ''Token is invalid or expired'')"
  by (simp add: resetPassword_def reset_with_token_def consumeToken_def hash_pw_def)

lemma resetPassword_ok:
  assumes "fst (resetPassword cr clk tok p db) = Inr v"
  obtains k db1 uid u where "consumeToken cr clk tok PASSWORD_RESET (snd (hash_pw cr p db)) = (Inr k, db1)"
    "tk_userId k = Some uid" "find_user db1 uid = Some u" "au_id u = uid"
    "snd (resetPassword cr clk tok p db) = revoke_all uid (save_user clk (u\<lparr>au_password := fst (hash_pw cr p db)\<rparr>) db1)"
proof -
  obtain h db0 where h: "hash_pw cr p db = (h, db0)" by fastforce
  obtain r db1 where c: "consumeToken cr clk tok PASSWORD_RESET db0 = (r, db1)" by fastforce
  obtain k where k: "r = Inr k"
    using assms by (cases r) (auto simp: resetPassword_def reset_with_token_def h c)
  obtain uid where uid: "tk_userId k = Some uid"
    using assms by (cases "tk_userId k") (auto simp: resetPassword_def reset_with_token_def h c k)
  obtain u where u: "find_user db1 uid = Some u"
    using assms by (cases "find_user db1 uid") (auto simp: resetPassword_def reset_with_token_def h c k uid)
  show ?thesis
    by (rule that [of k db1 uid u]) (use c find_user_row [OF u] in \<open>simp_all add: h k uid u resetPassword_def reset_with_token_def\<close>)
qed

lemma verifyEmail_ok:
  assumes "fst (verifyEmail cr clk tok db) = Inr v"
  obtains k db1 uid u where "consumeToken cr clk tok EMAIL_VERIFY db = (Inr k, db1)"
    "tk_userId k = Some uid" "find_user db1 uid = Some u"
    "snd (verifyEmail cr clk tok db) = save_user clk (u\<lparr>au_isEmailVerified := True\<rparr>) db1"
  using assms by (auto simp: verifyEmail_def split: sum.splits option.splits prod.splits)

lemma tokens_kept [simp]:
  "tokens (save_user clk u db) = tokens db" "tokens (revoke_all uid db) = tokens db" "tokens (snd (hash_pw cr p db)) = tokens db"
  "refreshTokens (save_user clk u db) = refreshTokens db" "refreshTokens (snd (hash_pw cr p db)) = refreshTokens db"
  "users (revoke_all uid db) = users db" "users (snd (hash_pw cr p db)) = users db"
  by (simp_all add: save_user_def revoke_all_def hash_pw_def)

text \<open>
  C19. A verification or reset token that was accepted once is refused from then on, for either
  purpose, whatever happens in between.
\<close>

theorem single_use_token:
  assumes inv: "auth_inv cr db" and q: "q = ResetPassword tok p \<or> q = VerifyEmail tok"
    and accepted: "fst (auth_step cr (clk, q) db) = Inr v"
    and q': "q' = ResetPassword tok p' \<or> q' = VerifyEmail tok"
  shows "fst (auth_step cr (clk', q') (run_requests (auth_step cr) qs (snd (auth_step cr (clk, q) db))))
    = Inl (badRequest ''Token is invalid or expired'')"
proof -
  let ?db = "snd (auth_step cr (clk, q) db)"
  have inv': "auth_inv cr ?db" by (rule auth.step_inv [OF inv])
  have "\<exists>k\<in>set (tokens ?db). tk_tokenHash k = sha256 cr tok \<and> tk_revokedAt k \<noteq> None"
    using q
  proof
    assume q: "q = ResetPassword tok p"
    with accepted obtain w where "fst (resetPassword cr clk tok p db) = Inr w" by (cases "fst (resetPassword cr clk tok p db)") auto
    then obtain k db1 uid u where c: "consumeToken cr clk tok PASSWORD_RESET (snd (hash_pw cr p db)) = (Inr k, db1)"
      "snd (resetPassword cr clk tok p db) = revoke_all uid (save_user clk (u\<lparr>au_password := fst (hash_pw cr p db)\<rparr>) db1)"
      by (rule resetPassword_ok)
    from consume_uses_up [OF soundD(1) [OF sound_hash_pw inv] c(1)] show ?thesis by (intro bexI [of _ k]) (simp_all add: q c(2))
  next
    assume q: "q = VerifyEmail tok"
    with accepted obtain w where "fst (verifyEmail cr clk tok db) = Inr w" by (cases "fst (verifyEmail cr clk tok db)") auto
    then obtain k db1 uid u where c: "consumeToken cr clk tok EMAIL_VERIFY db = (Inr k, db1)"
      "snd (verifyEmail cr clk tok db) = save_user clk (u\<lparr>au_isEmailVerified := True\<rparr>) db1"
      by (rule verifyEmail_ok)
    from consume_uses_up [OF inv c(1)] show ?thesis by (intro bexI [of _ k]) (simp_all add: q c(2))
  qed
  then obtain k where "k \<in> set (tokens ?db)" "tk_tokenHash k = sha256 cr tok" "tk_revokedAt k \<noteq> None" by blast
  from used_up_later [OF inv' this] q' show ?thesis by (auto simp: resetPassword_invalid verifyEmail_invalid)
qed

theorem single_use_token_witness:
  "fst (auth_step demo_crypto (auth_at 9, ResetPassword (demo_random 2) ''other'')
      (run_requests (auth_step demo_crypto) [(auth_at 6, ForgotPassword ''ann@x.io'')]
        (snd (auth_step demo_crypto (auth_at 5, ResetPassword (demo_random 2) ''new secret'') demo_auth))))
    = Inl (badRequest ''Token is invalid or expired'')"
proof -
  let ?run = "auth_step demo_crypto (auth_at 5, ResetPassword (demo_random 2) ''new secret'') demo_auth"
  have "\<not> isl (fst ?run)" by code_simp
  then obtain v where v: "fst ?run = Inr v" by (cases "fst ?run") auto
  show ?thesis by (rule single_use_token [OF demo_auth_inv disjI1 [OF refl] v disjI1 [OF refl]])
qed

section \<open>Refresh tokens\<close>

definition refresh_refused :: rpc_error where
  "refresh_refused = unauthorized ''Refresh token is invalid or expired''"

lemma revoked_refused:
  assumes inv: "auth_inv cr db" and k: "k \<in> set (refreshTokens db)" "rt_tokenHash k = sha256 cr tok" "rt_revoked k"
  shows "fst (refresh cr clk tok ip ua db) = Inl refresh_refused"
proof (cases "refresh_row cr tok db")
  case None
  then show ?thesis unfolding refresh_def refresh_row_def [symmetric] by (simp add: refresh_refused_def)
next
  case (Some x)
  then have x: "x \<in> set (refreshTokens db)" "rt_tokenHash x = sha256 cr tok" by (auto simp: refresh_row_def dest!: find_set)
  have "x = k" using distinct_key_eq [of rt_tokenHash "refreshTokens db" x k] auth_invD(3) [OF inv] x k(1,2)
    by (simp add: refresh_ok_def)
  then show ?thesis using Some k(3) unfolding refresh_def refresh_row_def [symmetric]
    by (simp add: refresh_refused_def split: option.split)
qed

lemma revoked_refused_later:
  assumes inv: "auth_inv cr db" and k: "k \<in> set (refreshTokens db)" "rt_tokenHash k = sha256 cr tok" "rt_revoked k"
  shows "fst (refresh cr clk tok ip ua (run_requests (auth_step cr) qs db)) = Inl refresh_refused"
proof -
  obtain k' where "k' \<in> set (refreshTokens (run_requests (auth_step cr) qs db))" "rt_tokenHash k' = rt_tokenHash k" "rt_revoked k'"
    using auth.run_before [OF inv, of qs] k unfolding advance_def by blast
  then show ?thesis using revoked_refused [OF auth.run_inv [OF inv, of qs]] k(2) by simp
qed





section \<open>Ending sessions\<close>

lemma revoke_all_row:
  assumes "k \<in> set (refreshTokens db)" and "rt_userId k = uid"
  shows "\<exists>k'\<in>set (refreshTokens (revoke_all uid db)). rt_tokenHash k' = rt_tokenHash k \<and> rt_revoked k'"
  using assms by (intro bexI [of _ "if rt_userId k = uid \<and> \<not> rt_revoked k then k\<lparr>rt_revoked := True\<rparr> else k"])
    (auto simp: revoke_all_def)

text \<open>The requests that close all sessions of an account.\<close>

definition closes_sessions :: "crypto \<Rightarrow> clock \<Rightarrow> auth_request \<Rightarrow> uuid \<Rightarrow> auth_db \<Rightarrow> bool" where
  "closes_sessions cr clk q uid db = (case q of
     Logout u None \<Rightarrow> u = uid
   | ChangePassword u _ _ \<Rightarrow> u = uid
   | Deactivate u \<Rightarrow> u = uid
   | ResetPassword tok _ \<Rightarrow> (case findValidToken cr clk tok PASSWORD_RESET db of
        None \<Rightarrow> False | Some k \<Rightarrow> tk_userId k = Some uid)
   | _ \<Rightarrow> False)"

lemma closing_run:
  assumes inv: "auth_inv cr db" and q: "closes_sessions cr clk q uid db" and ok: "fst (auth_step cr (clk, q) db) = Inr v"
  shows "\<exists>db1. refreshTokens db1 = refreshTokens db \<and> snd (auth_step cr (clk, q) db) = revoke_all uid db1"
proof (cases q)
  case (Logout u t)
  then have "snd (auth_step cr (clk, q) db) = revoke_all uid db"
    using q by (auto simp: closes_sessions_def logout_def split: option.splits)
  then show ?thesis by blast
next
  case (ChangePassword u old new)
  with q have u: "u = uid" by (simp add: closes_sessions_def)
  obtain a where a: "find_user db uid = Some a" and pw: "verifyPassword cr old (au_password a)"
    using ok by (auto simp: ChangePassword u changePassword_def split: option.splits if_splits)
  have "snd (auth_step cr (clk, q) db) = revoke_all uid
      (save_user clk (a\<lparr>au_password := fst (hash_pw cr new db)\<rparr>) (snd (hash_pw cr new db)))"
    using a pw find_user_row [OF a] by (simp add: ChangePassword u changePassword_def case_prod_beta)
  then show ?thesis
    by (intro exI [of _ "save_user clk (a\<lparr>au_password := fst (hash_pw cr new db)\<rparr>) (snd (hash_pw cr new db))"] conjI) simp_all
next
  case (Deactivate u)
  with q have u: "u = uid" by (simp add: closes_sessions_def)
  obtain a where a: "find_user db uid = Some a" using ok by (auto simp: Deactivate u deactivate_def split: option.splits)
  show ?thesis
    using deactivate_run [OF a, of clk] by (intro exI conjI) (simp_all add: Deactivate u)
next
  case (ResetPassword tok p)
  with q obtain k where k: "findValidToken cr clk tok PASSWORD_RESET db = Some k" "tk_userId k = Some uid"
    by (auto simp: closes_sessions_def split: option.splits)
  obtain w where "fst (resetPassword cr clk tok p db) = Inr w"
    using ok ResetPassword by (cases "fst (resetPassword cr clk tok p db)") auto
  then obtain k1 db1 uid1 u where c: "consumeToken cr clk tok PASSWORD_RESET (snd (hash_pw cr p db)) = (Inr k1, db1)" "tk_userId k1 = Some uid1"
    "snd (resetPassword cr clk tok p db) = revoke_all uid1 (save_user clk (u\<lparr>au_password := fst (hash_pw cr p db)\<rparr>) db1)"
    by (rule resetPassword_ok)
  have "uid1 = uid" using c(1,2) k by (auto simp: consumeToken_def hash_pw_def use_token_def Let_def)
  moreover have "refreshTokens db1 = refreshTokens db"
    using consume_uses_up(6) [OF soundD(1) [OF sound_hash_pw inv] c(1)] by simp
  ultimately show ?thesis using c(3) by (intro exI conjI) (simp_all add: ResetPassword)
qed (use q in \<open>simp_all add: closes_sessions_def\<close>)

text \<open>
  C11. A password change, a password reset, a deactivation and a logout from all devices end every
  session of the account: a refresh token issued before is refused from then on, whatever happens in
  between.
\<close>

theorem sessions_end:
  assumes inv: "auth_inv cr db" and q: "closes_sessions cr clk q uid db" and ok: "fst (auth_step cr (clk, q) db) = Inr v"
    and k: "k \<in> set (refreshTokens db)" "rt_userId k = uid" "rt_tokenHash k = sha256 cr tok"
  shows "fst (refresh cr clk' tok ip ua (run_requests (auth_step cr) qs (snd (auth_step cr (clk, q) db))))
    = Inl (unauthorized ''Refresh token is invalid or expired'')"
proof -
  obtain db1 where db1: "refreshTokens db1 = refreshTokens db" "snd (auth_step cr (clk, q) db) = revoke_all uid db1"
    using closing_run [OF inv q ok] by blast
  obtain k' where "k' \<in> set (refreshTokens (revoke_all uid db1))" "rt_tokenHash k' = sha256 cr tok" "rt_revoked k'"
    using revoke_all_row [of k db1 uid] k db1(1) by auto
  moreover have "auth_inv cr (revoke_all uid db1)" using auth.step_inv [OF inv, of "(clk, q)"] db1(2) by simp
  ultimately show ?thesis
    unfolding db1(2) using revoked_refused_later [of cr "revoke_all uid db1" k'] by (simp add: refresh_refused_def)
qed

theorem sessions_end_witness:
  "fst (refresh demo_crypto (auth_at 8) ''Rki'' None None (run_requests (auth_step demo_crypto)
      [(auth_at 6, Login ''ann@x.io'' ''new secret'' None None)]
      (snd (auth_step demo_crypto (auth_at 5, ResetPassword (demo_random 2) ''new secret'') demo_auth))))
    = Inl (unauthorized ''Refresh token is invalid or expired'')"
proof -
  let ?q = "ResetPassword (demo_random 2) ''new secret''"
  have c: "closes_sessions demo_crypto (auth_at 5) ?q (demo_ids 0) demo_auth"
    "\<not> isl (fst (auth_step demo_crypto (auth_at 5, ?q) demo_auth))"
    "list_ex (\<lambda>k. rt_userId k = demo_ids 0 \<and> rt_tokenHash k = sha256 demo_crypto ''Rki'') (refreshTokens demo_auth)"
    by code_simp+
  obtain v where v: "fst (auth_step demo_crypto (auth_at 5, ?q) demo_auth) = Inr v"
    using c(2) by (cases "fst (auth_step demo_crypto (auth_at 5, ?q) demo_auth)") auto
  obtain k where k: "k \<in> set (refreshTokens demo_auth)" "rt_userId k = demo_ids 0" "rt_tokenHash k = sha256 demo_crypto ''Rki''"
    using c(3) unfolding list_ex_iff by blast
  show ?thesis by (rule sessions_end [OF demo_auth_inv c(1) v k])
qed

section \<open>Accounts that end\<close>

lemma removed_later:
  assumes inv: "auth_inv cr db" and u: "u \<in> set (users db)" "au_id u = uid" "au_deletedAt u \<noteq> None"
  shows "find_user (run_requests (auth_step cr) qs db) uid = None"
proof (rule ccontr)
  let ?db = "run_requests (auth_step cr) qs db"
  assume "find_user ?db uid \<noteq> None"
  then obtain x where x: "find_user ?db uid = Some x" by blast
  obtain u' where u': "u' \<in> set (users ?db)" "au_id u' = uid" "au_deletedAt u' \<noteq> None"
    using auth.run_before [OF inv, of qs] u unfolding advance_def by blast
  have "x = u'" using distinct_key_eq [of au_id "users ?db" x u'] auth_invD(2) [OF auth.run_inv [OF inv, of qs]]
      find_user_row [OF x] u' by (simp add: accounts_ok_def)
  then show False using find_user_row [OF x] u'(3) by simp
qed

lemma live_email: "u \<in> set (live_users db) \<Longrightarrow> auth_inv cr db \<Longrightarrow> find_email db (au_email u) = Some u"
proof -
  assume u: "u \<in> set (live_users db)" and inv: "auth_inv cr db"
  show ?thesis
  proof (cases "find_email db (au_email u)")
    case None
    then show ?thesis using u unfolding find_email_def find_None_set by blast
  next
    case (Some x)
    then have "x \<in> set (live_users db)" "au_email x = au_email u" by (auto simp: find_email_def dest!: find_set)
    then have "x = u" using distinct_key_eq [of au_email "live_users db" x u] auth_invD(2) [OF inv] u by (simp add: accounts_ok_def)
    with Some show ?thesis by simp
  qed
qed

text \<open>
  C22. A deactivated account is gone for good: from then on its session is not valid, it is not
  found, its password cannot be changed and it cannot be deactivated again; right afterwards its
  email logs nobody in and is free. The answer to its owner is the one for a wrong password, because the
  row is removed together with the flag: no login, refresh or validation ever says that the account has
  been deactivated.
\<close>

theorem deactivation_final:
  assumes inv: "auth_inv cr db" and u: "find_user db uid = Some u"
  shows "(let db' = run_requests (auth_step cr) qs (snd (deactivate clk uid db)) in
      validate uid db' = Inl (unauthorized ''User session is no longer valid'') \<and> me uid db' = Inl (notFound ''User'')
      \<and> fst (changePassword cr clk' uid old new db') = Inl (notFound ''User'')
      \<and> fst (deactivate clk' uid db') = Inl (notFound ''User''))
    \<and> find_email (snd (deactivate clk uid db)) (au_email u) = None
    \<and> (normalize_email e = au_email u \<longrightarrow>
        fst (login cr clk' e p ip ua (snd (deactivate clk uid db))) = Inl (unauthorized ''Invalid email or password''))
    \<and> fst (login cr clk' e p ip ua db) \<noteq> Inl (forbidden ''This account has been deactivated'')
    \<and> fst (refresh cr clk' tok ip ua db) \<noteq> Inl (forbidden ''This account has been deactivated'')
    \<and> validate uid' db \<noteq> Inl (forbidden ''This account has been deactivated'')"
proof -
  let ?db1 = "snd (deactivate clk uid db)"
  note row = find_user_row [OF u]
  have inv1: "auth_inv cr ?db1" by (rule soundD(1) [OF sound_deactivate inv])
  let ?f = "\<lambda>x. if au_id x = uid
     then (if x = u\<lparr>au_isActive := False\<rparr> then x else u\<lparr>au_isActive := False, au_updatedAt := db_now clk\<rparr>)\<lparr>au_deletedAt := Some (db_now clk)\<rparr>
     else x"
  have users1: "users ?db1 = map ?f (users db)" unfolding deactivate_run [OF u] by (simp add: revoke_all_def)
  have "?f u \<in> set (users ?db1)" unfolding users1 set_map using row by (intro imageI) simp
  then have gone: "find_user (run_requests (auth_step cr) qs ?db1) uid = None" for qs
    by (rule removed_later [OF inv1]) (use row in simp_all)
  have "x = u" if "x \<in> set (users db)" "au_email x = au_email u" "au_deletedAt x = None" for x
    using distinct_key_eq [of au_email "live_users db" x u] auth_invD(2) [OF inv] row that
    by (simp add: accounts_ok_def live_users_def)
  then have free: "find_email ?db1 (au_email u) = None"
    unfolding find_email_def find_None_set live_users_def users1 using row by auto
  have active: "au_isActive x" if "find_user db k = Some x \<or> find_email db k = Some x" for x k
    using auth_invD(2) [OF inv] that by (auto simp: accounts_ok_def dest: find_user_row find_email_row)
  have "fst (login cr clk' e p ip ua db) \<noteq> Inl (forbidden ''This account has been deactivated'')"
    using active by (auto simp: login_def case_prod_beta rpc_error_defs split: option.split)
  moreover have "validate uid' db \<noteq> Inl (forbidden ''This account has been deactivated'')"
    using active by (auto simp: validate_def rpc_error_defs split: option.split)
  moreover have "fst (refresh cr clk' tok ip ua db) \<noteq> Inl (forbidden ''This account has been deactivated'')"
    unfolding refresh_def using active by (auto simp: Let_def case_prod_beta rpc_error_defs split: option.split)
  moreover have "fst (login cr clk' e p ip ua ?db1) = Inl (unauthorized ''Invalid email or password'')"
    if "normalize_email e = au_email u" using free that by (simp add: login_def)
  ultimately show ?thesis
    using gone [of qs] free by (simp add: Let_def validate_def me_def changePassword_def deactivate_def [of clk'])
qed

theorem deactivation_final_witness:
  "validate (demo_ids 0) (run_requests (auth_step demo_crypto) [(auth_at 9, Register ''ann@x.io'' ''again'' None)]
      (snd (deactivate (auth_at 8) (demo_ids 0) demo_auth))) = Inl (unauthorized ''User session is no longer valid'')
   \<and> fst (login demo_crypto (auth_at 9) '' ANN@x.io'' ''secret'' None None (snd (deactivate (auth_at 8) (demo_ids 0) demo_auth)))
      = Inl (unauthorized ''Invalid email or password'')"
proof -
  have c: "map_option au_email (find_user demo_auth (demo_ids 0)) = Some ''ann@x.io''"
    "normalize_email '' ANN@x.io'' = ''ann@x.io''" by code_simp+
  then obtain u where u: "find_user demo_auth (demo_ids 0) = Some u" "au_email u = ''ann@x.io''" by auto
  have e: "normalize_email '' ANN@x.io'' = au_email u" using c(2) u(2) by simp
  show ?thesis
    using deactivation_final [OF demo_auth_inv u(1), of "[(auth_at 9, Register ''ann@x.io'' ''again'' None)]" "auth_at 8"
        "auth_at 9" "''''" "''''" "'' ANN@x.io''" "''secret''" None None] e by (simp only: Let_def)
qed

section \<open>Passwords\<close>



lemma users_kept [simp]:
  "users (snd (issueTokens cr clk u ip ua db)) = users db" "users (consumeInvite clk k db) = users db"
  "users (snd (issueToken cr clk ty em uid cb mx ttl db)) = users db"
  "users (snd (requestEmailVerification cr clk acc db)) = users db"
  by (auto simp: issueTokens_def consumeInvite_def save_token_def issueToken_def revoke_previous_def
      requestEmailVerification_def Let_def case_prod_beta split: option.split)

lemma registered_row:
  assumes "fst (register cr clk e pw ivt db) = Inr (v, pair)"
  shows "\<exists>x. users (snd (register cr clk e pw ivt db)) = users db @ [x] \<and> au_email x = normalize_email e
    \<and> au_password x = hashPassword cr (rnd_next db) pw \<and> au_deletedAt x = None \<and> v = toView x \<and> au_role x = ROLE_USER"
  by (rule register_cases [OF assms])
    (use assms in \<open>auto simp: Let_def case_prod_beta hash_pw_def insert_user_def split: option.split\<close>)





section \<open>Registration by invite\<close>

text \<open>
  C21. A registration that gives an invite succeeds only while the invite is open: not revoked, not
  expired, not used up, and for that email if it is for one. It uses the invite once, makes an
  ordinary account whose email was free, and takes the email as verified exactly when the invite was for it.
\<close>

theorem register_by_invite:
  assumes inv: "auth_inv cr db" and t: "truthy t" and ok: "fst (register cr clk e pw (Some t) db) = Inr (v, pair)"
  shows "\<exists>k\<in>set (tokens db). tk_tokenHash k = sha256 cr t \<and> tk_type k = INVITE \<and> token_valid clk k
    \<and> (opt_truthy (tk_email k) \<longrightarrow> tk_email k = Some (normalize_email e))
    \<and> (\<exists>k'\<in>set (tokens (snd (register cr clk e pw (Some t) db))). tk_tokenHash k' = sha256 cr t
        \<and> tk_usedCount k' = tk_usedCount k + 1 \<and> (tk_usedCount k' = tk_maxUses k \<longrightarrow> tk_revokedAt k' \<noteq> None))
    \<and> uv_isEmailVerified v = opt_truthy (tk_email k) \<and> uv_role v = ROLE_USER \<and> uv_email v = normalize_email e
    \<and> find_email db (normalize_email e) = None
    \<and> map_option toView (find_email (snd (register cr clk e pw (Some t) db)) (normalize_email e)) = Some v"
proof -
  obtain ik where free: "find_email db (normalize_email e) = None"
    and ik: "ik = None \<and> \<not> opt_truthy (Some t) \<or> (\<exists>k. ik = Some k \<and> opt_truthy (Some t)
        \<and> findValidToken cr clk (nullish (Some t) '''') INVITE db = Some k
        \<and> \<not> (opt_truthy (tk_email k) \<and> tk_email k \<noteq> Some (normalize_email e)))"
    and run: "register cr clk e pw (Some t) db = (let email = normalize_email e;
        verified = (case ik of None \<Rightarrow> False | Some k \<Rightarrow> opt_truthy (tk_email k) \<and> tk_email k = Some email);
        (hashed, db1) = hash_pw cr pw db;
        (saved, db2) = insert_user clk email hashed ROLE_USER verified db1;
        db3 = (case ik of None \<Rightarrow> db2 | Some k \<Rightarrow> consumeInvite clk (tk_id k) db2);
        (pair, db4) = issueTokens cr clk saved None None db3;
        db5 = (if au_isEmailVerified saved then db4 else snd (requestEmailVerification cr clk (au_id saved) db4)) in
      (Inr (toView saved, pair), db5))"
    by (rule register_cases [OF ok])
  obtain k where k: "ik = Some k" "findValidToken cr clk t INVITE db = Some k"
    "opt_truthy (tk_email k) \<longrightarrow> tk_email k = Some (normalize_email e)" using ik t by auto
  note row = findValidToken_row [OF k(2)]
  obtain h db1 where h: "hash_pw cr pw db = (h, db1)" by fastforce
  obtain u db2 where u: "insert_user clk (normalize_email e) h ROLE_USER (opt_truthy (tk_email k)) db1 = (u, db2)" by fastforce
  obtain pr db4 where i: "issueTokens cr clk u None None (consumeInvite clk (tk_id k) db2) = (pr, db4)" by fastforce
  have reg: "register cr clk e pw (Some t) db = (Inr (toView u, pr), if au_isEmailVerified u then db4
      else snd (requestEmailVerification cr clk (au_id u) db4))"
  proof -
    have "(opt_truthy (tk_email k) \<and> tk_email k = Some (normalize_email e)) = opt_truthy (tk_email k)" using k(3) by blast
    then show ?thesis unfolding run by (simp only: k(1) option.case Let_def h u i prod.case)
  qed
  have u_row: "au_email u = normalize_email e" "au_role u = ROLE_USER" "au_isEmailVerified u = opt_truthy (tk_email k)"
    "tokens db2 = tokens db"
    using u h by (auto simp: insert_user_def Let_def hash_pw_def)
  have ids: "find (\<lambda>x. tk_id x = tk_id k) (tokens db2) = Some k"
  proof (cases "find (\<lambda>x. tk_id x = tk_id k) (tokens db2)")
    case None
    then show ?thesis using row(1) u_row(4) unfolding find_None_set by metis
  next
    case (Some x)
    then have "x = k" using find_set [OF Some] auth_invD(4) [OF inv] row(1) u_row(4)
      distinct_key_eq [of tk_id "tokens db" x k] by (simp add: singles_ok_def)
    with Some show ?thesis by simp
  qed
  have use: "use_token clk k \<in> set (tokens db4)"
  proof -
    have "tk_id (use_token clk k) = tk_id k" by (simp add: use_token_def Let_def)
    moreover have "k \<in> set (tokens db2)" using row(1) u_row(4) by simp
    ultimately have "use_token clk k \<in> set (tokens (consumeInvite clk (tk_id k) db2))"
      by (auto simp: consumeInvite_def ids save_token_def save_row_def image_iff intro!: bexI [of _ k])
    then show ?thesis using i by (auto simp: issueTokens_def Let_def)
  qed
  have keep: "use_token clk k \<in> set (tokens (snd (requestEmailVerification cr clk uid db4)))" for uid
    using use row(3) by (auto simp: requestEmailVerification_def issueToken_def revoke_previous_def Let_def use_token_def
        image_iff intro!: bexI [of _ "use_token clk k"] split: option.split)
  have final: "use_token clk k \<in> set (tokens (snd (register cr clk e pw (Some t) db)))" using use keep by (simp add: reg)
  have "auth_inv cr (snd (register cr clk e pw (Some t) db))" by (rule soundD(1) [OF sound_register inv])
  moreover obtain x where x: "users (snd (register cr clk e pw (Some t) db)) = users db @ [x]" "au_email x = normalize_email e"
    "au_deletedAt x = None" "v = toView x" using registered_row [OF ok] by blast
  ultimately have "find_email (snd (register cr clk e pw (Some t) db)) (normalize_email e) = Some x"
    using live_email [of x "snd (register cr clk e pw (Some t) db)" cr] by (simp add: live_users_def)
  moreover have "v = toView u" using ok by (simp add: reg)
  ultimately show ?thesis
    using row k(3) free u_row x(4) final
    by (intro bexI [of _ k] conjI bexI [of _ "use_token clk k"])
      (auto simp: toView_def use_token_def Let_def)
qed

theorem register_by_invite_witness:
  "\<exists>v pair. fst (register demo_crypto (auth_at 7) ''bob@x.io'' ''pw'' (Some (demo_random 3)) demo_auth) = Inr (v, pair)
    \<and> uv_isEmailVerified v
    \<and> map_option toView (find_email (snd (register demo_crypto (auth_at 7) ''bob@x.io'' ''pw'' (Some (demo_random 3)) demo_auth))
         ''bob@x.io'') = Some v"
proof -
  let ?run = "register demo_crypto (auth_at 7) ''bob@x.io'' ''pw'' (Some (demo_random 3)) demo_auth"
  have c: "\<not> isl (fst ?run)" "truthy (demo_random 3)" "normalize_email ''bob@x.io'' = ''bob@x.io''"
    "list_all (\<lambda>k. tk_tokenHash k = demo_random 3 \<longrightarrow> opt_truthy (tk_email k)) (tokens demo_auth)" by code_simp+
  obtain v pair where run: "fst ?run = Inr (v, pair)" using c(1) by (cases "fst ?run") auto
  have "sha256 demo_crypto = id" by (simp add: demo_crypto_def)
  then show ?thesis
    using register_by_invite [OF demo_auth_inv c(2) run] run c(3,4) unfolding list_all_iff by fastforce
qed

end
