(* ===== verification/UserService.thy ===== *)
theory UserService
  imports ChatQueries
begin

text \<open>
  The user service: \<open>apps/user-service/src/users/users.service.ts\<close> over the table of
  \<open>user-profile.entity.ts\<close>. The partial unique index on \<open>userId\<close> makes an insert
  fail while another live row has the user; \<open>createProfile\<close> is split at its two
  database calls, so that what other requests do between them is a parameter.

  The collation of the database, which orders text columns, is a parameter: the
  rank of a string.
\<close>

section \<open>Data (user-profile.entity.ts, user.contracts.ts)\<close>

record user_profile =
  up_id :: uuid
  up_userId :: uuid
  up_email :: string
  up_firstName :: string
  up_lastName :: string
  up_phone :: "string option"
  up_bio :: "string option"
  up_avatar :: "string option"
  up_dateOfBirth :: "string option"
  up_showLastSeen :: bool
  up_createdAt :: instant
  up_updatedAt :: instant
  up_deletedAt :: "instant option"

record user_db =
  profiles :: "user_profile list"
  profile_ids :: "nat \<Rightarrow> uuid"
  profile_next :: nat

record create_profile_payload =
  cp_userId :: uuid
  cp_email :: string
  cp_firstName :: string
  cp_lastName :: string

text \<open>
  \<open>None\<close> is an absent or null field; \<open>avatar\<close> distinguishes the two
  (\<open>Some None\<close> is null).
\<close>

record update_profile_payload =
  pu_userId :: uuid
  pu_firstName :: "string option"
  pu_lastName :: "string option"
  pu_phone :: "string option"
  pu_bio :: "string option"
  pu_avatar :: "string option option"
  pu_dateOfBirth :: "string option"
  pu_showLastSeen :: "bool option"

datatype sort_order = ASC | DESC

record find_users_payload =
  fu_page :: int
  fu_limit :: int
  fu_search :: "string option"
  fu_sortBy :: string
  fu_order :: sort_order

record profile_view =
  fv_id :: uuid
  fv_userId :: uuid
  fv_email :: string
  fv_firstName :: string
  fv_lastName :: string
  fv_phone :: "string option"
  fv_bio :: "string option"
  fv_avatar :: "string option"
  fv_dateOfBirth :: "string option"
  fv_showLastSeen :: bool
  fv_createdAt :: instant
  fv_updatedAt :: instant

type_synonym 'a user_handler = "user_db \<Rightarrow> 'a rpc \<times> user_db"

definition toProfileView :: "user_profile \<Rightarrow> profile_view" where
  "toProfileView p = \<lparr>fv_id = up_id p, fv_userId = up_userId p, fv_email = up_email p,
     fv_firstName = up_firstName p, fv_lastName = up_lastName p, fv_phone = up_phone p, fv_bio = up_bio p,
     fv_avatar = up_avatar p, fv_dateOfBirth = up_dateOfBirth p, fv_showLastSeen = up_showLastSeen p,
     fv_createdAt = up_createdAt p, fv_updatedAt = up_updatedAt p\<rparr>"

definition live_profiles :: "user_db \<Rightarrow> user_profile list" where
  "live_profiles db = filter (\<lambda>p. up_deletedAt p = None) (profiles db)"

definition find_profile :: "user_db \<Rightarrow> uuid \<Rightarrow> user_profile option" where
  "find_profile db userId = find (\<lambda>p. up_userId p = userId) (live_profiles db)"

section \<open>Operations (users.service.ts)\<close>

definition ALLOWED_SORT :: "string list" where
  "ALLOWED_SORT = [''createdAt'', ''updatedAt'', ''firstName'', ''lastName'', ''email'']"

text \<open>The insert, \<open>None\<close> being the unique violation.\<close>

definition insert_profile :: "clock \<Rightarrow> create_profile_payload \<Rightarrow> user_db \<Rightarrow> (user_profile \<times> user_db) option" where
  "insert_profile clk p db =
     (if find_profile db (cp_userId p) \<noteq> None then None
      else let row = \<lparr>up_id = profile_ids db (profile_next db), up_userId = cp_userId p,
               up_email = trim (to_lower (cp_email p)), up_firstName = trim (cp_firstName p),
               up_lastName = trim (cp_lastName p), up_phone = None, up_bio = None, up_avatar = None,
               up_dateOfBirth = None, up_showLastSeen = True, up_createdAt = db_now clk,
               up_updatedAt = db_now clk, up_deletedAt = None\<rparr> in
        Some (row, db\<lparr>profiles := profiles db @ [row], profile_next := Suc (profile_next db)\<rparr>))"

definition internalError :: rpc_error where
  "internalError = throwRpcError 500 ''Internal server error'' ''Internal Server Error''"

text \<open>What follows a first read that found no profile.\<close>

definition create_after_miss :: "clock \<Rightarrow> create_profile_payload \<Rightarrow> profile_view user_handler" where
  "create_after_miss clk p db =
     (case insert_profile clk p db of
        Some (saved, db1) \<Rightarrow> (Inr (toProfileView saved), db1)
      | None \<Rightarrow>
         (case find_profile db (cp_userId p) of
            Some existing \<Rightarrow> (Inr (toProfileView existing), db)
          | None \<Rightarrow> (Inl internalError, db)))"

definition createProfile :: "clock \<Rightarrow> create_profile_payload \<Rightarrow> profile_view user_handler" where
  "createProfile clk p db =
     (case find_profile db (cp_userId p) of
        Some existing \<Rightarrow> (Inr (toProfileView existing), db)
      | None \<Rightarrow> create_after_miss clk p db)"

text \<open>The search text is put into the pattern as it is.\<close>

definition matches_search :: "string option \<Rightarrow> user_profile \<Rightarrow> bool" where
  "matches_search search p = (case search of None \<Rightarrow> True
     | Some s \<Rightarrow> (if \<not> truthy s then True
         else (let pat = ''%'' @ s @ ''%'' in
           ilike pat (up_firstName p) \<or> ilike pat (up_lastName p) \<or> ilike pat (up_email p))))"

definition sort_value :: "(string \<Rightarrow> int) \<Rightarrow> string \<Rightarrow> user_profile \<Rightarrow> int" where
  "sort_value rank sortBy p =
     (if sortBy = ''updatedAt'' then up_updatedAt p
      else if sortBy = ''firstName'' then rank (up_firstName p)
      else if sortBy = ''lastName'' then rank (up_lastName p)
      else if sortBy = ''email'' then rank (up_email p)
      else up_createdAt p)"

definition findAll :: "(string \<Rightarrow> int) \<Rightarrow> find_users_payload \<Rightarrow> user_db \<Rightarrow>
    (profile_view list \<times> paginated_meta) rpc" where
  "findAll rank q db =
     (let sortBy = (if fu_sortBy q \<in> set ALLOWED_SORT then fu_sortBy q else ''createdAt'');
          found = filter (matches_search (fu_search q)) (live_profiles db);
          ordered = (if fu_order q = ASC then order_asc else order_desc) (sort_value rank sortBy) found;
          items = page_of (fu_page q) (fu_limit q) ordered
      in Inr (buildPaginatedResult (map toProfileView items) (int (length found)) (fu_page q) (fu_limit q)))"

definition findOne :: "uuid \<Rightarrow> user_db \<Rightarrow> profile_view rpc" where
  "findOne i db = (case find (\<lambda>p. up_id p = i) (live_profiles db) of
     None \<Rightarrow> Inl (notFound ''User'') | Some p \<Rightarrow> Inr (toProfileView p))"

definition findByUserId :: "uuid \<Rightarrow> user_db \<Rightarrow> profile_view rpc" where
  "findByUserId userId db = (case find_profile db userId of
     None \<Rightarrow> Inl (notFound ''User profile'') | Some p \<Rightarrow> Inr (toProfileView p))"

definition patch_profile :: "update_profile_payload \<Rightarrow> user_profile \<Rightarrow> user_profile" where
  "patch_profile u p = p\<lparr>
     up_firstName := nullish (map_option trim (pu_firstName u)) (up_firstName p),
     up_lastName := nullish (map_option trim (pu_lastName u)) (up_lastName p),
     up_phone := (case pu_phone u of None \<Rightarrow> up_phone p | Some x \<Rightarrow> Some x),
     up_bio := (case pu_bio u of None \<Rightarrow> up_bio p | Some x \<Rightarrow> Some x),
     up_avatar := (case pu_avatar u of None \<Rightarrow> up_avatar p | Some a \<Rightarrow> trim_or_null a),
     up_dateOfBirth := (case pu_dateOfBirth u of None \<Rightarrow> up_dateOfBirth p | Some x \<Rightarrow> Some x),
     up_showLastSeen := nullish (pu_showLastSeen u) (up_showLastSeen p)\<rparr>"

text \<open>\<open>save\<close> of a loaded row: \<open>updatedAt\<close> moves when a column changed.\<close>

definition touch_profile :: "clock \<Rightarrow> user_profile \<Rightarrow> user_profile \<Rightarrow> user_profile" where
  "touch_profile clk old p = (if p = old then old else p\<lparr>up_updatedAt := db_now clk\<rparr>)"

definition save_profile :: "user_profile \<Rightarrow> user_db \<Rightarrow> user_db" where
  "save_profile p db = db\<lparr>profiles := save_row up_id p (profiles db)\<rparr>"

definition updateProfile :: "clock \<Rightarrow> update_profile_payload \<Rightarrow> profile_view user_handler" where
  "updateProfile clk u db =
     (case find_profile db (pu_userId u) of
        None \<Rightarrow> (Inl (notFound ''User profile''), db)
      | Some p \<Rightarrow> (let saved = touch_profile clk p (patch_profile u p) in
          (Inr (toProfileView saved), save_profile saved db)))"

definition removeProfile :: "clock \<Rightarrow> uuid \<Rightarrow> bool user_handler" where
  "removeProfile clk userId db =
     (case find_profile db userId of
        None \<Rightarrow> (Inl (notFound ''User profile''), db)
      | Some p \<Rightarrow> (Inr True, save_profile (p\<lparr>up_updatedAt := db_now clk, up_deletedAt := Some (db_now clk)\<rparr>) db))"

section \<open>Message patterns (users.controller.ts)\<close>

datatype (plugins only: size code) user_request =
    CreateProfile create_profile_payload
  | FindUsers find_users_payload
  | FindUser uuid
  | FindByUserId uuid
  | UpdateProfile update_profile_payload
  | RemoveUser uuid

datatype (plugins only: size code) user_response =
    UProfile profile_view
  | UProfiles "profile_view list \<times> paginated_meta"
  | UDeleted bool

primrec user_request_step :: "user_request \<Rightarrow> (string \<Rightarrow> int) \<Rightarrow> clock \<Rightarrow> user_response user_handler" where
  "user_request_step (CreateProfile p) rank clk db = apfst (map_sum id UProfile) (createProfile clk p db)"
| "user_request_step (FindUsers q) rank clk db = (map_sum id UProfiles (findAll rank q db), db)"
| "user_request_step (FindUser i) rank clk db = (map_sum id UProfile (findOne i db), db)"
| "user_request_step (FindByUserId u) rank clk db = (map_sum id UProfile (findByUserId u db), db)"
| "user_request_step (UpdateProfile u) rank clk db = apfst (map_sum id UProfile) (updateProfile clk u db)"
| "user_request_step (RemoveUser u) rank clk db = apfst (map_sum id UDeleted) (removeProfile clk u db)"

definition user_step :: "clock \<times> (string \<Rightarrow> int) \<times> user_request \<Rightarrow> user_response user_handler" where
  "user_step q db = (case q of (clk, rank, r) \<Rightarrow> user_request_step r rank clk db)"

definition empty_users :: "(nat \<Rightarrow> uuid) \<Rightarrow> user_db" where
  "empty_users gen = \<lparr>profiles = [], profile_ids = gen, profile_next = 0\<rparr>"

section \<open>One live profile per user\<close>

definition user_inv :: "user_db \<Rightarrow> bool" where
  "user_inv db \<longleftrightarrow> inj (profile_ids db) \<and> distinct (map up_id (profiles db))
     \<and> up_id ` set (profiles db) \<subseteq> profile_ids db ` {..<profile_next db}
     \<and> distinct (map up_userId (live_profiles db))"

lemma find_profile_Some: "find_profile db u = Some p \<Longrightarrow> p \<in> set (profiles db) \<and> up_userId p = u \<and> up_deletedAt p = None"
  by (auto simp: find_profile_def live_profiles_def dest: find_set)

lemma find_profile_None: "find_profile db u = None \<longleftrightarrow> u \<notin> up_userId ` set (live_profiles db)"
  by (auto simp: find_profile_def find_None_set)

lemma fresh_profile_id: "user_inv db \<Longrightarrow> profile_ids db (profile_next db) \<notin> up_id ` set (profiles db)"
  by (auto simp: user_inv_def dest: injD)

lemma user_inv_insert:
  assumes "user_inv db" "insert_profile clk p db = Some (row, db')"
  shows "user_inv db'"
proof -
  have miss: "find_profile db (cp_userId p) = None"
    and db': "db' = db\<lparr>profiles := profiles db @ [row], profile_next := Suc (profile_next db)\<rparr>"
    and row: "up_id row = profile_ids db (profile_next db)" "up_userId row = cp_userId p" "up_deletedAt row = None"
    using assms(2) by (auto simp: insert_profile_def Let_def split: if_splits)
  then show ?thesis
    using assms(1) fresh_profile_id [OF assms(1)] unfolding user_inv_def db' find_profile_None live_profiles_def
    by (auto simp: lessThan_Suc)
qed

text \<open>Rewriting a live row in place, with the same identifier and user.\<close>

lemma live_save_keep:
  assumes "distinct (map up_id ps)" "p \<in> set ps" "up_id q = up_id p" "up_deletedAt p = None" "up_deletedAt q = None"
  shows "filter (\<lambda>x. up_deletedAt x = None) (save_row up_id q ps)
       = save_row up_id q (filter (\<lambda>x. up_deletedAt x = None) ps)"
proof (rule filter_save_row_keep)
  show "\<forall>x\<in>set ps. up_id x = up_id q \<longrightarrow> (up_deletedAt x = None) = (up_deletedAt q = None)"
    using assms distinct_key_eq [OF assms(1) _ assms(2)] by auto
qed

lemma map_save_row_keep:
  assumes "distinct (map key ps)" "p \<in> set ps" "key q = key p" "f q = f p"
  shows "map f (save_row key q ps) = map f ps"
  using assms distinct_key_eq [OF assms(1) _ assms(2)] by (auto simp: save_row_def)

lemma distinct_live_ids: "distinct (map up_id (profiles db)) \<Longrightarrow> distinct (map up_id (live_profiles db))"
  by (simp add: live_profiles_def distinct_map_filter)

lemma user_inv_save:
  assumes "user_inv db" "find_profile db u = Some p" "up_id q = up_id p" "up_userId q = u"
  shows "user_inv (save_profile q db)"
proof -
  have p: "p \<in> set (profiles db)" "up_userId p = u" "up_deletedAt p = None"
    using find_profile_Some [OF assms(2)] by auto
  have d: "distinct (map up_id (profiles db))" using assms(1) by (simp add: user_inv_def)
  have ids: "map up_id (profiles (save_profile q db)) = map up_id (profiles db)"
    by (simp add: save_profile_def)
  have live: "distinct (map up_userId (live_profiles (save_profile q db)))"
  proof (cases "up_deletedAt q = None")
    case True
    have "live_profiles (save_profile q db) = save_row up_id q (live_profiles db)"
      using live_save_keep [OF d p(1) assms(3) p(3) True] by (simp add: live_profiles_def save_profile_def)
    moreover have "map up_userId (save_row up_id q (live_profiles db)) = map up_userId (live_profiles db)"
      using p assms(3,4) distinct_live_ids [OF d] by (intro map_save_row_keep [of _ _ p]) (auto simp: live_profiles_def)
    ultimately show ?thesis using assms(1) by (simp add: user_inv_def)
  next
    case False
    then have "live_profiles (save_profile q db) = filter (\<lambda>x. up_id x \<noteq> up_id q) (live_profiles db)"
      by (simp add: live_profiles_def save_profile_def filter_save_row_drop conj_commute)
    then show ?thesis using assms(1) by (simp add: user_inv_def distinct_map_filter)
  qed
  have "up_id ` set (profiles (save_profile q db)) = up_id ` set (profiles db)"
    using ids by (metis list.set_map)
  with live ids assms(1) show ?thesis by (simp add: user_inv_def) (simp add: save_profile_def)
qed

lemma touched_fields:
  "up_id (touch_profile clk p (patch_profile u p)) = up_id p"
  "up_userId (touch_profile clk p (patch_profile u p)) = up_userId p"
  "up_email (touch_profile clk p (patch_profile u p)) = up_email p"
  "up_createdAt (touch_profile clk p (patch_profile u p)) = up_createdAt p"
  "up_deletedAt (touch_profile clk p (patch_profile u p)) = up_deletedAt p"
  by (simp_all add: touch_profile_def patch_profile_def)

lemma createProfile_inv: "user_inv db \<Longrightarrow> user_inv (snd (createProfile clk p db))"
  by (auto simp: createProfile_def create_after_miss_def user_inv_insert split: option.split)

lemma updateProfile_inv:
  assumes "user_inv db"
  shows "user_inv (snd (updateProfile clk u db))"
proof (cases "find_profile db (pu_userId u)")
  case (Some p)
  then have "up_userId p = pu_userId u" by (simp add: find_profile_Some)
  with Some assms show ?thesis
    by (simp add: updateProfile_def Let_def user_inv_save [OF assms Some] touched_fields)
qed (use assms in \<open>simp add: updateProfile_def\<close>)

lemma removeProfile_inv:
  assumes "user_inv db"
  shows "user_inv (snd (removeProfile clk u db))"
proof (cases "find_profile db u")
  case (Some p)
  then have "up_userId p = u" by (simp add: find_profile_Some)
  with Some show ?thesis by (simp add: removeProfile_def user_inv_save [OF assms Some])
qed (use assms in \<open>simp add: removeProfile_def\<close>)

lemma user_step_inv: "user_inv db \<Longrightarrow> user_inv (snd (user_step q db))"
proof -
  assume inv: "user_inv db"
  obtain clk rank r where q: "q = (clk, rank, r)" by (cases q)
  show ?thesis unfolding q user_step_def prod.case
    using inv by (cases r) (simp_all add: createProfile_inv updateProfile_inv removeProfile_inv)
qed

lemma user_step_error: "fst (user_step q db) = Inl e \<Longrightarrow> snd (user_step q db) = db"
proof -
  assume err: "fst (user_step q db) = Inl e"
  obtain clk rank r where q: "q = (clk, rank, r)" by (cases q)
  show ?thesis using err unfolding q user_step_def prod.case
    by (cases r) (auto simp: createProfile_def create_after_miss_def updateProfile_def removeProfile_def Let_def
        split: option.splits prod.splits)
qed

lemma empty_users_inv: "inj gen \<Longrightarrow> user_inv (empty_users gen)"
  by (simp add: user_inv_def empty_users_def live_profiles_def)

interpretation users: failing_service user_step user_inv
  by unfold_locales (auto intro: user_step_inv user_step_error)

end
