(* ===== verification/UserProperties.thy ===== *)
theory UserProperties
  imports UserService
begin

text \<open>
  Properties of the user service: the table refines a map from users to profile
  views, and creation is safe against concurrent creation of the same user.
\<close>

section \<open>The directory\<close>

text \<open>The abstract state: the profile that each user has.\<close>

definition directory :: "user_db \<Rightarrow> uuid \<rightharpoonup> profile_view" where
  "directory db u = map_option toProfileView (find_profile db u)"

definition fresh_view :: "clock \<Rightarrow> create_profile_payload \<Rightarrow> uuid \<Rightarrow> profile_view" where
  "fresh_view clk p i = \<lparr>fv_id = i, fv_userId = cp_userId p, fv_email = trim (to_lower (cp_email p)),
     fv_firstName = trim (cp_firstName p), fv_lastName = trim (cp_lastName p), fv_phone = None, fv_bio = None,
     fv_avatar = None, fv_dateOfBirth = None, fv_showLastSeen = True, fv_createdAt = db_now clk,
     fv_updatedAt = db_now clk\<rparr>"

definition patched_view :: "clock \<Rightarrow> update_profile_payload \<Rightarrow> profile_view \<Rightarrow> profile_view" where
  "patched_view clk u v =
     (let w = v\<lparr>fv_firstName := (case pu_firstName u of None \<Rightarrow> fv_firstName v | Some s \<Rightarrow> trim s),
         fv_lastName := (case pu_lastName u of None \<Rightarrow> fv_lastName v | Some s \<Rightarrow> trim s),
         fv_phone := (case pu_phone u of None \<Rightarrow> fv_phone v | s \<Rightarrow> s),
         fv_bio := (case pu_bio u of None \<Rightarrow> fv_bio v | s \<Rightarrow> s),
         fv_avatar := (case pu_avatar u of None \<Rightarrow> fv_avatar v | Some a \<Rightarrow> trim_or_null a),
         fv_dateOfBirth := (case pu_dateOfBirth u of None \<Rightarrow> fv_dateOfBirth v | s \<Rightarrow> s),
         fv_showLastSeen := (case pu_showLastSeen u of None \<Rightarrow> fv_showLastSeen v | Some b \<Rightarrow> b)\<rparr>
      in if w = v then v else w\<lparr>fv_updatedAt := db_now clk\<rparr>)"

lemma find_save_profile:
  assumes inv: "user_inv db" and hit: "find_profile db u = Some p" and q: "up_id q = up_id p" "up_userId q = u"
  shows "find_profile (save_profile q db) u' = (if u' \<noteq> u then find_profile db u'
     else if up_deletedAt q = None then Some q else None)"
proof -
  have p: "p \<in> set (profiles db)" "up_userId p = u" "up_deletedAt p = None"
    using find_profile_Some [OF hit] by auto
  have d: "distinct (map up_id (profiles db))" using inv by (simp add: user_inv_def)
  have pl: "p \<in> set (live_profiles db)" using p by (simp add: live_profiles_def)
  have dl: "distinct (map up_userId (live_profiles db))" using inv by (simp add: user_inv_def)
  have only: "x = p" if "x \<in> set (live_profiles db)" "up_id x = up_id q \<or> up_userId x = u" for x
    using that distinct_key_eq [OF distinct_live_ids [OF d] that(1) pl] distinct_key_eq [OF dl that(1) pl] p(2) q(1)
    by auto
  show ?thesis
  proof (cases "up_deletedAt q = None")
    case True
    have live: "live_profiles (save_profile q db) = save_row up_id q (live_profiles db)"
      using live_save_keep [OF d p(1) q(1) p(3) True] by (simp add: live_profiles_def save_profile_def)
    have "find (\<lambda>x. up_userId x = u') (save_row up_id q xs) =
        (if u' \<noteq> u then find (\<lambda>x. up_userId x = u') xs else if p \<in> set xs then Some q else None)"
      if "set xs \<subseteq> set (live_profiles db)" for xs
      using that
    proof (induction xs)
      case (Cons x xs)
      have x: "x \<in> set (live_profiles db)" using Cons.prems by simp
      show ?case using Cons only [OF x] p(2) q by (auto simp: save_row_Cons)
    qed simp
    from this [of "live_profiles db"] True pl show ?thesis by (simp add: find_profile_def live)
  next
    case False
    have live: "live_profiles (save_profile q db) = filter (\<lambda>x. up_id x \<noteq> up_id q) (live_profiles db)"
      using False by (simp add: live_profiles_def save_profile_def filter_save_row_drop conj_commute)
    have "find (\<lambda>x. up_id x \<noteq> up_id q \<and> up_userId x = u') xs =
        (if u' \<noteq> u then find (\<lambda>x. up_userId x = u') xs else None)" if "set xs \<subseteq> set (live_profiles db)" for xs
      using that
    proof (induction xs)
      case (Cons x xs)
      have x: "x \<in> set (live_profiles db)" using Cons.prems by simp
      show ?case using Cons only [OF x] p(2) q by auto
    qed simp
    from this [of "live_profiles db"] False show ?thesis by (auto simp: find_profile_def live find_filter)
  qed
qed

lemma directory_save:
  assumes "user_inv db" "find_profile db u = Some p" "up_id q = up_id p" "up_userId q = u"
  shows "directory (save_profile q db)
    = (directory db)(u := if up_deletedAt q = None then Some (toProfileView q) else None)"
  using find_save_profile [OF assms] by (auto simp: directory_def)

lemma directory_insert:
  assumes "insert_profile clk p db = Some (row, db')"
  shows "toProfileView row = fresh_view clk p (profile_ids db (profile_next db))"
    and "directory db' = (directory db)(cp_userId p \<mapsto> toProfileView row)"
proof -
  from assms have miss: "find_profile db (cp_userId p) = None"
    and db': "db' = db\<lparr>profiles := profiles db @ [row], profile_next := Suc (profile_next db)\<rparr>"
    and row: "toProfileView row = fresh_view clk p (profile_ids db (profile_next db))"
       "up_userId row = cp_userId p" "up_deletedAt row = None"
    by (auto simp: insert_profile_def Let_def toProfileView_def fresh_view_def split: if_splits)
  show "toProfileView row = fresh_view clk p (profile_ids db (profile_next db))" by (rule row(1))
  have "find (\<lambda>x. up_userId x = u) (xs @ [row]) =
      (case find (\<lambda>x. up_userId x = u) xs of Some x \<Rightarrow> Some x | None \<Rightarrow> if u = cp_userId p then Some row else None)"
    for u xs by (induction xs) (auto simp: row)
  then have "find_profile db' u = (case find_profile db u of Some x \<Rightarrow> Some x
      | None \<Rightarrow> if u = cp_userId p then Some row else None)" for u
    by (simp add: find_profile_def live_profiles_def db' row)
  then show "directory db' = (directory db)(cp_userId p \<mapsto> toProfileView row)"
    using miss by (auto simp: directory_def fun_eq_iff split: option.splits)
qed

lemma patched_view_eq: "toProfileView (touch_profile clk p (patch_profile u p)) = patched_view clk u (toProfileView p)"
proof -
  let ?w = "patch_profile u p"
  have views: "toProfileView ?w = (toProfileView p)\<lparr>
      fv_firstName := (case pu_firstName u of None \<Rightarrow> up_firstName p | Some s \<Rightarrow> trim s),
      fv_lastName := (case pu_lastName u of None \<Rightarrow> up_lastName p | Some s \<Rightarrow> trim s),
      fv_phone := (case pu_phone u of None \<Rightarrow> up_phone p | s \<Rightarrow> s),
      fv_bio := (case pu_bio u of None \<Rightarrow> up_bio p | s \<Rightarrow> s),
      fv_avatar := (case pu_avatar u of None \<Rightarrow> up_avatar p | Some a \<Rightarrow> trim_or_null a),
      fv_dateOfBirth := (case pu_dateOfBirth u of None \<Rightarrow> up_dateOfBirth p | s \<Rightarrow> s),
      fv_showLastSeen := (case pu_showLastSeen u of None \<Rightarrow> up_showLastSeen p | Some b \<Rightarrow> b)\<rparr>"
    by (simp add: toProfileView_def patch_profile_def nullish_def split: option.split)
  have frame: "up_deletedAt ?w = up_deletedAt p" "up_id ?w = up_id p" "up_userId ?w = up_userId p"
    by (simp_all add: patch_profile_def)
  have eq: "?w = p \<longleftrightarrow> toProfileView ?w = toProfileView p"
    using frame by (auto simp: toProfileView_def intro: user_profile.equality)
  have fields: "fv_firstName (toProfileView p) = up_firstName p" "fv_lastName (toProfileView p) = up_lastName p"
    "fv_phone (toProfileView p) = up_phone p" "fv_bio (toProfileView p) = up_bio p"
    "fv_avatar (toProfileView p) = up_avatar p" "fv_dateOfBirth (toProfileView p) = up_dateOfBirth p"
    "fv_showLastSeen (toProfileView p) = up_showLastSeen p" by (simp_all add: toProfileView_def)
  have bump: "toProfileView (x\<lparr>up_updatedAt := t\<rparr>) = (toProfileView x)\<lparr>fv_updatedAt := t\<rparr>" for x t
    by (simp add: toProfileView_def)
  show ?thesis
    unfolding patched_view_def fields views [symmetric] Let_def touch_profile_def eq
    by (simp add: bump)
qed

text \<open>C25.
  The profile table refines a map from users to profile views. Creation leaves an
  existing profile alone and answers it, otherwise it binds the user to a new
  profile with the lower-cased, trimmed e-mail address; an update of a present
  user binds exactly that user to the patched view it answers (\<open>updatedAt\<close> moving
  only when a column changed), removal unbinds exactly that user, and both
  answer 404 and change nothing for an absent user.
\<close>

theorem profiles_refine_directory:
  assumes inv: "user_inv db"
  shows "(case directory db (cp_userId p) of
       Some v \<Rightarrow> createProfile clk p db = (Inr v, db)
     | None \<Rightarrow> (let v = fresh_view clk p (profile_ids db (profile_next db)) in
         fst (createProfile clk p db) = Inr v
         \<and> directory (snd (createProfile clk p db)) = (directory db)(cp_userId p \<mapsto> v)))
   \<and> (case directory db (pu_userId u) of
       None \<Rightarrow> updateProfile clk u db = (Inl (notFound ''User profile''), db)
     | Some v \<Rightarrow> fst (updateProfile clk u db) = Inr (patched_view clk u v)
         \<and> directory (snd (updateProfile clk u db)) = (directory db)(pu_userId u \<mapsto> patched_view clk u v))
   \<and> (case directory db w of
       None \<Rightarrow> removeProfile clk w db = (Inl (notFound ''User profile''), db)
     | Some v \<Rightarrow> fst (removeProfile clk w db) = Inr True
         \<and> directory (snd (removeProfile clk w db)) = (directory db)(w := None))"
proof (intro conjI)
  show "case directory db (cp_userId p) of
       Some v \<Rightarrow> createProfile clk p db = (Inr v, db)
     | None \<Rightarrow> (let v = fresh_view clk p (profile_ids db (profile_next db)) in
         fst (createProfile clk p db) = Inr v
         \<and> directory (snd (createProfile clk p db)) = (directory db)(cp_userId p \<mapsto> v))"
  proof (cases "find_profile db (cp_userId p)")
    case None
    then obtain row db' where ins: "insert_profile clk p db = Some (row, db')"
      by (auto simp: insert_profile_def Let_def)
    from None directory_insert [OF ins] show ?thesis
      by (simp add: directory_def createProfile_def create_after_miss_def ins)
  qed (simp add: directory_def createProfile_def)
  show "case directory db (pu_userId u) of
       None \<Rightarrow> updateProfile clk u db = (Inl (notFound ''User profile''), db)
     | Some v \<Rightarrow> fst (updateProfile clk u db) = Inr (patched_view clk u v)
         \<and> directory (snd (updateProfile clk u db)) = (directory db)(pu_userId u \<mapsto> patched_view clk u v)"
  proof (cases "find_profile db (pu_userId u)")
    case (Some q)
    let ?s = "touch_profile clk q (patch_profile u q)"
    have "directory (save_profile ?s db) = (directory db)(pu_userId u \<mapsto> toProfileView ?s)"
      using directory_save [OF inv Some, of ?s] find_profile_Some [OF Some] by (simp add: touched_fields)
    moreover have "directory db (pu_userId u) = Some (toProfileView q)" by (simp add: directory_def Some)
    ultimately show ?thesis using Some by (simp add: updateProfile_def Let_def patched_view_eq)
  qed (simp add: directory_def updateProfile_def)
  show "case directory db w of
       None \<Rightarrow> removeProfile clk w db = (Inl (notFound ''User profile''), db)
     | Some v \<Rightarrow> fst (removeProfile clk w db) = Inr True
         \<and> directory (snd (removeProfile clk w db)) = (directory db)(w := None)"
  proof (cases "find_profile db w")
    case (Some q)
    have "directory db w = Some (toProfileView q)" by (simp add: directory_def Some)
    with Some show ?thesis
      using directory_save [OF inv Some] find_profile_Some [OF Some] by (simp add: removeProfile_def)
  qed (simp add: directory_def removeProfile_def)
qed

definition demo_profile :: create_profile_payload where
  "demo_profile = \<lparr>cp_userId = ''u1'', cp_email = '' Ann@X.io '', cp_firstName = ''Ann'', cp_lastName = ''Lee ''\<rparr>"

definition demo_users :: user_db where
  "demo_users = snd (createProfile \<lparr>now = 5, db_now = 5\<rparr> demo_profile (empty_users demo_ids))"

lemma demo_users_inv: "user_inv demo_users"
  unfolding demo_users_def by (rule createProfile_inv [OF empty_users_inv [OF inj_demo_ids]])

lemma demo_directory: "map_option fv_email (directory demo_users ''u1'') = Some ''ann@x.io''"
  by code_simp

theorem profiles_refine_directory_witness:
  "fst (removeProfile \<lparr>now = 9, db_now = 9\<rparr> ''u1'' demo_users) = Inr True
   \<and> directory (snd (removeProfile \<lparr>now = 9, db_now = 9\<rparr> ''u1'' demo_users)) ''u1'' = None"
proof -
  from demo_directory obtain v where "directory demo_users ''u1'' = Some v" by (cases "directory demo_users ''u1''") auto
  with profiles_refine_directory [OF demo_users_inv, where w = "''u1''" and clk = "\<lparr>now = 9, db_now = 9\<rparr>"]
  show ?thesis by simp
qed

text \<open>Concurrent creation: a request that found no profile goes on to insert after any
  number of other requests have run. It still answers a profile of its user, and
  afterwards the user has exactly one live row, whose view is the answer; when
  another request created the user in between, that row is kept.
\<close>

theorem creation_is_race_safe:
  assumes inv: "user_inv db" and miss: "find_profile db (cp_userId p) = None"
    and between: "db1 = run_requests user_step qs db"
  shows "\<exists>v. fst (create_after_miss clk p db1) = Inr v \<and> fv_userId v = cp_userId p
    \<and> map toProfileView (filter (\<lambda>x. up_userId x = cp_userId p) (live_profiles (snd (create_after_miss clk p db1)))) = [v]
    \<and> (find_profile db1 (cp_userId p) \<noteq> None) = (snd (create_after_miss clk p db1) = db1)"
proof -
  have inv1: "user_inv db1" unfolding between by (rule users.run_inv [OF inv])
  obtain row db2 where out: "create_after_miss clk p db1 = (Inr (toProfileView row), db2)" and inv2: "user_inv db2"
    and hit: "find_profile db2 (cp_userId p) = Some row"
    and same: "(find_profile db1 (cp_userId p) \<noteq> None) = (db2 = db1)"
  proof (cases "find_profile db1 (cp_userId p)")
    case (Some e)
    then show ?thesis using that [of e db1] inv1 by (simp add: create_after_miss_def insert_profile_def)
  next
    case None
    then obtain row db2 where ins: "insert_profile clk p db1 = Some (row, db2)"
      by (auto simp: insert_profile_def Let_def)
    have ne: "profile_next db2 \<noteq> profile_next db1" and row: "up_userId row = cp_userId p" "up_deletedAt row = None"
      and rows: "profiles db2 = profiles db1 @ [row]"
      using ins by (auto simp: insert_profile_def Let_def split: if_splits)
    have "find_profile db2 (cp_userId p) = Some row"
      using None row by (simp add: find_profile_def live_profiles_def rows find_append_None)
    then show ?thesis using that [of row db2] None ins ne user_inv_insert [OF inv1 ins]
      by (auto simp: create_after_miss_def)
  qed
  have row: "row \<in> set (live_profiles db2)" "up_userId row = cp_userId p"
    using find_profile_Some [OF hit] by (auto simp: live_profiles_def)
  have "filter (\<lambda>x. up_userId x = cp_userId p) (live_profiles db2) = [row]"
    using filter_key_single [of up_userId "live_profiles db2", OF _ row(1)] inv2 row(2)
    by (simp add: user_inv_def)
  with out row(2) same show ?thesis by (auto simp: toProfileView_def)
qed

theorem creation_is_race_safe_witness:
  "\<exists>v. fst (create_after_miss \<lparr>now = 7, db_now = 7\<rparr> demo_profile demo_users) = Inr v
    \<and> fv_userId v = ''u1'' \<and> snd (create_after_miss \<lparr>now = 7, db_now = 7\<rparr> demo_profile demo_users) = demo_users"
proof -
  have run: "demo_users = run_requests user_step [(\<lparr>now = 5, db_now = 5\<rparr>, \<lambda>_. 0, CreateProfile demo_profile)] (empty_users demo_ids)"
    by (simp add: demo_users_def user_step_def)
  have miss: "find_profile (empty_users demo_ids) (cp_userId demo_profile) = None"
    by (simp add: find_profile_def live_profiles_def empty_users_def)
  have taken: "find_profile demo_users (cp_userId demo_profile) \<noteq> None"
    using demo_directory by (auto simp: directory_def demo_profile_def)
  show ?thesis
    using creation_is_race_safe [OF empty_users_inv [OF inj_demo_ids] miss run] taken
    by (auto simp: demo_profile_def)
qed

end
