(* ===== verification/PresenceService.thy ===== *)
theory PresenceService
  imports CallStore AuthService
begin

text \<open>
  The Redis-backed services of the gateway that are not calls:
  \<open>presence.service.ts\<close> (who is online), \<open>conversation-cache.service.ts\<close> (member lists
  for a minute) and \<open>push.service.ts\<close> (browser push subscriptions), over one
  keyspace whose keys may carry an expiry instant.

  \<open>EXPIRE\<close> acts on an existing key only, \<open>SADD\<close> keeps the key's expiry, \<open>SREM\<close>
  removes a set that becomes empty. \<open>SMEMBERS\<close> has no order; the model lists the
  members in insertion order.
\<close>

section \<open>Keys with an optional expiry\<close>

record subscription =
  ps_endpoint :: string
  ps_p256dh :: string
  ps_auth :: string

text \<open>
  A stored value; \<open>Subscriptions None\<close> is a payload that does not parse to an array,
  \<open>CachedUser None\<close> one that does not parse.
\<close>

datatype (plugins only: size code) stored =
    Flag | Stamp instant | Names "string list" | Subscriptions "subscription list option"
  | CachedUser "auth_view option"

type_synonym keyspace = "string \<rightharpoonup> (stored \<times> instant option)"

definition ks_get :: "instant \<Rightarrow> string \<Rightarrow> keyspace \<Rightarrow> stored option" where
  "ks_get t k r = (case r k of None \<Rightarrow> None | Some (v, None) \<Rightarrow> Some v
     | Some (v, Some expiry) \<Rightarrow> (if t < expiry then Some v else None))"

definition ks_exists :: "instant \<Rightarrow> string \<Rightarrow> keyspace \<Rightarrow> bool" where
  "ks_exists t k r = (ks_get t k r \<noteq> None)"

definition ks_set :: "string \<Rightarrow> stored \<Rightarrow> keyspace \<Rightarrow> keyspace" where
  "ks_set k v r = r(k \<mapsto> (v, None))"

definition ks_setex :: "instant \<Rightarrow> int \<Rightarrow> string \<Rightarrow> stored \<Rightarrow> keyspace \<Rightarrow> keyspace" where
  "ks_setex t ttl k v r = r(k \<mapsto> (v, Some (t + ttl * 1000)))"

definition ks_del :: "string \<Rightarrow> keyspace \<Rightarrow> keyspace" where
  "ks_del k r = r(k := None)"

definition ks_expire :: "instant \<Rightarrow> int \<Rightarrow> string \<Rightarrow> keyspace \<Rightarrow> keyspace" where
  "ks_expire t ttl k r = (case ks_get t k r of None \<Rightarrow> r | Some v \<Rightarrow> ks_setex t ttl k v r)"

definition ks_smembers :: "instant \<Rightarrow> string \<Rightarrow> keyspace \<Rightarrow> string list" where
  "ks_smembers t k r = (case ks_get t k r of Some (Names xs) \<Rightarrow> xs | _ \<Rightarrow> [])"

definition ks_scard :: "instant \<Rightarrow> string \<Rightarrow> keyspace \<Rightarrow> nat" where
  "ks_scard t k r = length (ks_smembers t k r)"

definition ks_expiry :: "instant \<Rightarrow> string \<Rightarrow> keyspace \<Rightarrow> instant option" where
  "ks_expiry t k r = (if ks_exists t k r then Option.bind (r k) snd else None)"

definition ks_sadd :: "instant \<Rightarrow> string \<Rightarrow> string list \<Rightarrow> keyspace \<Rightarrow> keyspace" where
  "ks_sadd t k xs r = r(k \<mapsto> (Names (js_uniq (ks_smembers t k r @ xs)), ks_expiry t k r))"

definition ks_srem :: "instant \<Rightarrow> string \<Rightarrow> string \<Rightarrow> keyspace \<Rightarrow> keyspace" where
  "ks_srem t k x r = (let left = filter (\<lambda>y. y \<noteq> x) (ks_smembers t k r) in
     if left = [] then ks_del k r else r(k \<mapsto> (Names left, ks_expiry t k r)))"

lemmas ks_defs = ks_get_def ks_exists_def ks_set_def ks_setex_def ks_del_def ks_expire_def
  ks_smembers_def ks_scard_def ks_sadd_def ks_srem_def ks_expiry_def

lemma ks_get_set [simp]: "ks_get t k' (ks_set k v r) = (if k' = k then Some v else ks_get t k' r)"
  by (simp add: ks_get_def ks_set_def)

lemma ks_get_del [simp]: "ks_get t k' (ks_del k r) = (if k' = k then None else ks_get t k' r)"
  by (simp add: ks_get_def ks_del_def)

lemma ks_get_setex [simp]: "ks_get t' k' (ks_setex t ttl k v r)
    = (if k' = k then (if t' < t + ttl * 1000 then Some v else None) else ks_get t' k' r)"
  by (simp add: ks_get_def ks_setex_def)

lemma ks_get_expire [simp]: "ks_get t' k' (ks_expire t ttl k r)
    = (if k' = k \<and> ks_exists t k r then (if t' < t + ttl * 1000 then ks_get t k r else None) else ks_get t' k' r)"
  by (auto simp: ks_expire_def ks_exists_def split: option.splits)

lemma ks_get_sadd_other [simp]: "k' \<noteq> k \<Longrightarrow> ks_get t' k' (ks_sadd t k xs r) = ks_get t' k' r"
  by (simp add: ks_get_def ks_sadd_def)

lemma ks_get_srem_other [simp]: "k' \<noteq> k \<Longrightarrow> ks_get t' k' (ks_srem t k x r) = ks_get t' k' r"
  by (simp add: ks_srem_def Let_def ks_get_def ks_del_def)

lemma ks_get_sadd: "ks_get t k (ks_sadd t k xs r) = Some (Names (js_uniq (ks_smembers t k r @ xs)))"
  by (auto simp: ks_sadd_def ks_get_def ks_expiry_def ks_exists_def split: option.splits if_splits)

lemma ks_smembers_srem: "ks_smembers t k (ks_srem t k x r) = filter (\<lambda>y. y \<noteq> x) (ks_smembers t k r)"
proof (cases "filter (\<lambda>y. y \<noteq> x) (ks_smembers t k r) = []")
  case True
  then have "ks_srem t k x r = ks_del k r" by (simp add: ks_srem_def)
  then have "ks_smembers t k (ks_srem t k x r) = []" by (simp add: ks_smembers_def)
  with True show ?thesis by simp
next
  case False
  then have "ks_exists t k r" by (cases "ks_get t k r") (auto simp: ks_smembers_def ks_exists_def)
  with False show ?thesis
    by (auto simp: ks_srem_def Let_def ks_smembers_def ks_get_def ks_expiry_def ks_exists_def
        split: option.splits if_splits)
qed

section \<open>Presence (presence.service.ts)\<close>

definition ONLINE_TTL_SECONDS :: int where "ONLINE_TTL_SECONDS = 45"
definition SOCKETS_TTL_SECONDS :: int where "SOCKETS_TTL_SECONDS = 86400"

definition ONLINE_PREFIX :: string where "ONLINE_PREFIX = ''chat:presence:online:''"

definition onlineKey :: "uuid \<Rightarrow> string" where "onlineKey userId = ONLINE_PREFIX @ userId"
definition socketsKey :: "uuid \<Rightarrow> string" where "socketsKey userId = ''chat:presence:sockets:'' @ userId"
definition lastSeenKey :: "uuid \<Rightarrow> string" where "lastSeenKey userId = ''chat:presence:lastSeen:'' @ userId"

text \<open>The answer is \<open>becameOnline\<close>.\<close>

definition connect :: "instant \<Rightarrow> uuid \<Rightarrow> string \<Rightarrow> keyspace \<Rightarrow> bool \<times> keyspace" where
  "connect t userId socketId r =
     (let wasOnline = ks_exists t (onlineKey userId) r;
          r1 = ks_sadd t (socketsKey userId) [socketId] r;
          r2 = ks_expire t SOCKETS_TTL_SECONDS (socketsKey userId) r1;
          r3 = ks_setex t ONLINE_TTL_SECONDS (onlineKey userId) Flag r2;
          r4 = ks_del (lastSeenKey userId) r3
      in (\<not> wasOnline, r4))"

definition disconnect :: "instant \<Rightarrow> uuid \<Rightarrow> string \<Rightarrow> keyspace \<Rightarrow> (presence_status \<times> instant option) \<times> keyspace" where
  "disconnect t userId socketId r =
     (let r1 = ks_srem t (socketsKey userId) socketId r;
          remaining = ks_scard t (socketsKey userId) r1
      in if remaining > 0
         then ((ONLINE, None), ks_expire t ONLINE_TTL_SECONDS (onlineKey userId) r1)
         else ((OFFLINE, Some t), ks_set (lastSeenKey userId) (Stamp t) (ks_del (onlineKey userId) r1)))"

definition heartbeat :: "instant \<Rightarrow> uuid \<Rightarrow> keyspace \<Rightarrow> keyspace" where
  "heartbeat t userId r =
     (if ks_scard t (socketsKey userId) r > 0 then ks_expire t ONLINE_TTL_SECONDS (onlineKey userId) r else r)"

record presence_view =
  pv_userId :: uuid
  pv_status :: presence_status
  pv_lastSeenAt :: "instant option"

definition presence_of :: "instant \<Rightarrow> keyspace \<Rightarrow> uuid \<Rightarrow> presence_view" where
  "presence_of t r userId =
     (let isOnline = ks_exists t (onlineKey userId) r;
          lastSeenAt = (case ks_get t (lastSeenKey userId) r of Some (Stamp s) \<Rightarrow> Some s | _ \<Rightarrow> None)
      in \<lparr>pv_userId = userId, pv_status = (if isOnline then ONLINE else OFFLINE),
          pv_lastSeenAt = (if isOnline then None else lastSeenAt)\<rparr>)"

definition getMany :: "instant \<Rightarrow> uuid list \<Rightarrow> keyspace \<Rightarrow> (uuid \<rightharpoonup> presence_view)" where
  "getMany t userIds r = foldl (\<lambda>m u. m(u \<mapsto> presence_of t r u)) Map.empty userIds"

definition getPresence :: "instant \<Rightarrow> uuid \<Rightarrow> keyspace \<Rightarrow> presence_view" where
  "getPresence t userId r =
     nullish (getMany t [userId] r userId) \<lparr>pv_userId = userId, pv_status = OFFLINE, pv_lastSeenAt = None\<rparr>"

text \<open>The sum of the batch sizes of the \<open>SCAN\<close> loop; a parameter lists the batches.\<close>

definition countOnlineUsers :: "(keyspace \<Rightarrow> string \<Rightarrow> string list list) \<Rightarrow> keyspace \<Rightarrow> nat" where
  "countOnlineUsers scan r = foldl (\<lambda>total keys. total + length keys) 0 (scan r ONLINE_PREFIX)"

lemma getMany_eq: "getMany t us r u = (if u \<in> set us then Some (presence_of t r u) else None)"
proof -
  have "foldl (\<lambda>m u. m(u \<mapsto> presence_of t r u)) m us u
    = (if u \<in> set us then Some (presence_of t r u) else m u)" for m
    by (induction us arbitrary: m) auto
  then show ?thesis by (simp add: getMany_def)
qed

lemma getPresence_eq: "getPresence t u r = presence_of t r u"
  by (simp add: getPresence_def getMany_eq)

lemma presence_keys [simp]:
  "onlineKey a = onlineKey b \<longleftrightarrow> a = b" "socketsKey a = socketsKey b \<longleftrightarrow> a = b" "lastSeenKey a = lastSeenKey b \<longleftrightarrow> a = b"
  "onlineKey a \<noteq> socketsKey b" "socketsKey b \<noteq> onlineKey a" "onlineKey a \<noteq> lastSeenKey b" "lastSeenKey b \<noteq> onlineKey a"
  "socketsKey a \<noteq> lastSeenKey b" "lastSeenKey b \<noteq> socketsKey a"
  by (simp_all add: onlineKey_def socketsKey_def lastSeenKey_def ONLINE_PREFIX_def)

subsection \<open>What the answers depend on\<close>

lemma ks_scard_pos: "ks_scard t k r > 0 \<longleftrightarrow> ks_smembers t k r \<noteq> []"
  by (simp add: ks_scard_def)

lemma presence_of_cong:
  "\<lbrakk>ks_get t (onlineKey u) r' = ks_get t (onlineKey u) r; ks_get t (lastSeenKey u) r' = ks_get t (lastSeenKey u) r\<rbrakk>
   \<Longrightarrow> presence_of t r' u = presence_of t r u"
  by (simp add: presence_of_def ks_exists_def)

lemma connect_presence:
  assumes "t \<le> t'" "t' < t + 45000"
  shows "presence_of t' (snd (connect t u s r)) u = \<lparr>pv_userId = u, pv_status = ONLINE, pv_lastSeenAt = None\<rparr>"
  using assms by (simp add: connect_def Let_def presence_of_def ks_exists_def ONLINE_TTL_SECONDS_def)

lemma connect_other: "v \<noteq> u \<Longrightarrow> presence_of t' (snd (connect t u s r)) v = presence_of t' r v"
  by (rule presence_of_cong) (simp_all add: connect_def Let_def)

lemma disconnect_other: "v \<noteq> u \<Longrightarrow> presence_of t' (snd (disconnect t u s r)) v = presence_of t' r v"
  by (rule presence_of_cong) (simp_all add: disconnect_def Let_def)

lemma heartbeat_other: "v \<noteq> u \<Longrightarrow> presence_of t' (heartbeat t u r) v = presence_of t' r v"
  by (rule presence_of_cong) (simp_all add: heartbeat_def)

definition left_sockets :: "instant \<Rightarrow> uuid \<Rightarrow> string \<Rightarrow> keyspace \<Rightarrow> string list" where
  "left_sockets t u s r = filter (\<lambda>x. x \<noteq> s) (ks_smembers t (socketsKey u) r)"

lemma disconnect_cases:
  "left_sockets t u s r \<noteq> [] \<Longrightarrow> fst (disconnect t u s r) = (ONLINE, None)"
  "left_sockets t u s r = [] \<Longrightarrow> fst (disconnect t u s r) = (OFFLINE, Some t)
     \<and> presence_of t' (snd (disconnect t u s r)) u = \<lparr>pv_userId = u, pv_status = OFFLINE, pv_lastSeenAt = Some t\<rparr>"
  by (simp_all add: disconnect_def Let_def ks_scard_pos ks_smembers_srem left_sockets_def presence_of_def
      ks_exists_def)

section \<open>Member lists (conversation-cache.service.ts)\<close>

definition MEMBER_TTL_SECONDS :: int where "MEMBER_TTL_SECONDS = 60"

definition cacheKey :: "uuid \<Rightarrow> string" where "cacheKey conversationId = ''chat:cache:members:'' @ conversationId"

definition getMemberIds :: "instant \<Rightarrow> uuid \<Rightarrow> keyspace \<Rightarrow> uuid list option" where
  "getMemberIds t conversationId r =
     (let ms = ks_smembers t (cacheKey conversationId) r in if length ms > 0 then Some ms else None)"

definition setMemberIds :: "instant \<Rightarrow> uuid \<Rightarrow> uuid list \<Rightarrow> keyspace \<Rightarrow> keyspace" where
  "setMemberIds t conversationId memberIds r =
     (let r1 = ks_del (cacheKey conversationId) r in
      if length memberIds > 0
      then ks_expire t MEMBER_TTL_SECONDS (cacheKey conversationId) (ks_sadd t (cacheKey conversationId) memberIds r1)
      else r1)"

definition invalidate :: "uuid \<Rightarrow> keyspace \<Rightarrow> keyspace" where
  "invalidate conversationId r = ks_del (cacheKey conversationId) r"

lemma cacheKey_inject [simp]: "cacheKey a = cacheKey b \<longleftrightarrow> a = b"
  by (simp add: cacheKey_def)

lemma cacheKey_disjoint [simp]:
  "cacheKey a \<noteq> onlineKey b" "cacheKey a \<noteq> socketsKey b" "cacheKey a \<noteq> lastSeenKey b"
  "onlineKey b \<noteq> cacheKey a" "socketsKey b \<noteq> cacheKey a" "lastSeenKey b \<noteq> cacheKey a"
  by (simp_all add: cacheKey_def onlineKey_def socketsKey_def lastSeenKey_def ONLINE_PREFIX_def)

lemma getMemberIds_set:
  assumes "t \<le> t'" "t' < t + 60000"
  shows "getMemberIds t' c (setMemberIds t c ms r) = (if ms = [] then None else Some (js_uniq ms))"
proof (cases "ms = []")
  case False
  have "ks_get t (cacheKey c) (ks_sadd t (cacheKey c) ms (ks_del (cacheKey c) r)) = Some (Names (js_uniq ms))"
    by (simp add: ks_get_sadd) (simp add: ks_smembers_def)
  with False assms show ?thesis
    by (simp add: setMemberIds_def Let_def getMemberIds_def ks_smembers_def MEMBER_TTL_SECONDS_def ks_exists_def)
qed (simp add: setMemberIds_def getMemberIds_def ks_smembers_def)

lemma getMemberIds_set_other: "c' \<noteq> c \<Longrightarrow> getMemberIds t' c' (setMemberIds t c ms r) = getMemberIds t' c' r"
  by (simp add: setMemberIds_def Let_def getMemberIds_def ks_smembers_def)

lemma getMemberIds_invalidate: "getMemberIds t c' (invalidate c r) = (if c' = c then None else getMemberIds t c' r)"
  by (simp add: invalidate_def getMemberIds_def ks_smembers_def)

lemma presence_setMemberIds: "presence_of t' (setMemberIds t c ms r) u = presence_of t' r u"
  by (rule presence_of_cong) (simp_all add: setMemberIds_def Let_def)

end
