(* ===== verification/PushService.thy ===== *)
theory PushService
  imports PresenceService
begin

text \<open>
  \<open>push.service.ts\<close>: the subscriptions a user's browsers registered and the two
  notification fan-outs. The \<open>web-push\<close> library is a parameter: the outcome of
  \<open>sendNotification\<close> for a subscription, \<open>Failed 0\<close> standing for an error without a
  status code. The notifications handed to the library are part of the result.
\<close>

record push_config =
  pc_publicKey :: string
  pc_privateKey :: string

datatype push_outcome = Delivered | Failed int

record push_payload =
  pp_title :: string
  pp_body :: string
  pp_conversationId :: uuid
  pp_call :: "(uuid \<times> call_media \<times> call_kind) option"

type_synonym push_log = "(string \<times> push_payload) list"

definition push_enabled :: "push_config \<Rightarrow> bool" where
  "push_enabled cfg = (truthy (pc_publicKey cfg) \<and> truthy (pc_privateKey cfg))"

definition getPublicKey :: "push_config \<Rightarrow> string option" where
  "getPublicKey cfg = (if \<not> push_enabled cfg then None
     else if truthy (pc_publicKey cfg) then Some (pc_publicKey cfg) else None)"

definition pushKey :: "uuid \<Rightarrow> string" where "pushKey userId = ''chat:push:sub:'' @ userId"

definition readAll :: "instant \<Rightarrow> uuid \<Rightarrow> keyspace \<Rightarrow> subscription list" where
  "readAll t userId r = (case ks_get t (pushKey userId) r of Some (Subscriptions (Some subs)) \<Rightarrow> subs | _ \<Rightarrow> [])"

definition last_five :: "'a list \<Rightarrow> 'a list" where
  "last_five xs = js_slice (- 5) (int (length xs)) xs"

definition subscribe :: "instant \<Rightarrow> uuid \<Rightarrow> subscription \<Rightarrow> keyspace \<Rightarrow> keyspace" where
  "subscribe t userId sub r =
     (let existing = readAll t userId r;
          next = last_five (filter (\<lambda>x. ps_endpoint x \<noteq> ps_endpoint sub) existing @ [sub])
      in ks_set (pushKey userId) (Subscriptions (Some next)) r)"

definition unsubscribe :: "instant \<Rightarrow> uuid \<Rightarrow> string option \<Rightarrow> keyspace \<Rightarrow> keyspace" where
  "unsubscribe t userId endpoint r =
     (case endpoint of
        None \<Rightarrow> ks_del (pushKey userId) r
      | Some e \<Rightarrow>
         (if \<not> truthy e then ks_del (pushKey userId) r
          else let next = filter (\<lambda>x. ps_endpoint x \<noteq> e) (readAll t userId r) in
            if length next = 0 then ks_del (pushKey userId) r
            else ks_set (pushKey userId) (Subscriptions (Some next)) r))"

text \<open>Subscriptions that the push service reports gone are dropped.\<close>

definition keeps_subscription :: "(subscription \<Rightarrow> push_outcome) \<Rightarrow> subscription \<Rightarrow> bool" where
  "keeps_subscription deliver sub = (case deliver sub of Delivered \<Rightarrow> True | Failed status \<Rightarrow> \<not> (status = 404 \<or> status = 410))"

definition sendToUser ::
  "(subscription \<Rightarrow> push_outcome) \<Rightarrow> instant \<Rightarrow> uuid \<Rightarrow> push_payload \<Rightarrow> keyspace \<Rightarrow> push_log \<times> keyspace" where
  "sendToUser deliver t userId payload r =
     (let subs = readAll t userId r in
      if length subs = 0 then ([], r)
      else let sent = map (\<lambda>s. (ps_endpoint s, payload)) subs; keep = filter (keeps_subscription deliver) subs in
        (sent,
         if length keep = 0 then ks_del (pushKey userId) r
         else if length keep \<noteq> length subs then ks_set (pushKey userId) (Subscriptions (Some keep)) r
         else r))"

fun send_all ::
  "(subscription \<Rightarrow> push_outcome) \<Rightarrow> instant \<Rightarrow> push_payload \<Rightarrow> uuid list \<Rightarrow> keyspace \<Rightarrow> push_log \<times> keyspace" where
  "send_all deliver t payload [] r = ([], r)"
| "send_all deliver t payload (u # us) r =
     (case sendToUser deliver t u payload r of (l, r1) \<Rightarrow>
        (case send_all deliver t payload us r1 of (l', r2) \<Rightarrow> (l @ l', r2)))"

definition notifyOfflineRecipients ::
  "push_config \<Rightarrow> (subscription \<Rightarrow> push_outcome) \<Rightarrow> instant \<Rightarrow> uuid list \<Rightarrow> uuid \<Rightarrow> push_payload \<Rightarrow> keyspace \<Rightarrow>
     push_log \<times> keyspace" where
  "notifyOfflineRecipients cfg deliver t recipients sender payload r =
     (if \<not> push_enabled cfg then ([], r)
      else send_all deliver t payload
        (filter (\<lambda>u. pv_status (getPresence t u r) = OFFLINE) (filter (\<lambda>u. u \<noteq> sender) recipients)) r)"

text \<open>Sent even to users who are online.\<close>

definition notifyCallInvite ::
  "push_config \<Rightarrow> (subscription \<Rightarrow> push_outcome) \<Rightarrow> instant \<Rightarrow> uuid list \<Rightarrow> uuid \<Rightarrow> push_payload \<Rightarrow> keyspace \<Rightarrow>
     push_log \<times> keyspace" where
  "notifyCallInvite cfg deliver t recipients sender payload r =
     (if \<not> push_enabled cfg then ([], r)
      else send_all deliver t payload (filter (\<lambda>u. u \<noteq> sender) recipients) r)"

section \<open>Well-formed subscription lists\<close>

lemma last_five_eq: "last_five xs = drop (length xs - 5) xs"
proof -
  have "slice_index (length xs) (- 5) = length xs - 5" "slice_index (length xs) (int (length xs)) = length xs"
    by (simp_all add: slice_index_def)
  then show ?thesis by (simp add: last_five_def js_slice_def)
qed

definition subs_ok :: "subscription list \<Rightarrow> bool" where
  "subs_ok subs \<longleftrightarrow> length subs \<le> 5 \<and> distinct (map ps_endpoint subs)"

definition push_ok :: "keyspace \<Rightarrow> bool" where
  "push_ok r \<longleftrightarrow> (\<forall>u t. subs_ok (readAll t u r))"

lemma pushKey_inject [simp]: "pushKey a = pushKey b \<longleftrightarrow> a = b"
  by (simp add: pushKey_def)

lemma pushKey_disjoint [simp]:
  "pushKey a \<noteq> onlineKey b" "pushKey a \<noteq> socketsKey b" "pushKey a \<noteq> lastSeenKey b" "pushKey a \<noteq> cacheKey b"
  "onlineKey b \<noteq> pushKey a" "socketsKey b \<noteq> pushKey a" "lastSeenKey b \<noteq> pushKey a" "cacheKey b \<noteq> pushKey a"
  by (simp_all add: pushKey_def onlineKey_def socketsKey_def lastSeenKey_def ONLINE_PREFIX_def cacheKey_def)

lemma readAll_set: "readAll t u (ks_set (pushKey v) (Subscriptions (Some subs)) r) = (if u = v then subs else readAll t u r)"
  by (simp add: readAll_def)

lemma readAll_del: "readAll t u (ks_del (pushKey v) r) = (if u = v then [] else readAll t u r)"
  by (simp add: readAll_def)

lemma subs_ok_Nil [simp]: "subs_ok []"
  by (simp add: subs_ok_def)

lemma subs_ok_filter: "subs_ok subs \<Longrightarrow> subs_ok (filter P subs)"
  using le_trans [OF length_filter_le [of P subs], of 5] by (simp add: subs_ok_def distinct_map_filter)

lemma subs_ok_subscribe:
  assumes "subs_ok subs"
  shows "subs_ok (last_five (filter (\<lambda>x. ps_endpoint x \<noteq> ps_endpoint sub) subs @ [sub]))"
proof -
  let ?xs = "filter (\<lambda>x. ps_endpoint x \<noteq> ps_endpoint sub) subs @ [sub]"
  have "distinct (map ps_endpoint ?xs)" using assms by (auto simp: subs_ok_def distinct_map_filter)
  then have "distinct (map ps_endpoint (drop (length ?xs - 5) ?xs))"
    by (metis distinct_drop drop_map)
  then show ?thesis by (simp add: last_five_eq subs_ok_def)
qed

lemma push_ok_write: "push_ok r \<Longrightarrow> subs_ok subs \<Longrightarrow> push_ok (ks_set (pushKey u) (Subscriptions (Some subs)) r)"
  by (simp add: push_ok_def readAll_set)

lemma push_ok_del: "push_ok r \<Longrightarrow> push_ok (ks_del (pushKey u) r)"
  by (simp add: push_ok_def readAll_del)

lemma push_ok_readAll: "push_ok r \<Longrightarrow> subs_ok (readAll t u r)"
  by (simp add: push_ok_def)

lemma push_ok_subscribe: "push_ok r \<Longrightarrow> push_ok (subscribe t u sub r)"
  by (simp add: subscribe_def Let_def push_ok_write subs_ok_subscribe push_ok_readAll)

lemma push_ok_unsubscribe: "push_ok r \<Longrightarrow> push_ok (unsubscribe t u e r)"
  by (auto simp: unsubscribe_def Let_def push_ok_write subs_ok_filter push_ok_readAll push_ok_del split: option.split)

lemma push_ok_sendToUser: "push_ok r \<Longrightarrow> push_ok (snd (sendToUser deliver t u p r))"
  by (auto simp: sendToUser_def Let_def push_ok_write subs_ok_filter push_ok_readAll push_ok_del)

lemma push_ok_send_all: "push_ok r \<Longrightarrow> push_ok (snd (send_all deliver t p us r))"
proof (induction us arbitrary: r)
  case (Cons u us)
  then show ?case using push_ok_sendToUser [OF Cons.prems, of deliver t u p]
    by (auto split: prod.split simp: case_prod_beta)
qed simp

lemma push_ok_notify:
  "push_ok r \<Longrightarrow> push_ok (snd (notifyOfflineRecipients cfg deliver t us s p r))"
  "push_ok r \<Longrightarrow> push_ok (snd (notifyCallInvite cfg deliver t us s p r))"
  by (simp_all add: notifyOfflineRecipients_def notifyCallInvite_def push_ok_send_all)

text \<open>Pushing touches subscription keys only.\<close>

lemma sendToUser_other: "(\<And>u. k \<noteq> pushKey u) \<Longrightarrow> ks_get t' k (snd (sendToUser deliver t u p r)) = ks_get t' k r"
  by (simp add: sendToUser_def Let_def)

lemma send_all_other: "(\<And>u. k \<noteq> pushKey u) \<Longrightarrow> ks_get t' k (snd (send_all deliver t p us r)) = ks_get t' k r"
proof (induction us arbitrary: r)
  case (Cons u us)
  have "ks_get t' k (snd (send_all deliver t p us (snd (sendToUser deliver t u p r)))) = ks_get t' k r"
    using Cons sendToUser_other [of k t' deliver t u p r] by simp
  then show ?case by (auto split: prod.splits)
qed simp

lemma notify_other:
  "(\<And>u. k \<noteq> pushKey u) \<Longrightarrow> ks_get t' k (snd (notifyOfflineRecipients cfg deliver t us s p r)) = ks_get t' k r"
  "(\<And>u. k \<noteq> pushKey u) \<Longrightarrow> ks_get t' k (snd (notifyCallInvite cfg deliver t us s p r)) = ks_get t' k r"
  by (simp_all add: notifyOfflineRecipients_def notifyCallInvite_def send_all_other)

end
