(* ===== verification/PresenceProperties.thy ===== *)
theory PresenceProperties
  imports PushService
begin

text \<open>
  Runs of presence events: what the heartbeat discipline guarantees, what the
  expiry of the socket set limits, and the reference definition of who is
  connected that \<open>disconnect\<close> decides by.
\<close>

section \<open>Runs of events\<close>

datatype presence_event = Connect instant uuid string | Disconnect instant uuid string | Beat instant uuid

primrec event_user :: "presence_event \<Rightarrow> uuid" where
  "event_user (Connect t u s) = u"
| "event_user (Disconnect t u s) = u"
| "event_user (Beat t u) = u"

primrec event_time :: "presence_event \<Rightarrow> instant" where
  "event_time (Connect t u s) = t"
| "event_time (Disconnect t u s) = t"
| "event_time (Beat t u) = t"

primrec presence_step :: "presence_event \<Rightarrow> keyspace \<Rightarrow> keyspace" where
  "presence_step (Connect t u s) r = snd (connect t u s r)"
| "presence_step (Disconnect t u s) r = snd (disconnect t u s r)"
| "presence_step (Beat t u) r = heartbeat t u r"

definition presence_run :: "presence_event list \<Rightarrow> keyspace \<Rightarrow> keyspace" where
  "presence_run es r = foldl (\<lambda>r e. presence_step e r) r es"

lemma presence_run_simps [simp]:
  "presence_run [] r = r" "presence_run (e # es) r = presence_run es (presence_step e r)"
  "presence_run (es @ [e]) r = presence_step e (presence_run es r)"
  by (simp_all add: presence_run_def)

text \<open>The commands write the keys of their user only.\<close>

lemma ks_write_other [simp]:
  "k' \<noteq> k \<Longrightarrow> ks_set k v r k' = r k'" "k' \<noteq> k \<Longrightarrow> ks_setex t ttl k v r k' = r k'" "k' \<noteq> k \<Longrightarrow> ks_del k r k' = r k'"
  "k' \<noteq> k \<Longrightarrow> ks_expire t ttl k r k' = r k'" "k' \<noteq> k \<Longrightarrow> ks_sadd t k xs r k' = r k'" "k' \<noteq> k \<Longrightarrow> ks_srem t k x r k' = r k'"
  by (simp_all add: ks_set_def ks_setex_def ks_del_def ks_expire_def ks_sadd_def ks_srem_def Let_def split: option.split)

lemma ks_write_same [simp]:
  "ks_set k v r k = Some (v, None)" "ks_setex t ttl k v r k = Some (v, Some (t + ttl * 1000))" "ks_del k r k = None"
  by (simp_all add: ks_set_def ks_setex_def ks_del_def)

lemma presence_step_other:
  "event_user e \<noteq> u \<Longrightarrow> presence_step e r (onlineKey u) = r (onlineKey u)
     \<and> presence_step e r (socketsKey u) = r (socketsKey u) \<and> presence_step e r (lastSeenKey u) = r (lastSeenKey u)"
  by (cases e) (auto simp: connect_def disconnect_def heartbeat_def Let_def)

section \<open>Heartbeats\<close>

definition day :: int where "day = 86400000"

text \<open>The keys of a user who connected at \<open>t0\<close> and was last heard of at \<open>l\<close>.\<close>

definition alive :: "instant \<Rightarrow> instant \<Rightarrow> uuid \<Rightarrow> keyspace \<Rightarrow> bool" where
  "alive t0 l u r \<longleftrightarrow> (\<exists>xs. xs \<noteq> [] \<and> r (socketsKey u) = Some (Names xs, Some (t0 + day)))
     \<and> (\<exists>v. r (onlineKey u) = Some (v, Some (l + 45000)))"

lemma connect_keys:
  "snd (connect t u s r) (socketsKey u) = Some (Names (js_uniq (ks_smembers t (socketsKey u) r @ [s])), Some (t + day))"
  "snd (connect t u s r) (onlineKey u) = Some (Flag, Some (t + 45000))"
  by (simp_all add: connect_def Let_def ks_expire_def ks_get_sadd SOCKETS_TTL_SECONDS_def ONLINE_TTL_SECONDS_def day_def)

lemma connect_alive: "alive t t u (snd (connect t u s r))"
  by (auto simp: alive_def connect_keys)

lemma heartbeat_live:
  assumes "alive t0 l u r" "t < l + 45000" "t < t0 + day"
  shows "alive t0 t u (heartbeat t u r)"
proof -
  from assms(1) obtain xs v where keys: "xs \<noteq> []" "r (socketsKey u) = Some (Names xs, Some (t0 + day))"
      "r (onlineKey u) = Some (v, Some (l + 45000))"
    by (auto simp: alive_def)
  have "ks_scard t (socketsKey u) r > 0" using keys assms(3) by (simp add: ks_scard_def ks_smembers_def ks_get_def)
  moreover have "ks_get t (onlineKey u) r = Some v" using keys assms(2) by (simp add: ks_get_def)
  ultimately have "heartbeat t u r = ks_setex t 45 (onlineKey u) v r"
    by (simp add: heartbeat_def ks_expire_def ONLINE_TTL_SECONDS_def)
  with keys show ?thesis by (auto simp: alive_def)
qed

lemma heartbeat_sockets: "heartbeat t u r (socketsKey v) = r (socketsKey v)"
  by (simp add: heartbeat_def)

text \<open>The user's own events are heartbeats, each less than 45 seconds after the last sign of life.\<close>

fun paced :: "uuid \<Rightarrow> instant \<Rightarrow> presence_event list \<Rightarrow> bool" where
  "paced u l [] = True"
| "paced u l (e # es) =
     (if event_user e \<noteq> u then paced u l es
      else case e of Beat t _ \<Rightarrow> t < l + 45000 \<and> paced u t es | _ \<Rightarrow> False)"

fun last_beat :: "uuid \<Rightarrow> instant \<Rightarrow> presence_event list \<Rightarrow> instant" where
  "last_beat u l [] = l"
| "last_beat u l (e # es) = last_beat u (if event_user e = u then event_time e else l) es"

lemma alive_run:
  "alive t0 l u r \<Longrightarrow> paced u l es \<Longrightarrow> list_all (\<lambda>e. event_time e < t0 + day) es \<Longrightarrow>
   alive t0 (last_beat u l es) u (presence_run es r)"
proof (induction es arbitrary: l r)
  case (Cons e es)
  show ?case
  proof (cases "event_user e = u")
    case False
    then have "alive t0 l u (presence_step e r)"
      using Cons.prems(1) presence_step_other [OF False] by (simp add: alive_def)
    then show ?thesis using Cons False by simp
  next
    case True
    with Cons.prems(2) obtain t where e: "e = Beat t u" "t < l + 45000" "paced u t es" by (cases e) auto
    have "alive t0 t u (presence_step e r)"
      using heartbeat_live [OF Cons.prems(1) e(2)] Cons.prems(3) e(1) by simp
    then show ?thesis using Cons e by simp
  qed
qed simp

lemma alive_online: "alive t0 l u r \<Longrightarrow> t < l + 45000 \<Longrightarrow>
  presence_of t r u = \<lparr>pv_userId = u, pv_status = ONLINE, pv_lastSeenAt = None\<rparr>"
  by (auto simp: alive_def presence_of_def Let_def ks_exists_def ks_get_def)

text \<open>A client that connects and then sends heartbeats less than 45 seconds apart stays
  online, whatever other users do in between, up to 45 seconds after its last
  heartbeat, as long as everything happens within 24 hours of the connection.
\<close>

theorem heartbeats_keep_online:
  assumes "paced u t0 es" and "\<forall>e\<in>set es. event_time e < t0 + day" and "t < last_beat u t0 es + 45000"
  shows "getPresence t u (presence_run (Connect t0 u s # es) r)
    = \<lparr>pv_userId = u, pv_status = ONLINE, pv_lastSeenAt = None\<rparr>"
proof -
  have "list_all (\<lambda>e. event_time e < t0 + day) es" using assms(2) by (simp add: list_all_iff)
  from alive_run [OF connect_alive [of t0 u s r] assms(1) this]
  show ?thesis using alive_online assms(3) by (simp add: getPresence_eq)
qed

theorem heartbeats_keep_online_witness:
  "pv_status (getPresence 70000 ''a'' (presence_run
     [Connect 0 ''a'' ''s1'', Beat 30000 ''a'', Connect 31000 ''b'' ''s2'', Disconnect 50000 ''b'' ''s2''] Map.empty)) = ONLINE"
  using heartbeats_keep_online [of "''a''" 0 "[Beat 30000 ''a'', Connect 31000 ''b'' ''s2'', Disconnect 50000 ''b'' ''s2'']" 70000 "''s1''" Map.empty]
  by (simp add: day_def)

text \<open>
  The converse bound: the socket set expires a day after the connection and
  heartbeats do not renew it.
\<close>

definition ends_by :: "instant \<Rightarrow> uuid \<Rightarrow> keyspace \<Rightarrow> bool" where
  "ends_by T u r \<longleftrightarrow> (case r (socketsKey u) of None \<Rightarrow> True | Some (v, e) \<Rightarrow> (case e of None \<Rightarrow> False | Some x \<Rightarrow> x \<le> T))
     \<and> (case r (onlineKey u) of None \<Rightarrow> True | Some (v, e) \<Rightarrow> (case e of None \<Rightarrow> False | Some x \<Rightarrow> x \<le> T + 45000))"

lemma heartbeat_ends:
  assumes "ends_by T u r"
  shows "ends_by T u (heartbeat t u r)"
proof (cases "t < T")
  case True
  then show ?thesis using assms
    by (auto simp: heartbeat_def ends_by_def ks_expire_def ONLINE_TTL_SECONDS_def split: option.splits)
next
  case False
  then have "ks_scard t (socketsKey u) r = 0"
    using assms by (auto simp: ends_by_def ks_scard_def ks_smembers_def ks_get_def split: option.splits)
  then show ?thesis using assms by (simp add: heartbeat_def)
qed

lemma ends_by_run:
  "ends_by T u r \<Longrightarrow> list_all (\<lambda>e. event_user e = u \<longrightarrow> (\<exists>t. e = Beat t u)) es \<Longrightarrow> ends_by T u (presence_run es r)"
proof (induction es arbitrary: r)
  case (Cons e es)
  have "ends_by T u (presence_step e r)"
  proof (cases "event_user e = u")
    case True
    with Cons.prems(2) obtain t where "e = Beat t u" by auto
    then show ?thesis using heartbeat_ends [OF Cons.prems(1)] by simp
  next
    case False
    then show ?thesis using Cons.prems(1) presence_step_other [OF False] by (simp add: ends_by_def)
  qed
  then show ?case using Cons by simp
qed simp

text \<open>No heartbeat extends a connection beyond a day: a user who connects once and
  then only sends heartbeats, however often, is reported offline from 24 hours and
  45 seconds after the connection on, although the socket is still connected.
\<close>

theorem connection_expires_after_a_day:
  assumes "\<forall>e\<in>set es. event_user e = u \<longrightarrow> (\<exists>t. e = Beat t u)" and "t0 + day + 45000 \<le> t"
  shows "pv_status (getPresence t u (presence_run (Connect t0 u s # es) r)) = OFFLINE"
proof -
  have "ends_by (t0 + day) u (snd (connect t0 u s r))" by (simp add: ends_by_def connect_keys day_def)
  then have "ends_by (t0 + day) u (presence_run (Connect t0 u s # es) r)"
    using assms(1) by (simp add: ends_by_run list_all_iff)
  then have "\<not> ks_exists t (onlineKey u) (presence_run (Connect t0 u s # es) r)"
    using assms(2) by (auto simp: ends_by_def ks_exists_def ks_get_def split: option.splits)
  then show ?thesis by (simp add: getPresence_eq presence_of_def Let_def del: presence_run_simps)
qed

theorem connection_expires_after_a_day_witness:
  "pv_status (getPresence 86445000 ''a'' (presence_run [Connect 0 ''a'' ''s1'', Beat 40000 ''a'', Beat 80000 ''a''] Map.empty)) = OFFLINE"
  using connection_expires_after_a_day [of "[Beat 40000 ''a'', Beat 80000 ''a'']" "''a''" 0 86445000 "''s1''" Map.empty]
  by (simp add: day_def)

section \<open>Who is connected\<close>

text \<open>The reference: the sockets that connected and did not disconnect since.\<close>

fun open_sockets :: "uuid \<Rightarrow> presence_event list \<Rightarrow> string set" where
  "open_sockets u [] = {}"
| "open_sockets u (e # es) =
     (case e of Connect t v s \<Rightarrow> (if v = u then insert s (open_sockets u es) else open_sockets u es)
      | Disconnect t v s \<Rightarrow> (if v = u then open_sockets u es - {s} else open_sockets u es)
      | Beat t v \<Rightarrow> open_sockets u es)"

text \<open>The run in reverse order, so that the reference reads the newest event first.\<close>

definition sockets_are :: "instant \<Rightarrow> uuid \<Rightarrow> string set \<Rightarrow> keyspace \<Rightarrow> bool" where
  "sockets_are T u S r \<longleftrightarrow> (case r (socketsKey u) of None \<Rightarrow> S = {}
     | Some (v, e) \<Rightarrow> (\<exists>xs x. v = Names xs \<and> set xs = S \<and> e = Some x \<and> T + day \<le> x))"

lemma sockets_are_members: "sockets_are T u S r \<Longrightarrow> t < T + day \<Longrightarrow> set (ks_smembers t (socketsKey u) r) = S"
  by (auto simp: sockets_are_def ks_smembers_def ks_get_def split: option.splits)

lemma ks_srem_same: "ks_srem t k x r k = (let left = filter (\<lambda>y. y \<noteq> x) (ks_smembers t k r) in
    if left = [] then None else Some (Names left, ks_expiry t k r))"
  by (simp add: ks_srem_def Let_def)

lemma sockets_are_step:
  assumes S: "sockets_are T u (open_sockets u es) r" and t: "T \<le> event_time e" "event_time e < T + day"
  shows "sockets_are T u (open_sockets u (e # es)) (presence_step e r)"
proof (cases e)
  case (Connect t v s)
  show ?thesis
  proof (cases "v = u")
    case True
    have "set (ks_smembers t (socketsKey u) r) = open_sockets u es"
      using sockets_are_members [OF S] t Connect by simp
    with True Connect t show ?thesis by (simp add: sockets_are_def connect_keys)
  qed (use S Connect presence_step_other [of e u r] in \<open>simp add: sockets_are_def\<close>)
next
  case (Disconnect t v s)
  show ?thesis
  proof (cases "v = u")
    case True
    let ?left = "filter (\<lambda>y. y \<noteq> s) (ks_smembers t (socketsKey u) r)"
    have left: "set ?left = open_sockets u es - {s}"
      using sockets_are_members [OF S] t Disconnect by auto
    have key: "presence_step e r (socketsKey u) = ks_srem t (socketsKey u) s r (socketsKey u)"
      using True Disconnect by (simp add: disconnect_def Let_def)
    show ?thesis
    proof (cases "?left = []")
      case True
      then have "presence_step e r (socketsKey u) = None" by (simp add: key ks_srem_same)
      with True left Disconnect \<open>v = u\<close> show ?thesis by (simp add: sockets_are_def)
    next
      case False
      then have "ks_smembers t (socketsKey u) r \<noteq> []" by auto
      then obtain xs x where row: "r (socketsKey u) = Some (Names xs, Some x)" "T + day \<le> x"
        using S by (auto simp: sockets_are_def ks_smembers_def ks_get_def split: option.splits)
      have "ks_expiry t (socketsKey u) r = Some x"
        using row t Disconnect by (simp add: ks_expiry_def ks_exists_def ks_get_def)
      with False have "presence_step e r (socketsKey u) = Some (Names ?left, Some x)"
        by (simp add: key ks_srem_same Let_def)
      with left row Disconnect \<open>v = u\<close> show ?thesis by (simp add: sockets_are_def)
    qed
  qed (use S Disconnect presence_step_other [of e u r] in \<open>simp add: sockets_are_def\<close>)
next
  case (Beat t v)
  then show ?thesis using S by (simp add: sockets_are_def heartbeat_sockets)
qed

lemma sockets_are_run:
  "list_all (\<lambda>e. T \<le> event_time e \<and> event_time e < T + day) es \<Longrightarrow>
   sockets_are T u (open_sockets u (rev es)) (presence_run es Map.empty)"
proof (induction es rule: rev_induct)
  case (snoc e es)
  then show ?case using sockets_are_step [of T u "rev es" "presence_run es Map.empty" e] by simp
qed (simp add: sockets_are_def)

text \<open>Within a day, \<open>disconnect\<close> decides by the reference: after any run of events from
  an empty store it answers \<open>OFFLINE\<close> with the present instant exactly when the
  socket was the user's last open one, and then that is what the user's presence
  says; otherwise it answers \<open>ONLINE\<close>.
\<close>

theorem disconnect_decides_by_open_sockets:
  assumes "\<forall>e\<in>set es. T \<le> event_time e \<and> event_time e < T + day" and "t < T + day"
    and "r = presence_run es Map.empty"
  shows "if open_sockets u (rev es) - {s} = {}
    then fst (disconnect t u s r) = (OFFLINE, Some t)
      \<and> getPresence t' u (snd (disconnect t u s r)) = \<lparr>pv_userId = u, pv_status = OFFLINE, pv_lastSeenAt = Some t\<rparr>
    else fst (disconnect t u s r) = (ONLINE, None)"
proof -
  have "set (left_sockets t u s r) = open_sockets u (rev es) - {s}"
    using sockets_are_members [OF sockets_are_run [of T es u] assms(2)] assms(1,3)
    by (auto simp: left_sockets_def list_all_iff)
  then have "left_sockets t u s r = [] \<longleftrightarrow> open_sockets u (rev es) - {s} = {}" by (metis set_empty)
  then show ?thesis
    using disconnect_cases(1) [of t u s r] disconnect_cases(2) [of t u s r t'] by (simp add: getPresence_eq)
qed

theorem disconnect_decides_by_open_sockets_witness:
  "fst (disconnect 9 ''a'' ''s2'' (presence_run [Connect 1 ''a'' ''s1'', Connect 2 ''a'' ''s2'', Disconnect 3 ''a'' ''s1''] Map.empty))
    = (OFFLINE, Some 9)
   \<and> fst (disconnect 9 ''a'' ''s2'' (presence_run [Connect 1 ''a'' ''s1'', Connect 2 ''a'' ''s2''] Map.empty)) = (ONLINE, None)"
proof
  have "{''s2'', ''s1''} - {''s1''} \<subseteq> {''s2'' :: string}" by auto
  then show "fst (disconnect 9 ''a'' ''s2'' (presence_run [Connect 1 ''a'' ''s1'', Connect 2 ''a'' ''s2'', Disconnect 3 ''a'' ''s1''] Map.empty))
    = (OFFLINE, Some 9)"
    using disconnect_decides_by_open_sockets [of "[Connect 1 ''a'' ''s1'', Connect 2 ''a'' ''s2'', Disconnect 3 ''a'' ''s1'']" 0 9, OF _ _ refl, of "''a''" "''s2''"]
    by (simp add: day_def del: presence_run_simps)
  show "fst (disconnect 9 ''a'' ''s2'' (presence_run [Connect 1 ''a'' ''s1'', Connect 2 ''a'' ''s2''] Map.empty)) = (ONLINE, None)"
    using disconnect_decides_by_open_sockets [of "[Connect 1 ''a'' ''s1'', Connect 2 ''a'' ''s2'']" 0 9, OF _ _ refl, of "''a''" "''s2''"]
    by (simp add: day_def del: presence_run_simps)
qed

end
