(* ===== verification/GatewayModel.thy ===== *)
theory GatewayModel
  imports ChatService CallSession PushService UserService
begin

text \<open>
  The state of the API gateway process and of everything it talks to, the actions
  its handlers are built from, and the two ways it reaches the outside:
  \<open>microservice.proxy.ts\<close> (requests to the three services over the message broker)
  and the Socket.IO server (rooms and emissions).

  A handler is an action: from the gateway to its outcome (\<open>Inl\<close> an exception) and
  the gateway it leaves. The awaits of one handler run without another handler in
  between, except where the code waits on a timer; those waits are steps of their
  own. Whether a request to a service is answered in time is decided by the
  environment, request by request.
\<close>

section \<open>State\<close>

text \<open>The emitted payloads, one constructor per shape the gateway emits.\<close>

record call_incoming =
  in_callId :: uuid
  in_conversationId :: uuid
  in_fromUserId :: uuid
  in_kind :: call_kind
  in_media :: call_media
  in_memberIds :: "uuid list"
  in_joinedIds :: "uuid list"

record call_joined =
  jn_callId :: uuid
  jn_conversationId :: uuid
  jn_kind :: call_kind
  jn_byUserId :: uuid
  jn_joinedIds :: "uuid list"
  jn_memberIds :: "uuid list"

datatype end_reason = Hangup | Rejected | Timeout | Offline | Removed

text \<open>The text of a JSON value on the signalling path; its length is its size in bytes.\<close>

type_synonym json = string

datatype (plugins only: size code) payload =
    PresenceEvent presence_view "uuid option"
  | MessageEvent message_view
  | TypingEvent uuid uuid bool
  | SeenEvent uuid uuid instant "uuid option"
  | GroupDeleted uuid
  | ConversationUpdated conversation_view
  | RemovedFromGroup uuid
  | CallIncoming call_incoming
  | CallJoined call_joined
  | CallDeclined uuid uuid uuid
  | CallLeft uuid uuid uuid "uuid list"
  | CallLeftRemaining uuid uuid uuid "uuid list"
  | CallEnded uuid uuid uuid end_reason
  | CallLobby call_lobby
  | CallRoster call_roster
  | CallHeld uuid uuid bool "uuid option" uuid
  | CallForceMute uuid uuid bool uuid
  | CallScreenShare uuid uuid bool uuid
  | CallSignal uuid uuid uuid json
  | CallIce uuid uuid uuid "json option"

text \<open>
  One \<open>server.to(rooms).emit(event, payload)\<close>, with the identifiers of the sockets
  that were in one of the rooms.
\<close>

record emission =
  em_rooms :: "string list"
  em_event :: string
  em_payload :: payload
  em_sockets :: "string list"

record socket =
  sk_id :: string
  sk_user :: "uuid option"
  sk_rooms :: "string list"
  sk_conversationIds :: "uuid list"

text \<open>A ring timer: \<open>None\<close> runs \<open>timeoutRingingCall\<close>, \<open>Some ids\<close> \<open>timeoutRingingInvitees\<close>.\<close>

record ring =
  rg_due :: instant
  rg_invitees :: "uuid list option"
  rg_fired :: bool

text \<open>A wait of \<open>endCallForDisconnectedUser\<close>.\<close>

record grace =
  gr_due :: instant
  gr_userId :: uuid
  gr_callId :: uuid

record gateway =
  gw_chat :: chat_db
  gw_users :: user_db
  gw_auth :: auth_db
  gw_keys :: keyspace
  gw_calls :: call_redis
  gw_sockets :: "socket list"
  gw_rings :: "uuid \<rightharpoonup> ring"
  gw_invites :: "uuid \<rightharpoonup> instant list"
  gw_graces :: "grace list"
  gw_sent :: "emission list"
  gw_pushed :: push_log
  gw_deletedFiles :: "string list"
  gw_rpcs :: nat
  gw_callIds :: nat

text \<open>
  What the environment decides while an event is handled: the clocks, the fate of
  the requests to the services, the outside libraries and \<open>randomUUID\<close>.
\<close>

datatype rpc_fate = Answered | ReplyLost | RequestLost

record jwt_payload =
  jwt_sub :: string
  jwt_email :: string
  jwt_role :: user_role
  jwt_access :: bool

record world =
  wd_clk :: clock
  wd_fate :: "nat \<Rightarrow> rpc_fate"
  wd_scan :: "call_redis \<Rightarrow> string list"
  wd_uuid :: "nat \<Rightarrow> uuid"
  wd_rank :: "string \<Rightarrow> int"
  wd_crypto :: crypto
  wd_jwt :: "instant \<Rightarrow> string \<Rightarrow> jwt_payload option"
  wd_passport :: "instant \<Rightarrow> string option \<Rightarrow> jwt_payload option"
  wd_cacheSeconds :: int
  wd_upload :: "string \<Rightarrow> string \<Rightarrow> int \<Rightarrow> (string \<times> string \<times> string) option"
  wd_push :: push_config
  wd_deliver :: "subscription \<Rightarrow> push_outcome"

definition at :: "world \<Rightarrow> instant" where
  "at w = now (wd_clk w)"

text \<open>A thrown \<open>WsException\<close>, \<open>RpcException\<close> or HTTP exception.\<close>

datatype (plugins only: size code) failure =
    WsException string
  | RpcException rpc_error
  | HttpException nat string

section \<open>Actions\<close>

type_synonym 'a act = "gateway \<Rightarrow> (failure + 'a) \<times> gateway"

definition give :: "'a \<Rightarrow> 'a act" where
  "give x g = (Inr x, g)"

definition throw :: "failure \<Rightarrow> 'a act" where
  "throw e g = (Inl e, g)"

definition chain :: "'a act \<Rightarrow> ('a \<Rightarrow> 'b act) \<Rightarrow> 'b act" where
  "chain m f g = (case m g of (Inl e, g1) \<Rightarrow> (Inl e, g1) | (Inr x, g1) \<Rightarrow> f x g1)"

text \<open>\<open>try { ... } catch { ... }\<close>\<close>

definition attempt :: "'a act \<Rightarrow> (failure \<Rightarrow> 'a act) \<Rightarrow> 'a act" where
  "attempt m h g = (case m g of (Inl e, g1) \<Rightarrow> h e g1 | (Inr x, g1) \<Rightarrow> (Inr x, g1))"

definition ask :: "(gateway \<Rightarrow> 'a) \<Rightarrow> 'a act" where
  "ask f g = (Inr (f g), g)"

definition change :: "(gateway \<Rightarrow> gateway) \<Rightarrow> unit act" where
  "change f g = (Inr (), f g)"

primrec each :: "('x \<Rightarrow> unit act) \<Rightarrow> 'x list \<Rightarrow> unit act" where
  "each f [] = give ()"
| "each f (x # xs) = chain (f x) (\<lambda>_. each f xs)"

definition only_if :: "bool \<Rightarrow> unit act \<Rightarrow> unit act" where
  "only_if b m = (if b then m else give ())"

text \<open>Calls of \<open>CallSessionService\<close> and of the Redis-backed services.\<close>

definition on_calls :: "(call_redis \<Rightarrow> 'a \<times> call_redis) \<Rightarrow> 'a act" where
  "on_calls f g = (case f (gw_calls g) of (x, r) \<Rightarrow> (Inr x, g\<lparr>gw_calls := r\<rparr>))"

definition on_keys :: "(keyspace \<Rightarrow> 'a \<times> keyspace) \<Rightarrow> 'a act" where
  "on_keys f g = (case f (gw_keys g) of (x, r) \<Rightarrow> (Inr x, g\<lparr>gw_keys := r\<rparr>))"

definition put_keys :: "(keyspace \<Rightarrow> keyspace) \<Rightarrow> unit act" where
  "put_keys f = on_keys (\<lambda>r. ((), f r))"

section \<open>Requests to the services (microservice.proxy.ts)\<close>

definition TIMED_OUT :: failure where
  "TIMED_OUT = HttpException 504 ''The upstream service did not respond in time''"

text \<open>
  A request whose reply does not arrive within \<open>rpcTimeoutMs\<close> fails with 504; the
  service may have processed it. The in-flight limiter never delays the requests of
  handlers that run one at a time.
\<close>

definition send ::
  "world \<Rightarrow> (gateway \<Rightarrow> 's) \<Rightarrow> ('s \<Rightarrow> gateway \<Rightarrow> gateway) \<Rightarrow> ('s \<Rightarrow> 'a rpc \<times> 's) \<Rightarrow> 'a act" where
  "send w field upd handler g =
     (let g1 = g\<lparr>gw_rpcs := Suc (gw_rpcs g)\<rparr> in
      case wd_fate w (gw_rpcs g) of
        RequestLost \<Rightarrow> (Inl TIMED_OUT, g1)
      | ReplyLost \<Rightarrow> (Inl TIMED_OUT, upd (snd (handler (field g))) g1)
      | Answered \<Rightarrow>
         (case handler (field g) of
            (Inl e, s) \<Rightarrow> (Inl (RpcException e), upd s g1)
          | (Inr x, s) \<Rightarrow> (Inr x, upd s g1)))"

definition rpcTimeoutMs :: "int \<Rightarrow> int" where
  "rpcTimeoutMs configured = min configured 8000"

text \<open>
  The reply of a pattern, read at the type its caller casts it to; the other
  constructors do not occur (\<open>expected\<close> maps them to \<open>None\<close>).
\<close>

definition typed :: "('r \<Rightarrow> 'a option) \<Rightarrow> 'r \<Rightarrow> 'a act" where
  "typed expected r = (case expected r of Some x \<Rightarrow> give x | None \<Rightarrow> throw (RpcException internalError))"

definition sendChat :: "(chat_response \<Rightarrow> 'a option) \<Rightarrow> world \<Rightarrow> chat_request \<Rightarrow> 'a act" where
  "sendChat expected w q =
     chain (send w gw_chat (\<lambda>db g. g\<lparr>gw_chat := db\<rparr>) (chat_step (wd_clk w, q))) (typed expected)"

definition sendUser :: "(user_response \<Rightarrow> 'a option) \<Rightarrow> world \<Rightarrow> user_request \<Rightarrow> 'a act" where
  "sendUser expected w q =
     chain (send w gw_users (\<lambda>db g. g\<lparr>gw_users := db\<rparr>) (user_step (wd_clk w, wd_rank w, q))) (typed expected)"

definition sendAuth :: "(auth_answer \<Rightarrow> 'a option) \<Rightarrow> world \<Rightarrow> auth_request \<Rightarrow> 'a act" where
  "sendAuth expected w q =
     chain (send w gw_auth (\<lambda>db g. g\<lparr>gw_auth := db\<rparr>) (auth_step (wd_crypto w) (wd_clk w, q))) (typed expected)"

text \<open>The reply types the callers expect.\<close>

definition a_conversation :: "chat_response \<Rightarrow> conversation_view option" where
  "a_conversation r = (case r of RConversation v \<Rightarrow> Some v | _ \<Rightarrow> None)"

definition a_sent :: "chat_response \<Rightarrow> send_result option" where
  "a_sent r = (case r of RSent v \<Rightarrow> Some v | _ \<Rightarrow> None)"

definition a_seen :: "chat_response \<Rightarrow> seen_result option" where
  "a_seen r = (case r of RSeen v \<Rightarrow> Some v | _ \<Rightarrow> None)"

definition a_admission :: "chat_response \<Rightarrow> call_admission option" where
  "a_admission r = (case r of RCall v \<Rightarrow> Some v | _ \<Rightarrow> None)"

definition a_deletion :: "chat_response \<Rightarrow> delete_result option" where
  "a_deletion r = (case r of RDeleted v \<Rightarrow> Some v | _ \<Rightarrow> None)"

definition a_profile :: "user_response \<Rightarrow> profile_view option" where
  "a_profile r = (case r of UProfile v \<Rightarrow> Some v | _ \<Rightarrow> None)"

section \<open>Rooms (the Socket.IO server)\<close>

definition userRoom :: "uuid \<Rightarrow> string" where "userRoom userId = ''user:'' @ userId"
definition conversationRoom :: "uuid \<Rightarrow> string" where "conversationRoom c = ''conversation:'' @ c"

definition sockets_in :: "string list \<Rightarrow> socket list \<Rightarrow> string list" where
  "sockets_in rooms ss = map sk_id (filter (\<lambda>s. list_ex (\<lambda>r. r \<in> set rooms) (sk_rooms s)) ss)"

definition emit :: "string list \<Rightarrow> string \<Rightarrow> payload \<Rightarrow> unit act" where
  "emit rooms event p = change (\<lambda>g. g\<lparr>gw_sent := gw_sent g @
     [\<lparr>em_rooms = rooms, em_event = event, em_payload = p, em_sockets = sockets_in rooms (gw_sockets g)\<rparr>]\<rparr>)"

definition find_socket :: "string \<Rightarrow> gateway \<Rightarrow> socket option" where
  "find_socket sid g = find (\<lambda>s. sk_id s = sid) (gw_sockets g)"

definition update_socket :: "string \<Rightarrow> (socket \<Rightarrow> socket) \<Rightarrow> unit act" where
  "update_socket sid f = change (\<lambda>g. g\<lparr>gw_sockets := map (\<lambda>s. if sk_id s = sid then f s else s) (gw_sockets g)\<rparr>)"

definition join_room :: "string \<Rightarrow> socket \<Rightarrow> socket" where
  "join_room r s = s\<lparr>sk_rooms := js_uniq (sk_rooms s @ [r])\<rparr>"

definition leave_room :: "string \<Rightarrow> socket \<Rightarrow> socket" where
  "leave_room r s = s\<lparr>sk_rooms := filter (\<lambda>x. x \<noteq> r) (sk_rooms s)\<rparr>"

lemmas action_defs = give_def throw_def chain_def attempt_def ask_def change_def only_if_def on_calls_def
  on_keys_def put_keys_def

lemma chain_give [simp]: "chain (give x) f = f x"
  by (simp add: fun_eq_iff chain_def give_def)

lemma chain_throw [simp]: "chain (throw e) f = throw e"
  by (simp add: fun_eq_iff chain_def throw_def)

lemma room_inject [simp]: "userRoom a = userRoom b \<longleftrightarrow> a = b" "conversationRoom a = conversationRoom b \<longleftrightarrow> a = b"
  by (simp_all add: userRoom_def conversationRoom_def)

lemma room_disjoint [simp]: "userRoom a \<noteq> conversationRoom b" "conversationRoom b \<noteq> userRoom a"
  by (simp_all add: userRoom_def conversationRoom_def)

end
