(* ===== verification/GatewayAuth.thy ===== *)
theory GatewayAuth
  imports GatewayModel
begin

text \<open>
  Authentication at the gateway: \<open>token-blacklist.service.ts\<close>,
  \<open>auth-session.cache.ts\<close>, \<open>user-from-token.ts\<close>, the guards and the strategy of
  \<open>auth/guards\<close> and \<open>auth/strategies\<close>, \<open>ws-auth.service.ts\<close> and the handlers of
  \<open>auth.controller.ts\<close>.

  The JWT library is \<open>wd_jwt\<close> (\<open>verifyAsync\<close>: the payload of a token that is well
  signed and not expired); passport-jwt, which finds the token in the
  \<open>Authorization\<close> header by its own rules before it verifies it, is
  \<open>wd_passport\<close>.
\<close>

section \<open>Revoked tokens and cached sessions\<close>

definition blacklistKey :: "world \<Rightarrow> string \<Rightarrow> string" where
  "blacklistKey w token = ''gateway:token:blacklist:'' @ sha256 (wd_crypto w) token"

definition access_ttl :: "world \<Rightarrow> int" where
  "access_ttl w = parseDurationSeconds (accessExpiresIn (wd_crypto w)) (24 * 60 * 60)"

definition revokeAccessToken :: "world \<Rightarrow> string \<Rightarrow> unit act" where
  "revokeAccessToken w token = put_keys (ks_setex (at w) (access_ttl w) (blacklistKey w token) Flag)"

definition isRevoked :: "world \<Rightarrow> string \<Rightarrow> bool act" where
  "isRevoked w token = ask (\<lambda>g. ks_exists (at w) (blacklistKey w token) (gw_keys g))"

definition sessionCacheKey :: "uuid \<Rightarrow> string" where
  "sessionCacheKey userId = ''auth:validate:'' @ userId"

definition cached_get :: "world \<Rightarrow> uuid \<Rightarrow> auth_view option act" where
  "cached_get w userId = on_keys (\<lambda>r. case ks_get (at w) (sessionCacheKey userId) r of
     Some (CachedUser (Some v)) \<Rightarrow> (Some v, r)
   | Some (CachedUser None) \<Rightarrow> (None, ks_del (sessionCacheKey userId) r)
   | _ \<Rightarrow> (None, r))"

definition cached_set :: "world \<Rightarrow> auth_view \<Rightarrow> unit act" where
  "cached_set w v = put_keys (ks_setex (at w) (wd_cacheSeconds w) (sessionCacheKey (uv_id v)) (CachedUser (Some v)))"

definition cached_invalidate :: "uuid \<Rightarrow> unit act" where
  "cached_invalidate userId = put_keys (ks_del (sessionCacheKey userId))"

section \<open>Who a token stands for\<close>

record authenticated_user =
  ru_id :: uuid
  ru_email :: string
  ru_role :: user_role
  ru_isActive :: bool
  ru_isEmailVerified :: bool

definition userFromAccessToken :: "jwt_payload \<Rightarrow> auth_view option \<Rightarrow> authenticated_user act" where
  "userFromAccessToken p cached = (case cached of
     Some v \<Rightarrow>
       (if \<not> uv_isActive v then throw (HttpException 403 ''This account has been deactivated'')
        else give \<lparr>ru_id = uv_id v, ru_email = uv_email v, ru_role = uv_role v, ru_isActive = uv_isActive v,
                   ru_isEmailVerified = uv_isEmailVerified v\<rparr>)
   | None \<Rightarrow> give \<lparr>ru_id = jwt_sub p, ru_email = jwt_email p, ru_role = jwt_role p, ru_isActive = True,
                   ru_isEmailVerified = False\<rparr>)"

text \<open>\<open>JwtStrategy.validate\<close>, also the tail of \<open>WsAuthService.authenticate\<close>.\<close>

definition strategy_validate :: "world \<Rightarrow> jwt_payload \<Rightarrow> authenticated_user act" where
  "strategy_validate w p =
     (if \<not> jwt_access p \<or> \<not> truthy (jwt_sub p) then throw (HttpException 401 ''Access token is required'')
      else chain (cached_get w (jwt_sub p)) (userFromAccessToken p))"

definition UNAUTHENTICATED :: failure where
  "UNAUTHENTICATED = HttpException 401 ''Authentication is required or the provided credentials are invalid''"

definition extractBearer :: "string option \<Rightarrow> string option" where
  "extractBearer header = (case header of None \<Rightarrow> None
     | Some h \<Rightarrow> (if starts_with h ''Bearer '' then Some (drop 7 h) else None))"

text \<open>
  \<open>JwtAuthGuard.canActivate\<close> of an HTTP request: \<open>None\<close> on a public route, else the
  user that passport puts on the request. passport reports a missing, malformed
  or expired token without an exception object, so \<open>handleRequest\<close> answers the
  default 401.
\<close>

definition jwt_guard :: "world \<Rightarrow> bool \<Rightarrow> string option \<Rightarrow> authenticated_user option act" where
  "jwt_guard w isPublic header =
     (if isPublic then give None
      else chain
        (case extractBearer header of
           None \<Rightarrow> give False
         | Some token \<Rightarrow> (if truthy token then isRevoked w token else give False))
        (\<lambda>revoked. if revoked then throw (HttpException 401 ''Access token has been revoked'')
           else case wd_passport w (at w) header of
             None \<Rightarrow> throw UNAUTHENTICATED
           | Some p \<Rightarrow> chain (strategy_validate w p) (\<lambda>u. give (Some u))))"

definition roles_guard :: "user_role list \<Rightarrow> authenticated_user option \<Rightarrow> unit act" where
  "roles_guard roles user =
     (if roles = [] then give ()
      else case user of
        None \<Rightarrow> throw (HttpException 403 ''You do not have permission to access this resource'')
      | Some u \<Rightarrow> (if ru_role u \<notin> set roles
          then throw (HttpException 403 ''You do not have permission to access this resource'') else give ()))"

text \<open>The guards of a route in their order (app.module.ts), then its handler.\<close>

definition route :: "world \<Rightarrow> user_role list \<Rightarrow> string option \<Rightarrow> (authenticated_user \<Rightarrow> 'a act) \<Rightarrow> 'a act" where
  "route w roles header handler =
     chain (jwt_guard w False header) (\<lambda>user.
     chain (roles_guard roles user) (\<lambda>_.
     case user of Some u \<Rightarrow> handler u | None \<Rightarrow> throw UNAUTHENTICATED))"

section \<open>Socket authentication (ws-auth.service.ts)\<close>

text \<open>\<open>token.replace(/^Bearer\s+/i, '')\<close>\<close>

definition strip_bearer :: "string \<Rightarrow> string" where
  "strip_bearer s =
     (if to_lower (take 6 s) = ''bearer'' \<and> (case drop 6 s of [] \<Rightarrow> False | c # _ \<Rightarrow> js_space c)
      then dropWhile js_space (drop 6 s) else s)"

definition extractToken :: "string option \<Rightarrow> string option \<Rightarrow> string option" where
  "extractToken fromAuth header = (case fromAuth of
     Some a \<Rightarrow> (if truthy a then Some (strip_bearer a) else extractBearer header)
   | None \<Rightarrow> extractBearer header)"

definition authenticate :: "world \<Rightarrow> string option \<Rightarrow> string option \<Rightarrow> authenticated_user act" where
  "authenticate w fromAuth header =
     (case extractToken fromAuth header of
        None \<Rightarrow> throw (HttpException 401 ''Access token is required'')
      | Some token \<Rightarrow>
         (if \<not> truthy token then throw (HttpException 401 ''Access token is required'')
          else chain (isRevoked w token) (\<lambda>revoked.
            if revoked then throw (HttpException 401 ''Access token has been revoked'')
            else case wd_jwt w (at w) token of
              None \<Rightarrow> throw (HttpException 401 ''Access token is invalid or expired'')
            | Some p \<Rightarrow> strategy_validate w p)))"

section \<open>Handlers (auth.controller.ts)\<close>

definition a_session :: "auth_answer \<Rightarrow> auth_result option" where
  "a_session r = (case r of SessionAnswer x \<Rightarrow> Some x | _ \<Rightarrow> None)"

definition a_flag :: "auth_answer \<Rightarrow> bool option" where
  "a_flag r = (case r of FlagAnswer b \<Rightarrow> Some b | _ \<Rightarrow> None)"

record register_dto =
  rd_email :: string
  rd_password :: string
  rd_firstName :: string
  rd_lastName :: string
  rd_inviteToken :: "string option"

text \<open>The account is deactivated again when its profile cannot be created.\<close>

definition post_register :: "world \<Rightarrow> register_dto \<Rightarrow> auth_result act" where
  "post_register w dto =
     chain (sendAuth a_session w (Register (rd_email dto) (rd_password dto) (rd_inviteToken dto))) (\<lambda>result.
     chain (attempt
        (chain (sendUser a_profile w (CreateProfile \<lparr>cp_userId = uv_id (fst result), cp_email = uv_email (fst result),
            cp_firstName = rd_firstName dto, cp_lastName = rd_lastName dto\<rparr>)) (\<lambda>_. give ()))
        (\<lambda>e. chain (attempt (chain (sendAuth a_flag w (Deactivate (uv_id (fst result)))) (\<lambda>_. give ())) (\<lambda>_. give ()))
          (\<lambda>_. throw e))) (\<lambda>_.
     chain (cached_set w (fst result)) (\<lambda>_. give result)))"

definition post_login :: "world \<Rightarrow> string \<Rightarrow> string \<Rightarrow> string option \<Rightarrow> string option \<Rightarrow> auth_result act" where
  "post_login w email password ip userAgent =
     chain (sendAuth a_session w (Login email password ip userAgent)) (\<lambda>result.
     chain (cached_set w (fst result)) (\<lambda>_. give result))"

definition post_refresh :: "world \<Rightarrow> string \<Rightarrow> string option \<Rightarrow> string option \<Rightarrow> auth_result act" where
  "post_refresh w refreshToken ip userAgent =
     chain (sendAuth a_session w (Refresh refreshToken ip userAgent)) (\<lambda>result.
     chain (cached_set w (fst result)) (\<lambda>_. give result))"

text \<open>\<open>header?.replace('Bearer ', '')\<close>: the first occurrence, wherever it stands.\<close>

fun without_first :: "string \<Rightarrow> string \<Rightarrow> string" where
  "without_first pat [] = []"
| "without_first pat (c # s) = (if starts_with (c # s) pat then drop (length pat) (c # s) else c # without_first pat s)"

definition access_token_of :: "string option \<Rightarrow> string option" where
  "access_token_of header = map_option (without_first ''Bearer '') header"

definition revoke_current :: "world \<Rightarrow> string option \<Rightarrow> unit act" where
  "revoke_current w header = (case access_token_of header of
     None \<Rightarrow> give () | Some token \<Rightarrow> only_if (truthy token) (revokeAccessToken w token))"

definition post_logout :: "world \<Rightarrow> authenticated_user \<Rightarrow> string option \<Rightarrow> string option \<Rightarrow> unit act" where
  "post_logout w user header refreshToken =
     chain (revoke_current w header) (\<lambda>_.
     chain (cached_invalidate (ru_id user)) (\<lambda>_.
     chain (sendAuth a_flag w (Logout (ru_id user) refreshToken)) (\<lambda>_. give ())))"

definition get_me :: "world \<Rightarrow> authenticated_user \<Rightarrow> auth_answer act" where
  "get_me w user = sendAuth Some w (Me (ru_id user))"

definition patch_password :: "world \<Rightarrow> authenticated_user \<Rightarrow> string option \<Rightarrow> string \<Rightarrow> string \<Rightarrow> auth_answer act" where
  "patch_password w user header currentPassword newPassword =
     chain (sendAuth Some w (ChangePassword (ru_id user) currentPassword newPassword)) (\<lambda>data.
     chain (revoke_current w header) (\<lambda>_.
     chain (cached_invalidate (ru_id user)) (\<lambda>_. give data)))"

definition forgot_password :: "world \<Rightarrow> string \<Rightarrow> auth_answer act" where
  "forgot_password w email = sendAuth Some w (ForgotPassword email)"

definition reset_password :: "world \<Rightarrow> string \<Rightarrow> string \<Rightarrow> auth_answer act" where
  "reset_password w token password = sendAuth Some w (ResetPassword token password)"

definition verify_email :: "world \<Rightarrow> string \<Rightarrow> auth_answer act" where
  "verify_email w token = sendAuth Some w (VerifyEmail token)"

definition resend_verification :: "world \<Rightarrow> authenticated_user \<Rightarrow> auth_answer act" where
  "resend_verification w user = sendAuth Some w (RequestEmailVerification (ru_id user))"

definition create_invite :: "world \<Rightarrow> authenticated_user \<Rightarrow> string option \<Rightarrow> int option \<Rightarrow> int option \<Rightarrow> auth_answer act" where
  "create_invite w user email expiresInDays maxUses =
     sendAuth Some w (CreateInvite (ru_id user) email expiresInDays maxUses)"

definition list_invites :: "world \<Rightarrow> auth_answer act" where
  "list_invites w = sendAuth Some w ListInvites"

definition get_invite :: "world \<Rightarrow> string \<Rightarrow> auth_answer act" where
  "get_invite w token = sendAuth Some w (GetInvite token)"

definition revoke_invite :: "world \<Rightarrow> uuid \<Rightarrow> auth_answer act" where
  "revoke_invite w i = sendAuth Some w (RevokeInvite i)"

section \<open>Profiles (users.controller.ts)\<close>

definition deleteByUrl :: "string \<Rightarrow> unit act" where
  "deleteByUrl url = only_if (truthy url) (change (\<lambda>g. g\<lparr>gw_deletedFiles := gw_deletedFiles g @ [url]\<rparr>))"

definition list_users :: "world \<Rightarrow> find_users_payload \<Rightarrow> user_response act" where
  "list_users w q = sendUser Some w (FindUsers q)"

definition lookupByUserId :: "world \<Rightarrow> uuid \<Rightarrow> profile_view act" where
  "lookupByUserId w userId = sendUser a_profile w (FindByUserId userId)"

definition update_me :: "world \<Rightarrow> authenticated_user \<Rightarrow> update_profile_payload \<Rightarrow> profile_view act" where
  "update_me w user dto =
     chain (if pu_avatar dto = None then give None
            else chain (lookupByUserId w (ru_id user)) (\<lambda>current. give (fv_avatar current))) (\<lambda>previousAvatar.
     chain (sendUser a_profile w (UpdateProfile (dto\<lparr>pu_userId := ru_id user\<rparr>))) (\<lambda>data.
     chain (case previousAvatar of
              Some old \<Rightarrow> only_if (truthy old \<and> (\<not> opt_truthy (fv_avatar data) \<or> fv_avatar data \<noteq> Some old)) (deleteByUrl old)
            | None \<Rightarrow> give ()) (\<lambda>_. give data)))"

definition MAX_AVATAR_BYTES :: int where "MAX_AVATAR_BYTES = 10 * 1024 * 1024"

definition AVATAR_MIMES :: "string list" where
  "AVATAR_MIMES = [''image/jpeg'', ''image/png'', ''image/gif'', ''image/webp'']"

record uploaded_file =
  uf_originalname :: string
  uf_mimetype :: string
  uf_size :: int

text \<open>\<open>this.storage.upload(...)\<close>: the stored object's URL, key and provider, or an exception.\<close>

definition upload :: "world \<Rightarrow> string \<Rightarrow> string \<Rightarrow> int \<Rightarrow> (string \<times> string \<times> string) act" where
  "upload w name mime bytes = (case wd_upload w name mime bytes of
     None \<Rightarrow> throw (HttpException 500 ''Internal server error'') | Some x \<Rightarrow> give x)"

definition avatar_patch :: "uuid \<Rightarrow> string \<Rightarrow> update_profile_payload" where
  "avatar_patch userId url = \<lparr>pu_userId = userId, pu_firstName = None, pu_lastName = None, pu_phone = None,
     pu_bio = None, pu_avatar = Some (Some url), pu_dateOfBirth = None, pu_showLastSeen = None\<rparr>"

definition uploadAvatar ::
  "world \<Rightarrow> authenticated_user \<Rightarrow> uploaded_file option \<Rightarrow> (profile_view \<times> string \<times> string \<times> string) act" where
  "uploadAvatar w user file = (case file of
     None \<Rightarrow> throw (HttpException 400 ''File is required'')
   | Some f \<Rightarrow>
      (if uf_mimetype f \<notin> set AVATAR_MIMES
       then throw (HttpException 400 ''Only JPEG, PNG, GIF, or WebP images are allowed'')
       else if uf_size f > MAX_AVATAR_BYTES then throw (HttpException 400 ''Image must be 10MB or smaller'')
       else chain (lookupByUserId w (ru_id user)) (\<lambda>current.
            chain (upload w (uf_originalname f) (uf_mimetype f) (uf_size f)) (\<lambda>uploaded.
            chain (sendUser a_profile w (UpdateProfile (avatar_patch (ru_id user) (fst uploaded)))) (\<lambda>data.
            chain (case fv_avatar current of
                     Some old \<Rightarrow> only_if (truthy old \<and> old \<noteq> fst uploaded) (deleteByUrl old)
                   | None \<Rightarrow> give ()) (\<lambda>_. give (data, uploaded)))))))"

definition get_user :: "world \<Rightarrow> uuid \<Rightarrow> profile_view act" where
  "get_user w i = sendUser a_profile w (FindUser i)"

definition update_user :: "world \<Rightarrow> uuid \<Rightarrow> update_profile_payload \<Rightarrow> profile_view act" where
  "update_user w i dto =
     chain (get_user w i) (\<lambda>profile.
     sendUser a_profile w (UpdateProfile (dto\<lparr>pu_userId := fv_userId profile\<rparr>)))"

text \<open>Neither the session cache nor the access tokens of the account are touched.\<close>

definition remove_user :: "world \<Rightarrow> uuid \<Rightarrow> user_response act" where
  "remove_user w i =
     chain (get_user w i) (\<lambda>profile.
     chain (sendAuth a_flag w (Deactivate (fv_userId profile))) (\<lambda>_.
     sendUser Some w (RemoveUser (fv_userId profile))))"

end
