(* ===== verification/GatewayEvents.thy ===== *)
theory GatewayEvents
  imports GatewayAuth
begin

text \<open>
  The parts of \<open>chat.gateway.ts\<close> that its handlers and the REST controllers share:
  the broadcasts, presence fan-out, the call lobby, roster and end-of-call events
  with the history message, and the guards on a client and its message body.

  A \<open>void\<close> promise (presence fan-out, call history, push) runs at the point where it
  is started.
\<close>

section \<open>Guards (requireUser, requireConversationId, requireCallId, requireToUserId)\<close>

definition requireUser :: "string \<Rightarrow> uuid act" where
  "requireUser sid = chain (ask (find_socket sid)) (\<lambda>client.
     case Option.bind client sk_user of
       Some userId \<Rightarrow> (if truthy userId then give userId else throw (WsException ''Authentication is required''))
     | None \<Rightarrow> throw (WsException ''Authentication is required''))"

definition required :: "string \<Rightarrow> string option \<Rightarrow> string act" where
  "required message v = (case v of
     Some x \<Rightarrow> (if truthy x then give x else throw (WsException message)) | None \<Rightarrow> throw (WsException message))"

definition requireConversationId :: "uuid option \<Rightarrow> uuid act" where
  "requireConversationId = required ''conversationId is required''"

definition requireCallId :: "uuid option \<Rightarrow> uuid act" where
  "requireCallId = required ''callId is required''"

definition requireToUserId :: "uuid option \<Rightarrow> uuid act" where
  "requireToUserId = required ''toUserId is required''"

section \<open>Member lists\<close>

definition cache_members :: "world \<Rightarrow> uuid \<Rightarrow> uuid list \<Rightarrow> unit act" where
  "cache_members w conversationId memberIds = put_keys (setMemberIds (at w) conversationId memberIds)"

definition cached_members :: "world \<Rightarrow> uuid \<Rightarrow> uuid list option act" where
  "cached_members w conversationId = ask (\<lambda>g. getMemberIds (at w) conversationId (gw_keys g))"

definition member_ids :: "conversation_view \<Rightarrow> uuid list" where
  "member_ids v = map mv_userId (cv_members v)"

definition get_conversation :: "world \<Rightarrow> uuid \<Rightarrow> uuid \<Rightarrow> conversation_view act" where
  "get_conversation w actorId conversationId = sendChat a_conversation w (GetConversation actorId conversationId)"

definition memberIdsFor :: "world \<Rightarrow> uuid \<Rightarrow> uuid \<Rightarrow> uuid list act" where
  "memberIdsFor w actorId conversationId =
     chain (cached_members w conversationId) (\<lambda>cached. case cached of
       Some ms \<Rightarrow> give ms
     | None \<Rightarrow>
         chain (get_conversation w actorId conversationId) (\<lambda>conversation.
         chain (cache_members w conversationId (member_ids conversation)) (\<lambda>_.
         give (member_ids conversation))))"

definition assertLiveConversationMember :: "world \<Rightarrow> uuid \<Rightarrow> uuid \<Rightarrow> unit act" where
  "assertLiveConversationMember w userId conversationId =
     attempt (chain (get_conversation w userId conversationId) (\<lambda>_. give ()))
       (\<lambda>_. throw (WsException ''You are no longer a member of this conversation''))"

section \<open>Broadcasts\<close>

definition emitToMembers :: "string \<Rightarrow> payload \<Rightarrow> uuid \<Rightarrow> uuid list \<Rightarrow> unit act" where
  "emitToMembers event p conversationId recipients =
     emit (if length recipients > 0 then map userRoom recipients else [conversationRoom conversationId]) event p"

definition broadcastMessage :: "message_view \<Rightarrow> uuid list \<Rightarrow> unit act" where
  "broadcastMessage m recipients = emitToMembers ''chat:message'' (MessageEvent m) (v_conversationId m) recipients"

definition broadcastMessageDeleted :: "message_view \<Rightarrow> uuid list \<Rightarrow> unit act" where
  "broadcastMessageDeleted m recipients =
     emitToMembers ''chat:message_deleted'' (MessageEvent m) (v_conversationId m) recipients"

definition broadcastTyping :: "uuid \<Rightarrow> uuid \<Rightarrow> bool \<Rightarrow> uuid list \<Rightarrow> unit act" where
  "broadcastTyping conversationId userId typing recipients =
     emitToMembers ''chat:typing'' (TypingEvent conversationId userId typing) conversationId recipients"

definition broadcastSeen :: "seen_result \<Rightarrow> uuid list \<Rightarrow> unit act" where
  "broadcastSeen r recipients =
     emitToMembers ''chat:seen'' (SeenEvent (sr_conversationId r) (sr_userId r) (sr_lastReadAt r) (sr_messageId r))
       (sr_conversationId r) recipients"

definition broadcastGroupDeleted :: "uuid \<Rightarrow> uuid list \<Rightarrow> unit act" where
  "broadcastGroupDeleted conversationId recipients =
     emitToMembers ''chat:group_deleted'' (GroupDeleted conversationId) conversationId recipients"

definition broadcastConversationUpdated :: "conversation_view \<Rightarrow> uuid list \<Rightarrow> unit act" where
  "broadcastConversationUpdated v recipients =
     emitToMembers ''chat:conversation_updated'' (ConversationUpdated v) (cv_id v) recipients"

definition broadcastRemovedFromGroup :: "uuid \<Rightarrow> uuid list \<Rightarrow> unit act" where
  "broadcastRemovedFromGroup conversationId recipients =
     each (\<lambda>u. emit [userRoom u] ''chat:removed_from_group'' (RemovedFromGroup conversationId)) recipients"

text \<open>The peers of a presence change, gathered while its rooms are told.\<close>

primrec tell_rooms :: "world \<Rightarrow> presence_view \<Rightarrow> uuid list \<Rightarrow> uuid list act" where
  "tell_rooms w p [] = give []"
| "tell_rooms w p (c # cs) =
     chain (emit [conversationRoom c] ''chat:presence'' (PresenceEvent p (Some c))) (\<lambda>_.
     chain (cached_members w c) (\<lambda>cached.
     chain (tell_rooms w p cs) (\<lambda>rest.
     give (filter (\<lambda>u. u \<noteq> pv_userId p) (nullish cached []) @ rest))))"

definition fanOutPresence :: "world \<Rightarrow> presence_view \<Rightarrow> uuid list \<Rightarrow> unit act" where
  "fanOutPresence w p convs =
     chain (tell_rooms w p convs) (\<lambda>peers.
     each (\<lambda>u. emit [userRoom u] ''chat:presence'' (PresenceEvent p None)) (js_uniq peers))"

definition broadcastPresence :: "world \<Rightarrow> uuid \<Rightarrow> presence_status \<Rightarrow> instant option \<Rightarrow> uuid list \<Rightarrow> unit act" where
  "broadcastPresence w userId status lastSeenAt convs =
     fanOutPresence w \<lparr>pv_userId = userId, pv_status = status, pv_lastSeenAt = lastSeenAt\<rparr> convs"

section \<open>Call events\<close>

definition emitCallEventToUser :: "uuid \<Rightarrow> string \<Rightarrow> payload \<Rightarrow> unit act" where
  "emitCallEventToUser userId event p = emit [userRoom userId] event p"

definition broadcastToCallMembers :: "uuid list \<Rightarrow> string \<Rightarrow> payload \<Rightarrow> unit act" where
  "broadcastToCallMembers memberIds event p = each (\<lambda>u. emitCallEventToUser u event p) memberIds"

definition emitCallLobby :: "call_session \<Rightarrow> unit act" where
  "emitCallLobby s = only_if (cs_kind s = GroupCall)
     (broadcastToCallMembers (cs_memberIds s) ''call:lobby'' (CallLobby (toLobby s True)))"

definition emitCallRoster :: "call_session \<Rightarrow> unit act" where
  "emitCallRoster s = broadcastToCallMembers (cs_memberIds s) ''call:roster'' (CallRoster (toRoster s))"

definition clearRingTimer :: "uuid \<Rightarrow> unit act" where
  "clearRingTimer callId = change (\<lambda>g. g\<lparr>gw_rings := (gw_rings g)(callId := None)\<rparr>)"

definition RING_TIMEOUT_MS :: int where "RING_TIMEOUT_MS = 45000"

text \<open>\<open>clearRingTimer\<close>, \<open>setTimeout\<close> and the new entry of \<open>ringTimers\<close>.\<close>

definition startRingTimer :: "world \<Rightarrow> uuid \<Rightarrow> uuid list option \<Rightarrow> unit act" where
  "startRingTimer w callId invitees =
     chain (clearRingTimer callId) (\<lambda>_.
     change (\<lambda>g. g\<lparr>gw_rings := (gw_rings g)(callId \<mapsto>
       \<lparr>rg_due = at w + RING_TIMEOUT_MS, rg_invitees = invitees, rg_fired = False\<rparr>)\<rparr>))"

text \<open>The lobby that tells clients a group call is over.\<close>

definition closed_lobby :: "call_session \<Rightarrow> uuid \<Rightarrow> call_lobby" where
  "closed_lobby s byUserId = \<lparr>cl_callId = cs_callId s, cl_conversationId = cs_conversationId s, cl_kind = GroupCall,
     cl_media = cs_media s, cl_hostId = byUserId, cl_memberIds = cs_memberIds s, cl_joinedIds = [],
     cl_declinedIds = [], cl_leftIds = [], cl_ringingIds = [], cl_onHold = False, cl_heldBy = None,
     cl_forceMuted = False, cl_screenSharerId = None, cl_active = False\<rparr>"

datatype call_outcome = Completed | Missed | Declined | Cancelled

definition hadConversation :: "call_session \<Rightarrow> end_reason \<Rightarrow> bool" where
  "hadConversation s reason \<longleftrightarrow> cs_connectedAt s \<noteq> None \<or> length (cs_joinedIds s) \<ge> 2
     \<or> cs_kind s = GroupCall \<and> length (cs_joinedIds s) \<ge> 1 \<and> reason \<noteq> Timeout"

definition first_outcome :: "call_session \<Rightarrow> end_reason \<Rightarrow> call_outcome" where
  "first_outcome s reason =
     (if reason = Rejected then Declined
      else if reason = Timeout then (if hadConversation s reason then Completed else Missed)
      else if reason = Hangup \<or> reason = Offline then (if hadConversation s reason then Completed else Cancelled)
      else Completed)"

definition call_outcome_of :: "call_session \<Rightarrow> end_reason \<Rightarrow> call_outcome" where
  "call_outcome_of s reason =
     (let outcome = first_outcome s reason in
      if cs_kind s = GroupCall \<and> outcome = Completed \<and> length (cs_joinedIds s) \<le> 1 \<and> cs_connectedAt s = None
      then (if reason = Timeout then Missed else Cancelled) else outcome)"

text \<open>\<open>Math.max(0, Math.round(ms / 1000))\<close>\<close>

definition call_duration :: "instant \<Rightarrow> call_session \<Rightarrow> call_outcome \<Rightarrow> int" where
  "call_duration t s outcome = (case cs_connectedAt s of
     Some c \<Rightarrow> (if outcome = Completed then max 0 ((t - c + 500) div 1000) else 0) | None \<Rightarrow> 0)"

definition outcome_value :: "call_outcome \<Rightarrow> string" where
  "outcome_value oc = (case oc of Completed \<Rightarrow> ''completed'' | Missed \<Rightarrow> ''missed'' | Declined \<Rightarrow> ''declined''
     | Cancelled \<Rightarrow> ''cancelled'')"

definition reason_value :: "end_reason \<Rightarrow> string" where
  "reason_value r = (case r of Hangup \<Rightarrow> ''hangup'' | Rejected \<Rightarrow> ''rejected'' | Timeout \<Rightarrow> ''timeout''
     | Offline \<Rightarrow> ''offline'' | Removed \<Rightarrow> ''removed'')"

text \<open>\<open>JSON.stringify\<close> of the identifiers and enum values of a history body: quote and backslash are escaped.\<close>

definition json_string :: "string \<Rightarrow> string" where
  "json_string s = CHR 0x22 # concat (map (\<lambda>c. if c = CHR 0x22 \<or> c = CHR 0x5C then [CHR 0x5C, c] else [c]) s) @ [CHR 0x22]"

definition json_field :: "string \<Rightarrow> string \<Rightarrow> string" where
  "json_field name v = json_string name @ '':'' @ v"

definition history_body :: "call_session \<Rightarrow> uuid \<Rightarrow> end_reason \<Rightarrow> call_outcome \<Rightarrow> int \<Rightarrow> string" where
  "history_body s byUserId reason outcome durationSeconds =
     ''{'' @ json_field ''v'' ''1''
     @ '','' @ json_field ''callId'' (json_string (cs_callId s))
     @ '','' @ json_field ''kind'' (json_string (if cs_kind s = GroupCall then ''group'' else ''private''))
     @ '','' @ json_field ''media'' (json_string (if cs_media s = Video then ''video'' else ''audio''))
     @ '','' @ json_field ''outcome'' (json_string (outcome_value outcome))
     @ '','' @ json_field ''durationSeconds'' (decimal (nat durationSeconds))
     @ '','' @ json_field ''reason'' (json_string (reason_value reason))
     @ '','' @ json_field ''byUserId'' (json_string byUserId) @ ''}''"

definition text_payload :: "uuid \<Rightarrow> uuid \<Rightarrow> string \<Rightarrow> message_type \<Rightarrow> bool \<Rightarrow> send_payload" where
  "text_payload actorId conversationId body ty systemCall = \<lparr>sp_actorId = actorId, sp_conversationId = conversationId,
     sp_body = Some body, sp_type = Some (message_type_value ty), sp_replyTo = None, sp_attachmentUrl = None,
     sp_attachmentMime = None, sp_attachmentName = None, sp_attachmentSize = None, sp_mentions = None,
     sp_linkPreview = None, sp_systemCall = systemCall\<rparr>"

definition recordCallHistoryMessage :: "world \<Rightarrow> call_session \<Rightarrow> uuid \<Rightarrow> end_reason \<Rightarrow> unit act" where
  "recordCallHistoryMessage w s byUserId reason =
     (let outcome = call_outcome_of s reason;
          body = history_body s byUserId reason outcome (call_duration (at w) s outcome);
          actorId = (if truthy (cs_hostId s) then cs_hostId s else byUserId) in
      attempt
        (chain (sendChat a_sent w (SendMessage (text_payload actorId (cs_conversationId s) body CALL True))) (\<lambda>result.
         chain (cache_members w (cs_conversationId s) (snd result)) (\<lambda>_.
         emitToMembers ''chat:message'' (MessageEvent (fst result)) (cs_conversationId s) (snd result))))
        (\<lambda>_. give ()))"

definition emitCallEnded :: "world \<Rightarrow> call_session \<Rightarrow> uuid \<Rightarrow> end_reason \<Rightarrow> unit act" where
  "emitCallEnded w s byUserId reason =
     (let ended = CallEnded (cs_callId s) (cs_conversationId s) byUserId reason;
          lobby = CallLobby (closed_lobby s byUserId) in
      chain (each (\<lambda>u. chain (emitCallEventToUser u ''call:ended'' ended) (\<lambda>_.
               only_if (cs_kind s = GroupCall) (emitCallEventToUser u ''call:lobby'' lobby))) (cs_memberIds s)) (\<lambda>_.
      chain (only_if (cs_kind s = GroupCall)
               (chain (emit [conversationRoom (cs_conversationId s)] ''call:ended'' ended) (\<lambda>_.
                emit [conversationRoom (cs_conversationId s)] ''call:lobby'' lobby))) (\<lambda>_.
      recordCallHistoryMessage w s byUserId reason)))"

text \<open>What every change of a running session ends with.\<close>

definition announce :: "call_session \<Rightarrow> unit act" where
  "announce s = chain (emitCallLobby s) (\<lambda>_. emitCallRoster s)"

definition finishCall :: "world \<Rightarrow> uuid \<Rightarrow> uuid \<Rightarrow> end_reason \<Rightarrow> unit act" where
  "finishCall w callId byUserId reason =
     chain (on_calls (end_call (at w) callId)) (\<lambda>ended.
     chain (clearRingTimer callId) (\<lambda>_.
     case ended of None \<Rightarrow> give () | Some s \<Rightarrow> emitCallEnded w s byUserId reason))"

definition timeoutRingingCall :: "world \<Rightarrow> uuid \<Rightarrow> unit act" where
  "timeoutRingingCall w callId =
     chain (on_calls (get_call (at w) callId)) (\<lambda>session. case session of
       None \<Rightarrow> give ()
     | Some s \<Rightarrow>
         (if cs_kind s = GroupCall \<and> length (cs_joinedIds s) \<ge> 2 then clearRingTimer callId
          else if length (cs_joinedIds s) \<le> 1 \<and> length (ringingIds s) > 0
          then finishCall w callId (cs_hostId s) Timeout else give ()))"

definition timeoutRingingInvitees :: "world \<Rightarrow> uuid \<Rightarrow> uuid list \<Rightarrow> unit act" where
  "timeoutRingingInvitees w callId invitedIds =
     chain (clearRingTimer callId) (\<lambda>_.
     chain (on_calls (markUnansweredAsLeft (at w) callId invitedIds)) (\<lambda>session. case session of
       None \<Rightarrow> give () | Some s \<Rightarrow> announce s))"

text \<open>A due timer runs once; the entry of \<open>ringTimers\<close> stays until it is cleared.\<close>

definition ring_expires :: "world \<Rightarrow> uuid \<Rightarrow> unit act" where
  "ring_expires w callId =
     chain (ask (\<lambda>g. gw_rings g callId)) (\<lambda>entry. case entry of
       None \<Rightarrow> give ()
     | Some r \<Rightarrow>
         (if rg_fired r \<or> at w < rg_due r then give ()
          else chain (change (\<lambda>g. g\<lparr>gw_rings := (gw_rings g)(callId \<mapsto> r\<lparr>rg_fired := True\<rparr>)\<rparr>)) (\<lambda>_.
            case rg_invitees r of
              None \<Rightarrow> timeoutRingingCall w callId
            | Some invitees \<Rightarrow> timeoutRingingInvitees w callId invitees)))"

definition pushActiveCallToUser :: "world \<Rightarrow> uuid \<Rightarrow> uuid \<Rightarrow> unit act" where
  "pushActiveCallToUser w userId conversationId =
     chain (on_calls (\<lambda>r. getByConversation (at w) (wd_scan w r) conversationId r)) (\<lambda>session. case session of
       None \<Rightarrow> give ()
     | Some s \<Rightarrow>
         (if cs_kind s \<noteq> GroupCall \<or> cs_status s = Ended \<or> userId \<notin> set (cs_memberIds s) \<or> length (cs_joinedIds s) = 0
          then give ()
          else chain (emitCallEventToUser userId ''call:lobby'' (CallLobby (toLobby s True))) (\<lambda>_.
            only_if (userId \<notin> set (cs_joinedIds s) \<and> userId \<notin> set (cs_declinedIds s)
                  \<and> userId \<notin> set (cs_leftIds s) \<and> cs_status s = Ringing)
              (emitCallEventToUser userId ''call:incoming'' (CallIncoming \<lparr>in_callId = cs_callId s,
                 in_conversationId = cs_conversationId s, in_fromUserId = cs_hostId s, in_kind = cs_kind s,
                 in_media = cs_media s, in_memberIds = cs_memberIds s, in_joinedIds = cs_joinedIds s\<rparr>)))))"

section \<open>Eviction\<close>

definition forceLeaveConversationRoom :: "uuid \<Rightarrow> uuid \<Rightarrow> unit act" where
  "forceLeaveConversationRoom conversationId userId = change (\<lambda>g. g\<lparr>gw_sockets :=
     map (\<lambda>s. if userRoom userId \<in> set (sk_rooms s)
              then (leave_room (conversationRoom conversationId) s)
                     \<lparr>sk_conversationIds := filter (\<lambda>c. c \<noteq> conversationId) (sk_conversationIds s)\<rparr>
              else s) (gw_sockets g)\<rparr>)"

definition evict_user :: "world \<Rightarrow> uuid \<Rightarrow> uuid \<Rightarrow> unit act" where
  "evict_user w conversationId userId =
     chain (forceLeaveConversationRoom conversationId userId) (\<lambda>_.
     chain (on_calls (\<lambda>r. revokeUserFromConversation (at w) (wd_scan w r) conversationId userId r)) (\<lambda>revoked.
     case revoked of
       None \<Rightarrow> give ()
     | Some rv \<Rightarrow>
         (let s = lr_session rv in
          chain (emitCallEventToUser userId ''call:ended'' (CallEnded (cs_callId s) conversationId userId Removed)) (\<lambda>_.
          if lr_ended rv
          then chain (clearRingTimer (cs_callId s)) (\<lambda>_. emitCallEnded w s userId Hangup)
          else chain (broadcastToCallMembers (cs_memberIds s) ''call:participant_left''
                        (CallLeftRemaining (cs_callId s) conversationId userId (lr_remainingIds rv))) (\<lambda>_.
               announce s)))))"

definition evictUsersFromConversation :: "world \<Rightarrow> uuid \<Rightarrow> uuid list \<Rightarrow> unit act" where
  "evictUsersFromConversation w conversationId userIds = each (evict_user w conversationId) userIds"

section \<open>Invite slots\<close>

definition CALL_INVITE_WINDOW_MS :: int where "CALL_INVITE_WINDOW_MS = 60000"
definition CALL_INVITE_MAX_PER_WINDOW :: nat where "CALL_INVITE_MAX_PER_WINDOW = 5"

text \<open>The timestamps of the window and whether one more invite is allowed.\<close>

definition invite_slot :: "instant \<Rightarrow> instant list \<Rightarrow> bool \<times> instant list" where
  "invite_slot t stamps =
     (let recent = filter (\<lambda>ts. t - ts < CALL_INVITE_WINDOW_MS) stamps in
      if length recent \<ge> CALL_INVITE_MAX_PER_WINDOW then (False, stamps) else (True, recent @ [t]))"

definition takeCallInviteSlot :: "world \<Rightarrow> uuid \<Rightarrow> string option act" where
  "takeCallInviteSlot w userId =
     chain (ask (\<lambda>g. invite_slot (at w) (nullish (gw_invites g userId) []))) (\<lambda>slot.
     if fst slot
     then chain (change (\<lambda>g. g\<lparr>gw_invites := (gw_invites g)(userId \<mapsto> snd slot)\<rparr>)) (\<lambda>_. give None)
     else give (Some ''Too many call invites. Please wait a moment.''))"

end
