(* ===== verification/ChatGateway.thy ===== *)
theory ChatGateway
  imports GatewayEvents
begin

text \<open>
  The WebSocket handlers of \<open>apps/api-gateway/src/chat/chat.gateway.ts\<close>. A client is
  named by its socket identifier, a message body by its fields, \<open>None\<close> for an
  absent one (or one of another type where the code checks it). A handler that
  acknowledges \<open>{ status: 'error', message }\<close> gives \<open>Inl message\<close>.
\<close>

section \<open>Connections\<close>

definition drop_socket :: "string \<Rightarrow> unit act" where
  "drop_socket sid = change (\<lambda>g. g\<lparr>gw_sockets := filter (\<lambda>s. sk_id s \<noteq> sid) (gw_sockets g)\<rparr>)"

definition handleConnection :: "world \<Rightarrow> string \<Rightarrow> string option \<Rightarrow> string option \<Rightarrow> unit act" where
  "handleConnection w sid fromAuth header =
     chain (change (\<lambda>g. g\<lparr>gw_sockets := filter (\<lambda>s. sk_id s \<noteq> sid) (gw_sockets g) @
         [\<lparr>sk_id = sid, sk_user = None, sk_rooms = [], sk_conversationIds = []\<rparr>]\<rparr>)) (\<lambda>_.
     attempt
       (chain (authenticate w fromAuth header) (\<lambda>user.
        chain (update_socket sid (\<lambda>s. join_room (userRoom (ru_id user))
                 (s\<lparr>sk_user := Some (ru_id user), sk_conversationIds := []\<rparr>))) (\<lambda>_.
        chain (on_keys (connect (at w) (ru_id user) sid)) (\<lambda>becameOnline.
        only_if becameOnline (emit [userRoom (ru_id user)] ''chat:presence''
          (PresenceEvent \<lparr>pv_userId = ru_id user, pv_status = ONLINE, pv_lastSeenAt = None\<rparr> None))))))
       (\<lambda>_. drop_socket sid))"

text \<open>The part of \<open>endCallForDisconnectedUser\<close> before its wait, which becomes a pending grace period.\<close>

definition endCallForDisconnectedUser :: "world \<Rightarrow> uuid \<Rightarrow> unit act" where
  "endCallForDisconnectedUser w userId =
     chain (ask (\<lambda>g. busy_at (at w) (gw_calls g) userId)) (\<lambda>busy. case busy of
       None \<Rightarrow> give ()
     | Some callId \<Rightarrow>
         chain (on_calls (get_call (at w) callId)) (\<lambda>session. case session of
           None \<Rightarrow> on_calls (\<lambda>r. ((), clearUserBusy (at w) userId (Some callId) r))
         | Some s \<Rightarrow>
             (if userId \<notin> set (cs_joinedIds s)
              then on_calls (\<lambda>r. ((), clearUserBusy (at w) userId (Some callId) r))
              else change (\<lambda>g. g\<lparr>gw_graces := gw_graces g @
                [\<lparr>gr_due = at w + 4000, gr_userId = userId, gr_callId = callId\<rparr>]\<rparr>))))"

text \<open>The part after the wait.\<close>

definition after_grace :: "world \<Rightarrow> uuid \<Rightarrow> uuid \<Rightarrow> unit act" where
  "after_grace w userId callId =
     chain (ask (\<lambda>g. pv_status (getPresence (at w) userId (gw_keys g)))) (\<lambda>status.
     if status \<noteq> OFFLINE then give ()
     else chain (on_calls (get_call (at w) callId)) (\<lambda>latest. case latest of
       None \<Rightarrow> give ()
     | Some s \<Rightarrow>
         (if userId \<notin> set (cs_joinedIds s) then give ()
          else chain (on_calls (leave_call (at w) callId userId)) (\<lambda>result. case result of
            Inl e \<Rightarrow> give ()
          | Inr lr \<Rightarrow>
              (if lr_ended lr
               then chain (clearRingTimer callId) (\<lambda>_. emitCallEnded w (lr_session lr) userId Offline)
               else chain (broadcastToCallMembers (cs_memberIds (lr_session lr)) ''call:participant_left''
                       (CallLeft callId (cs_conversationId (lr_session lr)) userId (lr_remainingIds lr))) (\<lambda>_.
                    announce (lr_session lr)))))))"

text \<open>A due grace period is taken off the list and runs on.\<close>

definition grace_ends :: "world \<Rightarrow> nat \<Rightarrow> unit act" where
  "grace_ends w i =
     chain (ask gw_graces) (\<lambda>graces.
     if i < length graces \<and> gr_due (graces ! i) \<le> at w
     then chain (change (\<lambda>g. g\<lparr>gw_graces := take i graces @ drop (Suc i) graces\<rparr>)) (\<lambda>_.
          after_grace w (gr_userId (graces ! i)) (gr_callId (graces ! i)))
     else give ())"

text \<open>The socket has left its rooms when the handler runs.\<close>

definition handleDisconnect :: "world \<Rightarrow> string \<Rightarrow> unit act" where
  "handleDisconnect w sid =
     chain (ask (find_socket sid)) (\<lambda>client.
     chain (drop_socket sid) (\<lambda>_.
     case client of
       None \<Rightarrow> give ()
     | Some s \<Rightarrow> (case sk_user s of
         None \<Rightarrow> give ()
       | Some userId \<Rightarrow>
           (if \<not> truthy userId then give ()
            else chain (on_keys (disconnect (at w) userId sid)) (\<lambda>result.
              only_if (fst result = OFFLINE)
                (chain (broadcastPresence w userId OFFLINE (snd result) (sk_conversationIds s)) (\<lambda>_.
                 endCallForDisconnectedUser w userId)))))))"

section \<open>Conversations\<close>

definition joinConversation :: "world \<Rightarrow> string \<Rightarrow> uuid option \<Rightarrow> uuid act" where
  "joinConversation w sid cid =
     chain (requireUser sid) (\<lambda>userId.
     chain (requireConversationId cid) (\<lambda>conversationId.
     chain (get_conversation w userId conversationId) (\<lambda>conversation.
     chain (cache_members w conversationId (member_ids conversation)) (\<lambda>_.
     chain (update_socket sid (\<lambda>s. (join_room (conversationRoom conversationId) s)
              \<lparr>sk_conversationIds := js_uniq (sk_conversationIds s @ [conversationId])\<rparr>)) (\<lambda>_.
     chain (emitToMembers ''chat:presence''
              (PresenceEvent \<lparr>pv_userId = userId, pv_status = ONLINE, pv_lastSeenAt = None\<rparr> (Some conversationId))
              conversationId (member_ids conversation)) (\<lambda>_.
     chain (pushActiveCallToUser w userId conversationId) (\<lambda>_.
     give conversationId)))))))"

definition leaveConversationRoom :: "string \<Rightarrow> uuid option \<Rightarrow> uuid act" where
  "leaveConversationRoom sid cid =
     chain (requireUser sid) (\<lambda>userId.
     chain (requireConversationId cid) (\<lambda>conversationId.
     chain (update_socket sid (\<lambda>s. (leave_room (conversationRoom conversationId) s)
              \<lparr>sk_conversationIds := filter (\<lambda>c. c \<noteq> conversationId) (sk_conversationIds s)\<rparr>)) (\<lambda>_.
     give conversationId)))"

definition socket_sendMessage :: "world \<Rightarrow> string \<Rightarrow> uuid option \<Rightarrow> string option \<Rightarrow> message_type option \<Rightarrow> message_view act" where
  "socket_sendMessage w sid cid body ty =
     chain (requireUser sid) (\<lambda>userId.
     chain (requireConversationId cid) (\<lambda>conversationId.
     chain (required ''Message body is required'' (map_option trim body)) (\<lambda>text.
     if ty = Some CALL then throw (WsException ''Call history messages are system-generated only'')
     else chain (sendChat a_sent w (SendMessage (text_payload userId conversationId text (nullish ty TEXT) False))) (\<lambda>result.
     chain (cache_members w conversationId (snd result)) (\<lambda>_.
     chain (broadcastMessage (fst result) (snd result)) (\<lambda>_.
     give (fst result)))))))"

definition socket_typing :: "world \<Rightarrow> string \<Rightarrow> uuid option \<Rightarrow> bool option \<Rightarrow> unit act" where
  "socket_typing w sid cid typing =
     chain (requireUser sid) (\<lambda>userId.
     chain (requireConversationId cid) (\<lambda>conversationId.
     chain (memberIdsFor w userId conversationId) (\<lambda>memberIds.
     broadcastTyping conversationId userId (typing \<noteq> Some False) memberIds)))"

definition socket_markSeen :: "world \<Rightarrow> string \<Rightarrow> uuid option \<Rightarrow> uuid option \<Rightarrow> seen_result act" where
  "socket_markSeen w sid cid messageId =
     chain (requireUser sid) (\<lambda>userId.
     chain (requireConversationId cid) (\<lambda>conversationId.
     chain (sendChat a_seen w (MarkSeen userId conversationId messageId)) (\<lambda>result.
     chain (cache_members w conversationId (sr_recipientIds result)) (\<lambda>_.
     chain (broadcastSeen result (sr_recipientIds result)) (\<lambda>_.
     give result)))))"

definition socket_heartbeat :: "world \<Rightarrow> string \<Rightarrow> presence_status act" where
  "socket_heartbeat w sid =
     chain (requireUser sid) (\<lambda>userId.
     chain (put_keys (heartbeat (at w) userId)) (\<lambda>_.
     give ONLINE))"

section \<open>Starting, answering and leaving a call\<close>

text \<open>\<open>createCall\<close> draws its identifier only when it creates a session.\<close>

definition create_call :: "world \<Rightarrow> call_input \<Rightarrow> (string + call_session) act" where
  "create_call w i g =
     (case createCall (at w) (wd_scan w (gw_calls g)) (wd_uuid w (gw_callIds g)) i (gw_calls g) of
        (Inl e, r) \<Rightarrow> (Inr (Inl e), g\<lparr>gw_calls := r\<rparr>)
      | (Inr s, r) \<Rightarrow> (Inr (Inr s), g\<lparr>gw_calls := r, gw_callIds := Suc (gw_callIds g)\<rparr>))"

definition invite_title :: "call_media \<Rightarrow> call_kind \<Rightarrow> string" where
  "invite_title media kind = ''Incoming '' @ (if kind = GroupCall then ''group '' else '''')
     @ (if media = Video then ''video'' else ''voice'') @ '' call''"

text \<open>The dash of the notification body is the three bytes of its UTF-8 form.\<close>

definition invite_push_body :: "call_media \<Rightarrow> string" where
  "invite_push_body media = (if media = Video then ''Video'' else ''Voice'') @ '' call ''
     @ [CHR 0xE2, CHR 0x80, CHR 0x94] @ '' tap to open Relay''"

definition push_invite :: "world \<Rightarrow> uuid list \<Rightarrow> uuid \<Rightarrow> string \<Rightarrow> call_session \<Rightarrow> unit act" where
  "push_invite w recipients sender title s =
     chain (on_keys (notifyCallInvite (wd_push w) (wd_deliver w) (at w) recipients sender
        \<lparr>pp_title = title, pp_body = invite_push_body (cs_media s), pp_conversationId = cs_conversationId s,
          pp_call = Some (cs_callId s, cs_media s, cs_kind s)\<rparr>)) (\<lambda>log.
     change (\<lambda>g. g\<lparr>gw_pushed := gw_pushed g @ log\<rparr>))"

definition incoming_of :: "call_session \<Rightarrow> uuid \<Rightarrow> call_incoming" where
  "incoming_of s fromUserId = \<lparr>in_callId = cs_callId s, in_conversationId = cs_conversationId s,
     in_fromUserId = fromUserId, in_kind = cs_kind s, in_media = cs_media s, in_memberIds = cs_memberIds s,
     in_joinedIds = cs_joinedIds s\<rparr>"

definition inviteCall :: "world \<Rightarrow> string \<Rightarrow> uuid option \<Rightarrow> bool \<Rightarrow> (string + call_session \<times> uuid list) act" where
  "inviteCall w sid cid video =
     chain (requireUser sid) (\<lambda>userId.
     chain (requireConversationId cid) (\<lambda>conversationId.
     chain (takeCallInviteSlot w userId) (\<lambda>rateError. case rateError of
       Some message \<Rightarrow> give (Inl message)
     | None \<Rightarrow>
     chain (sendChat a_admission w (PrepareVoiceCall userId conversationId)) (\<lambda>prepared.
     chain (create_call w \<lparr>ci_conversationId = ca_conversationId prepared,
              ci_kind = (if ca_group prepared then GroupCall else PrivateCall), ci_hostId = userId,
              ci_memberIds = ca_memberIds prepared, ci_media = Some (if video then Video else Audio)\<rparr>) (\<lambda>created.
     case created of
       Inl message \<Rightarrow> give (Inl message)
     | Inr s \<Rightarrow>
     chain (broadcastToCallMembers (ca_peerIds prepared) ''call:incoming'' (CallIncoming (incoming_of s userId))) (\<lambda>_.
     chain (announce s) (\<lambda>_.
     chain (push_invite w (ca_peerIds prepared) userId (invite_title (cs_media s) (cs_kind s)) s) (\<lambda>_.
     chain (startRingTimer w (cs_callId s) None) (\<lambda>_.
     give (Inr (s, ca_peerIds prepared)))))))))))"

definition joined_of :: "call_session \<Rightarrow> uuid \<Rightarrow> call_joined" where
  "joined_of s byUserId = \<lparr>jn_callId = cs_callId s, jn_conversationId = cs_conversationId s, jn_kind = cs_kind s,
     jn_byUserId = byUserId, jn_joinedIds = cs_joinedIds s, jn_memberIds = cs_memberIds s\<rparr>"

definition acceptCall :: "world \<Rightarrow> string \<Rightarrow> uuid option \<Rightarrow> call_joined act" where
  "acceptCall w sid cid =
     chain (requireUser sid) (\<lambda>userId.
     chain (requireCallId cid) (\<lambda>callId.
     chain (on_calls (get_call (at w) callId)) (\<lambda>existing. case existing of
       None \<Rightarrow> throw (WsException ''Call is no longer available'')
     | Some e \<Rightarrow>
     if cs_status e = Ended then throw (WsException ''Call is no longer available'')
     else chain (assertLiveConversationMember w userId (cs_conversationId e)) (\<lambda>_.
     chain (on_calls (accept (at w) callId userId)) (\<lambda>accepted. case accepted of
       Inl message \<Rightarrow> throw (WsException message)
     | Inr s \<Rightarrow>
     chain (only_if (cs_kind s = PrivateCall \<or> length (cs_joinedIds s) > 1) (clearRingTimer callId)) (\<lambda>_.
     chain (broadcastToCallMembers (cs_memberIds s) ''call:participant_joined'' (CallJoined ((joined_of s userId)\<lparr>jn_callId := callId\<rparr>))) (\<lambda>_.
     chain (broadcastToCallMembers (cs_joinedIds s) ''call:accepted'' (CallJoined ((joined_of s userId)\<lparr>jn_callId := callId\<rparr>))) (\<lambda>_.
     chain (announce s) (\<lambda>_.
     give ((joined_of s userId)\<lparr>jn_callId := callId\<rparr>))))))))))"

text \<open>The acknowledgement of a reject or hangup: whether the call ended and the lobby that is left.\<close>

definition rejectCall :: "world \<Rightarrow> string \<Rightarrow> uuid option \<Rightarrow> (bool \<times> call_lobby option) act" where
  "rejectCall w sid cid =
     chain (requireUser sid) (\<lambda>userId.
     chain (requireCallId cid) (\<lambda>callId.
     chain (on_calls (decline (at w) callId userId)) (\<lambda>result. case result of
       Inl message \<Rightarrow> throw (WsException message)
     | Inr (s, ended, pending) \<Rightarrow>
     chain (if ended then chain (clearRingTimer callId) (\<lambda>_. emitCallEnded w s userId Rejected)
            else chain (broadcastToCallMembers (cs_memberIds s) ''call:declined''
                    (CallDeclined callId (cs_conversationId s) userId)) (\<lambda>_. announce s)) (\<lambda>_.
     give (ended, if ended then None else Some (toLobby s True))))))"

definition hangupCall :: "world \<Rightarrow> string \<Rightarrow> uuid option \<Rightarrow> (bool \<times> call_lobby option) option act" where
  "hangupCall w sid cid =
     chain (requireUser sid) (\<lambda>userId.
     chain (requireCallId cid) (\<lambda>callId.
     chain (on_calls (get_call (at w) callId)) (\<lambda>session. case session of
       None \<Rightarrow> give None
     | Some s0 \<Rightarrow>
     if \<not> isMember s0 userId then throw (WsException ''You are not part of this call'')
     else chain (on_calls (leave_call (at w) callId userId)) (\<lambda>result. case result of
       Inl message \<Rightarrow> throw (WsException message)
     | Inr lr \<Rightarrow>
     chain (if lr_ended lr then chain (clearRingTimer callId) (\<lambda>_. emitCallEnded w (lr_session lr) userId Hangup)
            else chain (broadcastToCallMembers (cs_memberIds (lr_session lr)) ''call:participant_left''
                    (CallLeft callId (cs_conversationId (lr_session lr)) userId (lr_remainingIds lr))) (\<lambda>_.
                 announce (lr_session lr))) (\<lambda>_.
     give (Some (lr_ended lr, if lr_ended lr then None else Some (toLobby (lr_session lr) True))))))))"

section \<open>Signalling\<close>

definition MAX_SIGNAL_JSON_BYTES :: nat where "MAX_SIGNAL_JSON_BYTES = 64000"

definition assertSignalSize :: "json option \<Rightarrow> unit act" where
  "assertSignalSize p = (if length (nullish p ''null'') > MAX_SIGNAL_JSON_BYTES
     then throw (WsException ''Signal payload is too large'') else give ())"

definition requireJoinedParticipant :: "world \<Rightarrow> uuid \<Rightarrow> uuid \<Rightarrow> call_session act" where
  "requireJoinedParticipant w callId userId =
     chain (on_calls (get_call (at w) callId)) (\<lambda>session. case session of
       None \<Rightarrow> throw (WsException ''Call is not active'')
     | Some s \<Rightarrow>
         (if cs_status s = Ended then throw (WsException ''Call is not active'')
          else if \<not> isJoined s userId then throw (WsException ''You are not in this call'')
          else chain (assertLiveConversationMember w userId (cs_conversationId s)) (\<lambda>_. give s)))"

text \<open>\<open>sdp\<close> is \<open>None\<close> unless it is an object; \<open>offer\<close> tells an offer from an answer.\<close>

definition relayWebRtcSignal :: "world \<Rightarrow> string \<Rightarrow> bool \<Rightarrow> uuid option \<Rightarrow> uuid option \<Rightarrow> json option \<Rightarrow> unit act" where
  "relayWebRtcSignal w sid offer cid toId sdp =
     chain (requireUser sid) (\<lambda>userId.
     chain (requireCallId cid) (\<lambda>callId.
     chain (requireToUserId toId) (\<lambda>toUserId. case sdp of
       None \<Rightarrow> throw (WsException ((if offer then ''offer'' else ''answer'') @ '' SDP is required''))
     | Some x \<Rightarrow>
     chain (assertSignalSize (Some x)) (\<lambda>_.
     chain (requireJoinedParticipant w callId userId) (\<lambda>session.
     if \<not> isJoined session toUserId then throw (WsException ''Peer is not in this call'')
     else if toUserId = userId then throw (WsException ''Invalid signaling target'')
     else emit [userRoom toUserId] (if offer then ''call:offer'' else ''call:answer'')
            (CallSignal callId userId toUserId x))))))"

definition relayIce :: "world \<Rightarrow> string \<Rightarrow> uuid option \<Rightarrow> uuid option \<Rightarrow> json option \<Rightarrow> unit act" where
  "relayIce w sid cid toId candidate =
     chain (requireUser sid) (\<lambda>userId.
     chain (requireCallId cid) (\<lambda>callId.
     chain (requireToUserId toId) (\<lambda>toUserId.
     chain (assertSignalSize candidate) (\<lambda>_.
     chain (requireJoinedParticipant w callId userId) (\<lambda>session.
     if \<not> isJoined session toUserId then throw (WsException ''Peer is not in this call'')
     else emit [userRoom toUserId] ''call:ice'' (CallIce callId userId toUserId candidate))))))"

section \<open>During a call\<close>

text \<open>
  The common shape of hold, mute-all and screen share: the session must be live, the
  sender a live member of its conversation; the change is announced to the call.
\<close>

definition control_call ::
  "world \<Rightarrow> string \<Rightarrow> uuid option \<Rightarrow> (uuid \<Rightarrow> uuid \<Rightarrow> call_session call_op) \<Rightarrow> string \<Rightarrow>
     (uuid \<Rightarrow> uuid \<Rightarrow> call_session \<Rightarrow> payload) \<Rightarrow> (string + payload) act" where
  "control_call w sid cid oper event describe =
     chain (requireUser sid) (\<lambda>userId.
     chain (requireCallId cid) (\<lambda>callId.
     chain (on_calls (get_call (at w) callId)) (\<lambda>existing. case existing of
       None \<Rightarrow> give (Inl ''Call is no longer available'')
     | Some e \<Rightarrow>
     if cs_status e = Ended then give (Inl ''Call is no longer available'')
     else chain (assertLiveConversationMember w userId (cs_conversationId e)) (\<lambda>_.
     chain (on_calls (oper callId userId)) (\<lambda>result. case result of
       Inl message \<Rightarrow> give (Inl message)
     | Inr s \<Rightarrow>
     chain (broadcastToCallMembers (cs_memberIds s) event (describe callId userId s)) (\<lambda>_.
     chain (announce s) (\<lambda>_.
     give (Inr (describe callId userId s)))))))))"

definition holdCall :: "world \<Rightarrow> string \<Rightarrow> uuid option \<Rightarrow> bool \<Rightarrow> (string + payload) act" where
  "holdCall w sid cid onHold = control_call w sid cid (\<lambda>callId userId. setHold (at w) callId userId onHold)
     ''call:held'' (\<lambda>callId userId s. CallHeld callId (cs_conversationId s) (cs_onHold s) (cs_heldBy s) userId)"

definition muteAllCall :: "world \<Rightarrow> string \<Rightarrow> uuid option \<Rightarrow> bool \<Rightarrow> (string + payload) act" where
  "muteAllCall w sid cid muted = control_call w sid cid (\<lambda>callId userId. setForceMute (at w) callId userId muted)
     ''call:force_mute'' (\<lambda>callId userId s. CallForceMute callId (cs_conversationId s) (cs_forceMuted s) userId)"

definition screenShareCall :: "world \<Rightarrow> string \<Rightarrow> uuid option \<Rightarrow> bool \<Rightarrow> (string + payload) act" where
  "screenShareCall w sid cid active = control_call w sid cid (\<lambda>callId userId. setScreenShare (at w) callId userId active)
     ''call:screen_share'' (\<lambda>callId userId s. CallScreenShare callId (cs_conversationId s)
        (opt_truthy (cs_screenSharerId s)) (nullish (cs_screenSharerId s) userId))"

definition inviteMoreCall :: "world \<Rightarrow> string \<Rightarrow> uuid option \<Rightarrow> uuid list \<Rightarrow> (string + uuid list \<times> call_session) act" where
  "inviteMoreCall w sid cid userIds =
     chain (requireUser sid) (\<lambda>userId.
     chain (takeCallInviteSlot w userId) (\<lambda>rateError. case rateError of
       Some message \<Rightarrow> give (Inl message)
     | None \<Rightarrow>
     chain (requireCallId cid) (\<lambda>callId.
     if length userIds = 0 then give (Inl ''Select at least one member'')
     else chain (on_calls (get_call (at w) callId)) (\<lambda>session. case session of
       None \<Rightarrow> give (Inl ''Call is no longer available'')
     | Some s0 \<Rightarrow>
     if cs_status s0 = Ended then give (Inl ''Call is no longer available'')
     else chain (assertLiveConversationMember w userId (cs_conversationId s0)) (\<lambda>_.
     chain (sendChat a_admission w (PrepareVoiceCall userId (cs_conversationId s0))) (\<lambda>prepared.
     chain (on_calls (inviteMore (at w) callId userId userIds (ca_memberIds prepared))) (\<lambda>result. case result of
       Inl message \<Rightarrow> give (Inl message)
     | Inr (s, invitedIds) \<Rightarrow>
     chain (broadcastToCallMembers invitedIds ''call:incoming'' (CallIncoming (incoming_of s userId))) (\<lambda>_.
     chain (push_invite w invitedIds userId (invite_title (cs_media s) GroupCall) s) (\<lambda>_.
     chain (startRingTimer w callId (Some invitedIds)) (\<lambda>_.
     chain (announce s) (\<lambda>_.
     give (Inr (invitedIds, s)))))))))))))"

section \<open>ICE servers\<close>

record ice_server =
  ice_urls :: "string list"
  ice_login :: "(string \<times> string) option"

fun split_comma :: "string \<Rightarrow> string list" where
  "split_comma [] = [[]]"
| "split_comma (c # s) = (case split_comma s of
     [] \<Rightarrow> [[c]] | x # xs \<Rightarrow> (if c = CHR '','' then [] # x # xs else (c # x) # xs))"

definition url_list :: "string \<Rightarrow> string list" where
  "url_list s = filter truthy (map trim (split_comma s))"

definition getIceServers :: "string \<Rightarrow> string \<Rightarrow> string \<Rightarrow> string \<Rightarrow> ice_server list" where
  "getIceServers stunRaw turnUrls turnUsername turnCredential =
     map (\<lambda>u. \<lparr>ice_urls = [u], ice_login = None\<rparr>) (url_list stunRaw)
     @ (if truthy (trim turnUrls) \<and> truthy turnUsername \<and> truthy turnCredential
        then [\<lparr>ice_urls = url_list turnUrls, ice_login = Some (turnUsername, turnCredential)\<rparr>] else [])"

end
