(* ===== verification/ChatController.thy ===== *)
theory ChatController
  imports ChatGateway
begin

text \<open>
  The REST handlers of \<open>apps/api-gateway/src/chat/chat.controller.ts\<close>, run for the
  user that the guards admitted, with \<open>attachToConversations\<close> of
  \<open>presence.service.ts\<close>. A handler gives the \<open>data\<close> of its response; where the code
  passes a service's answer through unread, that is the answer itself. Requests
  that the code starts together run in list order.
\<close>

section \<open>Upload types (normalizeUploadMime, resolveAttachmentContentType)\<close>

definition ALLOWED_IMAGE_MIMES :: "string list" where
  "ALLOWED_IMAGE_MIMES = [''image/jpeg'', ''image/png'', ''image/gif'', ''image/webp'']"

definition ALLOWED_AUDIO_MIMES :: "string list" where
  "ALLOWED_AUDIO_MIMES = [''audio/webm'', ''audio/ogg'', ''audio/mpeg'', ''audio/mp4'', ''audio/wav'', ''video/webm'']"

definition ALLOWED_FILE_MIMES :: "string list" where
  "ALLOWED_FILE_MIMES = [''application/pdf'', ''application/msword'',
     ''application/vnd.openxmlformats-officedocument.wordprocessingml.document'',
     ''application/vnd.ms-excel'',
     ''application/vnd.openxmlformats-officedocument.spreadsheetml.sheet'',
     ''application/vnd.ms-powerpoint'',
     ''application/vnd.openxmlformats-officedocument.presentationml.presentation'',
     ''application/rtf'', ''text/rtf'', ''text/plain'', ''text/csv'', ''application/json'', ''application/zip'',
     ''application/x-zip-compressed'', ''application/vnd.rar'', ''application/x-rar-compressed'',
     ''application/vnd.oasis.opendocument.text'', ''application/vnd.oasis.opendocument.spreadsheet'',
     ''application/vnd.oasis.opendocument.presentation'']"

definition ALLOWED_UPLOAD_MIMES :: "string list" where
  "ALLOWED_UPLOAD_MIMES = ALLOWED_IMAGE_MIMES @ ALLOWED_AUDIO_MIMES @ ALLOWED_FILE_MIMES"

definition MAX_UPLOAD_BYTES :: int where "MAX_UPLOAD_BYTES = 10 * 1024 * 1024"

definition FILE_EXT_MIME :: "string \<Rightarrow> string option" where
  "FILE_EXT_MIME ext = map_of
    [(''.pdf'', ''application/pdf''), (''.doc'', ''application/msword''),
     (''.docx'', ''application/vnd.openxmlformats-officedocument.wordprocessingml.document''),
     (''.xls'', ''application/vnd.ms-excel''),
     (''.xlsx'', ''application/vnd.openxmlformats-officedocument.spreadsheetml.sheet''),
     (''.ppt'', ''application/vnd.ms-powerpoint''),
     (''.pptx'', ''application/vnd.openxmlformats-officedocument.presentationml.presentation''),
     (''.rtf'', ''application/rtf''), (''.txt'', ''text/plain''), (''.csv'', ''text/csv''),
     (''.json'', ''application/json''), (''.zip'', ''application/zip''), (''.rar'', ''application/vnd.rar''),
     (''.odt'', ''application/vnd.oasis.opendocument.text''),
     (''.ods'', ''application/vnd.oasis.opendocument.spreadsheet''),
     (''.odp'', ''application/vnd.oasis.opendocument.presentation'')] ext"

text \<open>\<open>name.includes('.') ? `.${name.split('.').pop()!.toLowerCase()}` : ''\<close>\<close>

definition file_ext :: "string \<Rightarrow> string" where
  "file_ext name = (if CHR ''.'' \<in> set name
     then CHR ''.'' # to_lower (rev (takeWhile (\<lambda>c. c \<noteq> CHR ''.'') (rev name))) else '''')"

definition normalizeUploadMime :: "string \<Rightarrow> string \<Rightarrow> string option" where
  "normalizeUploadMime mimeType originalName =
     (if mimeType = ''video/webm'' then Some ''audio/webm''
      else if mimeType \<in> set ALLOWED_UPLOAD_MIMES then Some mimeType
      else if \<not> truthy mimeType \<or> mimeType = ''application/octet-stream''
      then (case FILE_EXT_MIME (file_ext originalName) of
              Some guessed \<Rightarrow> (if truthy guessed \<and> guessed \<in> set ALLOWED_FILE_MIMES then Some guessed else None)
            | None \<Rightarrow> None)
      else None)"

definition resolveAttachmentContentType :: "string option \<Rightarrow> string \<Rightarrow> string" where
  "resolveAttachmentContentType mime filename =
     (let cleaned = trim (nullish mime '''') in
      if truthy cleaned \<and> cleaned \<noteq> ''application/octet-stream'' then cleaned
      else nullish (FILE_EXT_MIME (file_ext filename)) ''application/octet-stream'')"

section \<open>Presence and last-seen privacy\<close>

definition attachToConversations :: "instant \<Rightarrow> keyspace \<Rightarrow> conversation_view list \<Rightarrow> conversation_view list" where
  "attachToConversations t r convs =
     (let userIds = js_uniq (concat (map member_ids convs)); presence = getMany t userIds r in
      map (\<lambda>v. v\<lparr>cv_members := map (\<lambda>m. case presence (mv_userId m) of
          None \<Rightarrow> m\<lparr>mv_status := OFFLINE, mv_lastSeenAt := None\<rparr>
        | Some live \<Rightarrow> m\<lparr>mv_status := pv_status live, mv_lastSeenAt := pv_lastSeenAt live\<rparr>) (cv_members v)\<rparr>) convs)"

definition attach :: "world \<Rightarrow> conversation_view list \<Rightarrow> conversation_view list act" where
  "attach w convs = ask (\<lambda>g. attachToConversations (at w) (gw_keys g) convs)"

definition attach_one :: "world \<Rightarrow> conversation_view \<Rightarrow> conversation_view act" where
  "attach_one w v = ask (\<lambda>g. hd (attachToConversations (at w) (gw_keys g) [v]))"

definition shows_last_seen :: "world \<Rightarrow> uuid \<Rightarrow> bool act" where
  "shows_last_seen w userId = attempt (chain (lookupByUserId w userId) (\<lambda>p. give (fv_showLastSeen p))) (\<lambda>_. give True)"

primrec hidden_among :: "world \<Rightarrow> uuid list \<Rightarrow> uuid list act" where
  "hidden_among w [] = give []"
| "hidden_among w (u # us) =
     chain (shows_last_seen w u) (\<lambda>show_it.
     chain (hidden_among w us) (\<lambda>rest. give (if show_it then rest else u # rest)))"

definition seen_users :: "conversation_view list \<Rightarrow> uuid list" where
  "seen_users convs = js_uniq (concat (map (\<lambda>v. map mv_userId
     (filter (\<lambda>m. mv_status m = OFFLINE \<and> mv_lastSeenAt m \<noteq> None) (cv_members v))) convs))"

definition hide_last_seen :: "uuid list \<Rightarrow> conversation_view \<Rightarrow> conversation_view" where
  "hide_last_seen hidden v = v\<lparr>cv_members :=
     map (\<lambda>m. if mv_userId m \<in> set hidden then m\<lparr>mv_lastSeenAt := None\<rparr> else m) (cv_members v)\<rparr>"

definition applyLastSeenPrivacy :: "world \<Rightarrow> conversation_view list \<Rightarrow> conversation_view list act" where
  "applyLastSeenPrivacy w convs =
     chain (hidden_among w (seen_users convs)) (\<lambda>hidden. give (map (hide_last_seen hidden) convs))"

definition private_one :: "world \<Rightarrow> conversation_view \<Rightarrow> conversation_view act" where
  "private_one w v =
     chain (attach_one w v) (\<lambda>a. chain (applyLastSeenPrivacy w [a]) (\<lambda>ps. give (hd ps)))"

definition stripLastSeenIfHidden :: "world \<Rightarrow> presence_view \<Rightarrow> presence_view act" where
  "stripLastSeenIfHidden w p =
     (if pv_status p \<noteq> OFFLINE \<or> pv_lastSeenAt p = None then give p
      else chain (shows_last_seen w (pv_userId p)) (\<lambda>show_it.
        give (if show_it then p else p\<lparr>pv_lastSeenAt := None\<rparr>)))"

definition USER_NOT_FOUND :: failure where "USER_NOT_FOUND = HttpException 404 ''User not found''"

definition user_exists :: "world \<Rightarrow> uuid \<Rightarrow> bool act" where
  "user_exists w userId = attempt (chain (lookupByUserId w userId) (\<lambda>_. give True)) (\<lambda>_. give False)"

definition assertUserExists :: "world \<Rightarrow> uuid \<Rightarrow> unit act" where
  "assertUserExists w userId = chain (user_exists w userId) (\<lambda>ok. if ok then give () else throw USER_NOT_FOUND)"

primrec all_exist :: "world \<Rightarrow> uuid list \<Rightarrow> bool act" where
  "all_exist w [] = give True"
| "all_exist w (u # us) = chain (user_exists w u) (\<lambda>ok. chain (all_exist w us) (\<lambda>rest. give (ok \<and> rest)))"

definition assertUsersExist :: "world \<Rightarrow> uuid list \<Rightarrow> unit act" where
  "assertUsersExist w userIds = chain (all_exist w userIds) (\<lambda>ok. if ok then give () else throw USER_NOT_FOUND)"

section \<open>Conversations\<close>

definition rest_createPrivate :: "world \<Rightarrow> uuid \<Rightarrow> uuid \<Rightarrow> conversation_view act" where
  "rest_createPrivate w me_id other =
     (if other = me_id then throw (HttpException 400 ''You cannot start a private chat with yourself'')
      else chain (assertUserExists w other) (\<lambda>_.
           chain (sendChat a_conversation w (CreatePrivate me_id other)) (\<lambda>data. attach_one w data)))"

definition rest_createGroup :: "world \<Rightarrow> uuid \<Rightarrow> string \<Rightarrow> uuid list \<Rightarrow> conversation_view act" where
  "rest_createGroup w me_id name memberIds =
     chain (assertUsersExist w (filter (\<lambda>i. i \<noteq> me_id) memberIds)) (\<lambda>_.
     chain (sendChat a_conversation w (CreateGroup me_id name memberIds)) (\<lambda>created.
     chain (attach_one w created) (\<lambda>data.
     chain (cache_members w (cv_id data) (member_ids data)) (\<lambda>_.
     chain (broadcastConversationUpdated data (member_ids data)) (\<lambda>_. give data)))))"

definition a_conversations :: "chat_response \<Rightarrow> (conversation_view list \<times> paginated_meta) option" where
  "a_conversations r = (case r of RConversations v \<Rightarrow> Some v | _ \<Rightarrow> None)"

definition rest_listConversations :: "world \<Rightarrow> uuid \<Rightarrow> int \<Rightarrow> int \<Rightarrow> (conversation_view list \<times> paginated_meta) act" where
  "rest_listConversations w me_id page limit =
     chain (sendChat a_conversations w (ListConversations me_id page limit)) (\<lambda>data.
     chain (attach w (fst data)) (\<lambda>items.
     chain (applyLastSeenPrivacy w items) (\<lambda>shown. give (shown, snd data))))"

definition rest_getPresence :: "world \<Rightarrow> uuid \<Rightarrow> presence_view act" where
  "rest_getPresence w userId =
     chain (ask (\<lambda>g. getPresence (at w) userId (gw_keys g))) (stripLastSeenIfHidden w)"

definition rest_getConversation :: "world \<Rightarrow> uuid \<Rightarrow> uuid \<Rightarrow> conversation_view act" where
  "rest_getConversation w me_id i = chain (get_conversation w me_id i) (private_one w)"

definition rest_muteConversation :: "world \<Rightarrow> uuid \<Rightarrow> uuid \<Rightarrow> bool \<Rightarrow> conversation_view act" where
  "rest_muteConversation w me_id i muted =
     chain (sendChat a_conversation w (MuteConversation me_id i muted)) (private_one w)"

definition rest_pinConversation :: "world \<Rightarrow> uuid \<Rightarrow> uuid \<Rightarrow> bool \<Rightarrow> conversation_view act" where
  "rest_pinConversation w me_id i pinned =
     chain (sendChat a_conversation w (PinConversation me_id i pinned)) (private_one w)"

definition rest_setDisappearing :: "world \<Rightarrow> uuid \<Rightarrow> uuid \<Rightarrow> int \<Rightarrow> conversation_view act" where
  "rest_setDisappearing w me_id i seconds =
     chain (sendChat a_conversation w (SetDisappearing me_id i seconds)) (\<lambda>v.
     chain (private_one w v) (\<lambda>data.
     chain (cache_members w i (member_ids data)) (\<lambda>_.
     chain (broadcastConversationUpdated data (member_ids data)) (\<lambda>_. give data))))"

section \<open>Members\<close>

definition rest_addMembers :: "world \<Rightarrow> uuid \<Rightarrow> uuid \<Rightarrow> uuid list \<Rightarrow> conversation_view act" where
  "rest_addMembers w me_id i memberIds =
     chain (assertUsersExist w memberIds) (\<lambda>_.
     chain (sendChat a_conversation w (RosterRequest me_id i (AddMembers memberIds))) (\<lambda>v.
     chain (attach_one w v) (\<lambda>data.
     chain (cache_members w i (member_ids data)) (\<lambda>_.
     chain (broadcastConversationUpdated data (member_ids data)) (\<lambda>_. give data)))))"

definition rest_setMemberRole :: "world \<Rightarrow> uuid \<Rightarrow> uuid \<Rightarrow> uuid \<Rightarrow> member_role \<Rightarrow> conversation_view act" where
  "rest_setMemberRole w me_id i userId role =
     chain (sendChat a_conversation w (RosterRequest me_id i (SetRole userId role))) (\<lambda>v.
     chain (private_one w v) (\<lambda>data.
     chain (broadcastConversationUpdated data (member_ids data)) (\<lambda>_. give data)))"

definition rest_removeMember :: "world \<Rightarrow> uuid \<Rightarrow> uuid \<Rightarrow> uuid \<Rightarrow> conversation_view act" where
  "rest_removeMember w me_id i userId =
     chain (sendChat a_conversation w (RosterRequest me_id i (RemoveMember userId))) (\<lambda>v.
     chain (attach_one w v) (\<lambda>data.
     chain (cache_members w i (member_ids data)) (\<lambda>_.
     chain (broadcastConversationUpdated data (member_ids data)) (\<lambda>_.
     chain (broadcastRemovedFromGroup i [userId]) (\<lambda>_.
     chain (evictUsersFromConversation w i [userId]) (\<lambda>_. give data))))))"

definition previous_members :: "world \<Rightarrow> uuid \<Rightarrow> uuid \<Rightarrow> uuid list act" where
  "previous_members w me_id i =
     chain (cached_members w i) (\<lambda>cached. case cached of
       Some ms \<Rightarrow> give ms
     | None \<Rightarrow> chain (get_conversation w me_id i) (\<lambda>v. give (member_ids v)))"

text \<open>The first remaining member's view is what the others receive.\<close>

definition refresh_remaining :: "world \<Rightarrow> uuid \<Rightarrow> uuid list \<Rightarrow> unit act" where
  "refresh_remaining w i remaining = (case remaining of
     [] \<Rightarrow> give ()
   | first # _ \<Rightarrow> only_if (truthy first)
       (attempt (chain (get_conversation w first i) (\<lambda>v.
          chain (attach_one w v) (\<lambda>data. broadcastConversationUpdated data remaining))) (\<lambda>_. give ())))"

definition rest_leave :: "world \<Rightarrow> uuid \<Rightarrow> uuid \<Rightarrow> chat_response act" where
  "rest_leave w me_id i =
     chain (previous_members w me_id i) (\<lambda>previous.
     chain (sendChat Some w (RosterRequest me_id i Leave)) (\<lambda>data.
     (let remaining = filter (\<lambda>u. u \<noteq> me_id) previous in
      chain (cache_members w i remaining) (\<lambda>_.
      chain (broadcastRemovedFromGroup i [me_id]) (\<lambda>_.
      chain (evictUsersFromConversation w i [me_id]) (\<lambda>_.
      chain (refresh_remaining w i remaining) (\<lambda>_. give data)))))))"

definition rest_updateGroup :: "world \<Rightarrow> uuid \<Rightarrow> uuid \<Rightarrow> string \<Rightarrow> conversation_view act" where
  "rest_updateGroup w me_id i name =
     chain (sendChat a_conversation w (UpdateGroup me_id i name)) (\<lambda>v.
     chain (attach_one w v) (\<lambda>data.
     chain (broadcastConversationUpdated data (member_ids data)) (\<lambda>_. give data)))"

definition a_group_deleted :: "chat_response \<Rightarrow> (bool \<times> uuid list) option" where
  "a_group_deleted r = (case r of RGroupDeleted x \<Rightarrow> Some x | _ \<Rightarrow> None)"

definition rest_deleteGroup :: "world \<Rightarrow> uuid \<Rightarrow> uuid \<Rightarrow> bool act" where
  "rest_deleteGroup w me_id i =
     chain (sendChat a_group_deleted w (RosterRequest me_id i DeleteGroup)) (\<lambda>data.
     chain (put_keys (invalidate i)) (\<lambda>_.
     chain (broadcastGroupDeleted i (snd data)) (\<lambda>_. give (fst data))))"

section \<open>Messages\<close>

text \<open>The shape of the handlers that answer a changed message.\<close>

definition share_message :: "world \<Rightarrow> uuid \<Rightarrow> chat_request \<Rightarrow> send_result act" where
  "share_message w i q =
     chain (sendChat a_sent w q) (\<lambda>result.
     chain (cache_members w i (snd result)) (\<lambda>_.
     chain (broadcastMessage (fst result) (snd result)) (\<lambda>_. give result)))"

definition push_message :: "world \<Rightarrow> uuid list \<Rightarrow> uuid \<Rightarrow> uuid \<Rightarrow> string \<Rightarrow> unit act" where
  "push_message w recipients sender conversationId body =
     chain (on_keys (notifyOfflineRecipients (wd_push w) (wd_deliver w) (at w) recipients sender
        \<lparr>pp_title = ''New Relay message'', pp_body = js_slice 0 120 (if truthy body then body else ''Attachment''),
          pp_conversationId = conversationId, pp_call = None\<rparr>)) (\<lambda>log.
     change (\<lambda>g. g\<lparr>gw_pushed := gw_pushed g @ log\<rparr>))"

definition rest_sendMessage :: "world \<Rightarrow> uuid \<Rightarrow> uuid \<Rightarrow> send_payload \<Rightarrow> message_view act" where
  "rest_sendMessage w me_id i dto =
     (if sp_type dto = Some ''call'' then throw (HttpException 400 ''Call history messages are system-generated only'')
      else chain (share_message w i
               (SendMessage (dto\<lparr>sp_actorId := me_id, sp_conversationId := i, sp_systemCall := False\<rparr>))) (\<lambda>result.
           chain (push_message w (snd result) me_id i (v_body (fst result))) (\<lambda>_. give (fst result))))"

definition rest_editMessage :: "world \<Rightarrow> uuid \<Rightarrow> uuid \<Rightarrow> uuid \<Rightarrow> string \<Rightarrow> message_view act" where
  "rest_editMessage w me_id i messageId body =
     chain (share_message w i (EditMessage me_id i messageId body)) (\<lambda>result. give (fst result))"

definition rest_reactMessage :: "world \<Rightarrow> uuid \<Rightarrow> uuid \<Rightarrow> uuid \<Rightarrow> string \<Rightarrow> message_view act" where
  "rest_reactMessage w me_id i messageId emoji =
     chain (share_message w i (ReactMessage me_id i messageId emoji)) (\<lambda>result. give (fst result))"

definition rest_pinMessage :: "world \<Rightarrow> uuid \<Rightarrow> uuid \<Rightarrow> uuid \<Rightarrow> bool \<Rightarrow> message_view act" where
  "rest_pinMessage w me_id i messageId pinned =
     chain (share_message w i (PinMessage me_id i messageId pinned)) (\<lambda>result. give (fst result))"

definition rest_forwardMessage :: "world \<Rightarrow> uuid \<Rightarrow> uuid \<Rightarrow> uuid \<Rightarrow> uuid \<Rightarrow> message_view act" where
  "rest_forwardMessage w me_id i messageId target =
     chain (share_message w target (ForwardMessage me_id i target messageId)) (\<lambda>result. give (fst result))"

definition rest_deleteMessage :: "world \<Rightarrow> uuid \<Rightarrow> uuid \<Rightarrow> uuid \<Rightarrow> bool \<Rightarrow> message_view act" where
  "rest_deleteMessage w me_id i messageId forEveryone =
     chain (sendChat a_deletion w (DeleteMessage me_id i messageId forEveryone)) (\<lambda>result.
     chain (only_if (dr_forEveryone result)
       (chain (cache_members w i (dr_recipientIds result)) (\<lambda>_.
        chain (broadcastMessageDeleted (dr_message result) (dr_recipientIds result)) (\<lambda>_.
        deleteByUrl (nullish (dr_removedAttachmentUrl result) ''''))))) (\<lambda>_.
     give (dr_message result)))"

definition rest_typing :: "world \<Rightarrow> uuid \<Rightarrow> uuid \<Rightarrow> bool \<Rightarrow> unit act" where
  "rest_typing w me_id i typing =
     chain (get_conversation w me_id i) (\<lambda>v.
     chain (cache_members w i (member_ids v)) (\<lambda>_.
     broadcastTyping i me_id typing (member_ids v)))"

definition rest_markSeen :: "world \<Rightarrow> uuid \<Rightarrow> uuid \<Rightarrow> uuid option \<Rightarrow> seen_result act" where
  "rest_markSeen w me_id i messageId =
     chain (sendChat a_seen w (MarkSeen me_id i messageId)) (\<lambda>result.
     chain (cache_members w i (sr_recipientIds result)) (\<lambda>_.
     chain (broadcastSeen result (sr_recipientIds result)) (\<lambda>_. give result)))"

definition rest_scheduleMessage :: "world \<Rightarrow> uuid \<Rightarrow> uuid \<Rightarrow> send_payload \<Rightarrow> instant option \<Rightarrow> chat_response act" where
  "rest_scheduleMessage w me_id i dto scheduledFor =
     (if sp_type dto = Some ''call'' then throw (HttpException 400 ''Call history messages cannot be scheduled'')
      else sendChat Some w (ScheduleMessage
             (dto\<lparr>sp_actorId := me_id, sp_conversationId := i, sp_systemCall := False\<rparr>) scheduledFor))"

text \<open>The handlers that forward one request and answer what the service answers.\<close>

definition rest_searchGlobal :: "world \<Rightarrow> uuid \<Rightarrow> string \<Rightarrow> int \<Rightarrow> int \<Rightarrow> chat_response act" where
  "rest_searchGlobal w me_id q page limit = sendChat Some w (SearchGlobal me_id q page limit)"

definition rest_searchMessages :: "world \<Rightarrow> uuid \<Rightarrow> uuid \<Rightarrow> string \<Rightarrow> int \<Rightarrow> int \<Rightarrow> chat_response act" where
  "rest_searchMessages w me_id i q page limit = sendChat Some w (SearchMessages me_id i q page limit)"

definition rest_listMedia :: "world \<Rightarrow> uuid \<Rightarrow> uuid \<Rightarrow> string option \<Rightarrow> int \<Rightarrow> int \<Rightarrow> chat_response act" where
  "rest_listMedia w me_id i kind page limit = sendChat Some w (ListMedia me_id i kind page limit)"

definition rest_listMessages :: "world \<Rightarrow> uuid \<Rightarrow> uuid \<Rightarrow> int \<Rightarrow> int \<Rightarrow> chat_response act" where
  "rest_listMessages w me_id i page limit = sendChat Some w (ListMessages me_id i page limit)"

definition rest_listPinnedMessages :: "world \<Rightarrow> uuid \<Rightarrow> uuid \<Rightarrow> chat_response act" where
  "rest_listPinnedMessages w me_id i = sendChat Some w (ListPinnedMessages me_id i)"

definition rest_listScheduledMessages :: "world \<Rightarrow> uuid \<Rightarrow> uuid \<Rightarrow> chat_response act" where
  "rest_listScheduledMessages w me_id i = sendChat Some w (ListScheduledMessages me_id i)"

definition rest_cancelScheduledMessage :: "world \<Rightarrow> uuid \<Rightarrow> uuid \<Rightarrow> uuid \<Rightarrow> chat_response act" where
  "rest_cancelScheduledMessage w me_id i scheduledMessageId =
     sendChat Some w (CancelScheduledMessage me_id i scheduledMessageId)"

definition rest_unblockUser :: "world \<Rightarrow> uuid \<Rightarrow> uuid \<Rightarrow> chat_response act" where
  "rest_unblockUser w me_id userId = sendChat Some w (UnblockUser me_id userId)"

definition rest_listBlocks :: "world \<Rightarrow> uuid \<Rightarrow> chat_response act" where
  "rest_listBlocks w me_id = sendChat Some w (ListBlocks me_id)"

definition rest_blockUser :: "world \<Rightarrow> uuid \<Rightarrow> uuid \<Rightarrow> chat_response act" where
  "rest_blockUser w me_id userId =
     (if userId = me_id then throw (HttpException 400 ''You cannot block yourself'')
      else chain (assertUserExists w userId) (\<lambda>_. sendChat Some w (BlockUser me_id userId)))"

section \<open>Attachments\<close>

text \<open>\<open>name.replace(/[\\/:*?"<>|]+/g, '_')\<close>\<close>

definition unsafe_char :: "char \<Rightarrow> bool" where
  "unsafe_char c = (c \<in> {CHR 0x5C, CHR ''/'', CHR '':'', CHR ''*'', CHR ''?'', CHR 0x22, CHR ''<'', CHR ''>'', CHR ''|''})"

function safe_filename :: "string \<Rightarrow> string" where
  "safe_filename [] = []"
| "safe_filename (c # s) =
     (if \<not> unsafe_char c then c # safe_filename s
      else CHR ''_'' # safe_filename (dropWhile unsafe_char s))"
  by pat_completeness auto

termination
  by (relation "measure length") (auto simp: less_Suc_eq_le length_dropWhile_le)

definition a_message :: "chat_response \<Rightarrow> message_view option" where
  "a_message r = (case r of RMessage v \<Rightarrow> Some v | _ \<Rightarrow> None)"

record download =
  dl_url :: string
  dl_filename :: string
  dl_contentType :: string
  dl_disposition :: string

text \<open>What is served: the object's URL and the response headers.\<close>

definition rest_download :: "world \<Rightarrow> uuid \<Rightarrow> uuid \<Rightarrow> uuid \<Rightarrow> string option \<Rightarrow> download act" where
  "rest_download w me_id i messageId disposition =
     chain (sendChat a_message w (GetMessage me_id i messageId)) (\<lambda>m. case v_attachment m of
       None \<Rightarrow> throw (HttpException 404 ''Attachment not found not found'')
     | Some a \<Rightarrow>
         (if \<not> truthy (av_url a) \<or> v_deletedForEveryone m then throw (HttpException 404 ''Attachment not found not found'')
          else let filename = safe_filename (if truthy (av_name a) then av_name a else ''relay-'' @ messageId) in
            give \<lparr>dl_url = av_url a, dl_filename = filename,
              dl_contentType = resolveAttachmentContentType (Some (av_mime a)) filename,
              dl_disposition = (if disposition = Some ''inline'' then ''inline'' else ''attachment'')
                @ ''; filename='' @ [CHR 0x22] @ filter (\<lambda>c. c \<noteq> CHR 0x22) filename @ [CHR 0x22]\<rparr>))"

text \<open>The ellipsis of the message is the three bytes of its UTF-8 form.\<close>

definition UPLOAD_TYPE_ERROR :: string where
  "UPLOAD_TYPE_ERROR = ''Only images (jpeg/png/gif/webp), audio (webm/ogg/mp3/mp4/wav), and common documents ''
     @ ''(pdf/doc/xls/ppt/txt/csv/zip/'' @ [CHR 0xE2, CHR 0x80, CHR 0xA6] @ '') are allowed''"

definition rest_uploadFile :: "world \<Rightarrow> uploaded_file option \<Rightarrow> ((string \<times> string \<times> string) \<times> string) act" where
  "rest_uploadFile w file = (case file of
     None \<Rightarrow> throw (HttpException 400 ''File is required'')
   | Some f \<Rightarrow> (case normalizeUploadMime (uf_mimetype f) (uf_originalname f) of
       None \<Rightarrow> throw (HttpException 400 UPLOAD_TYPE_ERROR)
     | Some mime \<Rightarrow>
         (if \<not> truthy mime then throw (HttpException 400 UPLOAD_TYPE_ERROR)
          else if uf_size f > MAX_UPLOAD_BYTES then throw (HttpException 400 ''File must be 10MB or smaller'')
          else chain (upload w (uf_originalname f) mime (uf_size f)) (\<lambda>up. give (up, mime)))))"

section \<open>Calls and push subscriptions\<close>

definition rest_getActiveCall :: "world \<Rightarrow> uuid \<Rightarrow> uuid \<Rightarrow> call_lobby option act" where
  "rest_getActiveCall w me_id i =
     chain (get_conversation w me_id i) (\<lambda>_.
     chain (on_calls (\<lambda>r. getByConversation (at w) (wd_scan w r) i r)) (\<lambda>session. case session of
       None \<Rightarrow> give None
     | Some s \<Rightarrow>
         (if cs_kind s \<noteq> GroupCall \<or> length (cs_joinedIds s) = 0 \<or> me_id \<notin> set (cs_memberIds s) then give None
          else give (Some (toLobby s True)))))"

definition rest_subscribePush :: "world \<Rightarrow> uuid \<Rightarrow> string option \<Rightarrow> string option \<Rightarrow> string option \<Rightarrow> unit act" where
  "rest_subscribePush w me_id endpoint p256dh authKey =
     (if \<not> opt_truthy endpoint \<or> \<not> opt_truthy p256dh \<or> \<not> opt_truthy authKey
      then throw (HttpException 400 ''Invalid push subscription'')
      else put_keys (subscribe (at w) me_id
             \<lparr>ps_endpoint = nullish endpoint '''', ps_p256dh = nullish p256dh '''', ps_auth = nullish authKey ''''\<rparr>))"

definition rest_unsubscribePush :: "world \<Rightarrow> uuid \<Rightarrow> string option \<Rightarrow> unit act" where
  "rest_unsubscribePush w me_id endpoint = put_keys (unsubscribe (at w) me_id endpoint)"

section \<open>Background dispatchers (scheduled-message.dispatcher.ts, disappearing-message.dispatcher.ts)\<close>

definition a_sent_list :: "chat_response \<Rightarrow> send_result list option" where
  "a_sent_list r = (case r of RSentList v \<Rightarrow> Some v | _ \<Rightarrow> None)"

definition an_expired_list :: "chat_response \<Rightarrow> delete_result list option" where
  "an_expired_list r = (case r of RExpired v \<Rightarrow> Some v | _ \<Rightarrow> None)"

definition deliver_scheduled :: "world \<Rightarrow> send_result \<Rightarrow> unit act" where
  "deliver_scheduled w result = (let data = fst result; recipients = snd result in
     chain (cache_members w (v_conversationId data) recipients) (\<lambda>_.
     chain (broadcastMessage data recipients) (\<lambda>_.
     push_message w recipients (v_senderId data) (v_conversationId data) (v_body data))))"

definition scheduled_tick :: "world \<Rightarrow> unit act" where
  "scheduled_tick w = attempt
     (chain (sendChat a_sent_list w DispatchDueScheduled) (each (deliver_scheduled w))) (\<lambda>_. give ())"

definition announce_expired :: "delete_result \<Rightarrow> unit act" where
  "announce_expired result =
     chain (broadcastMessageDeleted (dr_message result) (dr_recipientIds result)) (\<lambda>_.
     deleteByUrl (nullish (dr_removedAttachmentUrl result) ''''))"

definition disappearing_tick :: "world \<Rightarrow> unit act" where
  "disappearing_tick w = attempt
     (chain (sendChat an_expired_list w ExpireDueMessages) (each announce_expired)) (\<lambda>_. give ())"

end
