(* ===== verification/AdminController.thy ===== *)
theory AdminController
  imports ChatController
begin

text \<open>
  The REST handlers of \<open>apps/api-gateway/src/admin/admin.controller.ts\<close> apart from
  analytics and link previews, which ChatAssist has: the audit log, its CSV export and the workspace
  settings. \<open>iso_text\<close> is the text of an instant in the service's answer.
\<close>

section \<open>Audit log\<close>

definition an_audit_page :: "chat_response \<Rightarrow> (audit_view list \<times> paginated_meta) option" where
  "an_audit_page r = (case r of RAudits v \<Rightarrow> Some v | _ \<Rightarrow> None)"

definition rest_audit :: "world \<Rightarrow> int \<Rightarrow> int \<Rightarrow> (audit_view list \<times> paginated_meta) act" where
  "rest_audit w page limit = sendChat an_audit_page w (ListAudit page limit)"

text \<open>\<open>"${String(value).replace(/"/g, '""')}"\<close>\<close>

definition csv_quote :: "string \<Rightarrow> string" where
  "csv_quote v = CHR 0x22 # concat (map (\<lambda>c. if c = CHR 0x22 then [CHR 0x22, CHR 0x22] else [c]) v) @ [CHR 0x22]"

fun join_with :: "string \<Rightarrow> string list \<Rightarrow> string" where
  "join_with sep [] = []"
| "join_with sep [x] = x"
| "join_with sep (x # y # xs) = x @ sep @ join_with sep (y # xs)"

definition audit_cells :: "(instant \<Rightarrow> string) \<Rightarrow> audit_view \<Rightarrow> string list" where
  "audit_cells iso_text v = [auv_id v, auv_actorId v, auv_action v, nullish (auv_targetType v) '''',
     nullish (auv_targetId v) '''', iso_text (auv_createdAt v)]"

definition audit_row :: "(instant \<Rightarrow> string) \<Rightarrow> audit_view \<Rightarrow> string" where
  "audit_row iso_text v = join_with '','' (map csv_quote (audit_cells iso_text v))"

definition audit_csv :: "(instant \<Rightarrow> string) \<Rightarrow> audit_view list \<Rightarrow> string" where
  "audit_csv iso_text vs = ''id,actorId,action,targetType,targetId,createdAt'' @ [CHR 0x0A]
     @ join_with [CHR 0x0A] (map (audit_row iso_text) vs)"

definition rest_auditExport :: "world \<Rightarrow> (instant \<Rightarrow> string) \<Rightarrow> string act" where
  "rest_auditExport w iso_text = chain (rest_audit w 1 500) (\<lambda>data. give (audit_csv iso_text (fst data)))"

section \<open>Workspace settings\<close>

definition rest_workspaceSettings :: "world \<Rightarrow> chat_response act" where
  "rest_workspaceSettings w = sendChat Some w GetWorkspace"

definition rest_updateWorkspace ::
  "world \<Rightarrow> uuid \<Rightarrow> string option \<Rightarrow> string option \<Rightarrow> string option \<Rightarrow> string option option \<Rightarrow> chat_response act" where
  "rest_updateWorkspace w me_id appName tagline primaryColor logoUrl =
     sendChat Some w (UpdateWorkspace me_id appName tagline primaryColor logoUrl)"

end
