(* ===== verification/GatewayInvariant.thy ===== *)
theory GatewayInvariant
  imports AdminController AuthProperties CallProperties
begin

text \<open>
  The gateway as a state machine: one rule per handler, timer and dispatcher, and the
  calculus by which a property of the state is carried through all of them. A
  property has to be checked of the primitive changes only (a request processed by a
  service, a change of a socket's rooms, bookkeeping); the locale
  \<open>gateway_invariant\<close> derives it for every handler and every reachable state.
\<close>

section \<open>Actions that keep a property\<close>

named_theorems keeps "actions that keep a property of the gateway"

definition keeps :: "(gateway \<Rightarrow> bool) \<Rightarrow> 'a act \<Rightarrow> bool" where
  "keeps P m \<longleftrightarrow> (\<forall>g. P g \<longrightarrow> P (snd (m g)))"

lemma keepsD: "keeps P m \<Longrightarrow> P g \<Longrightarrow> P (snd (m g))"
  by (simp add: keeps_def)

lemma keeps_give [keeps]: "keeps P (give x)" "keeps P (throw e)" "keeps P (ask f)"
  by (simp_all add: keeps_def action_defs)

lemma keeps_chain [keeps]: "keeps P m \<Longrightarrow> (\<And>x. keeps P (f x)) \<Longrightarrow> keeps P (chain m f)"
  unfolding keeps_def chain_def by (auto split: prod.split sum.split)

lemma keeps_attempt [keeps]: "keeps P m \<Longrightarrow> (\<And>e. keeps P (h e)) \<Longrightarrow> keeps P (attempt m h)"
  unfolding keeps_def attempt_def by (auto split: prod.split sum.split)

lemma keeps_each [keeps]: "(\<And>x. keeps P (f x)) \<Longrightarrow> keeps P (each f xs)"
  by (induction xs) (auto intro: keeps)

lemma keeps_only_if [keeps]: "(b \<Longrightarrow> keeps P m) \<Longrightarrow> keeps P (only_if b m)"
  by (simp add: only_if_def keeps_give)

lemma keeps_if [keeps]: "(b \<Longrightarrow> keeps P m) \<Longrightarrow> (\<not> b \<Longrightarrow> keeps P n) \<Longrightarrow> keeps P (if b then m else n)"
  by simp

lemma keeps_case_option [keeps]: "keeps P m \<Longrightarrow> (\<And>x. keeps P (f x)) \<Longrightarrow> keeps P (case v of None \<Rightarrow> m | Some x \<Rightarrow> f x)"
  by (cases v) auto

lemma keeps_case_sum [keeps]:
  "(\<And>e. keeps P (m e)) \<Longrightarrow> (\<And>x. keeps P (f x)) \<Longrightarrow> keeps P (case v of Inl e \<Rightarrow> m e | Inr x \<Rightarrow> f x)"
  by (cases v) auto

lemma keeps_case_prod [keeps]: "(\<And>a b. keeps P (f a b)) \<Longrightarrow> keeps P (case p of (a, b) \<Rightarrow> f a b)"
  by (cases p) auto

lemma keeps_case_list [keeps]: "keeps P m \<Longrightarrow> (\<And>x xs. keeps P (f x xs)) \<Longrightarrow> keeps P (case v of [] \<Rightarrow> m | x # xs \<Rightarrow> f x xs)"
  by (cases v) auto

lemma keeps_let [keeps]: "keeps P (f x) \<Longrightarrow> keeps P (Let x f)"
  by (simp add: Let_def)

lemma keeps_typed [keeps]: "keeps P (typed expected r)"
  unfolding typed_def by (auto intro: keeps)

section \<open>Primitive changes\<close>

text \<open>
  Everything but the timers, the invite stamps and what has been emitted, pushed,
  deleted and requested.
\<close>

definition same_core :: "gateway \<Rightarrow> gateway \<Rightarrow> bool" where
  "same_core g g' \<longleftrightarrow> gw_chat g' = gw_chat g \<and> gw_users g' = gw_users g \<and> gw_auth g' = gw_auth g
     \<and> gw_sockets g' = gw_sockets g \<and> gw_calls g' = gw_calls g \<and> gw_keys g' = gw_keys g \<and> gw_callIds g' = gw_callIds g"

text \<open>How the handlers change the connected sockets.\<close>

inductive socket_move :: "socket list \<Rightarrow> socket list \<Rightarrow> bool" for ss where
  opened: "socket_move ss (filter (\<lambda>s. sk_id s \<noteq> sid) ss
     @ [\<lparr>sk_id = sid, sk_user = None, sk_rooms = [], sk_conversationIds = []\<rparr>])"
| identified: "socket_move ss (filter (\<lambda>s. sk_id s \<noteq> sid) ss
     @ [\<lparr>sk_id = sid, sk_user = Some u, sk_rooms = [userRoom u], sk_conversationIds = []\<rparr>])"
| joined: "socket_move ss (map (\<lambda>s. if sk_id s = sid then (join_room (conversationRoom c) s)
     \<lparr>sk_conversationIds := js_uniq (sk_conversationIds s @ [c])\<rparr> else s) ss)"
| left: "socket_move ss (map (\<lambda>s. if Q s then (leave_room (conversationRoom c) s)
     \<lparr>sk_conversationIds := filter (\<lambda>x. x \<noteq> c) (sk_conversationIds s)\<rparr> else s) ss)"
| closed: "socket_move ss (filter (\<lambda>s. sk_id s \<noteq> sid) ss)"

text \<open>How they change the keyspace apart from the cached member lists, and the call sessions.\<close>

inductive key_move :: "world \<Rightarrow> keyspace \<Rightarrow> keyspace \<Rightarrow> bool" for w r where
  unchanged: "key_move w r r"
| revoked: "key_move w r (ks_setex (at w) (access_ttl w) (blacklistKey w token) Flag r)"
| remembered: "key_move w r (ks_setex (at w) (wd_cacheSeconds w) (sessionCacheKey u) v r)"
| forgotten: "key_move w r (ks_del (sessionCacheKey u) r)"
| dropped: "key_move w r (invalidate c r)"
| connected: "key_move w r (snd (connect (at w) u sid r))"
| disconnected: "key_move w r (snd (disconnect (at w) u sid r))"
| alive: "key_move w r (heartbeat (at w) u r)"
| subscribed: "key_move w r (subscribe (at w) u sub r)"
| unsubscribed: "key_move w r (unsubscribe (at w) u endpoint r)"
| told_offline: "key_move w r (snd (notifyOfflineRecipients cfg deliver (at w) us u p r))"
| told_call: "key_move w r (snd (notifyCallInvite cfg deliver (at w) us u p r))"

inductive call_move :: "world \<Rightarrow> call_redis \<Rightarrow> call_redis \<Rightarrow> bool" for w r where
  effect: "\<forall>i. req \<noteq> CreateCall i \<Longrightarrow> call_move w r (call_effect (at w) keys [] req r)"
| refused: "createCall (at w) keys c i r = (Inl e, r') \<Longrightarrow> call_move w r r'"

lemma call_moves:
  "call_move w r (snd (get_call (at w) c r))" "call_move w r (snd (getByConversation (at w) keys cid r))"
  "call_move w r (snd (accept (at w) c u r))" "call_move w r (snd (decline (at w) c u r))"
  "call_move w r (snd (leave_call (at w) c u r))" "call_move w r (snd (revokeUserFromConversation (at w) keys cid u r))"
  "call_move w r (snd (end_call (at w) c r))" "call_move w r (snd (inviteMore (at w) c u us al r))"
  "call_move w r (snd (setHold (at w) c u b r))" "call_move w r (snd (setForceMute (at w) c u b r))"
  "call_move w r (snd (setScreenShare (at w) c u b r))" "call_move w r (snd (markUnansweredAsLeft (at w) c us r))"
  "call_move w r (clearUserBusy (at w) u oc r)"
  using call_move.effect [of "GetCall c" w r] call_move.effect [of "GetByConversation cid" w r] call_move.effect [of "Accept c u" w r]
    call_move.effect [of "Decline c u" w r] call_move.effect [of "LeaveCall c u" w r] call_move.effect [of "RevokeUser cid u" w r]
    call_move.effect [of "EndCall c" w r] call_move.effect [of "InviteMore c u us al" w r] call_move.effect [of "SetHold c u b" w r]
    call_move.effect [of "SetForceMute c u b" w r] call_move.effect [of "SetScreenShare c u b" w r] call_move.effect [of "MarkUnanswered c us" w r]
    call_move.effect [of "ClearUserBusy u oc" w r]
  by simp_all

text \<open>One event: a connection, a message on a socket, a due timer, a dispatcher's tick or a request.\<close>

inductive gateway_step :: "world \<Rightarrow> gateway \<Rightarrow> gateway \<Rightarrow> bool" for w where
  "g' = snd (handleConnection w sid fromAuth header g) \<Longrightarrow> gateway_step w g g'"
| "g' = snd (handleDisconnect w sid g) \<Longrightarrow> gateway_step w g g'"
| "g' = snd (grace_ends w i g) \<Longrightarrow> gateway_step w g g'"
| "g' = snd (ring_expires w callId g) \<Longrightarrow> gateway_step w g g'"
| "g' = snd (joinConversation w sid cid g) \<Longrightarrow> gateway_step w g g'"
| "g' = snd (leaveConversationRoom sid cid g) \<Longrightarrow> gateway_step w g g'"
| "g' = snd (socket_sendMessage w sid cid body ty g) \<Longrightarrow> gateway_step w g g'"
| "g' = snd (socket_typing w sid cid typing g) \<Longrightarrow> gateway_step w g g'"
| "g' = snd (socket_markSeen w sid cid messageId g) \<Longrightarrow> gateway_step w g g'"
| "g' = snd (socket_heartbeat w sid g) \<Longrightarrow> gateway_step w g g'"
| "g' = snd (inviteCall w sid cid video g) \<Longrightarrow> gateway_step w g g'"
| "g' = snd (acceptCall w sid cid g) \<Longrightarrow> gateway_step w g g'"
| "g' = snd (rejectCall w sid cid g) \<Longrightarrow> gateway_step w g g'"
| "g' = snd (hangupCall w sid cid g) \<Longrightarrow> gateway_step w g g'"
| "g' = snd (relayWebRtcSignal w sid offer cid toId sdp g) \<Longrightarrow> gateway_step w g g'"
| "g' = snd (relayIce w sid cid toId candidate g) \<Longrightarrow> gateway_step w g g'"
| "g' = snd (holdCall w sid cid onHold g) \<Longrightarrow> gateway_step w g g'"
| "g' = snd (muteAllCall w sid cid muted g) \<Longrightarrow> gateway_step w g g'"
| "g' = snd (screenShareCall w sid cid active g) \<Longrightarrow> gateway_step w g g'"
| "g' = snd (inviteMoreCall w sid cid userIds g) \<Longrightarrow> gateway_step w g g'"
| "g' = snd (scheduled_tick w g) \<Longrightarrow> gateway_step w g g'"
| "g' = snd (disappearing_tick w g) \<Longrightarrow> gateway_step w g g'"
| "g' = snd (rest_createPrivate w me_id other g) \<Longrightarrow> gateway_step w g g'"
| "g' = snd (rest_createGroup w me_id name memberIds g) \<Longrightarrow> gateway_step w g g'"
| "g' = snd (rest_listConversations w me_id page limit g) \<Longrightarrow> gateway_step w g g'"
| "g' = snd (rest_getPresence w userId g) \<Longrightarrow> gateway_step w g g'"
| "g' = snd (rest_getConversation w me_id i g) \<Longrightarrow> gateway_step w g g'"
| "g' = snd (rest_muteConversation w me_id i muted g) \<Longrightarrow> gateway_step w g g'"
| "g' = snd (rest_pinConversation w me_id i pinned g) \<Longrightarrow> gateway_step w g g'"
| "g' = snd (rest_setDisappearing w me_id i seconds g) \<Longrightarrow> gateway_step w g g'"
| "g' = snd (rest_addMembers w me_id i memberIds g) \<Longrightarrow> gateway_step w g g'"
| "g' = snd (rest_setMemberRole w me_id i userId role g) \<Longrightarrow> gateway_step w g g'"
| "g' = snd (rest_removeMember w me_id i userId g) \<Longrightarrow> gateway_step w g g'"
| "g' = snd (rest_leave w me_id i g) \<Longrightarrow> gateway_step w g g'"
| "g' = snd (rest_updateGroup w me_id i name g) \<Longrightarrow> gateway_step w g g'"
| "g' = snd (rest_deleteGroup w me_id i g) \<Longrightarrow> gateway_step w g g'"
| "g' = snd (rest_sendMessage w me_id i dto g) \<Longrightarrow> gateway_step w g g'"
| "g' = snd (rest_editMessage w me_id i messageId body g) \<Longrightarrow> gateway_step w g g'"
| "g' = snd (rest_reactMessage w me_id i messageId emoji g) \<Longrightarrow> gateway_step w g g'"
| "g' = snd (rest_pinMessage w me_id i messageId pinned g) \<Longrightarrow> gateway_step w g g'"
| "g' = snd (rest_forwardMessage w me_id i messageId target g) \<Longrightarrow> gateway_step w g g'"
| "g' = snd (rest_deleteMessage w me_id i messageId forEveryone g) \<Longrightarrow> gateway_step w g g'"
| "g' = snd (rest_typing w me_id i typing g) \<Longrightarrow> gateway_step w g g'"
| "g' = snd (rest_markSeen w me_id i messageId g) \<Longrightarrow> gateway_step w g g'"
| "g' = snd (rest_scheduleMessage w me_id i dto scheduledFor g) \<Longrightarrow> gateway_step w g g'"
| "g' = snd (rest_download w me_id i messageId disposition g) \<Longrightarrow> gateway_step w g g'"
| "g' = snd (rest_uploadFile w file g) \<Longrightarrow> gateway_step w g g'"
| "g' = snd (rest_getActiveCall w me_id i g) \<Longrightarrow> gateway_step w g g'"
| "g' = snd (rest_subscribePush w me_id endpoint p256dh authKey g) \<Longrightarrow> gateway_step w g g'"
| "g' = snd (rest_unsubscribePush w me_id endpoint g) \<Longrightarrow> gateway_step w g g'"
| "g' = snd (rest_blockUser w me_id userId g) \<Longrightarrow> gateway_step w g g'"
| "g' = snd (rest_searchGlobal w me_id q page limit g) \<Longrightarrow> gateway_step w g g'"
| "g' = snd (rest_searchMessages w me_id i q page limit g) \<Longrightarrow> gateway_step w g g'"
| "g' = snd (rest_listMedia w me_id i kind page limit g) \<Longrightarrow> gateway_step w g g'"
| "g' = snd (rest_listMessages w me_id i page limit g) \<Longrightarrow> gateway_step w g g'"
| "g' = snd (rest_listPinnedMessages w me_id i g) \<Longrightarrow> gateway_step w g g'"
| "g' = snd (rest_listScheduledMessages w me_id i g) \<Longrightarrow> gateway_step w g g'"
| "g' = snd (rest_cancelScheduledMessage w me_id i scheduledMessageId g) \<Longrightarrow> gateway_step w g g'"
| "g' = snd (rest_unblockUser w me_id userId g) \<Longrightarrow> gateway_step w g g'"
| "g' = snd (rest_listBlocks w me_id g) \<Longrightarrow> gateway_step w g g'"
| "g' = snd (rest_audit w page limit g) \<Longrightarrow> gateway_step w g g'"
| "g' = snd (rest_auditExport w iso_text g) \<Longrightarrow> gateway_step w g g'"
| "g' = snd (rest_workspaceSettings w g) \<Longrightarrow> gateway_step w g g'"
| "g' = snd (rest_updateWorkspace w me_id appName tagline primaryColor logoUrl g) \<Longrightarrow> gateway_step w g g'"
| "g' = snd (post_register w dto g) \<Longrightarrow> gateway_step w g g'"
| "g' = snd (post_login w email password ip userAgent g) \<Longrightarrow> gateway_step w g g'"
| "g' = snd (post_refresh w refreshToken ip userAgent g) \<Longrightarrow> gateway_step w g g'"
| "g' = snd (post_logout w user header refreshToken g) \<Longrightarrow> gateway_step w g g'"
| "g' = snd (get_me w user g) \<Longrightarrow> gateway_step w g g'"
| "g' = snd (patch_password w user header currentPassword newPassword g) \<Longrightarrow> gateway_step w g g'"
| "g' = snd (forgot_password w email g) \<Longrightarrow> gateway_step w g g'"
| "g' = snd (reset_password w token password g) \<Longrightarrow> gateway_step w g g'"
| "g' = snd (verify_email w token g) \<Longrightarrow> gateway_step w g g'"
| "g' = snd (resend_verification w user g) \<Longrightarrow> gateway_step w g g'"
| "g' = snd (create_invite w user email expiresInDays maxUses g) \<Longrightarrow> gateway_step w g g'"
| "g' = snd (list_invites w g) \<Longrightarrow> gateway_step w g g'"
| "g' = snd (get_invite w token g) \<Longrightarrow> gateway_step w g g'"
| "g' = snd (revoke_invite w i g) \<Longrightarrow> gateway_step w g g'"
| "g' = snd (list_users w q g) \<Longrightarrow> gateway_step w g g'"
| "g' = snd (lookupByUserId w userId g) \<Longrightarrow> gateway_step w g g'"
| "g' = snd (update_me w user dto g) \<Longrightarrow> gateway_step w g g'"
| "g' = snd (uploadAvatar w user file g) \<Longrightarrow> gateway_step w g g'"
| "g' = snd (get_user w i g) \<Longrightarrow> gateway_step w g g'"
| "g' = snd (update_user w i dto g) \<Longrightarrow> gateway_step w g g'"
| "g' = snd (remove_user w i g) \<Longrightarrow> gateway_step w g g'"

text \<open>Any number of events, each in a world of those the deployment allows.\<close>

inductive gateway_reach :: "(world \<Rightarrow> bool) \<Rightarrow> gateway \<Rightarrow> gateway \<Rightarrow> bool" for W g0 where
  start: "gateway_reach W g0 g0"
| step: "gateway_reach W g0 g \<Longrightarrow> W w \<Longrightarrow> gateway_step w g g' \<Longrightarrow> gateway_reach W g0 g'"

text \<open>Authentication does not touch the sockets.\<close>

lemma authenticate_sockets: "keeps (\<lambda>g. gw_sockets g = ss) (authenticate w fromAuth header)"
proof -
  have [keeps]: "keeps (\<lambda>g. gw_sockets g = ss) (on_keys k)" for k :: "keyspace \<Rightarrow> 'x \<times> keyspace"
    by (auto simp: keeps_def action_defs split: prod.split)
  show ?thesis
    unfolding authenticate_def isRevoked_def strategy_validate_def cached_get_def userFromAccessToken_def
    by (auto intro!: keeps)
qed

text \<open>
  The part of a handler that tells others: it emits, keeps timers, reads
  conversations, records messages and caches member lists, but leaves sockets and
  calls alone.
\<close>

locale gateway_quiet =
  fixes P :: "gateway \<Rightarrow> bool" and W :: "world \<Rightarrow> bool"
  assumes frame: "P g \<Longrightarrow> same_core g g' \<Longrightarrow> P g'"
    and recorded: "W w \<Longrightarrow> P g \<Longrightarrow> P (g\<lparr>gw_chat := snd (chat_step (wd_clk w, SendMessage p) (gw_chat g))\<rparr>)"
    and member_cache: "W w \<Longrightarrow> P g \<Longrightarrow> P (g\<lparr>gw_keys := setMemberIds (at w) c ms (gw_keys g)\<rparr>)"
begin

lemma keeps_frame: "(\<And>g. same_core g (f g)) \<Longrightarrow> keeps P (change f)"
  by (auto simp: keeps_def action_defs intro: frame)

lemma keeps_bookkeeping [keeps]:
  "keeps P (change (\<lambda>g. g\<lparr>gw_rings := x1 g\<rparr>))" "keeps P (change (\<lambda>g. g\<lparr>gw_invites := x2 g\<rparr>))"
  "keeps P (change (\<lambda>g. g\<lparr>gw_graces := x3 g\<rparr>))" "keeps P (change (\<lambda>g. g\<lparr>gw_sent := x4 g\<rparr>))"
  "keeps P (change (\<lambda>g. g\<lparr>gw_pushed := x5 g\<rparr>))" "keeps P (change (\<lambda>g. g\<lparr>gw_deletedFiles := x6 g\<rparr>))"
  by (rule keeps_frame, simp add: same_core_def)+

lemma keeps_emit [keeps]: "keeps P (emit rooms event p)"
  unfolding emit_def by (intro keeps)

lemma keeps_send:
  assumes "\<And>g. P g \<Longrightarrow> P (upd (snd (handler (field g))) g)"
    and "\<And>g n. field (g\<lparr>gw_rpcs := n\<rparr>) = field g"
  shows "keeps P (send w field upd handler)"
proof -
  have rpcs: "P g \<Longrightarrow> P (g\<lparr>gw_rpcs := n\<rparr>)" for g n by (rule frame [of g]) (simp_all add: same_core_def)
  have "P g \<Longrightarrow> P (upd (snd (handler (field g))) (g\<lparr>gw_rpcs := n\<rparr>))" for g n
    using assms(1) [OF rpcs, of g n] assms(2) by simp
  with rpcs show ?thesis
    by (auto simp: keeps_def send_def Let_def split: rpc_fate.split prod.split sum.split) (metis snd_conv)+
qed

lemma keeps_record [keeps]: "W w \<Longrightarrow> keeps P (sendChat expected w (SendMessage p))"
  unfolding sendChat_def by (intro keeps keeps_send recorded) auto

lemma keeps_read [keeps]: "keeps P (sendChat expected w (GetConversation a c))"
  unfolding sendChat_def by (intro keeps keeps_send; (erule frame)?) (simp_all add: same_core_def chat_step_def)

lemma keeps_cache_members [keeps]: "W w \<Longrightarrow> keeps P (cache_members w c ms)"
  unfolding cache_members_def by (auto simp: keeps_def action_defs intro: member_cache)

lemma keeps_members [keeps]:
  "keeps P (cached_members w c)" "keeps P (get_conversation w a c)" "W w \<Longrightarrow> keeps P (memberIdsFor w a c)"
  "keeps P (assertLiveConversationMember w a c)"
  unfolding cached_members_def get_conversation_def memberIdsFor_def assertLiveConversationMember_def
  by (auto intro!: keeps)

lemma keeps_guards [keeps]:
  "keeps P (requireUser sid)" "keeps P (required msg v)" "keeps P (requireConversationId v)"
  "keeps P (requireCallId v)" "keeps P (requireToUserId v)" "keeps P (assertSignalSize p)"
  unfolding requireUser_def required_def requireConversationId_def requireCallId_def requireToUserId_def
    assertSignalSize_def by (auto intro!: keeps)

lemma keeps_tell_rooms [keeps]: "keeps P (tell_rooms w p cs)"
  by (induction cs) (auto intro!: keeps)

lemma keeps_broadcasts [keeps]:
  "keeps P (emitToMembers event p c us)" "keeps P (broadcastMessage m us)" "keeps P (broadcastMessageDeleted m us)"
  "keeps P (broadcastTyping c u b us)" "keeps P (broadcastSeen r us)" "keeps P (broadcastGroupDeleted c us)"
  "keeps P (broadcastConversationUpdated v us)" "keeps P (broadcastRemovedFromGroup c us)"
  "keeps P (fanOutPresence w pv cs)" "keeps P (broadcastPresence w u st ls cs)"
  "keeps P (emitCallEventToUser u event p)" "keeps P (broadcastToCallMembers us event p)"
  "keeps P (emitCallLobby s)" "keeps P (emitCallRoster s)" "keeps P (announce s)"
  unfolding emitToMembers_def broadcastMessage_def broadcastMessageDeleted_def broadcastTyping_def broadcastSeen_def
    broadcastGroupDeleted_def broadcastConversationUpdated_def broadcastRemovedFromGroup_def fanOutPresence_def
    broadcastPresence_def emitCallEventToUser_def broadcastToCallMembers_def emitCallLobby_def emitCallRoster_def
    announce_def by (auto intro!: keeps)

lemma keeps_call_end_events [keeps]:
  "keeps P (clearRingTimer c)" "keeps P (startRingTimer w c us)" "keeps P (takeCallInviteSlot w u)"
  "W w \<Longrightarrow> keeps P (recordCallHistoryMessage w s u reason)" "W w \<Longrightarrow> keeps P (emitCallEnded w s u reason)"
  unfolding clearRingTimer_def startRingTimer_def takeCallInviteSlot_def recordCallHistoryMessage_def emitCallEnded_def
  by (auto intro!: keeps)

lemma keeps_deletion [keeps]: "keeps P (deleteByUrl url)" "keeps P (upload w name mime bytes)"
  unfolding deleteByUrl_def upload_def by (auto intro!: keeps)

lemma keeps_presence_views [keeps]: "keeps P (attach w vs)" "keeps P (attach_one w v)"
  unfolding attach_def attach_one_def by (auto intro!: keeps)

end

text \<open>Every primitive change.\<close>

locale gateway_invariant = gateway_quiet P W
  for P :: "gateway \<Rightarrow> bool" and W :: "world \<Rightarrow> bool" +
  assumes chat_request: "W w \<Longrightarrow> P g \<Longrightarrow> P (g\<lparr>gw_chat := snd (chat_step (wd_clk w, q) (gw_chat g))\<rparr>)"
    and user_request: "W w \<Longrightarrow> P g \<Longrightarrow> P (g\<lparr>gw_users := snd (user_step (wd_clk w, wd_rank w, r) (gw_users g))\<rparr>)"
    and auth_request: "W w \<Longrightarrow> P g \<Longrightarrow> P (g\<lparr>gw_auth := snd (auth_step (wd_crypto w) (wd_clk w, a) (gw_auth g))\<rparr>)"
    and keyspace: "W w \<Longrightarrow> P g \<Longrightarrow> key_move w (gw_keys g) r' \<Longrightarrow> P (g\<lparr>gw_keys := r'\<rparr>)"
    and call_sessions: "W w \<Longrightarrow> P g \<Longrightarrow> call_move w (gw_calls g) c' \<Longrightarrow> P (g\<lparr>gw_calls := c'\<rparr>)"
    and new_call: "W w \<Longrightarrow> P g \<Longrightarrow> createCall (at w) keys (wd_uuid w (gw_callIds g)) i (gw_calls g) = (Inr s, c')
       \<Longrightarrow> P (g\<lparr>gw_calls := c', gw_callIds := Suc (gw_callIds g)\<rparr>)"
    and sockets: "P g \<Longrightarrow> socket_move (gw_sockets g) ss \<Longrightarrow> P (g\<lparr>gw_sockets := ss\<rparr>)"
begin

lemma keeps_sendChat [keeps]: "W w \<Longrightarrow> keeps P (sendChat expected w q)"
  unfolding sendChat_def by (intro keeps keeps_send chat_request) auto

lemma keeps_sendUser [keeps]: "W w \<Longrightarrow> keeps P (sendUser expected1 w r)"
  unfolding sendUser_def by (intro keeps keeps_send user_request) auto

lemma keeps_sendAuth [keeps]: "W w \<Longrightarrow> keeps P (sendAuth expected2 w a)"
  unfolding sendAuth_def by (intro keeps keeps_send auth_request) auto

lemma keeps_on_keys: "W w \<Longrightarrow> (\<And>r. key_move w r (snd (f r))) \<Longrightarrow> keeps P (on_keys f)"
  unfolding keeps_def on_keys_def by (auto simp: case_prod_beta intro!: keyspace)

lemma keeps_on_calls: "W w \<Longrightarrow> (\<And>r. call_move w r (snd (f r))) \<Longrightarrow> keeps P (on_calls f)"
  unfolding keeps_def on_calls_def by (auto simp: case_prod_beta intro!: call_sessions)

lemma keeps_keys [keeps]:
  assumes "W w"
  shows "keeps P (put_keys (invalidate c))" "keeps P (on_keys (connect (at w) u sid))"
    "keeps P (on_keys (disconnect (at w) u sid))" "keeps P (put_keys (heartbeat (at w) u))"
    "keeps P (put_keys (subscribe (at w) u sub))" "keeps P (put_keys (unsubscribe (at w) u endpoint))"
    "keeps P (on_keys (notifyOfflineRecipients cfg deliver (at w) us u p))"
    "keeps P (on_keys (notifyCallInvite cfg deliver (at w) us u p))"
    "keeps P (revokeAccessToken w token)" "keeps P (cached_get w u)" "keeps P (cached_set w v)" "keeps P (cached_invalidate u)"
  unfolding put_keys_def revokeAccessToken_def cached_get_def cached_set_def cached_invalidate_def
  by (auto intro!: keeps_on_keys [OF assms] key_move.intros split: option.split stored.split)

lemma keeps_call_ops [keeps]:
  assumes "W w"
  shows "keeps P (on_calls (get_call (at w) c))" "keeps P (on_calls (\<lambda>r. getByConversation (at w) (wd_scan w r) cid r))"
    "keeps P (on_calls (accept (at w) c u))" "keeps P (on_calls (decline (at w) c u))"
    "keeps P (on_calls (leave_call (at w) c u))"
    "keeps P (on_calls (\<lambda>r. revokeUserFromConversation (at w) (wd_scan w r) cid u r))"
    "keeps P (on_calls (end_call (at w) c))" "keeps P (on_calls (inviteMore (at w) c u us al))"
    "keeps P (on_calls (setHold (at w) c u b))" "keeps P (on_calls (setForceMute (at w) c u b))"
    "keeps P (on_calls (setScreenShare (at w) c u b))" "keeps P (on_calls (markUnansweredAsLeft (at w) c us))"
    "keeps P (on_calls (\<lambda>r. ((), clearUserBusy (at w) u oc r)))"
  by (rule keeps_on_calls [OF assms], simp add: call_moves)+

lemma keeps_create_call [keeps]: "W w \<Longrightarrow> keeps P (create_call w i)"
  by (auto simp: keeps_def create_call_def split: prod.split sum.split intro: new_call call_sessions call_move.refused)

lemma keeps_share_message [keeps]: "W w \<Longrightarrow> keeps P (share_message w i q)"
  unfolding share_message_def by (auto intro!: keeps)

lemma keeps_sockets:
  assumes "\<And>ss. socket_move ss (f ss)"
  shows "keeps P (change (\<lambda>g. g\<lparr>gw_sockets := f (gw_sockets g)\<rparr>))"
  using assms by (auto simp: keeps_def action_defs intro: sockets)

lemma keeps_rooms [keeps]:
  "keeps P (drop_socket sid)"
  "keeps P (update_socket sid (\<lambda>s. (join_room (conversationRoom c) s)
      \<lparr>sk_conversationIds := js_uniq (sk_conversationIds s @ [c])\<rparr>))"
  "keeps P (update_socket sid (\<lambda>s. (leave_room (conversationRoom c) s)
      \<lparr>sk_conversationIds := filter (\<lambda>x. x \<noteq> c) (sk_conversationIds s)\<rparr>))"
  "keeps P (forceLeaveConversationRoom c u)"
  unfolding drop_socket_def update_socket_def forceLeaveConversationRoom_def
  by (rule keeps_sockets, rule socket_move.intros)+

section \<open>Handlers\<close>

text \<open>The parts that handlers share.\<close>

lemma keeps_call_ends [keeps]:
  "W w \<Longrightarrow> keeps P (finishCall w c u reason)" "W w \<Longrightarrow> keeps P (timeoutRingingCall w c)"
  "W w \<Longrightarrow> keeps P (timeoutRingingInvitees w c vs)" "W w \<Longrightarrow> keeps P (pushActiveCallToUser w u c)"
  "W w \<Longrightarrow> keeps P (evict_user w c u)" "W w \<Longrightarrow> keeps P (evictUsersFromConversation w c vs)"
  unfolding finishCall_def timeoutRingingCall_def timeoutRingingInvitees_def pushActiveCallToUser_def evict_user_def
    evictUsersFromConversation_def by (auto intro!: keeps)

lemma keeps_authentication [keeps]:
  "keeps P (isRevoked w token)" "keeps P (userFromAccessToken p v)"
  "W w \<Longrightarrow> keeps P (strategy_validate w p)" "W w \<Longrightarrow> keeps P (jwt_guard w public header)"
  "keeps P (roles_guard roles user)" "W w \<Longrightarrow> keeps P (authenticate w fa header)"
  "W w \<Longrightarrow> keeps P (revoke_current w header)"
  unfolding isRevoked_def userFromAccessToken_def strategy_validate_def jwt_guard_def roles_guard_def authenticate_def
    revoke_current_def by (auto intro!: keeps)

lemma keeps_existence [keeps]:
  "W w \<Longrightarrow> keeps P (all_exist w us)" "W w \<Longrightarrow> keeps P (hidden_among w us)"
  by (induction us) (auto intro!: keeps simp: user_exists_def shows_last_seen_def lookupByUserId_def)

lemma keeps_views [keeps]:
  "W w \<Longrightarrow> keeps P (applyLastSeenPrivacy w vs)"
  "W w \<Longrightarrow> keeps P (private_one w v)" "W w \<Longrightarrow> keeps P (stripLastSeenIfHidden w pv)"
  "W w \<Longrightarrow> keeps P (assertUserExists w u)" "W w \<Longrightarrow> keeps P (assertUsersExist w us)"
  "W w \<Longrightarrow> keeps P (push_message w us u c body)" "W w \<Longrightarrow> keeps P (push_invite w us u title s)"
  "W w \<Longrightarrow> keeps P (previous_members w u i)" "W w \<Longrightarrow> keeps P (refresh_remaining w i us)"
  "W w \<Longrightarrow> keeps P (deliver_scheduled w sr)" "keeps P (announce_expired dr)"
  unfolding applyLastSeenPrivacy_def private_one_def stripLastSeenIfHidden_def
    shows_last_seen_def lookupByUserId_def assertUserExists_def user_exists_def assertUsersExist_def push_message_def
    push_invite_def previous_members_def refresh_remaining_def deliver_scheduled_def announce_expired_def
  by (auto intro!: keeps)

lemma keeps_disconnect_parts [keeps]:
  "W w \<Longrightarrow> keeps P (endCallForDisconnectedUser w u)" "W w \<Longrightarrow> keeps P (after_grace w u c)"
  "W w \<Longrightarrow> keeps P (requireJoinedParticipant w c u)"
  unfolding endCallForDisconnectedUser_def after_grace_def requireJoinedParticipant_def
  by (auto intro!: keeps)

lemma keeps_control [keeps]:
  "W w \<Longrightarrow> (\<And>c u. keeps P (on_calls (oper c u))) \<Longrightarrow> keeps P (control_call w sid cid oper event describe)"
  unfolding control_call_def by (auto intro!: keeps)

text \<open>The entry points.\<close>

lemma keeps_conn [keeps]:
  "W w \<Longrightarrow> keeps P (handleDisconnect w sid)"
  "W w \<Longrightarrow> keeps P (grace_ends w i)"
  "W w \<Longrightarrow> keeps P (ring_expires w callId)"
  unfolding handleDisconnect_def grace_ends_def ring_expires_def by (auto intro!: keeps)

lemma keeps_sock [keeps]:
  "W w \<Longrightarrow> keeps P (joinConversation w sid cid)"
  "W w \<Longrightarrow> keeps P (leaveConversationRoom sid cid)"
  "W w \<Longrightarrow> keeps P (socket_sendMessage w sid cid body ty)"
  "W w \<Longrightarrow> keeps P (socket_typing w sid cid typing)"
  "W w \<Longrightarrow> keeps P (socket_markSeen w sid cid messageId)"
  "W w \<Longrightarrow> keeps P (socket_heartbeat w sid)"
  unfolding joinConversation_def leaveConversationRoom_def socket_sendMessage_def socket_typing_def
    socket_markSeen_def socket_heartbeat_def by (auto intro!: keeps)

lemma keeps_call [keeps]:
  "W w \<Longrightarrow> keeps P (inviteCall w sid cid video)"
  "W w \<Longrightarrow> keeps P (acceptCall w sid cid)"
  "W w \<Longrightarrow> keeps P (rejectCall w sid cid)"
  "W w \<Longrightarrow> keeps P (hangupCall w sid cid)"
  "W w \<Longrightarrow> keeps P (relayWebRtcSignal w sid offer cid toId sdp)"
  "W w \<Longrightarrow> keeps P (relayIce w sid cid toId candidate)"
  "W w \<Longrightarrow> keeps P (holdCall w sid cid onHold)"
  "W w \<Longrightarrow> keeps P (muteAllCall w sid cid muted)"
  "W w \<Longrightarrow> keeps P (screenShareCall w sid cid active)"
  "W w \<Longrightarrow> keeps P (inviteMoreCall w sid cid userIds)"
  unfolding inviteCall_def acceptCall_def rejectCall_def hangupCall_def relayWebRtcSignal_def relayIce_def
    holdCall_def muteAllCall_def screenShareCall_def inviteMoreCall_def by (auto intro!: keeps)

lemma keeps_tick [keeps]:
  "W w \<Longrightarrow> keeps P (scheduled_tick w)"
  "W w \<Longrightarrow> keeps P (disappearing_tick w)"
  unfolding scheduled_tick_def disappearing_tick_def by (auto intro!: keeps)

lemma keeps_conv [keeps]:
  "W w \<Longrightarrow> keeps P (rest_createPrivate w me_id other)"
  "W w \<Longrightarrow> keeps P (rest_createGroup w me_id name memberIds)"
  "W w \<Longrightarrow> keeps P (rest_listConversations w me_id page limit)"
  "W w \<Longrightarrow> keeps P (rest_getPresence w userId)"
  "W w \<Longrightarrow> keeps P (rest_getConversation w me_id i)"
  "W w \<Longrightarrow> keeps P (rest_muteConversation w me_id i muted)"
  "W w \<Longrightarrow> keeps P (rest_pinConversation w me_id i pinned)"
  "W w \<Longrightarrow> keeps P (rest_setDisappearing w me_id i seconds)"
  "W w \<Longrightarrow> keeps P (rest_addMembers w me_id i memberIds)"
  "W w \<Longrightarrow> keeps P (rest_setMemberRole w me_id i userId role)"
  "W w \<Longrightarrow> keeps P (rest_removeMember w me_id i userId)"
  "W w \<Longrightarrow> keeps P (rest_leave w me_id i)"
  "W w \<Longrightarrow> keeps P (rest_updateGroup w me_id i name)"
  "W w \<Longrightarrow> keeps P (rest_deleteGroup w me_id i)"
  unfolding rest_createPrivate_def rest_createGroup_def rest_listConversations_def rest_getPresence_def
    rest_getConversation_def rest_muteConversation_def rest_pinConversation_def rest_setDisappearing_def
    rest_addMembers_def rest_setMemberRole_def rest_removeMember_def rest_leave_def rest_updateGroup_def
    rest_deleteGroup_def by (auto intro!: keeps)

lemma keeps_msg [keeps]:
  "W w \<Longrightarrow> keeps P (rest_sendMessage w me_id i dto)"
  "W w \<Longrightarrow> keeps P (rest_editMessage w me_id i messageId body)"
  "W w \<Longrightarrow> keeps P (rest_reactMessage w me_id i messageId emoji)"
  "W w \<Longrightarrow> keeps P (rest_pinMessage w me_id i messageId pinned)"
  "W w \<Longrightarrow> keeps P (rest_forwardMessage w me_id i messageId target)"
  "W w \<Longrightarrow> keeps P (rest_deleteMessage w me_id i messageId forEveryone)"
  "W w \<Longrightarrow> keeps P (rest_typing w me_id i typing)"
  "W w \<Longrightarrow> keeps P (rest_markSeen w me_id i mid)"
  "W w \<Longrightarrow> keeps P (rest_scheduleMessage w me_id i dto scheduledFor)"
  "W w \<Longrightarrow> keeps P (rest_download w me_id i messageId disposition)"
  "W w \<Longrightarrow> keeps P (rest_uploadFile w file)"
  "W w \<Longrightarrow> keeps P (rest_getActiveCall w me_id i)"
  "W w \<Longrightarrow> keeps P (rest_subscribePush w me_id endpoint p256dh authKey)"
  "W w \<Longrightarrow> keeps P (rest_unsubscribePush w me_id endpoint)"
  "W w \<Longrightarrow> keeps P (rest_blockUser w me_id userId)"
  unfolding rest_sendMessage_def rest_editMessage_def rest_reactMessage_def rest_pinMessage_def
    rest_forwardMessage_def rest_deleteMessage_def rest_typing_def rest_markSeen_def rest_scheduleMessage_def
    rest_download_def rest_uploadFile_def rest_getActiveCall_def rest_subscribePush_def
    rest_unsubscribePush_def rest_blockUser_def by (auto intro!: keeps)

lemma keeps_pass [keeps]:
  "W w \<Longrightarrow> keeps P (rest_searchGlobal w me_id q page limit)"
  "W w \<Longrightarrow> keeps P (rest_searchMessages w me_id i q page limit)"
  "W w \<Longrightarrow> keeps P (rest_listMedia w me_id i kind page limit)"
  "W w \<Longrightarrow> keeps P (rest_listMessages w me_id i page limit)"
  "W w \<Longrightarrow> keeps P (rest_listPinnedMessages w me_id i)"
  "W w \<Longrightarrow> keeps P (rest_listScheduledMessages w me_id i)"
  "W w \<Longrightarrow> keeps P (rest_cancelScheduledMessage w me_id i scheduledMessageId)"
  "W w \<Longrightarrow> keeps P (rest_unblockUser w me_id userId)"
  "W w \<Longrightarrow> keeps P (rest_listBlocks w me_id)"
  "W w \<Longrightarrow> keeps P (rest_audit w page limit)"
  "W w \<Longrightarrow> keeps P (rest_auditExport w iso_text)"
  "W w \<Longrightarrow> keeps P (rest_workspaceSettings w)"
  "W w \<Longrightarrow> keeps P (rest_updateWorkspace w me_id appName tagline primaryColor logoUrl)"
  unfolding rest_searchGlobal_def rest_searchMessages_def rest_listMedia_def rest_listMessages_def
    rest_listPinnedMessages_def rest_listScheduledMessages_def rest_cancelScheduledMessage_def
    rest_unblockUser_def rest_listBlocks_def rest_audit_def rest_auditExport_def rest_workspaceSettings_def
    rest_updateWorkspace_def by (auto intro!: keeps)

lemma keeps_account [keeps]:
  "W w \<Longrightarrow> keeps P (post_register w dto)"
  "W w \<Longrightarrow> keeps P (post_login w email password ip userAgent)"
  "W w \<Longrightarrow> keeps P (post_refresh w refreshToken ip userAgent)"
  "W w \<Longrightarrow> keeps P (post_logout w user header rt)"
  "W w \<Longrightarrow> keeps P (get_me w user)"
  "W w \<Longrightarrow> keeps P (patch_password w user header currentPassword newPassword)"
  "W w \<Longrightarrow> keeps P (forgot_password w email)"
  "W w \<Longrightarrow> keeps P (reset_password w token password)"
  "W w \<Longrightarrow> keeps P (verify_email w token)"
  "W w \<Longrightarrow> keeps P (resend_verification w user)"
  "W w \<Longrightarrow> keeps P (create_invite w user iem expiresInDays maxUses)"
  "W w \<Longrightarrow> keeps P (list_invites w)"
  "W w \<Longrightarrow> keeps P (get_invite w token)"
  "W w \<Longrightarrow> keeps P (revoke_invite w i)"
  unfolding post_register_def post_login_def post_refresh_def post_logout_def get_me_def patch_password_def
    forgot_password_def reset_password_def verify_email_def resend_verification_def create_invite_def
    list_invites_def get_invite_def revoke_invite_def by (auto intro!: keeps)

lemma keeps_user [keeps]:
  "W w \<Longrightarrow> keeps P (list_users w q)"
  "W w \<Longrightarrow> keeps P (lookupByUserId w userId)"
  "W w \<Longrightarrow> keeps P (update_me w user dto)"
  "W w \<Longrightarrow> keeps P (uploadAvatar w user file)"
  "W w \<Longrightarrow> keeps P (get_user w i)"
  "W w \<Longrightarrow> keeps P (update_user w i dto)"
  "W w \<Longrightarrow> keeps P (remove_user w i)"
  unfolding list_users_def lookupByUserId_def update_me_def uploadAvatar_def get_user_def update_user_def
    remove_user_def by (auto intro!: keeps)

text \<open>A new connection: its socket is in no room until it is identified, and gone when that fails.\<close>

lemma keeps_handleConnection [keeps]:
  assumes W: "W w"
  shows "keeps P (handleConnection w sid fromAuth header)"
proof -
  define fresh where "fresh ss = filter (\<lambda>s. sk_id s \<noteq> sid) ss
    @ [\<lparr>sk_id = sid, sk_user = None, sk_rooms = [], sk_conversationIds = []\<rparr>]" for ss
  have opened: "P (g\<lparr>gw_sockets := fresh (gw_sockets g)\<rparr>)" if "P g" for g
    using sockets [OF that socket_move.opened, of sid] by (simp add: fresh_def)
  have others: "map (\<lambda>s. if sk_id s = sid then f s else s) (filter (\<lambda>s. sk_id s \<noteq> sid) ss) = filter (\<lambda>s. sk_id s \<noteq> sid) ss"
    for f :: "socket \<Rightarrow> socket" and ss by (rule map_idI) simp
  have identified: "P (snd (update_socket sid (\<lambda>s. join_room (userRoom u) (s\<lparr>sk_user := Some u, sk_conversationIds := []\<rparr>)) g))"
    if "P g" "gw_sockets g = fresh ss" for g u ss
    using sockets [OF that(1) socket_move.identified, of sid u] that(2) others
    by (simp add: fresh_def update_socket_def change_def join_room_def js_uniq_def)
  have admitted: "P (snd (chain (authenticate w fromAuth header) (\<lambda>user. chain (update_socket sid (\<lambda>s. join_room (userRoom (ru_id user))
      (s\<lparr>sk_user := Some (ru_id user), sk_conversationIds := []\<rparr>))) (\<lambda>_. m user)) g))"
    if "P g" "gw_sockets g = fresh ss" "\<And>user. keeps P (m user)" for m :: "authenticated_user \<Rightarrow> unit act" and g ss
    using keepsD [OF keeps_authentication(6) [OF W] that(1), of fromAuth header]
      keepsD [OF authenticate_sockets, OF that(2), of w fromAuth header] identified
    by (auto simp: chain_def update_socket_def change_def split: prod.split sum.split intro!: keepsD [OF that(3)])
  have tried: "P (snd (attempt m h g))" if "P (snd (m g))" "\<And>e. keeps P (h e)" for m :: "unit act" and h g
    using that by (auto simp: attempt_def keeps_def split: prod.split sum.split)
  show ?thesis
    unfolding keeps_def handleConnection_def
    by (auto simp: chain_def [of "change _"] change_def fresh_def [symmetric]
        intro!: tried admitted opened keeps W)
qed

lemma step_keeps: "gateway_step w g g' \<Longrightarrow> W w \<Longrightarrow> P g \<Longrightarrow> P g'"
  by (induction rule: gateway_step.induct) (simp_all add: keepsD keeps)

lemma reach_keeps: "gateway_reach W g0 g \<Longrightarrow> P g0 \<Longrightarrow> P g"
  by (induction rule: gateway_reach.induct) (auto intro: step_keeps)

end

end
