(* ===== verification/GatewayState.thy ===== *)
theory GatewayState
  imports GatewayInvariant
begin

text \<open>
  What stays true of the gateway through every event, by interpretation of
  \<open>gateway_invariant\<close>: the rooms of the sockets, the push subscriptions, the
  blacklist of access tokens, the call sessions, and the databases of the services.
\<close>

section \<open>Rooms\<close>

text \<open>
  What a socket's rooms say: its user's room, if it is identified, and the rooms of
  the conversations it has joined.
\<close>

definition room_ok :: "socket \<Rightarrow> bool" where
  "room_ok s \<longleftrightarrow> set (sk_rooms s) = (case sk_user s of None \<Rightarrow> {} | Some u \<Rightarrow> {userRoom u})
     \<union> conversationRoom ` set (sk_conversationIds s)"

definition rooms_inv :: "gateway \<Rightarrow> bool" where
  "rooms_inv g \<longleftrightarrow> distinct (map sk_id (gw_sockets g)) \<and> (\<forall>s \<in> set (gw_sockets g). room_ok s)"

lemma room_ok_join: "room_ok s \<Longrightarrow> room_ok ((join_room (conversationRoom c) s)\<lparr>sk_conversationIds := js_uniq (sk_conversationIds s @ [c])\<rparr>)"
  by (auto simp: room_ok_def join_room_def)

lemma room_ok_leave:
  "room_ok s \<Longrightarrow> room_ok ((leave_room (conversationRoom c) s)\<lparr>sk_conversationIds := filter (\<lambda>x. x \<noteq> c) (sk_conversationIds s)\<rparr>)"
  by (auto simp: room_ok_def leave_room_def split: option.splits)

lemma room_ok_user: "room_ok s \<Longrightarrow> userRoom u \<in> set (sk_rooms s) \<longleftrightarrow> sk_user s = Some u"
  by (auto simp: room_ok_def split: option.splits)

lemma room_ok_conversation: "room_ok s \<Longrightarrow> conversationRoom c \<in> set (sk_rooms s) \<longleftrightarrow> c \<in> set (sk_conversationIds s)"
  by (auto simp: room_ok_def split: option.splits)

lemma sk_id_rooms [simp]: "sk_id (join_room r s) = sk_id s" "sk_id (leave_room r s) = sk_id s"
  by (simp_all add: join_room_def leave_room_def)

lemma socket_move_rooms:
  assumes "socket_move ss ss'" "distinct (map sk_id ss)" "\<forall>s \<in> set ss. room_ok s"
  shows "distinct (map sk_id ss') \<and> (\<forall>s \<in> set ss'. room_ok s)"
  using assms(1)
proof cases
  case (joined sid c)
  then show ?thesis using assms(2,3) by (auto simp: comp_def if_distrib cong: if_cong intro: room_ok_join)
next
  case (left Q c)
  then show ?thesis using assms(2,3) by (auto simp: comp_def if_distrib cong: if_cong intro: room_ok_leave)
qed (use assms(2,3) in \<open>auto simp: room_ok_def distinct_map_filter\<close>)

interpretation rooms: gateway_invariant rooms_inv "\<lambda>_. True"
  by unfold_locales (simp_all add: rooms_inv_def same_core_def socket_move_rooms)

text \<open>The announcements of a handler leave sockets, calls and memberships as they are.\<close>

definition quiescent :: "socket list \<Rightarrow> call_redis \<Rightarrow> member list \<Rightarrow> gateway \<Rightarrow> bool" where
  "quiescent ss cs ms g \<longleftrightarrow> gw_sockets g = ss \<and> gw_calls g = cs \<and> members (gw_chat g) = ms"

lemma sendMessage_members: "members (snd (sendMessage clk p db)) = members db"
  by (auto simp: sendMessage_def send_call_def send_user_def store_message_def Let_def split: option.split sum.split prod.split)

interpretation quiescent: gateway_quiet "quiescent ss cs ms" "\<lambda>_. True" for ss cs ms
  by unfold_locales (simp_all add: quiescent_def same_core_def chat_step_def sendMessage_members)

lemma quiescent_run: "keeps (quiescent ss cs ms) m \<Longrightarrow> m g = (x, g') \<Longrightarrow> quiescent ss cs ms g \<Longrightarrow> quiescent ss cs ms g'"
  using keepsD [of "quiescent ss cs ms" m g] by simp

section \<open>Push subscriptions\<close>

lemma readAll_frame: "ks_get t (pushKey u) r' = ks_get t (pushKey u) r \<Longrightarrow> readAll t u r' = readAll t u r"
  by (simp add: readAll_def)

lemma push_ok_frame: "push_ok r \<Longrightarrow> (\<And>u t. ks_get t (pushKey u) r' = ks_get t (pushKey u) r) \<Longrightarrow> push_ok r'"
  by (simp add: push_ok_def readAll_def)

lemma gateway_keys [simp]:
  "pushKey a \<noteq> blacklistKey w x" "pushKey a \<noteq> sessionCacheKey b" "sessionCacheKey b \<noteq> blacklistKey w x"
  "blacklistKey w x \<noteq> pushKey a" "blacklistKey w x \<noteq> sessionCacheKey b" "blacklistKey w x \<noteq> cacheKey c"
  "blacklistKey w x \<noteq> onlineKey b" "blacklistKey w x \<noteq> socketsKey b" "blacklistKey w x \<noteq> lastSeenKey b"
  by (simp_all add: pushKey_def blacklistKey_def sessionCacheKey_def cacheKey_def onlineKey_def socketsKey_def
      lastSeenKey_def ONLINE_PREFIX_def)

lemma presence_ops_other:
  assumes "k \<noteq> onlineKey u" "k \<noteq> socketsKey u" "k \<noteq> lastSeenKey u"
  shows "ks_get t' k (snd (connect t u sid r)) = ks_get t' k r"
    "ks_get t' k (snd (disconnect t u sid r)) = ks_get t' k r"
    "ks_get t' k (heartbeat t u r) = ks_get t' k r"
  using assms by (simp_all add: connect_def disconnect_def heartbeat_def Let_def)

lemma member_cache_other: "k \<noteq> cacheKey c \<Longrightarrow> ks_get t' k (setMemberIds t c ms r) = ks_get t' k r"
  "k \<noteq> cacheKey c \<Longrightarrow> ks_get t' k (invalidate c r) = ks_get t' k r"
  by (simp_all add: setMemberIds_def invalidate_def Let_def)

lemma subscription_ops_other:
  assumes "\<And>u. k \<noteq> pushKey u"
  shows "ks_get t' k (subscribe t u sub r) = ks_get t' k r" "ks_get t' k (unsubscribe t u e r) = ks_get t' k r"
  using assms by (auto simp: subscribe_def unsubscribe_def Let_def split: option.split)

lemma key_move_push: "key_move w r r' \<Longrightarrow> push_ok r \<Longrightarrow> push_ok r'"
  by (induction rule: key_move.induct) (simp_all add: push_ok_subscribe push_ok_unsubscribe push_ok_notify
      push_ok_frame presence_ops_other member_cache_other)

interpretation pushes: gateway_invariant "\<lambda>g. push_ok (gw_keys g)" "\<lambda>_. True"
  by unfold_locales (auto simp: same_core_def member_cache_other intro: key_move_push elim: push_ok_frame)

section \<open>Revoked access tokens\<close>

definition revoked_until :: "instant \<Rightarrow> string \<Rightarrow> keyspace \<Rightarrow> bool" where
  "revoked_until T k r \<longleftrightarrow> (\<forall>t < T. ks_exists t k r)"

text \<open>The deployment's secrets and lifetimes are fixed; time does not run before the revocation.\<close>

definition deployed :: "crypto \<Rightarrow> instant \<Rightarrow> world \<Rightarrow> bool" where
  "deployed cr T w \<longleftrightarrow> wd_crypto w = cr \<and> T \<le> at w"

definition revocation_end :: "crypto \<Rightarrow> instant \<Rightarrow> instant" where
  "revocation_end cr T = T + parseDurationSeconds (accessExpiresIn cr) (24 * 60 * 60) * 1000"

definition blacklist_entry :: "crypto \<Rightarrow> string \<Rightarrow> string" where
  "blacklist_entry cr token = ''gateway:token:blacklist:'' @ sha256 cr token"

lemma deployed_blacklist: "deployed cr T w \<Longrightarrow> blacklist_entry cr x = blacklistKey w x"
  by (simp add: deployed_def blacklist_entry_def blacklistKey_def)

lemma key_move_revoked:
  assumes "key_move w r r'" "deployed cr T w" "revoked_until (revocation_end cr T) (blacklist_entry cr x) r"
  shows "revoked_until (revocation_end cr T) (blacklist_entry cr x) r'"
  using assms(1,3) unfolding deployed_blacklist [OF assms(2)]
  using assms(2) by (induction rule: key_move.induct)
    (auto simp: revoked_until_def ks_exists_def presence_ops_other member_cache_other subscription_ops_other notify_other
      deployed_def revocation_end_def access_ttl_def)

lemma member_cache_revoked: "revoked_until T (blacklist_entry cr x) (setMemberIds t c ms r) = revoked_until T (blacklist_entry cr x) r"
  by (simp add: revoked_until_def ks_exists_def member_cache_other blacklist_entry_def cacheKey_def)

interpretation revocations: gateway_invariant
  "\<lambda>g. revoked_until (revocation_end cr T) (blacklist_entry cr x) (gw_keys g)" "deployed cr T" for cr T x
  by unfold_locales (auto simp: same_core_def member_cache_revoked intro: key_move_revoked)

section \<open>Call sessions\<close>

lemma call_move_inv: "call_move w r r' \<Longrightarrow> call_store_inv I r \<Longrightarrow> call_store_inv I r'"
  by (cases rule: call_move.cases) (auto intro: call_effect_keeps createCall_refused_inv)

definition calls_inv :: "(nat \<Rightarrow> uuid) \<Rightarrow> gateway \<Rightarrow> bool" where
  "calls_inv gen g \<longleftrightarrow> inj gen \<and> call_store_inv (gen ` {..<gw_callIds g}) (gw_calls g)"

lemma calls_inv_store: "calls_inv gen g \<Longrightarrow> call_store_inv (gen ` {..<gw_callIds g}) (gw_calls g)"
  by (simp add: calls_inv_def)

lemma calls_inv_same: "calls_inv gen g \<Longrightarrow> gw_calls g' = gw_calls g \<Longrightarrow> gw_callIds g' = gw_callIds g \<Longrightarrow> calls_inv gen g'"
  by (simp add: calls_inv_def)

lemma calls_inv_move: "calls_inv gen g \<Longrightarrow> call_move w (gw_calls g) c' \<Longrightarrow> calls_inv gen (g\<lparr>gw_calls := c'\<rparr>)"
  by (simp add: calls_inv_def call_move_inv)

lemma new_call_inv:
  assumes "calls_inv gen g" and "createCall t keys (gen (gw_callIds g)) i (gw_calls g) = (Inr s, c')"
  shows "calls_inv gen (g\<lparr>gw_calls := c', gw_callIds := Suc (gw_callIds g)\<rparr>)"
proof -
  have "gen (gw_callIds g) \<notin> gen ` {..<gw_callIds g}" using assms(1) by (auto simp: calls_inv_def dest: injD)
  then show ?thesis
    using createCall_inv [of "gen ` {..<gw_callIds g}" "gw_calls g" "gen (gw_callIds g)" t keys i] assms
    by (simp add: calls_inv_def lessThan_Suc)
qed

interpretation call_keys: gateway_invariant "calls_inv gen" "\<lambda>w. wd_uuid w = gen" for gen
  by unfold_locales (auto simp: same_core_def intro: new_call_inv calls_inv_move elim: calls_inv_same)

section \<open>The services behind the gateway\<close>

definition services_inv :: "crypto \<Rightarrow> gateway \<Rightarrow> bool" where
  "services_inv cr g \<longleftrightarrow> chat_inv {} (gw_chat g) \<and> user_inv (gw_users g) \<and> auth_inv cr (gw_auth g)"

interpretation services: gateway_invariant "services_inv cr" "\<lambda>w. wd_crypto w = cr" for cr
  by unfold_locales (auto simp: services_inv_def same_core_def intro: chat_step_inv user_step_inv auth.step_inv)

end
