(* ===== verification/GatewayRuns.thy ===== *)
theory GatewayRuns
  imports GatewayState ChatReads ChatLifecycle UserProperties PresenceProperties
begin

text \<open>
  Successful runs of actions, read backwards: what an answered handler has done, step
  by step; the sockets that a list of users owns; and a sample gateway.
\<close>

section \<open>Inversion\<close>

named_theorems runs "what a successful run has done"

lemma give_run [runs]: "give x g = (Inr y, g') \<longleftrightarrow> x = y \<and> g = g'"
  by (simp add: give_def)

lemma throw_run [runs]: "throw e g = (Inr y, g') \<longleftrightarrow> False"
  by (simp add: throw_def)

lemma ask_run [runs]: "ask f g = (Inr y, g') \<longleftrightarrow> f g = y \<and> g = g'"
  by (simp add: ask_def)

lemma change_run [runs]: "change f g = (Inr y, g') \<longleftrightarrow> f g = g'"
  by (simp add: change_def)

lemma chain_run [runs]: "chain m f g = (Inr y, g') \<longleftrightarrow> (\<exists>x g1. m g = (Inr x, g1) \<and> f x g1 = (Inr y, g'))"
  by (auto simp: chain_def split: prod.split sum.split)

lemma chain_assoc: "chain (chain m f) h = chain m (\<lambda>x. chain (f x) h)"
  by (auto simp: chain_def fun_eq_iff split: prod.split sum.split)

lemma only_if_run [runs]: "only_if b m g = (Inr y, g') \<longleftrightarrow> (if b then m g = (Inr y, g') else g = g')"
  by (simp add: only_if_def give_def)

lemma on_calls_run [runs]: "on_calls f g = (Inr x, g') \<longleftrightarrow> (\<exists>r. f (gw_calls g) = (x, r) \<and> g' = g\<lparr>gw_calls := r\<rparr>)"
  by (auto simp: on_calls_def split: prod.split)

lemma put_keys_run [runs]: "put_keys h g = (Inr y, g') \<longleftrightarrow> g\<lparr>gw_keys := h (gw_keys g)\<rparr> = g'"
  by (simp add: put_keys_def on_keys_def)

lemma typed_run [runs]: "typed expected r g = (Inr x, g') \<longleftrightarrow> expected r = Some x \<and> g = g'"
  by (auto simp: typed_def give_def throw_def split: option.split)

lemma send_run [runs]: "send w field upd handler g = (Inr x, g') \<longleftrightarrow>
    wd_fate w (gw_rpcs g) = Answered \<and> (\<exists>s. handler (field g) = (Inr x, s) \<and> g' = upd s (g\<lparr>gw_rpcs := Suc (gw_rpcs g)\<rparr>))"
  by (auto simp: send_def Let_def split: rpc_fate.split prod.split sum.split)

lemma sendChat_run: "sendChat expected w q g = (Inr x, g') \<longleftrightarrow> wd_fate w (gw_rpcs g) = Answered \<and>
    (\<exists>r db. chat_step (wd_clk w, q) (gw_chat g) = (Inr r, db) \<and> expected r = Some x
      \<and> g' = g\<lparr>gw_rpcs := Suc (gw_rpcs g), gw_chat := db\<rparr>)"
  by (auto simp: sendChat_def runs)

lemma sendUser_run [runs]: "sendUser expected w q g = (Inr x, g') \<longleftrightarrow> wd_fate w (gw_rpcs g) = Answered \<and>
    (\<exists>r db. user_step (wd_clk w, wd_rank w, q) (gw_users g) = (Inr r, db) \<and> expected r = Some x
      \<and> g' = g\<lparr>gw_rpcs := Suc (gw_rpcs g), gw_users := db\<rparr>)"
  by (auto simp: sendUser_def runs)

lemma sendAuth_run [runs]: "sendAuth expected w q g = (Inr x, g') \<longleftrightarrow> wd_fate w (gw_rpcs g) = Answered \<and>
    (\<exists>r db. auth_step (wd_crypto w) (wd_clk w, q) (gw_auth g) = (Inr r, db) \<and> expected r = Some x
      \<and> g' = g\<lparr>gw_rpcs := Suc (gw_rpcs g), gw_auth := db\<rparr>)"
  by (auto simp: sendAuth_def runs)

text \<open>The requests whose reply a handler reads.\<close>

lemma reply_run: "chat_step (clk, q) db = (Inr r, db') \<Longrightarrow> handle_request q clk db = reply f out \<Longrightarrow> \<exists>x. out = (Inr x, db') \<and> r = f x"
  by (cases out; cases "fst out") (auto simp: chat_step_def reply_def)

lemma send_message_run [runs]: "sendChat a_sent w (SendMessage p) g = (Inr x, g') \<longleftrightarrow> wd_fate w (gw_rpcs g) = Answered \<and>
    (\<exists>db. sendMessage (wd_clk w) p (gw_chat g) = (Inr x, db) \<and> g' = g\<lparr>gw_rpcs := Suc (gw_rpcs g), gw_chat := db\<rparr>)"
proof -
  have "chat_step (wd_clk w, SendMessage p) (gw_chat g) = (Inr r, db) \<and> a_sent r = Some x
      \<longleftrightarrow> sendMessage (wd_clk w) p (gw_chat g) = (Inr x, db) \<and> r = RSent x" for r db
    by (cases "sendMessage (wd_clk w) p (gw_chat g)"; cases "fst (sendMessage (wd_clk w) p (gw_chat g))")
      (auto simp: chat_step_def reply_def a_sent_def)
  then show ?thesis by (auto simp: sendChat_run)
qed

lemma roster_request_run: "sendChat a_conversation w (RosterRequest a c oper) g = (Inr v, g') \<Longrightarrow>
    \<exists>db. (\<exists>r. roster_step (wd_clk w) a c oper (gw_chat g) = (Inr r, db)) \<and> g' = g\<lparr>gw_rpcs := Suc (gw_rpcs g), gw_chat := db\<rparr>"
  by (auto simp: sendChat_run chat_step_def)

lemma requireUser_run [runs]: "requireUser sid g = (Inr u, g') \<longleftrightarrow>
    (\<exists>s. find_socket sid g = Some s \<and> sk_user s = Some u) \<and> truthy u \<and> g = g'"
  by (auto simp: requireUser_def runs bind_eq_Some_conv split: option.split if_splits)

lemma required_run [runs]: "required message v g = (Inr x, g') \<longleftrightarrow> v = Some x \<and> truthy x \<and> g = g'"
  by (auto simp: required_def runs split: option.split if_splits)

lemmas require_runs [runs] = required_run [of "''conversationId is required''", folded requireConversationId_def]
  required_run [of "''callId is required''", folded requireCallId_def]
  required_run [of "''toUserId is required''", folded requireToUserId_def]

lemma cache_members_run [runs]:
  "cache_members w c ms g = (Inr y, g') \<longleftrightarrow> g\<lparr>gw_keys := setMemberIds (at w) c ms (gw_keys g)\<rparr> = g'"
  by (simp add: cache_members_def runs)

lemma attempt_give_run [runs]: "attempt m (\<lambda>_. give y) g = (Inr x, g') \<longleftrightarrow> m g = (Inr x, g') \<or> (\<exists>e. m g = (Inl e, g')) \<and> x = y"
  by (auto simp: attempt_def give_def split: prod.split sum.split)

section \<open>Actions that never fail\<close>

named_theorems answers "actions that never throw"

definition never_throws :: "'a act \<Rightarrow> bool" where
  "never_throws m \<longleftrightarrow> (\<forall>g. \<not> isl (fst (m g)))"

lemma never_throws_run: "never_throws m \<Longrightarrow> \<exists>x g'. m g = (Inr x, g')"
  by (metis never_throws_def isl_def prod.collapse sum.exhaust_sel)

lemma chain_answers: "m g = (Inr x, g1) \<Longrightarrow> never_throws (f x) \<Longrightarrow> \<exists>y g'. chain m f g = (Inr y, g')"
  using never_throws_run [of "f x" g1] by (simp add: chain_def)

lemma answers_give [answers]: "never_throws (give x)" "never_throws (ask f)" "never_throws (change h)"
  "never_throws (on_calls c)" "never_throws (on_keys k)" "never_throws (put_keys h')"
  by (simp_all add: never_throws_def action_defs split: prod.split)

lemma answers_chain [answers]: "never_throws m \<Longrightarrow> (\<And>x. never_throws (f x)) \<Longrightarrow> never_throws (chain m f)"
  unfolding never_throws_def chain_def by (auto split: prod.split sum.split) (metis fst_conv isl_def)

lemma answers_attempt [answers]: "(\<And>e. never_throws (h e)) \<Longrightarrow> never_throws (attempt m h)"
  unfolding never_throws_def attempt_def by (auto split: prod.split sum.split)

lemma answers_each [answers]: "(\<And>x. never_throws (f x)) \<Longrightarrow> never_throws (each f xs)"
  by (induction xs) (auto intro: answers)

lemma answers_cases [answers]:
  "never_throws m \<Longrightarrow> never_throws (only_if b m)"
  "never_throws m \<Longrightarrow> never_throws m' \<Longrightarrow> never_throws (if b then m else m')"
  "never_throws m \<Longrightarrow> (\<And>x. never_throws (f x)) \<Longrightarrow> never_throws (case v of None \<Rightarrow> m | Some x \<Rightarrow> f x)"
  "never_throws (f y) \<Longrightarrow> never_throws (Let y f)"
  by (auto simp: only_if_def answers_give split: option.split)

lemma answers_events [answers]:
  "never_throws (emit rooms event p)" "never_throws (cache_members w c ms)" "never_throws (attach w vs)" "never_throws (attach_one w v)"
  unfolding emit_def cache_members_def attach_def attach_one_def by (intro answers)+

lemma answers_broadcasts [answers]:
  "never_throws (emitToMembers event p c us)" "never_throws (broadcastConversationUpdated v us)"
  "never_throws (broadcastRemovedFromGroup c us)" "never_throws (broadcastToCallMembers us event p)"
  "never_throws (announce s)" "never_throws (clearRingTimer c)" "never_throws (startRingTimer w c is)"
  unfolding emitToMembers_def broadcastConversationUpdated_def broadcastRemovedFromGroup_def broadcastToCallMembers_def
    emitCallEventToUser_def announce_def emitCallLobby_def emitCallRoster_def clearRingTimer_def startRingTimer_def
  by (intro answers)+

lemma answers_call_ends [answers]:
  "never_throws (recordCallHistoryMessage w s u reason)" "never_throws (emitCallEnded w s u reason)"
  "never_throws (finishCall w c u reason)" "never_throws (evict_user w c u)" "never_throws (evictUsersFromConversation w c us)"
  unfolding recordCallHistoryMessage_def emitCallEnded_def finishCall_def evict_user_def evictUsersFromConversation_def
    emitCallEventToUser_def forceLeaveConversationRoom_def
  by (intro answers)+

section \<open>The sockets of users\<close>

definition sockets_of :: "uuid list \<Rightarrow> gateway \<Rightarrow> string list" where
  "sockets_of us g = map sk_id (filter (\<lambda>s. case sk_user s of None \<Rightarrow> False | Some u \<Rightarrow> u \<in> set us) (gw_sockets g))"

lemma sockets_in_users:
  assumes "rooms_inv g"
  shows "sockets_in (map userRoom us) (gw_sockets g) = sockets_of us g"
  unfolding sockets_in_def sockets_of_def
proof (intro arg_cong [where f = "map sk_id"] filter_cong refl)
  fix s assume "s \<in> set (gw_sockets g)"
  then have "room_ok s" using assms by (simp add: rooms_inv_def)
  then show "list_ex (\<lambda>r. r \<in> set (map userRoom us)) (sk_rooms s) = (case sk_user s of None \<Rightarrow> False | Some u \<Rightarrow> u \<in> set us)"
    by (auto simp: list_ex_iff room_ok_def split: option.splits)
qed

text \<open>An emission to the rooms of users.\<close>

definition told :: "uuid list \<Rightarrow> string \<Rightarrow> payload \<Rightarrow> gateway \<Rightarrow> emission" where
  "told us event p g = \<lparr>em_rooms = map userRoom us, em_event = event, em_payload = p, em_sockets = sockets_of us g\<rparr>"

lemma emitToMembers_run:
  assumes "rooms_inv g" and "us \<noteq> []"
  shows "emitToMembers event p c us g = (Inr (), g\<lparr>gw_sent := gw_sent g @ [told us event p g]\<rparr>)"
  using assms by (simp add: emitToMembers_def emit_def change_def told_def sockets_in_users)

lemma emit_user_run:
  assumes "rooms_inv g"
  shows "emit [userRoom u] event p g = (Inr (), g\<lparr>gw_sent := gw_sent g @ [told [u] event p g]\<rparr>)"
  using assms sockets_in_users [OF assms, of "[u]"] by (simp add: emit_def change_def told_def)

lemma rooms_inv_frame: "rooms_inv g \<Longrightarrow> gw_sockets g' = gw_sockets g \<Longrightarrow> rooms_inv g'"
  by (simp add: rooms_inv_def)

lemma told_frame: "gw_sockets g' = gw_sockets g \<Longrightarrow> told us event p g' = told us event p g"
  by (simp add: told_def sockets_of_def)

section \<open>What has been emitted\<close>

definition emitted :: "emission \<Rightarrow> gateway \<Rightarrow> bool" where
  "emitted e g \<longleftrightarrow> e \<in> set (gw_sent g)"

lemma keeps_send_frame: "(\<And>g s n. Q (upd s (g\<lparr>gw_rpcs := n\<rparr>)) = Q g) \<Longrightarrow> (\<And>g n. Q (g\<lparr>gw_rpcs := n\<rparr>) = Q g) \<Longrightarrow> keeps Q (send w field upd handler)"
  by (auto simp: keeps_def send_def Let_def split: rpc_fate.split prod.split sum.split)

lemma sent_frame [keeps]:
  "keeps (\<lambda>g. R (gw_sent g)) (on_calls c)" "keeps (\<lambda>g. R (gw_sent g)) (on_keys k)" "keeps (\<lambda>g. R (gw_sent g)) (put_keys h)"
  "keeps (\<lambda>g. R (gw_sent g)) (sendChat e1 w q1)" "keeps (\<lambda>g. R (gw_sent g)) (sendUser e2 w q2)"
  "keeps (\<lambda>g. R (gw_sent g)) (sendAuth e3 w q3)"
  unfolding sendChat_def sendUser_def sendAuth_def
  by (auto intro!: keeps keeps_send_frame) (auto simp: keeps_def action_defs split: prod.split)

lemma sent_guards [keeps]:
  "keeps (\<lambda>g. R (gw_sent g)) (requireUser sid)" "keeps (\<lambda>g. R (gw_sent g)) (required msg v)"
  "keeps (\<lambda>g. R (gw_sent g)) (assertSignalSize p)" "keeps (\<lambda>g. R (gw_sent g)) (cache_members w c ms)"
  "keeps (\<lambda>g. R (gw_sent g)) (assertLiveConversationMember w u c)"
  "keeps (\<lambda>g. R (gw_sent g)) (requireJoinedParticipant w c u)"
  unfolding requireUser_def required_def assertSignalSize_def cache_members_def assertLiveConversationMember_def
    get_conversation_def requireJoinedParticipant_def
  by (auto intro!: keeps)

lemma emitted_parts [keeps]:
  "keeps (emitted e) (emit rooms event p)" "keeps (emitted e) (on_calls c)" "keeps (emitted e) (cache_members w cid ms)"
  "keeps (emitted e) (sendChat e1 w q1)" "keeps (emitted e) (clearRingTimer c2)"
proof -
  show "keeps (emitted e) (emit rooms event p)" "keeps (emitted e) (clearRingTimer c2)"
    by (auto simp: keeps_def emitted_def emit_def change_def clearRingTimer_def)
  show "keeps (emitted e) (on_calls c)" "keeps (emitted e) (cache_members w cid ms)" "keeps (emitted e) (sendChat e1 w q1)"
    using sent_frame(1,4) [of "\<lambda>s. e \<in> set s"] sent_guards(4) [of "\<lambda>s. e \<in> set s"] by (simp_all add: emitted_def [abs_def])
qed

lemma emitted_ends [keeps]:
  "keeps (emitted e) (recordCallHistoryMessage w s u reason)" "keeps (emitted e) (emitCallEnded w s u reason)"
  unfolding recordCallHistoryMessage_def emitCallEnded_def emitToMembers_def emitCallEventToUser_def
  by (auto intro!: keeps)

lemma each_emits:
  assumes "u \<in> set us" and "\<And>v. keeps Q (f v)" "\<And>v. never_throws (f v)" "\<And>v. keeps (emitted e) (f v)"
    and "\<And>g. Q g \<Longrightarrow> emitted e (snd (f u g))" and "Q g"
  shows "emitted e (snd (each f us g))"
  using assms(1,6)
proof (induction us arbitrary: g)
  case (Cons v us)
  obtain g1 where v: "f v g = (Inr (), g1)" using never_throws_run [OF assms(3), of v g] by auto
  have rest: "keeps (emitted e) (each f us)" by (intro keeps assms(4))
  show ?case
  proof (cases "u = v")
    case True
    then show ?thesis using keepsD [OF rest, of g1] assms(5) [OF Cons.prems(2)] v by (simp add: chain_def)
  next
    case False
    then show ?thesis using Cons keepsD [OF assms(2) [of v] Cons.prems(2)] v by (simp add: chain_def)
  qed
qed simp

section \<open>A sample gateway\<close>

text \<open>
  Access tokens of the sample deployment are user identifiers; uploads, web push and
  the mail service are off. Two of the group's members, who
  are in a call, and an outsider are connected.
\<close>

definition demo_payload :: "string \<Rightarrow> jwt_payload option" where
  "demo_payload s = (if s = '''' then None else Some \<lparr>jwt_sub = s, jwt_email = s, jwt_role = ROLE_USER, jwt_access = True\<rparr>)"

definition demo_world :: "instant \<Rightarrow> world" where
  "demo_world t = \<lparr>wd_clk = at_time t, wd_fate = (\<lambda>_. Answered), wd_scan = (\<lambda>_. []), wd_uuid = demo_ids,
     wd_rank = (\<lambda>_. 0), wd_crypto = demo_crypto, wd_jwt = (\<lambda>_. demo_payload),
     wd_passport = (\<lambda>_ h. Option.bind h (\<lambda>s. demo_payload (drop 7 s))), wd_cacheSeconds = 60,
     wd_upload = (\<lambda>_ _ _. None), wd_push = \<lparr>pc_publicKey = '''', pc_privateKey = ''''\<rparr>, wd_deliver = (\<lambda>_. Delivered)\<rparr>"

definition boot_gateway :: "chat_db \<Rightarrow> user_db \<Rightarrow> auth_db \<Rightarrow> gateway" where
  "boot_gateway chat us au = \<lparr>gw_chat = chat, gw_users = us, gw_auth = au, gw_keys = Map.empty, gw_calls = Map.empty,
     gw_sockets = [], gw_rings = Map.empty, gw_invites = Map.empty, gw_graces = [], gw_sent = [], gw_pushed = [],
     gw_deletedFiles = [], gw_rpcs = 0, gw_callIds = 0\<rparr>"

definition user_socket :: "string \<Rightarrow> uuid \<Rightarrow> uuid list \<Rightarrow> socket" where
  "user_socket sid u convs = \<lparr>sk_id = sid, sk_user = Some u, sk_rooms = userRoom u # map conversationRoom convs,
     sk_conversationIds = convs\<rparr>"

definition demo_group_calls :: call_world where
  "demo_group_calls = run_requests call_step
     [(0, [], CreateCall (group_call (demo_ids 0) ''ann'' [''ann'', ''bob'', ''cyd''])), (1, [], Accept (demo_ids 0) ''bob'')]
     (empty_calls demo_ids)"

definition demo_gateway :: gateway where
  "demo_gateway = (boot_gateway demo_chat demo_users demo_auth)
     \<lparr>gw_sockets := [user_socket ''s1'' ''ann'' [demo_ids 0], user_socket ''s2'' ''bob'' [demo_ids 0], user_socket ''s3'' ''eve'' []],
      gw_calls := cw_redis demo_group_calls, gw_callIds := cw_next demo_group_calls\<rparr>"

lemma boot_invariants:
  "rooms_inv (boot_gateway chat us au)" "push_ok (gw_keys (boot_gateway chat us au))"
  "inj gen \<Longrightarrow> calls_inv gen (boot_gateway chat us au)"
  by (simp_all add: boot_gateway_def rooms_inv_def push_ok_def readAll_def ks_get_def calls_inv_def call_store_inv_def
      session_keys_ok_def held_def)

lemma demo_deployment: "wd_crypto (demo_world t) = demo_crypto" "wd_uuid (demo_world t) = demo_ids" "at (demo_world t) = t"
  "wd_fate (demo_world t) n = Answered"
  by (simp_all add: demo_world_def at_def at_time_def)

lemma demo_gateway_inv:
  "rooms_inv demo_gateway" "services_inv demo_crypto demo_gateway" "calls_inv demo_ids demo_gateway"
  "chat_inv {} (gw_chat demo_gateway)"
proof -
  show "rooms_inv demo_gateway"
    by (simp add: rooms_inv_def demo_gateway_def user_socket_def room_ok_def insert_commute)
  show s: "services_inv demo_crypto demo_gateway"
    by (simp add: services_inv_def demo_gateway_def boot_gateway_def demo_chat_inv demo_users_inv demo_auth_inv)
  have "call_world_inv demo_group_calls"
    unfolding demo_group_calls_def by (rule calls.run_inv [OF empty_calls_inv [OF inj_demo_ids]])
  moreover have "cw_gen demo_group_calls = demo_ids" by (simp add: demo_group_calls_def call_step_def empty_calls_def)
  ultimately show "calls_inv demo_ids demo_gateway"
    by (simp add: call_world_inv_def calls_inv_def demo_gateway_def)
  show "chat_inv {} (gw_chat demo_gateway)" using s by (simp add: services_inv_def)
qed

end
