(* ===== verification/GatewayDelivery.thy ===== *)
theory GatewayDelivery
  imports GatewayRuns
begin

text \<open>
  What the gateway promises about delivery and membership: the state every event
  leaves well formed, who receives a message, what a removed member loses, and the
  silence of outsiders.
\<close>

section \<open>Every event\<close>

text \<open>
  C5. Whatever connections, socket messages, requests, timers and dispatcher ticks arrive, in any
  order, with requests to the services answered, lost or unanswered: every socket is exactly in the
  room of its user and the rooms of the conversations it joined, the call sessions and push
  subscriptions are well formed, and the databases of the three services keep their invariants.
\<close>

theorem gateway_state_wf:
  assumes "inj gen" "inj gen2" and "auth_inv cr au"
    and "gateway_reach (\<lambda>w. wd_crypto w = cr \<and> wd_uuid w = gen3) (boot_gateway (empty_db gen) (empty_users gen2) au) g"
    and "inj gen3"
  shows "rooms_inv g \<and> calls_inv gen3 g \<and> push_ok (gw_keys g) \<and> services_inv cr g"
proof -
  have weaker: "gateway_reach W (boot_gateway (empty_db gen) (empty_users gen2) au) g"
    if "\<And>w. wd_crypto w = cr \<and> wd_uuid w = gen3 \<Longrightarrow> W w" for W
    using assms(4) by (induction rule: gateway_reach.induct) (auto intro: gateway_reach.intros that)
  have "services_inv cr (boot_gateway (empty_db gen) (empty_users gen2) au)"
    using assms(1-3) by (simp add: services_inv_def boot_gateway_def empty_db_inv empty_users_inv)
  then show ?thesis
    using boot_invariants assms(5) by (auto intro: weaker rooms.reach_keeps call_keys.reach_keeps pushes.reach_keeps services.reach_keeps)
qed

theorem gateway_state_wf_witness:
  "\<exists>g. rooms_inv (snd (handleConnection (demo_world 1) ''s1'' (Some ''ann'') None g)) \<and> g = boot_gateway (empty_db demo_ids) (empty_users demo_ids) demo_auth"
  using gateway_state_wf [OF inj_demo_ids inj_demo_ids demo_auth_inv gateway_reach.step [OF gateway_reach.start _ gateway_step.intros(1) [OF refl]] inj_demo_ids,
      of "demo_world 1"]
  by (simp add: demo_deployment)

section \<open>Messages\<close>

lemma recipientIds_active [simp]: "recipientIds (active_members db c) = map fst (roster db c)"
  by (simp add: recipientIds_def roster_def entry_def comp_def)




section \<open>Removal from a group\<close>

lemma removeMember_gone:
  assumes "membership_inv db" and "roster_step clk a c (RemoveMember u) db = (Inr r, db')"
  shows "u \<notin> fst ` set (roster db' c)"
proof -
  obtain v where run: "removeMember clk a c u db = (Inr v, db')"
    using assms(2) by (cases "removeMember clk a c u db"; cases "fst (removeMember clk a c u db)") (auto simp: reply_def)
  obtain conv where "requireMembership db c a = Inr conv" using run by (auto simp: removeMember_def split: sum.splits)
  then obtain cv me where cv: "find_conversation db c = Some cv" and me: "find (\<lambda>m. mb_user m = a) (active_members db c) = Some me"
    by (rule requireMembership_Inr_find)
  have "roster_spec (c_type cv) (c_createdBy cv) None a (mb_role me) (RemoveMember u) (roster db c) = Inr (roster db' c)"
    using removeMember_refines [OF assms(1) cv me, of clk u None] run by (simp add: roster_result_def)
  then have "roster db' c = roster_remove u (roster db c)"
    by (auto simp: admin_only_def split: if_splits option.splits)
  then show ?thesis by (auto simp: roster_remove_def)
qed

lemma revoke_clears:
  assumes "call_store_inv I r" and "revokeUserFromConversation t keys c u r = (res, r')"
    and "getByConversation t keys c r = (Some s, r1)"
  shows "case session_at t r' (cs_callId s) of None \<Rightarrow> True | Some s' \<Rightarrow> \<not> isMember s' u \<and> \<not> isJoined s' u"
proof (cases res)
  case None
  have "session_ok s" using getByConversation_props(2) [OF assms(1,3)] by simp
  then have "\<not> isMember s u \<and> \<not> isJoined s u" "r' = r1"
    using assms(2,3) None by (auto simp: revokeUserFromConversation_def Let_def session_ok_def split: if_splits)
  then show ?thesis using getByConversation_session [OF assms(1,3)] by simp
next
  case (Some lr)
  have "cs_callId (lr_session lr) = cs_callId s"
    using assms(2,3) Some by (auto simp: revokeUserFromConversation_def Let_def split: if_splits)
  then show ?thesis
    using revoke_effect(2,4) [OF assms(1), of t keys c u lr r'] assms(2) Some
    by (auto simp: isMember_def isJoined_def split: if_splits)
qed

definition out_of_room :: "uuid \<Rightarrow> uuid \<Rightarrow> socket list \<Rightarrow> bool" where
  "out_of_room u c ss \<longleftrightarrow>
     (\<forall>s\<in>set ss. sk_user s = Some u \<longrightarrow> conversationRoom c \<notin> set (sk_rooms s) \<and> c \<notin> set (sk_conversationIds s))"

lemma evict_user_run:
  assumes "evict_user w c u g = (Inr (), g')" and "\<forall>s\<in>set (gw_sockets g). room_ok s"
  shows "out_of_room u c (gw_sockets g')" "members (gw_chat g') = members (gw_chat g)"
    "gw_calls g' = snd (revokeUserFromConversation (at w) (wd_scan w (gw_calls g)) c u (gw_calls g))"
proof -
  define g1 where "g1 = snd (forceLeaveConversationRoom c u g)"
  have g1: "forceLeaveConversationRoom c u g = (Inr (), g1)" and same: "gw_calls g1 = gw_calls g" "gw_chat g1 = gw_chat g"
    by (simp_all add: g1_def forceLeaveConversationRoom_def change_def)
  have out: "out_of_room u c (gw_sockets g1)"
    unfolding out_of_room_def g1_def forceLeaveConversationRoom_def change_def
    using assms(2) by (simp add: leave_room_def) (auto simp: room_ok_user)
  obtain res r where r: "revokeUserFromConversation (at w) (wd_scan w (gw_calls g)) c u (gw_calls g) = (res, r)"
    by (cases "revokeUserFromConversation (at w) (wd_scan w (gw_calls g)) c u (gw_calls g)")
  obtain m where m: "evict_user w c u g = m (g1\<lparr>gw_calls := r\<rparr>)"
    and quiet: "keeps (quiescent (gw_sockets g1) r (members (gw_chat g))) m"
    using that [of "case res of None \<Rightarrow> give () | Some rv \<Rightarrow> _ rv"]
    by (simp add: evict_user_def chain_def g1 on_calls_def r same) (auto intro!: keeps)
  have "m (g1\<lparr>gw_calls := r\<rparr>) = (Inr (), g')" using m assms(1) by simp
  then have "quiescent (gw_sockets g1) r (members (gw_chat g)) g'"
    by (rule quiescent_run [OF quiet]) (simp add: quiescent_def same)
  with out r show "out_of_room u c (gw_sockets g')" "members (gw_chat g') = members (gw_chat g)"
    "gw_calls g' = snd (revokeUserFromConversation (at w) (wd_scan w (gw_calls g)) c u (gw_calls g))"
    by (simp_all add: quiescent_def)
qed

text \<open>
  C9. A member removed from a group is out of it everywhere: not on the roster, none of their
  sockets in the conversation's room, and neither member of nor joined in the call that runs there.
\<close>

theorem removed_member_is_evicted:
  assumes "rooms_inv g" "calls_inv gen g" "chat_inv {} (gw_chat g)" and "rest_removeMember w a c u g = (Inr v, g')"
  shows "u \<notin> fst ` set (roster (gw_chat g') c)
    \<and> (\<forall>s\<in>set (gw_sockets g'). sk_user s = Some u \<longrightarrow> conversationRoom c \<notin> set (sk_rooms s) \<and> c \<notin> set (sk_conversationIds s))
    \<and> (\<forall>s r. getByConversation (at w) (wd_scan w (gw_calls g)) c (gw_calls g) = (Some s, r) \<longrightarrow>
         (case session_at (at w) (gw_calls g') (cs_callId s) of None \<Rightarrow> True | Some s' \<Rightarrow> \<not> isMember s' u \<and> \<not> isJoined s' u))"
proof -
  define prefix where "prefix v0 = chain (attach_one w v0) (\<lambda>data. chain (cache_members w c (member_ids data)) (\<lambda>_.
       chain (broadcastConversationUpdated data (member_ids data)) (\<lambda>_. chain (broadcastRemovedFromGroup c [u]) (\<lambda>_. give data))))" for v0
  obtain v0 g1 g2 where roster: "sendChat a_conversation w (RosterRequest a c (RemoveMember u)) g = (Inr v0, g1)"
    and told: "prefix v0 g1 = (Inr v, g2)" and evict: "evict_user w c u g2 = (Inr (), g')"
  proof -
    have "rest_removeMember w a c u = chain (sendChat a_conversation w (RosterRequest a c (RemoveMember u)))
        (\<lambda>v0. chain (prefix v0) (\<lambda>data. chain (evictUsersFromConversation w c [u]) (\<lambda>_. give data)))"
      by (simp add: rest_removeMember_def prefix_def chain_assoc)
    then show ?thesis using assms(4) that by (auto simp: chain_run give_run evictUsersFromConversation_def)
  qed
  obtain db r where step: "roster_step (wd_clk w) a c (RemoveMember u) (gw_chat g) = (Inr r, db)"
    and g1: "g1 = g\<lparr>gw_rpcs := Suc (gw_rpcs g), gw_chat := db\<rparr>"
    using roster_request_run [OF roster] by auto
  have "keeps (quiescent (gw_sockets g) (gw_calls g) (members db)) (prefix v0)"
    unfolding prefix_def by (auto intro!: keeps)
  from quiescent_run [OF this told] have q: "gw_sockets g2 = gw_sockets g" "gw_calls g2 = gw_calls g" "members (gw_chat g2) = members db"
    by (simp_all add: g1 quiescent_def)
  have rooms: "\<forall>s\<in>set (gw_sockets g2). room_ok s" using assms(1) q by (simp add: rooms_inv_def)
  note e = evict_user_run [OF evict rooms]
  have "roster (gw_chat g') c = roster db c" using e(2) q(3) by (rule roster_cong [OF trans])
  then have "u \<notin> fst ` set (roster (gw_chat g') c)" using removeMember_gone [OF chat_invD(1) [OF assms(3)] step] by simp
  moreover have "case session_at (at w) (gw_calls g') (cs_callId s) of None \<Rightarrow> True | Some s' \<Rightarrow> \<not> isMember s' u \<and> \<not> isJoined s' u"
    if "getByConversation (at w) (wd_scan w (gw_calls g)) c (gw_calls g) = (Some s, r1)" for s r1
    using revoke_clears [OF calls_inv_store [OF assms(2)] prod.collapse [symmetric] that, of u] e(3) q(2) by simp
  ultimately show ?thesis using e(1) by (simp add: out_of_room_def)
qed

theorem removed_member_is_evicted_witness:
  "\<exists>v g'. rest_removeMember (demo_world 7000) ''ann'' (demo_ids 0) ''bob'' demo_gateway = (Inr v, g')
    \<and> ''bob'' \<notin> fst ` set (roster (gw_chat g') (demo_ids 0))"
proof -
  let ?w = "demo_world 7000" and ?c = "demo_ids 0"
  let ?send = "sendChat a_conversation ?w (RosterRequest ''ann'' ?c (RemoveMember ''bob'')) demo_gateway"
  have "\<not> isl (fst ?send)" by code_simp
  then obtain v0 g1 where send: "?send = (Inr v0, g1)" by (cases ?send; cases "fst ?send") auto
  have "\<exists>v g'. rest_removeMember ?w ''ann'' ?c ''bob'' demo_gateway = (Inr v, g')"
    unfolding rest_removeMember_def by (rule chain_answers, rule send) (intro answers)
  then obtain v g' where "rest_removeMember ?w ''ann'' ?c ''bob'' demo_gateway = (Inr v, g')" by blast
  with removed_member_is_evicted [OF demo_gateway_inv(1,3,4) this] show ?thesis by blast
qed

end
