(* ===== verification/GatewayAccess.thy ===== *)
theory GatewayAccess
  imports GatewayRuns
begin

text \<open>
  What the gateway promises about access: replies of the services have the shape
  their readers expect, a revoked access token is refused until it would have
  expired, a failed registration leaves no account behind, and last-seen times are
  hidden where their owner asked for it.
\<close>

section \<open>Replies\<close>




definition answered :: "('a \<Rightarrow> bool) \<Rightarrow> rpc_error + 'a \<Rightarrow> bool" where
  "answered expected out = (case out of Inl e \<Rightarrow> True | Inr r \<Rightarrow> expected r)"

lemma answered_map [simp]: "answered expected (map_sum id f out) = answered (\<lambda>x. expected (f x)) out"
  by (cases out) (simp_all add: answered_def)

lemma answered_any [simp]: "answered (\<lambda>_. True) out" "answered expected (Inl e)" "answered expected (Inr r) = expected r"
  by (simp_all add: answered_def split: sum.split)



section \<open>Access tokens\<close>

text \<open>The header that clients send.\<close>

definition bearer :: "string \<Rightarrow> string" where
  "bearer token = ''Bearer '' @ token"

lemma bearer_token [simp]: "access_token_of (Some (bearer token)) = Some token" "extractBearer (Some (bearer token)) = Some token"
  by (simp_all add: access_token_of_def extractBearer_def starts_with_def bearer_def)




section \<open>Last-seen times\<close>

definition lets_see :: "user_db \<Rightarrow> uuid \<Rightarrow> bool" where
  "lets_see db u = (case find_profile db u of None \<Rightarrow> True | Some p \<Rightarrow> up_showLastSeen p)"

lemma shows_last_seen_run:
  assumes "\<And>n. wd_fate w n = Answered"
  shows "shows_last_seen w u g = (Inr (lets_see (gw_users g) u), g\<lparr>gw_rpcs := Suc (gw_rpcs g)\<rparr>)"
  by (simp add: shows_last_seen_def lookupByUserId_def sendUser_def chain_def attempt_def send_def assms user_step_def
      findByUserId_def lets_see_def typed_def a_profile_def action_defs toProfileView_def split: option.split)

lemma hidden_among_run:
  assumes "\<And>n. wd_fate w n = Answered"
  shows "\<exists>n. hidden_among w us g = (Inr (filter (\<lambda>u. \<not> lets_see (gw_users g) u) us), g\<lparr>gw_rpcs := n\<rparr>)"
proof (induction us arbitrary: g)
  case Nil
  show ?case by (intro exI [of _ "gw_rpcs g"]) (simp add: give_def)
next
  case (Cons u us)
  obtain n where "hidden_among w us (g\<lparr>gw_rpcs := Suc (gw_rpcs g)\<rparr>)
      = (Inr (filter (\<lambda>u. \<not> lets_see (gw_users g) u) us), g\<lparr>gw_rpcs := n\<rparr>)"
    using Cons [of "g\<lparr>gw_rpcs := Suc (gw_rpcs g)\<rparr>"] by auto
  then show ?case by (auto simp: chain_def shows_last_seen_run [OF assms] give_def)
qed

lemma presence_of_facts: "pv_userId (presence_of t r u) = u" "pv_status (presence_of t r u) \<noteq> OFFLINE \<Longrightarrow> pv_lastSeenAt (presence_of t r u) = None"
  by (auto simp: presence_of_def Let_def split: if_splits)

definition hides_last_seen :: "uuid \<Rightarrow> conversation_view \<Rightarrow> bool" where
  "hides_last_seen u v \<longleftrightarrow> (\<forall>m\<in>set (cv_members v). mv_userId m = u \<longrightarrow> mv_lastSeenAt m = None)"

definition attached :: "conversation_view \<Rightarrow> bool" where
  "attached v \<longleftrightarrow> (\<forall>m\<in>set (cv_members v). mv_lastSeenAt m = None \<or> mv_status m = OFFLINE)"

lemma attachToConversations_attached: "list_all attached (attachToConversations t r vs)"
  by (auto simp: list_all_iff attached_def attachToConversations_def Let_def getMany_eq presence_of_def split: option.splits if_splits)

lemma applyLastSeenPrivacy_run:
  assumes "\<And>n. wd_fate w n = Answered" and "\<not> lets_see (gw_users g) u" and "list_all attached vs"
    and "applyLastSeenPrivacy w vs g = (Inr vs', g')"
  shows "list_all (hides_last_seen u) vs' \<and> length vs' = length vs"
proof -
  obtain n where "hidden_among w (seen_users vs) g = (Inr (filter (\<lambda>u. \<not> lets_see (gw_users g) u) (seen_users vs)), g\<lparr>gw_rpcs := n\<rparr>)"
    using hidden_among_run [OF assms(1)] by blast
  then have vs': "vs' = map (hide_last_seen (filter (\<lambda>u. \<not> lets_see (gw_users g) u) (seen_users vs))) vs"
    using assms(4) by (simp add: applyLastSeenPrivacy_def chain_def give_def)
  have "mv_userId m \<in> set (seen_users vs)" if "v \<in> set vs" "m \<in> set (cv_members v)" "mv_lastSeenAt m \<noteq> None" for v m
    using assms(3) that by (force simp: seen_users_def attached_def list_all_iff)
  then show ?thesis
    using assms(2) by (force simp: vs' list_all_iff hides_last_seen_def hide_last_seen_def split: if_splits)
qed

text \<open>
  C26. A user who hides their last-seen time is never shown with one: not by a presence lookup, not in
  a conversation that is read, not in the list of conversations, as long as the lookups of the
  privacy setting are answered.
\<close>

theorem last_seen_is_private:
  assumes "\<And>n. wd_fate w n = Answered" and "\<not> lets_see (gw_users g) u"
  shows "(rest_getPresence w u g = (Inr p, g1) \<longrightarrow> pv_lastSeenAt p = None)
    \<and> (rest_getConversation w a c g = (Inr v, g2) \<longrightarrow> hides_last_seen u v)
    \<and> (rest_listConversations w a page limit g = (Inr (vs, meta), g3) \<longrightarrow> list_all (hides_last_seen u) vs)"
proof (intro conjI impI)
  show "pv_lastSeenAt p = None" if "rest_getPresence w u g = (Inr p, g1)"
    using that assms(2) by (auto simp: rest_getPresence_def chain_def ask_def give_def stripLastSeenIfHidden_def getPresence_eq
        shows_last_seen_run [OF assms(1)] presence_of_facts split: if_splits)
next
  assume "rest_getConversation w a c g = (Inr v, g2)"
  then obtain g' r0 vs v0 where run: "applyLastSeenPrivacy w [hd (attachToConversations (at w) r0 [v0])] g' = (Inr vs, g2)"
    and g': "gw_users g' = gw_users g" and v: "v = hd vs"
    by (auto simp: rest_getConversation_def private_one_def get_conversation_def attach_one_def runs sendChat_run)
  have "list_all attached [hd (attachToConversations (at w) r0 [v0])]"
    using attachToConversations_attached [of "at w" r0 "[v0]"] by (simp add: attachToConversations_def Let_def)
  from applyLastSeenPrivacy_run [OF assms(1) _ this run, of u] show "hides_last_seen u v"
    using assms(2) g' v by (cases vs) auto
next
  assume "rest_listConversations w a page limit g = (Inr (vs, meta), g3)"
  then obtain g' r0 vs0 where run: "applyLastSeenPrivacy w (attachToConversations (at w) r0 vs0) g' = (Inr vs, g3)"
    and "gw_users g' = gw_users g"
    by (auto simp: rest_listConversations_def attach_def runs sendChat_run)
  with applyLastSeenPrivacy_run [OF assms(1) _ attachToConversations_attached run, of u] assms(2)
  show "list_all (hides_last_seen u) vs" by simp
qed

theorem last_seen_is_private_witness:
  "\<exists>g. map_option pv_lastSeenAt (getMany 7000 [''u1''] (gw_keys g) ''u1'') = Some (Some 100)
    \<and> map_sum (\<lambda>_. ()) pv_lastSeenAt (fst (rest_getPresence (demo_world 7000) ''u1'' g)) = Inr None"
proof -
  let ?us = "demo_users\<lparr>profiles := map (\<lambda>p. p\<lparr>up_showLastSeen := False\<rparr>) (profiles demo_users)\<rparr>"
  let ?g = "demo_gateway\<lparr>gw_users := ?us, gw_keys := snd (disconnect 100 ''u1'' ''s'' Map.empty)\<rparr>"
  let ?run = "rest_getPresence (demo_world 7000) ''u1'' ?g"
  have facts: "\<not> lets_see ?us ''u1''" "\<not> isl (fst ?run)"
    "map_option pv_lastSeenAt (getMany 7000 [''u1''] (gw_keys ?g) ''u1'') = Some (Some 100)" by code_simp+
  then obtain p g1 where run: "?run = (Inr p, g1)" by (cases ?run; cases "fst ?run") auto
  show ?thesis using last_seen_is_private [of "demo_world 7000" ?g "''u1''" p g1] facts run
    by (intro exI [of _ ?g]) (simp add: demo_deployment)
qed

section \<open>Registration\<close>





definition demo_registration :: register_dto where
  "demo_registration = \<lparr>rd_email = ''Zoe@x.io'', rd_password = ''pw'', rd_firstName = ''Zoe'', rd_lastName = ''Z'', rd_inviteToken = None\<rparr>"


text \<open>
  C28. When the account service does its part of a registration but its answer is lost, the account
  stays without a profile: the client sees a timeout, nothing is taken back, and every further
  registration with that email is refused as a conflict for as long as the account exists.
\<close>

theorem lost_reply_orphans_account:
  assumes "auth_inv cr (gw_auth g)" and "wd_crypto w = cr" and "wd_fate w (gw_rpcs g) = ReplyLost"
    and "register cr (wd_clk w) (rd_email dto) (rd_password dto) (rd_inviteToken dto) (gw_auth g) = (Inr result, db1)"
  shows "\<exists>g'. post_register w dto g = (Inl TIMED_OUT, g') \<and> gw_users g' = gw_users g
    \<and> map_option toView (find_email (gw_auth g') (normalize_email (rd_email dto))) = Some (fst result)
    \<and> (wd_fate w2 (gw_rpcs g') = Answered \<and> normalize_email (rd_email dto2) = normalize_email (rd_email dto)
        \<longrightarrow> fst (post_register w2 dto2 g') = Inl (RpcException (conflict ''An account with this email already exists'')))"
proof -
  let ?g = "g\<lparr>gw_rpcs := Suc (gw_rpcs g), gw_auth := db1\<rparr>"
  obtain x where x: "users db1 = users (gw_auth g) @ [x]" "au_email x = normalize_email (rd_email dto)" "au_deletedAt x = None"
      "fst result = toView x"
    using registered_row [of cr "wd_clk w" "rd_email dto" "rd_password dto" "rd_inviteToken dto" "gw_auth g" "fst result" "snd result"]
      assms(4) by auto
  have "auth_inv cr db1" using soundD(1) [OF sound_register assms(1)] assms(4) by (metis snd_conv)
  then have found: "find_email db1 (normalize_email (rd_email dto)) = Some x"
    using live_email [of x db1 cr] x by (simp add: live_users_def)
  have "post_register w dto g = (Inl TIMED_OUT, ?g)"
    using assms(2-4) by (simp add: post_register_def sendAuth_def chain_def send_def answer_as_def)
  moreover have "fst (post_register w2 dto2 ?g) = Inl (RpcException (conflict ''An account with this email already exists''))"
    if "wd_fate w2 (Suc (gw_rpcs g)) = Answered" "normalize_email (rd_email dto2) = normalize_email (rd_email dto)"
    using that found by (simp add: post_register_def sendAuth_def chain_def send_def answer_as_def register_def)
  ultimately show ?thesis using found x(4) by simp
qed

theorem lost_reply_orphans_account_witness:
  "\<exists>g'. fst (post_register (demo_world 9000) demo_registration g')
      = Inl (RpcException (conflict ''An account with this email already exists'')) \<and> gw_users g' = demo_users"
proof -
  let ?w = "(demo_world 7000)\<lparr>wd_fate := (\<lambda>_. ReplyLost)\<rparr>"
  let ?run = "register demo_crypto (wd_clk ?w) (rd_email demo_registration) (rd_password demo_registration)
    (rd_inviteToken demo_registration) demo_auth"
  have "\<not> isl (fst ?run)" by code_simp
  then obtain r db1 where run: "?run = (Inr r, db1)" by (cases ?run; cases "fst ?run") auto
  have "gw_auth demo_gateway = demo_auth" "gw_users demo_gateway = demo_users" by (simp_all add: demo_gateway_def boot_gateway_def)
  with lost_reply_orphans_account [of demo_crypto demo_gateway ?w demo_registration r db1 "demo_world 9000" demo_registration] run demo_auth_inv
  show ?thesis by (auto simp: demo_deployment)
qed

end
