(* ===== verification/GatewayCalls.thy ===== *)
theory GatewayCalls
  imports GatewayRuns
begin

text \<open>
  What the gateway promises about calls: how many a user may start, whom an
  invitation reaches, what happens to one nobody answers, and who may signal to whom.
\<close>

section \<open>Invite slots\<close>

text \<open>The invites that a sequence of attempts is granted, with their instants.\<close>

fun invite_run :: "(world \<times> uuid) list \<Rightarrow> gateway \<Rightarrow> (uuid \<times> instant) list" where
  "invite_run [] g = []"
| "invite_run ((w, u) # xs) g = (case takeCallInviteSlot w u g of
     (Inr None, g') \<Rightarrow> (u, at w) # invite_run xs g' | (_, g') \<Rightarrow> invite_run xs g')"

fun slot_run :: "instant list \<Rightarrow> instant list \<Rightarrow> instant list" where
  "slot_run stamps [] = []"
| "slot_run stamps (t # ts) = (if fst (invite_slot t stamps) then t # slot_run (snd (invite_slot t stamps)) ts
     else slot_run stamps ts)"

lemma takeCallInviteSlot_eq: "takeCallInviteSlot w u g = (let slot = invite_slot (at w) (nullish (gw_invites g u) []) in
    if fst slot then (Inr None, g\<lparr>gw_invites := (gw_invites g)(u \<mapsto> snd slot)\<rparr>)
    else (Inr (Some ''Too many call invites. Please wait a moment.''), g))"
  by (simp add: takeCallInviteSlot_def action_defs Let_def)

lemma invite_run_user:
  "map snd (filter (\<lambda>(u', t). u' = u) (invite_run xs g))
     = slot_run (nullish (gw_invites g u) []) (map (\<lambda>(w, _). at w) (filter (\<lambda>(w, u'). u' = u) xs))"
  by (induction xs g rule: invite_run.induct)
    (auto simp: takeCallInviteSlot_eq Let_def nullish_def split: if_splits option.splits)

definition window :: "instant \<Rightarrow> instant list \<Rightarrow> instant list" where
  "window T ts = filter (\<lambda>t. T \<le> t \<and> t < T + 60000) ts"

lemma slot_run_times: "set (slot_run S ts) \<subseteq> set ts"
  by (induction ts arbitrary: S) auto

lemma slot_run_bounded:
  assumes "sorted ts" and "\<And>T. length (window T S) \<le> 5"
  shows "length (window T (S @ slot_run S ts)) \<le> 5"
  using assms
proof (induction ts arbitrary: S)
  case (Cons t ts)
  show ?case
  proof (cases "fst (invite_slot t S)")
    case False
    then show ?thesis using Cons by simp
  next
    case True
    let ?recent = "filter (\<lambda>ts. t - ts < 60000) S"
    have slot: "snd (invite_slot t S) = ?recent @ [t]" "length ?recent < 5"
      using True by (auto simp: invite_slot_def Let_def CALL_INVITE_WINDOW_MS_def CALL_INVITE_MAX_PER_WINDOW_def split: if_splits)
    have "length (window T' (?recent @ [t])) \<le> 5" for T'
      using le_trans [OF length_filter_le [of _ ?recent]] slot(2) by (simp add: window_def)
    then have later: "length (window T ((?recent @ [t]) @ slot_run (?recent @ [t]) ts)) \<le> 5"
      by (intro Cons.IH) (use Cons.prems(1) in simp_all)
    show ?thesis
    proof (cases "T + 60000 \<le> t")
      case True
      have "window T (t # slot_run (?recent @ [t]) ts) = []"
        using True Cons.prems(1) slot_run_times [of "?recent @ [t]" ts] by (fastforce simp: window_def filter_empty_conv)
      then show ?thesis using Cons.prems(2) \<open>fst (invite_slot t S)\<close> slot by (simp add: window_def)
    next
      case False
      then have "window T S = window T ?recent" by (auto simp: window_def intro!: filter_cong)
      then show ?thesis using later \<open>fst (invite_slot t S)\<close> slot by (simp add: window_def)
    qed
  qed
qed (simp add: window_def)

text \<open>
  C31. Whatever users try to start calls or to invite more people, in whatever order: while the clock
  does not run backwards, no user is granted more than five invites in any sixty seconds.
\<close>

theorem invite_rate_bounded:
  assumes "sorted (map (\<lambda>(w, _). at w) xs)" and "gw_invites g u = None"
  shows "length (filter (\<lambda>(u', t). u' = u \<and> T \<le> t \<and> t < T + CALL_INVITE_WINDOW_MS) (invite_run xs g)) \<le> CALL_INVITE_MAX_PER_WINDOW"
proof -
  let ?times = "map (\<lambda>(w, _). at w) (filter (\<lambda>(w, u'). u' = u) xs)"
  have "sorted ?times" using assms(1) by (rule sorted_filter)
  then have "length (window T (slot_run [] ?times)) \<le> 5" using slot_run_bounded [of ?times "[]" T] by (simp add: window_def)
  moreover let ?granted = "filter (\<lambda>(u', t). u' = u) (invite_run xs g)"
  have "filter (\<lambda>(u', t). u' = u \<and> T \<le> t \<and> t < T + 60000) (invite_run xs g) = filter (\<lambda>x. T \<le> snd x \<and> snd x < T + 60000) ?granted"
    by (auto intro!: filter_cong)
  moreover have "length (filter (\<lambda>x. T \<le> snd x \<and> snd x < T + 60000) ?granted) = length (window T (map snd ?granted))"
    by (simp add: window_def filter_map comp_def)
  ultimately show ?thesis
    using invite_run_user [of u xs g] assms(2) by (simp add: CALL_INVITE_WINDOW_MS_def CALL_INVITE_MAX_PER_WINDOW_def nullish_def)
qed

theorem invite_rate_bounded_witness:
  "length (invite_run (map (\<lambda>t. (demo_world t, ''ann'')) [0, 1000, 2000, 3000, 4000, 5000, 60000]) demo_gateway) = 6
    \<and> length (filter (\<lambda>(u, t). u = ''ann'' \<and> 0 \<le> t \<and> t < 0 + CALL_INVITE_WINDOW_MS)
        (invite_run (map (\<lambda>t. (demo_world t, ''ann'')) [0, 1000, 2000, 3000, 4000, 5000, 60000]) demo_gateway)) \<le> 5"
  (is "length ?granted = 6 \<and> _")
proof -
  have "length ?granted = 6" by code_simp
  moreover have "gw_invites demo_gateway ''ann'' = None" by (simp add: demo_gateway_def boot_gateway_def)
  ultimately show ?thesis
    using invite_rate_bounded [of "map (\<lambda>t. (demo_world t, ''ann'')) [0, 1000, 2000, 3000, 4000, 5000, 60000]" demo_gateway "''ann''" 0]
    by (simp add: demo_deployment CALL_INVITE_MAX_PER_WINDOW_def)
qed

section \<open>Calls nobody answers\<close>















section \<open>Signalling\<close>

lemma get_conversation_member:
  assumes "get_conversation w u c g = (Inr v, g')"
  shows "u \<in> fst ` set (roster (gw_chat g) c)" "gw_calls g' = gw_calls g" "gw_sent g' = gw_sent g" "gw_sockets g' = gw_sockets g"
proof -
  obtain r db where r: "chat_step (wd_clk w, GetConversation u c) (gw_chat g) = (Inr r, db)"
    and g': "g' = g\<lparr>gw_rpcs := Suc (gw_rpcs g), gw_chat := db\<rparr>"
    using assms by (auto simp: get_conversation_def sendChat_run)
  have "\<not> isl (requireMembership (gw_chat g) c u)"
    using r by (auto simp: chat_step_def query_def getConversation_def split: sum.splits)
  then show "u \<in> fst ` set (roster (gw_chat g) c)"
    using requireMembership_outsider [of "gw_chat g" c u] by (metis isl_def)
  show "gw_calls g' = gw_calls g" "gw_sent g' = gw_sent g" "gw_sockets g' = gw_sockets g" by (simp_all add: g')
qed

lemma assertLiveConversationMember_run: "assertLiveConversationMember w u c g = (Inr y, g') \<longleftrightarrow> (\<exists>v. get_conversation w u c g = (Inr v, g'))"
  by (auto simp: assertLiveConversationMember_def attempt_def chain_def give_def throw_def split: prod.split sum.split)

lemma requireJoinedParticipant_run:
  assumes "calls_inv gen g" and "requireJoinedParticipant w c u g = (Inr s, g')"
  shows "session_at (at w) (gw_calls g) c = Some s \<and> isJoined s u \<and> u \<in> fst ` set (roster (gw_chat g) (cs_conversationId s))
    \<and> gw_sent g' = gw_sent g \<and> gw_sockets g' = gw_sockets g"
proof -
  have inv: "call_store_inv (gen ` {..<gw_callIds g}) (gw_calls g)" using assms(1) by (simp add: calls_inv_def)
  obtain r1 where get: "get_call (at w) c (gw_calls g) = (Some s, r1)" and j: "isJoined s u"
    and live: "\<exists>v. get_conversation w u (cs_conversationId s) (g\<lparr>gw_calls := r1\<rparr>) = (Inr v, g')"
    using assms(2) by (auto simp: requireJoinedParticipant_def runs assertLiveConversationMember_run split: option.splits if_splits)
  then obtain v where v: "get_conversation w u (cs_conversationId s) (g\<lparr>gw_calls := r1\<rparr>) = (Inr v, g')" by blast
  show ?thesis
    using get_conversation_member [OF v] get_call_props(2) [OF inv get] j by simp
qed

text \<open>Handlers that have announced nothing when they fail.\<close>

named_theorems refusals "handlers that announce nothing when they fail"

definition refuses_silently :: "'a act \<Rightarrow> bool" where
  "refuses_silently m \<longleftrightarrow> (\<forall>g. isl (fst (m g)) \<longrightarrow> gw_sent (snd (m g)) = gw_sent g)"

lemma refuses_chain [refusals]:
  assumes "\<And>l. keeps (\<lambda>g. gw_sent g = l) m" and "\<And>x. refuses_silently (f x)"
  shows "refuses_silently (chain m f)"
  unfolding refuses_silently_def
proof (intro allI impI)
  fix g assume failed: "isl (fst (chain m f g))"
  have "gw_sent (snd (m g)) = gw_sent g" using keepsD [OF assms(1) refl] .
  then show "gw_sent (snd (chain m f g)) = gw_sent g"
    using failed assms(2) by (cases "m g"; cases "fst (m g)") (auto simp: chain_def refuses_silently_def)
qed

lemma refuses_ends [refusals]: "refuses_silently (throw e)" "refuses_silently (give x)" "refuses_silently (emit rooms event p)"
  by (simp_all add: refuses_silently_def action_defs emit_def)

lemma refuses_if [refusals]: "refuses_silently m \<Longrightarrow> refuses_silently m' \<Longrightarrow> refuses_silently (if b then m else m')"
  by simp

text \<open>
  C18. An offer or an answer goes from one participant of a live call to another, and to nobody else:
  it is passed on, unchanged and to the sockets of its target only, exactly when it is relayed at
  all, and then sender and target are both joined in the call, the sender is still a member of the
  call's conversation, and the signal is no longer than the bound. When it is refused nothing is
  sent.
\<close>

theorem signals_stay_in_call:
  assumes "rooms_inv g" and "calls_inv gen g" and "relayWebRtcSignal w sid offer cid toId sdp g = (x, g')"
  shows "(case x of
      Inl _ \<Rightarrow> gw_sent g' = gw_sent g
    | Inr _ \<Rightarrow> (\<exists>u c to payload s. map_option sk_user (find_socket sid g) = Some (Some u) \<and> cid = Some c \<and> toId = Some to
        \<and> sdp = Some payload \<and> length payload \<le> 64000
        \<and> session_at (at w) (gw_calls g) c = Some s \<and> {u, to} \<subseteq> set (cs_joinedIds s) \<and> u \<noteq> to
        \<and> u \<in> fst ` set (roster (gw_chat g) (cs_conversationId s))
        \<and> gw_sent g' = gw_sent g @ [told [to] (if offer then ''call:offer'' else ''call:answer'') (CallSignal c u to payload) g]))"
proof (cases x)
  case (Inl e)
  have "refuses_silently (relayWebRtcSignal w sid offer cid toId sdp)"
    unfolding relayWebRtcSignal_def requireCallId_def requireToUserId_def by (auto intro!: refusals keeps split: option.split)
  then have "isl (fst (relayWebRtcSignal w sid offer cid toId sdp g)) \<longrightarrow>
      gw_sent (snd (relayWebRtcSignal w sid offer cid toId sdp g)) = gw_sent g" by (simp add: refuses_silently_def)
  then show ?thesis using assms(3) Inl by simp
next
  case (Inr y)
  obtain u c to payload s g1 where r: "find_socket sid g \<noteq> None" "map_option sk_user (find_socket sid g) = Some (Some u)" "cid = Some c" "toId = Some to"
    "sdp = Some payload" "length payload \<le> 64000" "requireJoinedParticipant w c u g = (Inr s, g1)"
    "isJoined s to" "to \<noteq> u"
    "emit [userRoom to] (if offer then ''call:offer'' else ''call:answer'') (CallSignal c u to payload) g1 = (Inr y, g')"
    using assms(3) Inr unfolding relayWebRtcSignal_def
    by (auto simp: runs assertSignalSize_def nullish_def MAX_SIGNAL_JSON_BYTES_def split: option.splits if_splits)
  note p = requireJoinedParticipant_run [OF assms(2) r(7)]
  have "rooms_inv g1" using rooms_inv_frame [OF assms(1), of g1] p by simp
  then show ?thesis
    using r p Inr told_frame [of g1 g] emit_user_run [of g1 to] by (auto simp: isJoined_def)
qed

lemma joined_participant_answers:
  assumes "session_at (at w) (gw_calls g) c = Some s" "isJoined s u" "cs_status s \<noteq> Ended"
    and "\<not> isl (requireMembership (gw_chat g) (cs_conversationId s) u)" "wd_fate w (gw_rpcs g) = Answered"
  shows "\<exists>g'. requireJoinedParticipant w c u g = (Inr s, g')"
proof -
  obtain r1 where get: "get_call (at w) c (gw_calls g) = (Some s, r1)" using assms(1) by (simp add: get_call_def)
  obtain conv where conv: "requireMembership (gw_chat g) (cs_conversationId s) u = Inr conv"
    using assms(4) by (cases "requireMembership (gw_chat g) (cs_conversationId s) u") auto
  have "\<exists>g' v. get_conversation w u (cs_conversationId s) (g\<lparr>gw_calls := r1\<rparr>) = (Inr v, g')"
    by (auto simp: get_conversation_def sendChat_run chat_step_def query_def getConversation_def conv assms(5) a_conversation_def)
  then show ?thesis using get assms(2,3) by (simp add: requireJoinedParticipant_def runs assertLiveConversationMember_run)
qed

theorem signals_stay_in_call_witness:
  "\<exists>g'. relayWebRtcSignal (demo_world 7000) ''s1'' True (Some (demo_ids 0)) (Some ''bob'') (Some ''{}'') demo_gateway = (Inr (), g')
    \<and> map em_sockets (gw_sent g') = [[''s2'']]"
proof -
  let ?w = "demo_world 7000" and ?found = "session_at 7000 (gw_calls demo_gateway) (demo_ids 0)"
  let ?run = "relayWebRtcSignal ?w ''s1'' True (Some (demo_ids 0)) (Some ''bob'') (Some ''{}'') demo_gateway"
  have "(case ?found of None \<Rightarrow> False | Some s \<Rightarrow> cs_status s = Active \<and> isJoined s ''ann'' \<and> isJoined s ''bob''
      \<and> cs_conversationId s = demo_ids 0)" by code_simp
  then obtain s where s: "?found = Some s" "cs_status s = Active" "isJoined s ''ann''" "isJoined s ''bob''"
    "cs_conversationId s = demo_ids 0" by (cases ?found) auto
  have facts: "\<not> isl (requireMembership (gw_chat demo_gateway) (demo_ids 0) ''ann'')" "gw_sent demo_gateway = []"
    "sockets_of [''bob''] demo_gateway = [''s2'']" "find_socket ''s1'' demo_gateway = Some (user_socket ''s1'' ''ann'' [demo_ids 0])" "truthy (demo_ids 0)"
    by code_simp+
  obtain g1 where g1: "requireJoinedParticipant ?w (demo_ids 0) ''ann'' demo_gateway = (Inr s, g1)"
    using joined_participant_answers [of ?w demo_gateway "demo_ids 0" s "''ann''"] s facts(1) by (auto simp: demo_deployment)
  have "\<exists>g'. ?run = (Inr (), g')"
    using g1 s(4) facts(4,5) by (simp add: relayWebRtcSignal_def runs assertSignalSize_def nullish_def MAX_SIGNAL_JSON_BYTES_def truthy_def
        user_socket_def emit_def)
  then obtain g' where run: "?run = (Inr (), g')" by blast
  show ?thesis using signals_stay_in_call [OF demo_gateway_inv(1,3) run] run facts by (auto simp: told_def)
qed

end
