(* ===== verification/ChatAnalytics.thy ===== *)
theory ChatAnalytics
  imports ChatProperties
begin

text \<open>
  \<open>getAnalytics\<close> of \<open>chat.service.ts\<close>. The process and the database session have time zones of
  their own, at fixed offsets \<open>tz\<close> and \<open>dz\<close> from UTC in milliseconds. A date is the number of its day
  since 1970-01-01; the code writes it as YYYY-MM-DD.
\<close>

section \<open>The counts (getAnalytics)\<close>

definition DAY_MS :: int where "DAY_MS = 86400000"

text \<open>\<open>setHours(0, 0, 0, 0)\<close>; \<open>to_char(t, 'YYYY-MM-DD')\<close>; \<open>toISOString().slice(0, 10)\<close>\<close>

definition local_midnight :: "int \<Rightarrow> instant \<Rightarrow> instant" where
  "local_midnight tz t = (t + tz) div DAY_MS * DAY_MS - tz"

definition db_day :: "int \<Rightarrow> message \<Rightarrow> int" where
  "db_day dz m = (m_createdAt m + dz) div DAY_MS"

definition iso_day :: "instant \<Rightarrow> int" where
  "iso_day t = t div DAY_MS"

definition since :: "instant \<Rightarrow> chat_db \<Rightarrow> message list" where
  "since t db = filter (\<lambda>m. t \<le> m_createdAt m) (live_messages db)"

text \<open>\<open>SELECT key, COUNT(*) ... GROUP BY key\<close>\<close>

definition counted_by :: "('a \<Rightarrow> 'k) \<Rightarrow> 'a list \<Rightarrow> ('k \<times> nat) list" where
  "counted_by key rows = map (\<lambda>k. (k, length (filter (\<lambda>r. key r = k) rows))) (remdups (map key rows))"

definition day_rows :: "int \<Rightarrow> message list \<Rightarrow> (int \<times> nat) list" where
  "day_rows dz week = order_asc fst (counted_by (db_day dz) week)"

definition messages_by_day :: "instant \<Rightarrow> (int \<times> nat) list \<Rightarrow> (int \<times> nat) list" where
  "messages_by_day weekAgo dayRows = map (\<lambda>i. let key = iso_day (weekAgo + i * DAY_MS) in
     (key, case find (\<lambda>r. fst r = key) dayRows of None \<Rightarrow> 0 | Some r \<Rightarrow> snd r)) [0..6]"

record top_conversation =
  tc_conversationId :: uuid
  tc_name :: "string option"
  tc_type :: conversation_type
  tc_messageCount :: nat

definition top_rows :: "chat_db \<Rightarrow> top_conversation list" where
  "top_rows db = take 5 (order_desc (\<lambda>r. int (tc_messageCount r)) (List.map_filter (\<lambda>(cid, n).
     map_option (\<lambda>c. \<lparr>tc_conversationId = cid, tc_name = c_name c, tc_type = c_type c, tc_messageCount = n\<rparr>)
       (find_conversation db cid)) (counted_by m_conv (live_messages db))))"

record analytics_view =
  an_totalConversations :: nat
  an_totalMessages :: nat
  an_messagesToday :: nat
  an_messagesThisWeek :: nat
  an_activeConversationsToday :: nat
  an_messagesByDay :: "(int \<times> nat) list"
  an_topConversations :: "top_conversation list"

definition getAnalytics :: "int \<Rightarrow> int \<Rightarrow> clock \<Rightarrow> chat_db \<Rightarrow> analytics_view" where
  "getAnalytics tz dz clk db =
     (let startOfDay = local_midnight tz (now clk); weekAgo = startOfDay - 6 * DAY_MS in
      \<lparr>an_totalConversations = length (live_conversations db), an_totalMessages = length (live_messages db),
       an_messagesToday = length (since startOfDay db), an_messagesThisWeek = length (since weekAgo db),
       an_activeConversationsToday = card (m_conv ` set (since startOfDay db)),
       an_messagesByDay = messages_by_day weekAgo (day_rows dz (since weekAgo db)),
       an_topConversations = top_rows db\<rparr>)"

section \<open>Counting by key\<close>

lemma find_counted:
  fixes key :: "'a \<Rightarrow> int"
  shows "find (\<lambda>r. fst r = k) (counted_by key rows)
    = (if k \<in> key ` set rows then Some (k, length (filter (\<lambda>r. key r = k) rows)) else None)"
proof -
  have "find (\<lambda>r. fst r = k) (map (\<lambda>k. (k, f k)) ks) = (if k \<in> set ks then Some (k, f k) else None)" for ks and f :: "int \<Rightarrow> nat"
    by (induction ks) auto
  then show ?thesis by (simp add: counted_by_def)
qed

lemma distinct_counted: "distinct (map fst (counted_by key rows))"
  by (simp add: counted_by_def comp_def)

text \<open>Sorting rows with distinct keys does not change what is found under a key.\<close>

lemma find_order_asc:
  assumes "distinct (map fst rs)"
  shows "find (\<lambda>r. fst r = k) (order_asc fst rs) = find (\<lambda>r. fst r = k) (rs :: (int \<times> nat) list)"
proof -
  have dist: "distinct (map fst (order_asc fst rs))"
    using assms by (simp add: order_asc_def distinct_map inj_on_def)
  have look: "map_of (order_asc fst rs) = map_of rs"
    using assms dist by (intro map_of_eqI) (auto simp: map_of_eq_Some_iff)
  have "find (\<lambda>r. fst r = k) xs = map_option (\<lambda>v. (k, v)) (map_of xs k)" for xs :: "(int \<times> nat) list"
    by (induction xs) auto
  then show ?thesis by (simp add: look)
qed

definition counted_on :: "int \<Rightarrow> int \<Rightarrow> message list \<Rightarrow> nat" where
  "counted_on dz k rows = length (filter (\<lambda>m. db_day dz m = k) rows)"

lemma messages_by_day_eq:
  "messages_by_day weekAgo (day_rows dz rows) = map (\<lambda>i. (iso_day weekAgo + i, counted_on dz (iso_day weekAgo + i) rows)) [0..6]"
proof -
  have "(case find (\<lambda>r. fst r = k) (day_rows dz rows) of None \<Rightarrow> 0 | Some r \<Rightarrow> snd r) = counted_on dz k rows" for k
  proof (cases "k \<in> db_day dz ` set rows")
    case False
    then have "filter (\<lambda>m. db_day dz m = k) rows = []" by (auto simp: filter_empty_conv)
    then show ?thesis using False
      by (simp add: day_rows_def find_order_asc [OF distinct_counted] find_counted counted_on_def)
  qed (simp add: day_rows_def find_order_asc [OF distinct_counted] find_counted counted_on_def)
  moreover have "iso_day (weekAgo + i * DAY_MS) = iso_day weekAgo + i" for i
    by (simp add: iso_day_def DAY_MS_def)
  ultimately show ?thesis by (simp add: messages_by_day_def Let_def)
qed

lemma counted_on_range:
  "(\<Sum>i\<leftarrow>[0..<n]. counted_on dz (k + int i) rows) = length (filter (\<lambda>m. k \<le> db_day dz m \<and> db_day dz m < k + int n) rows)"
proof (induction n)
  case (Suc n)
  have "length (filter (\<lambda>m. k \<le> db_day dz m \<and> db_day dz m < k + int (Suc n)) rows)
      = length (filter (\<lambda>m. k \<le> db_day dz m \<and> db_day dz m < k + int n) rows) + counted_on dz (k + int n) rows"
    unfolding counted_on_def by (induction rows) auto
  with Suc show ?case by simp
qed simp

lemma by_day_sum:
  "sum_list (map snd (messages_by_day weekAgo (day_rows dz rows)))
     = length (filter (\<lambda>m. iso_day weekAgo \<le> db_day dz m \<and> db_day dz m < iso_day weekAgo + 7) rows)"
proof -
  have week: "[0..6] = map int [0..<7]" by code_simp
  show ?thesis
    using counted_on_range [of dz "iso_day weekAgo" rows 7]
    by (simp add: messages_by_day_eq week comp_def)
qed

section \<open>What the counts mean\<close>

lemma iso_day_bounds: "k \<le> iso_day t \<longleftrightarrow> k * DAY_MS \<le> t" "iso_day t < k \<longleftrightarrow> t < k * DAY_MS"
proof -
  have day: "t div DAY_MS * DAY_MS \<le> t" "k * DAY_MS div DAY_MS = k" "0 < DAY_MS" by (simp_all add: DAY_MS_def minus_mod_eq_div_mult [symmetric])
  show le: "k \<le> iso_day t \<longleftrightarrow> k * DAY_MS \<le> t"
    unfolding iso_day_def
  proof
    assume "k \<le> t div DAY_MS"
    then have "k * DAY_MS \<le> t div DAY_MS * DAY_MS" using day(3) by (intro mult_right_mono) simp_all
    then show "k * DAY_MS \<le> t" using day(1) by (rule order_trans)
  next
    assume "k * DAY_MS \<le> t"
    then show "k \<le> t div DAY_MS" using zdiv_mono1 [OF _ day(3)] day(2) by metis
  qed
  show "iso_day t < k \<longleftrightarrow> t < k * DAY_MS" using le by linarith
qed

lemma descending_rows: "sorted (map (\<lambda>r. - int (f r)) rs) \<Longrightarrow> sorted (rev (map f rs))"
  by (simp add: sorted_wrt_map sorted_wrt_rev)

lemma top_rows_shape:
  "length (top_rows db) \<le> 5" "sorted (rev (map tc_messageCount (top_rows db)))"
  "r \<in> set (top_rows db) \<Longrightarrow> tc_messageCount r = length (filter (\<lambda>m. m_conv m = tc_conversationId r) (live_messages db))"
proof -
  show "length (top_rows db) \<le> 5" by (simp add: top_rows_def)
  show "sorted (rev (map tc_messageCount (top_rows db)))"
    unfolding top_rows_def by (intro descending_rows) (simp add: order_desc_def take_map [symmetric] sorted_wrt_take)
  assume "r \<in> set (top_rows db)"
  then show "tc_messageCount r = length (filter (\<lambda>m. m_conv m = tc_conversationId r) (live_messages db))"
    by (auto simp: top_rows_def counted_by_def List.map_filter_def dest!: in_set_takeD)
qed

text \<open>
  C40. Where process and database keep UTC and no message is from the future, the analytics are
  consistent: the seven daily counts are those of the last seven days, today's the last of them, and
  they sum up to the week's total; at most five conversations are named, largest first, each with the
  number of its messages.
\<close>

theorem analytics_add_up:
  assumes "\<forall>m\<in>set (live_messages db). m_createdAt m \<le> now clk"
  shows "map fst (an_messagesByDay (getAnalytics 0 0 clk db)) = [iso_day (now clk) - 6..iso_day (now clk)]
    \<and> sum_list (map snd (an_messagesByDay (getAnalytics 0 0 clk db))) = an_messagesThisWeek (getAnalytics 0 0 clk db)
    \<and> snd (last (an_messagesByDay (getAnalytics 0 0 clk db))) = an_messagesToday (getAnalytics 0 0 clk db)
    \<and> length (an_topConversations (getAnalytics 0 0 clk db)) \<le> 5
    \<and> sorted (rev (map tc_messageCount (an_topConversations (getAnalytics 0 0 clk db))))
    \<and> (\<forall>r\<in>set (an_topConversations (getAnalytics 0 0 clk db)).
         tc_messageCount r = length (filter (\<lambda>m. m_conv m = tc_conversationId r) (live_messages db)))"
proof -
  define D where "D = iso_day (now clk)"
  define weekAgo where "weekAgo = (D - 6) * DAY_MS"
  have week: "local_midnight 0 (now clk) - 6 * DAY_MS = weekAgo" "local_midnight 0 (now clk) = D * DAY_MS" "iso_day weekAgo = D - 6"
    by (simp_all add: local_midnight_def weekAgo_def D_def iso_day_def DAY_MS_def algebra_simps)
  have day: "db_day 0 m = iso_day (m_createdAt m)" for m by (simp add: db_day_def iso_day_def)
  have past: "iso_day (m_createdAt m) \<le> D" if "m \<in> set (live_messages db)" for m
    using assms that unfolding D_def by (auto simp: iso_day_def DAY_MS_def intro: zdiv_mono1)
  have "sum_list (map snd (messages_by_day weekAgo (day_rows 0 (since weekAgo db)))) = length (since weekAgo db)"
    unfolding by_day_sum week(3) day
    by (subst filter_True) (use past in \<open>force simp: since_def weekAgo_def iso_day_bounds(1)\<close>, simp)
  moreover have "counted_on 0 D (since weekAgo db) = length (since (D * DAY_MS) db)"
    unfolding counted_on_def since_def day filter_filter
    by (intro arg_cong [where f = length] filter_cong) (use past in \<open>auto simp: iso_day_bounds [symmetric] weekAgo_def intro!: antisym\<close>)
  moreover have "[0..6] = [0, 1, 2, 3, 4, 5, 6 :: int]" "[D - 6..D] = [D - 6, D - 5, D - 4, D - 3, D - 2, D - 1, D]" by (simp_all add: upto.simps)
  moreover have "an_messagesByDay (getAnalytics 0 0 clk db) = messages_by_day weekAgo (day_rows 0 (since weekAgo db))"
    "an_messagesThisWeek (getAnalytics 0 0 clk db) = length (since weekAgo db)"
    by (simp_all add: getAnalytics_def Let_def week(1))
  moreover have "an_messagesToday (getAnalytics 0 0 clk db) = length (since (D * DAY_MS) db)"
    "an_topConversations (getAnalytics 0 0 clk db) = top_rows db"
    by (simp_all add: getAnalytics_def Let_def week(2))
  ultimately show ?thesis
    using top_rows_shape(1,2) [of db] top_rows_shape(3) [of _ db] by (simp add: messages_by_day_eq week(3) D_def [symmetric])
qed

theorem analytics_add_up_witness:
  "sum_list (map snd (an_messagesByDay (getAnalytics 0 0 (at_time 6000) demo_chat))) = an_messagesThisWeek (getAnalytics 0 0 (at_time 6000) demo_chat)
    \<and> an_messagesThisWeek (getAnalytics 0 0 (at_time 6000) demo_chat) \<noteq> 0"
proof -
  have "list_all (\<lambda>m. m_createdAt m \<le> 6000) (live_messages demo_chat)" by code_simp
  then have "\<forall>m\<in>set (live_messages demo_chat). m_createdAt m \<le> now (at_time 6000)" by (simp add: list_all_iff at_time_def)
  moreover have "an_messagesThisWeek (getAnalytics 0 0 (at_time 6000) demo_chat) \<noteq> 0" by code_simp
  ultimately show ?thesis using analytics_add_up by blast
qed

text \<open>
  C0. East of UTC the daily counts miss the present day: when the process keeps a zone ahead of UTC,
  the database keeps UTC, and it is already the same date in both, the last of the seven dates is
  yesterday's, and the messages of today are in the week's total but in none of its days.
\<close>

theorem analytics_lose_today:
  assumes "0 < tz" "tz < DAY_MS" and "iso_day (now clk + tz) = iso_day (now clk)"
  shows "map fst (an_messagesByDay (getAnalytics tz 0 clk db)) = [iso_day (now clk) - 7..iso_day (now clk) - 1]
    \<and> an_messagesThisWeek (getAnalytics tz 0 clk db) = sum_list (map snd (an_messagesByDay (getAnalytics tz 0 clk db)))
         + length (since (iso_day (now clk) * DAY_MS) db)"
proof -
  define D where "D = iso_day (now clk)"
  define weekAgo where "weekAgo = (D - 6) * DAY_MS - tz"
  have week: "local_midnight tz (now clk) - 6 * DAY_MS = weekAgo"
    using assms(3) by (simp add: local_midnight_def weekAgo_def D_def iso_day_def algebra_simps)
  have first: "iso_day weekAgo = D - 7"
  proof (rule antisym)
    show "iso_day weekAgo \<le> D - 7" using iso_day_bounds(2) [of weekAgo "D - 6"] assms(1) by (simp add: weekAgo_def)
    show "D - 7 \<le> iso_day weekAgo" using iso_day_bounds(1) [of "D - 7" weekAgo] assms(2) by (simp add: weekAgo_def algebra_simps)
  qed
  have day: "db_day 0 m = iso_day (m_createdAt m)" for m by (simp add: db_day_def iso_day_def)
  let ?rows = "since weekAgo db"
  have lower: "D - 7 \<le> iso_day (m_createdAt m)" if "m \<in> set ?rows" for m
    using that iso_day_bounds(1) [of "D - 7" weekAgo] first by (auto simp: since_def iso_day_bounds(1))
  have "length ?rows = length (filter (\<lambda>m. iso_day (m_createdAt m) < D) ?rows) + length (filter (\<lambda>m. \<not> iso_day (m_createdAt m) < D) ?rows)"
    by (rule sum_length_filter_compl [symmetric])
  moreover have "filter (\<lambda>m. iso_day (m_createdAt m) < D) ?rows = filter (\<lambda>m. D - 7 \<le> iso_day (m_createdAt m) \<and> iso_day (m_createdAt m) < D - 7 + 7) ?rows"
    using lower by (intro filter_cong) auto
  moreover have "filter (\<lambda>m. \<not> iso_day (m_createdAt m) < D) ?rows = since (D * DAY_MS) db"
    using assms(1) by (auto simp: since_def filter_filter iso_day_bounds(2) weekAgo_def DAY_MS_def intro!: filter_cong)
  moreover have "map fst (messages_by_day weekAgo (day_rows 0 ?rows)) = [D - 7..D - 1]"
    unfolding messages_by_day_eq first by (simp add: upto.simps)
  moreover have "an_messagesByDay (getAnalytics tz 0 clk db) = messages_by_day weekAgo (day_rows 0 ?rows)"
    "an_messagesThisWeek (getAnalytics tz 0 clk db) = length ?rows"
    by (simp_all add: getAnalytics_def Let_def week)
  ultimately show ?thesis by (simp add: by_day_sum first day D_def [symmetric])
qed

text \<open>A process five hours east of UTC, at one in the afternoon, local time.\<close>

theorem analytics_lose_today_witness:
  "an_messagesThisWeek (getAnalytics 18000000 0 (at_time 28800000) demo_chat) \<noteq> 0
    \<and> an_messagesThisWeek (getAnalytics 18000000 0 (at_time 28800000) demo_chat)
      = sum_list (map snd (an_messagesByDay (getAnalytics 18000000 0 (at_time 28800000) demo_chat))) + length (since 0 demo_chat)"
proof
  show "an_messagesThisWeek (getAnalytics 18000000 0 (at_time 28800000) demo_chat) \<noteq> 0" by code_simp
  show "an_messagesThisWeek (getAnalytics 18000000 0 (at_time 28800000) demo_chat)
      = sum_list (map snd (an_messagesByDay (getAnalytics 18000000 0 (at_time 28800000) demo_chat))) + length (since 0 demo_chat)"
    using analytics_lose_today [of 18000000 "at_time 28800000" demo_chat] by (simp add: DAY_MS_def iso_day_def at_time_def)
qed

end
