(* ===== verification/ObjectStorage.thy ===== *)
theory ObjectStorage
  imports RelayCommon "HOL-Library.Sublist"
begin

text \<open>
  The storage drivers of \<open>apps/api-gateway/src/storage\<close>: under which key an upload is stored, the
  URL it is given, and how a driver finds the key again from the URL. The object stores themselves,
  the WHATWG URL parser and random identifiers are parameters.
\<close>

section \<open>Strings of JavaScript and Node\<close>

text \<open>\<open>value.js_includes(part)\<close>\<close>

fun js_includes :: "string \<Rightarrow> string \<Rightarrow> bool" where
  "js_includes [] part = (part = [])"
| "js_includes (c # s) part = (prefix part (c # s) \<or> js_includes s part)"

text \<open>\<open>extname\<close> of \<open>node:path\<close>: what follows the last dot of the last segment, with the dot, unless
  the segment has no other dot before it than a leading one.\<close>

definition last_segment :: "string \<Rightarrow> string" where
  "last_segment path = rev (takeWhile (\<lambda>c. c \<noteq> CHR ''/'') (dropWhile (\<lambda>c. c = CHR ''/'') (rev path)))"

definition extname :: "string \<Rightarrow> string" where
  "extname path = (let segment = last_segment path;
       name = rev (takeWhile (\<lambda>c. c \<noteq> CHR ''.'') (rev segment)) in
     if CHR ''.'' \<notin> set segment \<or> segment = CHR ''.'' # name \<or> segment = ''..'' then []
     else CHR ''.'' # name)"

text \<open>\<open>value.replace(/\/$/, '')\<close> and \<open>value.replace(/^\/|\/$/g, '')\<close>\<close>

definition strip_trailing_slash :: "string \<Rightarrow> string" where
  "strip_trailing_slash s = (if s \<noteq> [] \<and> last s = CHR ''/'' then butlast s else s)"

definition strip_slashes :: "string \<Rightarrow> string" where
  "strip_slashes s = strip_trailing_slash (if starts_with s ''/'' then drop 1 s else s)"

text \<open>\<open>replace(/[^a-z0-9._-]+/g, '-')\<close>\<close>

definition slug_char :: "char \<Rightarrow> bool" where
  "slug_char c = (let n = (of_char c :: nat) in 97 \<le> n \<and> n \<le> 122 \<or> 48 \<le> n \<and> n \<le> 57 \<or> c \<in> {CHR ''.'', CHR ''_'', CHR ''-''})"

function slugify :: "string \<Rightarrow> string" where
  "slugify [] = []"
| "slugify (c # s) = (if slug_char c then c # slugify s else CHR ''-'' # slugify (dropWhile (\<lambda>c. \<not> slug_char c) s))"
  by pat_completeness auto

termination
  by (relation "measure length") (auto simp: less_Suc_eq_le length_dropWhile_le)

text \<open>\<open>replace(/^-+|-+$/g, '')\<close>\<close>

definition strip_dashes :: "string \<Rightarrow> string" where
  "strip_dashes s = rev (dropWhile (\<lambda>c. c = CHR ''-'') (rev (dropWhile (\<lambda>c. c = CHR ''-'') s)))"

text \<open>\<open>decodeURIComponent\<close>: \<open>None\<close> where it throws. An escape above 127 must begin a UTF-8 sequence.\<close>

definition hex_value :: "char \<Rightarrow> nat option" where
  "hex_value c = (let n = (of_char c :: nat) in
     if 48 \<le> n \<and> n \<le> 57 then Some (n - 48) else if 65 \<le> n \<and> n \<le> 70 then Some (n - 55)
     else if 97 \<le> n \<and> n \<le> 102 then Some (n - 87) else None)"

definition escape_at :: "string \<Rightarrow> nat option" where
  "escape_at s = (case s of p # h # l # _ \<Rightarrow> (case (hex_value h, hex_value l) of
       (Some a, Some b) \<Rightarrow> (if p = CHR ''%'' then Some (16 * a + b) else None) | _ \<Rightarrow> None) | _ \<Rightarrow> None)"

text \<open>How many continuation bytes follow, and the range of the first of them.\<close>

definition utf8_lead :: "nat \<Rightarrow> (nat \<times> nat \<times> nat) option" where
  "utf8_lead b = (if 194 \<le> b \<and> b \<le> 223 then Some (1, 128, 191)
     else if 224 \<le> b \<and> b \<le> 239 then Some (2, if b = 224 then 160 else 128, if b = 237 then 159 else 191)
     else if 240 \<le> b \<and> b \<le> 244 then Some (3, if b = 240 then 144 else 128, if b = 244 then 143 else 191) else None)"

fun continuation :: "nat \<Rightarrow> nat \<Rightarrow> nat \<Rightarrow> string \<Rightarrow> string option" where
  "continuation 0 lo hi s = Some []"
| "continuation (Suc n) lo hi s = (case escape_at s of
     Some b \<Rightarrow> (if lo \<le> b \<and> b \<le> hi then map_option (\<lambda>r. char_of b # r) (continuation n 128 191 (drop 3 s)) else None)
   | None \<Rightarrow> None)"

function decodeURIComponent :: "string \<Rightarrow> string option" where
  "decodeURIComponent [] = Some []"
| "decodeURIComponent (c # s) =
     (if c \<noteq> CHR ''%'' then map_option (\<lambda>r. c # r) (decodeURIComponent s)
      else case escape_at (c # s) of
        None \<Rightarrow> None
      | Some b \<Rightarrow>
          (if b < 128 then map_option (\<lambda>r. char_of b # r) (decodeURIComponent (drop 2 s))
           else case utf8_lead b of
             None \<Rightarrow> None
           | Some (n, lo, hi) \<Rightarrow>
               (case continuation n lo hi (drop 2 s) of
                  None \<Rightarrow> None
                | Some bytes \<Rightarrow> map_option (\<lambda>r. char_of b # bytes @ r) (decodeURIComponent (drop (2 + 3 * n) s)))))"
  by pat_completeness auto

termination
  by (relation "measure length") auto

section \<open>Uploads (storage.types.ts)\<close>

datatype storage_driver = LocalDriver | S3Driver | CloudinaryDriver

record upload_input =
  ui_originalName :: string
  ui_mimeType :: string
  ui_size :: int
  ui_userName :: "string option"
  ui_avatar :: bool

record upload_result =
  ur_url :: string
  ur_key :: string
  ur_provider :: storage_driver
  ur_mime :: string
  ur_name :: string
  ur_size :: int

definition uploaded :: "storage_driver \<Rightarrow> upload_input \<Rightarrow> string \<Rightarrow> string \<Rightarrow> upload_result" where
  "uploaded driver f url key = \<lparr>ur_url = url, ur_key = key, ur_provider = driver, ur_mime = ui_mimeType f,
     ur_name = ui_originalName f, ur_size = ui_size f\<rparr>"

definition storageUserName :: "string option \<Rightarrow> string" where
  "storageUserName raw = (let base = take 48 (strip_dashes (slugify (takeWhile (\<lambda>c. c \<noteq> CHR ''@'')
       (to_lower (trim (nullish raw ''user'')))))) in if truthy base then base else ''user'')"

definition is_audio :: "upload_input \<Rightarrow> bool" where
  "is_audio f = (starts_with (ui_mimeType f) ''audio/'' \<or> ui_mimeType f = ''video/webm'')"

definition is_image :: "upload_input \<Rightarrow> bool" where
  "is_image f = starts_with (ui_mimeType f) ''image/''"

definition mediaFolder :: "upload_input \<Rightarrow> string" where
  "mediaFolder f = (if is_audio f then ''voiceNotes'' else if is_image f then ''images'' else ''files'')"

definition extension_of :: "upload_input \<Rightarrow> string" where
  "extension_of f = (let e = to_lower (extname (ui_originalName f)) in if truthy e then e else ''.bin'')"

section \<open>Local files (local.storage.ts)\<close>

text \<open>The store is the list of the keys of its files; \<open>uuid\<close> is the random identifier drawn.\<close>

definition local_key :: "string \<Rightarrow> upload_input \<Rightarrow> string" where
  "local_key uuid f = (if ui_avatar f then ''profilePictures/'' @ uuid @ extension_of f else uuid @ extension_of f)"

definition local_upload :: "string \<Rightarrow> upload_input \<Rightarrow> string list \<Rightarrow> upload_result \<times> string list" where
  "local_upload uuid f files = (let key = local_key uuid f in
     (uploaded LocalDriver f (''/uploads/'' @ key) key, files @ [key]))"

definition local_key_of :: "string \<Rightarrow> string option" where
  "local_key_of url = (if \<not> starts_with url ''/uploads/'' then None
     else let key = takeWhile (\<lambda>c. c \<noteq> CHR ''?'' \<and> c \<noteq> CHR ''#'') (drop 9 url) in
       if \<not> truthy key \<or> js_includes key ''..'' then None else Some key)"

definition local_deleteByUrl :: "string \<Rightarrow> string list \<Rightarrow> string list" where
  "local_deleteByUrl url files = (case local_key_of url of None \<Rightarrow> files | Some key \<Rightarrow> filter (\<lambda>k. k \<noteq> key) files)"

section \<open>S3 (s3.storage.ts)\<close>

text \<open>\<open>new URL(url)\<close>: the host name and the path, or \<open>None\<close> where it throws.\<close>

type_synonym url_parser = "string \<Rightarrow> (string \<times> string) option"

record s3_options =
  so_region :: string
  so_bucket :: string
  so_endpoint :: "string option"
  so_publicUrl :: "string option"
  so_forcePathStyle :: bool
  so_prefix :: "string option"

definition s3_prefix :: "s3_options \<Rightarrow> string" where
  "s3_prefix o3 = strip_slashes (if opt_truthy (so_prefix o3) then nullish (so_prefix o3) '''' else ''relay'')"

definition s3_userName :: "string option \<Rightarrow> string" where
  "s3_userName raw = (let base = take 48 (strip_dashes (slugify (takeWhile (\<lambda>c. c \<noteq> CHR ''@'')
       (to_lower (trim (if opt_truthy raw then nullish raw '''' else ''user'')))))) in if truthy base then base else ''user'')"

definition s3_key :: "s3_options \<Rightarrow> string \<Rightarrow> upload_input \<Rightarrow> string" where
  "s3_key o3 uuid f = s3_prefix o3 @ ''/'' @ s3_userName (ui_userName f) @ ''/'' @ mediaFolder f @ ''/'' @ uuid @ extension_of f"

definition strip_scheme :: "string \<Rightarrow> string" where
  "strip_scheme s = (if starts_with s ''https://'' then drop 8 s else if starts_with s ''http://'' then drop 7 s else s)"

definition buildPublicUrl :: "s3_options \<Rightarrow> string \<Rightarrow> string" where
  "buildPublicUrl o3 key = (let public = nullish (map_option strip_trailing_slash (so_publicUrl o3)) '''';
       endpoint = nullish (map_option strip_trailing_slash (so_endpoint o3)) '''' in
     if truthy public then public @ ''/'' @ key
     else if truthy endpoint then
       (if so_forcePathStyle o3 then endpoint @ ''/'' @ so_bucket o3 @ ''/'' @ key
        else (if starts_with endpoint ''http://'' then ''http'' else ''https'') @ ''://'' @ so_bucket o3 @ ''.'' @ strip_scheme endpoint @ ''/'' @ key)
     else ''https://'' @ so_bucket o3 @ ''.s3.'' @ so_region o3 @ ''.amazonaws.com/'' @ key)"

definition s3_path_key :: "s3_options \<Rightarrow> string \<Rightarrow> string option" where
  "s3_path_key o3 path = (if starts_with path (so_bucket o3 @ ''/'') then Some (drop (length (so_bucket o3) + 1) path)
     else if starts_with path (s3_prefix o3 @ ''/'') then Some path
     else if truthy path then Some path else None)"

definition s3_keyFromUrl :: "url_parser \<Rightarrow> s3_options \<Rightarrow> string \<Rightarrow> string option" where
  "s3_keyFromUrl parse o3 url = (let public = nullish (map_option strip_trailing_slash (so_publicUrl o3)) '''' in
     if truthy public \<and> starts_with url (public @ ''/'') then decodeURIComponent (drop (length public + 1) url)
     else case parse url of
       None \<Rightarrow> None
     | Some (host, pathname) \<Rightarrow>
         Option.bind (decodeURIComponent (if starts_with pathname ''/'' then drop 1 pathname else pathname)) (s3_path_key o3))"

text \<open>The store is the list of the bucket's keys.\<close>

definition s3_upload :: "s3_options \<Rightarrow> string \<Rightarrow> upload_input \<Rightarrow> string list \<Rightarrow> upload_result \<times> string list" where
  "s3_upload o3 uuid f objects = (let key = s3_key o3 uuid f in (uploaded S3Driver f (buildPublicUrl o3 key) key, objects @ [key]))"

definition s3_deleteByUrl :: "url_parser \<Rightarrow> s3_options \<Rightarrow> string \<Rightarrow> string list \<Rightarrow> string list" where
  "s3_deleteByUrl parse o3 url objects = (case s3_keyFromUrl parse o3 url of
     None \<Rightarrow> objects | Some key \<Rightarrow> (if truthy key then filter (\<lambda>k. k \<noteq> key) objects else objects))"

section \<open>Cloudinary (cloudinary.storage.ts)\<close>

datatype resource_type = ImageResource | VideoResource | RawResource

definition resource_name :: "resource_type \<Rightarrow> string" where
  "resource_name r = (case r of ImageResource \<Rightarrow> ''image'' | VideoResource \<Rightarrow> ''video'' | RawResource \<Rightarrow> ''raw'')"

definition rootFolder :: "string option \<Rightarrow> string" where
  "rootFolder folder = strip_slashes (if opt_truthy folder then nullish folder '''' else ''relay'')"

text \<open>\<open>parts.filter(Boolean).join('/')\<close>\<close>

fun slash_join :: "string list \<Rightarrow> string" where
  "slash_join [] = []"
| "slash_join [x] = x"
| "slash_join (x # y # xs) = x @ ''/'' @ slash_join (y # xs)"

definition path_of :: "string list \<Rightarrow> string" where
  "path_of parts = slash_join (filter truthy parts)"

definition bare_extension :: "upload_input \<Rightarrow> string" where
  "bare_extension f = drop 1 (to_lower (extname (ui_originalName f)))"

text \<open>\<open>None\<close> for an avatar that is not an image, which the driver refuses.\<close>

definition cloudinary_public_id :: "string option \<Rightarrow> string \<Rightarrow> upload_input \<Rightarrow> string option" where
  "cloudinary_public_id folder uuid f =
     (if ui_avatar f then (if \<not> is_image f then None else Some (path_of [rootFolder folder, ''profilePictures'', uuid]))
      else Some (path_of [rootFolder folder, storageUserName (ui_userName f), mediaFolder f,
        if is_image f \<or> is_audio f \<or> \<not> truthy (bare_extension f) then uuid else uuid @ ''.'' @ bare_extension f]))"

definition cloudinary_resource :: "upload_input \<Rightarrow> resource_type" where
  "cloudinary_resource f = (if is_audio f then VideoResource else if is_image f then ImageResource else RawResource)"

definition cloudinary_format :: "upload_input \<Rightarrow> string option" where
  "cloudinary_format f = (if (is_image f \<or> is_audio f) \<and> truthy (bare_extension f) then Some (bare_extension f) else None)"

text \<open>What the service answers to an upload: the secure URL and the public id, or an error.\<close>

type_synonym cloudinary_service = "string \<Rightarrow> resource_type \<Rightarrow> string option \<Rightarrow> (string \<times> string) option"

definition cloudinary_upload ::
  "cloudinary_service \<Rightarrow> string option \<Rightarrow> string \<Rightarrow> upload_input \<Rightarrow> string list \<Rightarrow> upload_result option \<times> string list" where
  "cloudinary_upload backend folder uuid f objects = (case cloudinary_public_id folder uuid f of
     None \<Rightarrow> (None, objects)
   | Some publicId \<Rightarrow> (case backend publicId (cloudinary_resource f) (cloudinary_format f) of
       None \<Rightarrow> (None, objects)
     | Some (url, key) \<Rightarrow> (Some (uploaded CloudinaryDriver f url key), objects @ [key])))"

text \<open>The pattern \<open>/<cloud>/<resource type>/upload/<version>/<rest>\<close>, the version being optional.\<close>

definition drop_version :: "string \<Rightarrow> string" where
  "drop_version s = (let digits = takeWhile (\<lambda>c. c \<in> set ''0123456789'') (drop 1 s);
       tail = drop (length digits + 2) s in
     if starts_with s ''v'' \<and> digits \<noteq> [] \<and> starts_with (drop (length digits + 1) s) ''/'' \<and> tail \<noteq> [] then tail else s)"

definition upload_tail :: "string \<Rightarrow> (resource_type \<times> string) option" where
  "upload_tail s = Option.bind (find (\<lambda>r. starts_with s (''/'' @ resource_name r @ ''/upload/'')) [ImageResource, VideoResource, RawResource])
     (\<lambda>r. let rest = drop (length (resource_name r) + 9) s in if rest = [] then None else Some (r, drop_version rest))"

fun cloudinary_match :: "string \<Rightarrow> (resource_type \<times> string) option" where
  "cloudinary_match [] = None"
| "cloudinary_match (c # s) =
     (case (if c = CHR ''/'' \<and> takeWhile (\<lambda>c. c \<noteq> CHR ''/'') s \<noteq> [] then upload_tail (dropWhile (\<lambda>c. c \<noteq> CHR ''/'') s) else None) of
        Some m \<Rightarrow> Some m | None \<Rightarrow> cloudinary_match s)"

text \<open>\<open>/\.([^./]+)$/\<close>: the text after the last dot of the last segment, if there is any.\<close>

definition url_format :: "string \<Rightarrow> string" where
  "url_format s = (let t = rev (takeWhile (\<lambda>c. c \<noteq> CHR ''.'' \<and> c \<noteq> CHR ''/'') (rev s)); before = take (length s - length t) s in
     if t \<noteq> [] \<and> before \<noteq> [] \<and> last before = CHR ''.'' then t else '''')"

definition without_format :: "string \<Rightarrow> string" where
  "without_format s = (if truthy (url_format s) then take (length s - length (url_format s) - 1) s else s)"

record cloudinary_ref =
  cr_publicId :: string
  cr_resourceType :: resource_type
  cr_format :: string

definition parseCloudinaryUrl :: "url_parser \<Rightarrow> string \<Rightarrow> cloudinary_ref option" where
  "parseCloudinaryUrl parse url = (case parse url of
     None \<Rightarrow> None
   | Some (host, pathname) \<Rightarrow>
       (if \<not> js_includes host ''cloudinary.com'' then None
        else case cloudinary_match pathname of
          None \<Rightarrow> None
        | Some (r, m) \<Rightarrow> (case decodeURIComponent m of
            None \<Rightarrow> None
          | Some rest \<Rightarrow> (let publicId = (if r = RawResource then rest else without_format rest) in
              if truthy publicId then Some \<lparr>cr_publicId = publicId, cr_resourceType = r, cr_format = url_format rest\<rparr> else None))))"

definition cloudinary_deleteByUrl :: "url_parser \<Rightarrow> string \<Rightarrow> string list \<Rightarrow> string list" where
  "cloudinary_deleteByUrl parse url objects = (case parseCloudinaryUrl parse url of
     None \<Rightarrow> objects | Some r \<Rightarrow> filter (\<lambda>k. k \<noteq> cr_publicId r) objects)"

section \<open>Downloads (resolveDownloadUrl, downloadBuffer)\<close>

text \<open>\<open>sign publicId format resourceType expiresAt\<close> is \<open>private_download_url\<close>; times are in milliseconds.\<close>

type_synonym url_signer = "string \<Rightarrow> string \<Rightarrow> resource_type \<Rightarrow> int \<Rightarrow> string"

definition cloudinary_resolveDownloadUrl :: "url_parser \<Rightarrow> url_signer \<Rightarrow> instant \<Rightarrow> int option \<Rightarrow> string \<Rightarrow> string option" where
  "cloudinary_resolveDownloadUrl parse sign t expiresInSeconds url = (case parseCloudinaryUrl parse url of
     None \<Rightarrow> None
   | Some r \<Rightarrow> Some (sign (cr_publicId r) (cr_format r) (cr_resourceType r) (t div 1000 + max 60 (nullish expiresInSeconds 3600))))"

definition download_candidates :: "url_parser \<Rightarrow> url_signer \<Rightarrow> instant \<Rightarrow> string \<Rightarrow> string list" where
  "download_candidates parse sign t url = (case parseCloudinaryUrl parse url of
     None \<Rightarrow> []
   | Some r \<Rightarrow> (let bare = without_format (cr_publicId r);
         publicIds = (if cr_resourceType r = RawResource
           then js_uniq (filter truthy [cr_publicId r, bare, if truthy (cr_format r) then bare @ ''.'' @ cr_format r else ''''])
           else [cr_publicId r]) in
       map (\<lambda>i. sign i (cr_format r) (cr_resourceType r) (t div 1000 + 3600)) publicIds)) @ [url]"

datatype fetch_result = Fetched string | Status int | FetchError string

text \<open>The error of the last attempt, when none succeeds; the code's messages have the status or the
  text of the error in them.\<close>

datatype download_error = NothingTried | BadStatus int | FetchThrew string

fun download_first :: "(string \<Rightarrow> fetch_result) \<Rightarrow> download_error \<Rightarrow> string list \<Rightarrow> download_error + string" where
  "download_first fetch lastError [] = Inl lastError"
| "download_first fetch lastError (c # cs) = (case fetch c of
     Fetched body \<Rightarrow> Inr body
   | Status n \<Rightarrow> download_first fetch (BadStatus n) cs
   | FetchError e \<Rightarrow> download_first fetch (FetchThrew e) cs)"

definition cloudinary_downloadBuffer ::
  "url_parser \<Rightarrow> url_signer \<Rightarrow> instant \<Rightarrow> (string \<Rightarrow> fetch_result) \<Rightarrow> string \<Rightarrow> download_error + string" where
  "cloudinary_downloadBuffer parse sign t fetch url = download_first fetch NothingTried (download_candidates parse sign t url)"

text \<open>The service in front of the drivers: only Cloudinary resolves and downloads in its own way.\<close>

definition storage_resolveDownloadUrl ::
  "storage_driver \<Rightarrow> url_parser \<Rightarrow> url_signer \<Rightarrow> instant \<Rightarrow> int option \<Rightarrow> string \<Rightarrow> string" where
  "storage_resolveDownloadUrl driver parse sign t expiresInSeconds url = (if \<not> truthy url then url
     else case driver of CloudinaryDriver \<Rightarrow> nullish (cloudinary_resolveDownloadUrl parse sign t expiresInSeconds url) url | _ \<Rightarrow> url)"

definition storage_downloadBuffer ::
  "storage_driver \<Rightarrow> url_parser \<Rightarrow> url_signer \<Rightarrow> instant \<Rightarrow> (string \<Rightarrow> fetch_result) \<Rightarrow> string \<Rightarrow> download_error + string" where
  "storage_downloadBuffer driver parse sign t fetch url = (case driver of
     CloudinaryDriver \<Rightarrow> cloudinary_downloadBuffer parse sign t fetch url
   | _ \<Rightarrow> (case fetch url of Fetched body \<Rightarrow> Inr body | Status n \<Rightarrow> Inl (BadStatus n) | FetchError e \<Rightarrow> Inl (FetchThrew e)))"

end
