(* ===== verification/ChatAssist.thy ===== *)
theory ChatAssist
  imports ChatAnalytics ObjectStorage AdminController
begin

text \<open>
  The helpers around the chat: summaries and suggested replies (\<open>chat/ai.service.ts\<close>), previews of
  links (\<open>chat/link-preview.service.ts\<close>), and the routes of the gateway that call them or the
  analytics of the chat service. The OpenAI service, the fetching of a page and the URL parser
  of the platform are parameters.
\<close>

section \<open>AiService\<close>

definition a_page :: "chat_response \<Rightarrow> message_page option" where
  "a_page r = (case r of RMessages p \<Rightarrow> Some p | _ \<Rightarrow> None)"

definition newline :: string where "newline = [CHR 0x0A]"

record ai_request =
  ai_apiKey :: string
  ai_model :: string
  ai_transcript :: string

datatype ai_outcome = Fetch_failed | Status_not_ok | Answer "string option"

record ai_config =
  OPENAI_API_KEY :: "string option"
  OPENAI_MODEL :: string
  openai :: "ai_request \<Rightarrow> ai_outcome"

record ai_summary =
  as_summary :: string
  as_poweredByAi :: bool

definition summary_line :: "message_view \<Rightarrow> string" where
  "summary_line m = ''- '' @ trim (v_body m)"

definition summary_lines :: "message_view list \<Rightarrow> string list" where
  "summary_lines items = map summary_line
     (filter (\<lambda>m. \<not> v_deletedForEveryone m \<and> truthy (trim (v_body m))) (rev items))"

definition transcript_of :: "string list \<Rightarrow> string" where
  "transcript_of lines = take 6000 (join_with newline lines)"

definition highlights :: "string list \<Rightarrow> ai_summary" where
  "highlights lines = \<lparr>as_summary = ''Recent highlights:'' @ newline @ join_with newline (drop (length lines - 6) lines),
     as_poweredByAi = False\<rparr>"

definition summarize :: "ai_config \<Rightarrow> string list \<Rightarrow> ai_summary" where
  "summarize cfg lines =
     (if lines = [] then \<lparr>as_summary = ''No messages to summarize yet.'', as_poweredByAi = False\<rparr>
      else
       (let apiKey = nullish (map_option trim (OPENAI_API_KEY cfg)) [] in
        if truthy apiKey
        then case openai cfg \<lparr>ai_apiKey = apiKey, ai_model = OPENAI_MODEL cfg, ai_transcript = transcript_of lines\<rparr> of
            Answer content \<Rightarrow>
              (let summary = nullish (map_option trim content) [] in
               if truthy summary then \<lparr>as_summary = summary, as_poweredByAi = True\<rparr> else highlights lines)
          | _ \<Rightarrow> highlights lines
        else highlights lines))"

definition summarizeConversation :: "world \<Rightarrow> ai_config \<Rightarrow> uuid \<Rightarrow> uuid \<Rightarrow> ai_summary act" where
  "summarizeConversation w cfg actorId conversationId =
     chain (sendChat a_page w (ListMessages actorId conversationId 1 40)) (\<lambda>history.
     give (summarize cfg (summary_lines (fst history))))"

definition smart_replies :: "string \<Rightarrow> string list" where
  "smart_replies t =
     (if js_includes t ''?'' then [''Yes, sounds good'', ''Let me check'', ''Not sure yet'']
      else if js_includes t ''thanks'' \<or> js_includes t ''thank you''
      then [''You'' @ [CHR 0xE2, CHR 0x80, CHR 0x99] @ ''re welcome!'', ''Anytime'', ''Happy to help'']
      else if js_includes t ''meet'' \<or> js_includes t ''call'' then [''Works for me'', ''What time?'', ''Can we do async?'']
      else [''On it '' @ [CHR 0xF0, CHR 0x9F, CHR 0x91, CHR 0x8D], ''Got it'', ''Will follow up''])"

definition smartReplies :: "world \<Rightarrow> uuid \<Rightarrow> uuid \<Rightarrow> string list act" where
  "smartReplies w actorId conversationId =
     chain (sendChat a_page w (ListMessages actorId conversationId 1 12)) (\<lambda>history.
     (let lastIncoming = find (\<lambda>m. v_senderId m \<noteq> actorId \<and> \<not> v_deletedForEveryone m) (fst history) in
      give (smart_replies (case lastIncoming of None \<Rightarrow> [] | Some m \<Rightarrow> to_lower (v_body m)))))"

section \<open>Routes (chat.controller.ts, chat.gateway.ts, users.controller.ts, admin.controller.ts)\<close>

definition rest_summarize :: "world \<Rightarrow> ai_config \<Rightarrow> uuid \<Rightarrow> uuid \<Rightarrow> ai_summary act" where
  "rest_summarize w cfg me_id i = summarizeConversation w cfg me_id i"

definition rest_smartReplies :: "world \<Rightarrow> uuid \<Rightarrow> uuid \<Rightarrow> string list act" where
  "rest_smartReplies w me_id i = smartReplies w me_id i"

definition rest_getWebRtcConfig :: "string \<Rightarrow> string \<Rightarrow> string \<Rightarrow> string \<Rightarrow> ice_server list act" where
  "rest_getWebRtcConfig stunRaw turnUrls turnUsername turnCredential =
     give (getIceServers stunRaw turnUrls turnUsername turnCredential)"

definition rest_getPushPublicKey :: "push_config \<Rightarrow> (string option \<times> bool) act" where
  "rest_getPushPublicKey cfg = give (getPublicKey cfg, push_enabled cfg)"

definition relayOffer :: "world \<Rightarrow> string \<Rightarrow> uuid option \<Rightarrow> uuid option \<Rightarrow> json option \<Rightarrow> unit act" where
  "relayOffer w sid cid toId sdp = relayWebRtcSignal w sid True cid toId sdp"

definition relayAnswer :: "world \<Rightarrow> string \<Rightarrow> uuid option \<Rightarrow> uuid option \<Rightarrow> json option \<Rightarrow> unit act" where
  "relayAnswer w sid cid toId sdp = relayWebRtcSignal w sid False cid toId sdp"

definition users_me :: "world \<Rightarrow> uuid \<Rightarrow> profile_view act" where
  "users_me w me_id = sendUser a_profile w (FindByUserId me_id)"

definition users_directory :: "world \<Rightarrow> find_users_payload \<Rightarrow> user_response act" where
  "users_directory w q = sendUser Some w (FindUsers q)"

text \<open>The time zones of the chat service and of its database session, and the batches of the SCAN.\<close>

definition rest_analytics :: "world \<Rightarrow> int \<Rightarrow> int \<Rightarrow> (keyspace \<Rightarrow> string \<Rightarrow> string list list) \<Rightarrow> (analytics_view \<times> nat) act" where
  "rest_analytics w tz dz scan =
     chain (send w gw_chat (\<lambda>db g. g\<lparr>gw_chat := db\<rparr>) (\<lambda>db. (Inr (getAnalytics tz dz (wd_clk w) db), db))) (\<lambda>data.
     chain (ask (\<lambda>g. countOnlineUsers scan (gw_keys g))) (\<lambda>onlineUsers.
     give (data, onlineUsers)))"

section \<open>LinkPreviewService\<close>

text \<open>
  The regular expressions of this service are sequences of literals (ignoring case), character classes,
  and greedy repetitions of a class, one of them a group. A match is searched by backtracking from the
  longest repetition, at the first position where there is one, and answers the group.
\<close>

datatype pattern = Lit string | One "char \<Rightarrow> bool" | Plus "char \<Rightarrow> bool" | Star "char \<Rightarrow> bool" | Group "char \<Rightarrow> bool"

fun first_some :: "'a option list \<Rightarrow> 'a option" where
  "first_some [] = None"
| "first_some (Some x # xs) = Some x"
| "first_some (None # xs) = first_some xs"

definition repeats :: "(char \<Rightarrow> bool) \<Rightarrow> nat \<Rightarrow> string \<Rightarrow> nat list" where
  "repeats P least s = rev [least..<Suc (length (takeWhile P s))]"

fun match_at :: "pattern list \<Rightarrow> string \<Rightarrow> string \<Rightarrow> string option" where
  "match_at [] grp s = Some grp"
| "match_at (Lit l # ps) grp s =
     (if to_lower (take (length l) s) = to_lower l then match_at ps grp (drop (length l) s) else None)"
| "match_at (One P # ps) grp s = (case s of [] \<Rightarrow> None | c # s' \<Rightarrow> if P c then match_at ps grp s' else None)"
| "match_at (Plus P # ps) grp s = first_some (map (\<lambda>k. match_at ps grp (drop k s)) (repeats P 1 s))"
| "match_at (Star P # ps) grp s = first_some (map (\<lambda>k. match_at ps grp (drop k s)) (repeats P 0 s))"
| "match_at (Group P # ps) grp s = first_some (map (\<lambda>k. match_at ps (take k s) (drop k s)) (repeats P 1 s))"

fun html_match :: "pattern list \<Rightarrow> string \<Rightarrow> string option" where
  "html_match ps [] = match_at ps [] []"
| "html_match ps (c # s) = (case match_at ps [] (c # s) of Some grp \<Rightarrow> Some grp | None \<Rightarrow> html_match ps s)"

definition quote :: "char \<Rightarrow> bool" where "quote c = (c \<in> {CHR 0x22, CHR 0x27})"
definition unquoted :: "char \<Rightarrow> bool" where "unquoted c = (\<not> quote c)"
definition in_tag :: "char \<Rightarrow> bool" where "in_tag c = (c \<noteq> CHR ''>'')"

definition meta_patterns :: "string \<Rightarrow> pattern list list" where
  "meta_patterns key =
     [[Lit ''<meta'', Plus in_tag, Lit ''property='', One quote, Lit key, One quote, Plus in_tag, Lit ''content='', One quote,
       Group unquoted, One quote],
      [Lit ''<meta'', Plus in_tag, Lit ''content='', One quote, Group unquoted, One quote, Plus in_tag, Lit ''property='',
       One quote, Lit key, One quote],
      [Lit ''<meta'', Plus in_tag, Lit ''name='', One quote, Lit key, One quote, Plus in_tag, Lit ''content='', One quote,
       Group unquoted, One quote]]"

text \<open>\<open>replace(/pat/g, rep)\<close> of a literal text\<close>

function replace_all :: "string \<Rightarrow> string \<Rightarrow> string \<Rightarrow> string" where
  "replace_all pat rep s =
     (case s of [] \<Rightarrow> []
      | c # s' \<Rightarrow> if pat \<noteq> [] \<and> prefix pat s then rep @ replace_all pat rep (drop (length pat) s) else c # replace_all pat rep s')"
  by pat_completeness auto
termination by (relation "measure (\<lambda>(_, _, s). length s)") (auto dest: prefix_length_le)

declare replace_all.simps [simp del]

definition html_decode :: "string \<Rightarrow> string" where
  "html_decode v = trim (replace_all ''&#39;'' [CHR 0x27] (replace_all ''&quot;'' [CHR 0x22] (replace_all ''&gt;'' ''>''
     (replace_all ''&lt;'' ''<'' (replace_all ''&amp;'' ''&'' v)))))"

definition readMeta :: "string \<Rightarrow> string \<Rightarrow> string option" where
  "readMeta html key = map_option html_decode
     (first_some (map (\<lambda>p. case html_match p html of Some grp \<Rightarrow> if truthy grp then Some grp else None | None \<Rightarrow> None)
        (meta_patterns key)))"

definition readTitle :: "string \<Rightarrow> string option" where
  "readTitle html = (case html_match [Lit ''<title'', Star in_tag, Lit ''>'', Group (\<lambda>c. c \<noteq> CHR ''<''), Lit ''</title>''] html of
     Some grp \<Rightarrow> if truthy grp then Some (html_decode grp) else None | None \<Rightarrow> None)"

record preview_result =
  pw_url :: string
  pw_title :: string
  pw_description :: string
  pw_image :: "string option"

definition resolveUrl :: "(string \<Rightarrow> string \<Rightarrow> string option) \<Rightarrow> string \<Rightarrow> string \<Rightarrow> string" where
  "resolveUrl url_parse base path = (case url_parse path base of Some u \<Rightarrow> u | None \<Rightarrow> path)"

text \<open>The text of the page at a URL, \<open>None\<close> when the fetch throws.\<close>

definition link_fetch :: "(string \<Rightarrow> string option) \<Rightarrow> (string \<Rightarrow> string \<Rightarrow> string option) \<Rightarrow> string \<Rightarrow> preview_result option" where
  "link_fetch page url_parse url =
     (let normalized = trim url in
      case page normalized of
        None \<Rightarrow> None
      | Some html \<Rightarrow>
         (let title = nullish (readMeta html ''og:title'') (nullish (readTitle html) normalized);
              description = nullish (readMeta html ''og:description'') (nullish (readMeta html ''description'') []);
              image = readMeta html ''og:image'' in
          Some \<lparr>pw_url = normalized, pw_title = take 200 title, pw_description = take 400 description,
            pw_image = (case image of Some i \<Rightarrow> if truthy i then Some (resolveUrl url_parse normalized i) else None | None \<Rightarrow> None)\<rparr>))"

definition rest_previewLink :: "(string \<Rightarrow> string option) \<Rightarrow> (string \<Rightarrow> string \<Rightarrow> string option) \<Rightarrow> string \<Rightarrow> preview_result act" where
  "rest_previewLink page url_parse url =
     (case link_fetch page url_parse url of
        Some r \<Rightarrow> give r
      | None \<Rightarrow> throw (HttpException 500 ''fetch failed''))"

end
