(* ===== verification/GatewayOutsiders.thy ===== *)
theory GatewayOutsiders
  imports ChatAssist GatewayRuns
begin

text \<open>
  What a user meets at the gateway who is not a member of a conversation: every handler for
  that conversation that asks the chat service refuses, and announces, pushes and stores nothing.
\<close>

section \<open>Handlers of a conversation\<close>




section \<open>Refusals\<close>

named_theorems away "handlers that turn an outsider away"

definition turned_away :: "gateway \<Rightarrow> 'a act \<Rightarrow> bool" where
  "turned_away g m \<longleftrightarrow> (\<forall>k. isl (fst (m (g\<lparr>gw_rpcs := k\<rparr>))) \<and> (\<exists>n. snd (m (g\<lparr>gw_rpcs := k\<rparr>)) = g\<lparr>gw_rpcs := n\<rparr>))"

lemma turned_awayI: "(\<And>k. \<exists>e n. m (g\<lparr>gw_rpcs := k\<rparr>) = (Inl e, g\<lparr>gw_rpcs := n\<rparr>)) \<Longrightarrow> turned_away g m"
  unfolding turned_away_def by (metis fst_conv isl_def snd_conv)

lemma turned_awayE:
  assumes "turned_away g m"
  obtains e n where "m (g\<lparr>gw_rpcs := k\<rparr>) = (Inl e, g\<lparr>gw_rpcs := n\<rparr>)"
  using assms unfolding turned_away_def by (metis isl_def prod.collapse)

lemma away_chain [away]:
  assumes "turned_away g m"
  shows "turned_away g (chain m f)"
proof (rule turned_awayI)
  fix k
  obtain e n where "m (g\<lparr>gw_rpcs := k\<rparr>) = (Inl e, g\<lparr>gw_rpcs := n\<rparr>)" by (rule turned_awayE [OF assms])
  then show "\<exists>e n. chain m f (g\<lparr>gw_rpcs := k\<rparr>) = (Inl e, g\<lparr>gw_rpcs := n\<rparr>)" by (auto simp: chain_def)
qed

lemma away_throw [away]: "turned_away g (throw e)"
  by (auto simp: turned_away_def throw_def)

lemma away_if [away]: "turned_away g m \<Longrightarrow> turned_away g m' \<Longrightarrow> turned_away g (if b then m else m')"
  by simp

lemma away_cached: "turned_away g (chain (f None) h) \<Longrightarrow> (\<And>x. turned_away g (chain (f (Some x)) h)) \<Longrightarrow> turned_away g (chain (f y) h)"
  by (cases y) simp_all

text \<open>Actions that only count their requests.\<close>

definition reads :: "gateway \<Rightarrow> 'a act \<Rightarrow> bool" where
  "reads g m \<longleftrightarrow> (\<forall>k. \<exists>n. snd (m (g\<lparr>gw_rpcs := k\<rparr>)) = g\<lparr>gw_rpcs := n\<rparr>)"

lemma readsE:
  assumes "reads g m"
  obtains x n where "m (g\<lparr>gw_rpcs := k\<rparr>) = (x, g\<lparr>gw_rpcs := n\<rparr>)"
  using assms unfolding reads_def by (metis prod.collapse)

lemma readsI: "(\<And>k. \<exists>x n. m (g\<lparr>gw_rpcs := k\<rparr>) = (x, g\<lparr>gw_rpcs := n\<rparr>)) \<Longrightarrow> reads g m"
  unfolding reads_def by (metis snd_conv)

lemma away_after [away]:
  assumes "reads g m" and "\<And>x. turned_away g (f x)"
  shows "turned_away g (chain m f)"
  unfolding turned_away_def
proof
  fix k
  obtain x n where m: "m (g\<lparr>gw_rpcs := k\<rparr>) = (x, g\<lparr>gw_rpcs := n\<rparr>)" by (rule readsE [OF assms(1)])
  show "isl (fst (chain m f (g\<lparr>gw_rpcs := k\<rparr>))) \<and> (\<exists>n. snd (chain m f (g\<lparr>gw_rpcs := k\<rparr>)) = g\<lparr>gw_rpcs := n\<rparr>)"
  proof (cases x)
    case (Inr y)
    then show ?thesis using m assms(2) [of y] by (simp add: chain_def turned_away_def)
  qed (use m in \<open>auto simp: chain_def\<close>)
qed

lemma reads_chain:
  assumes "reads g m" and "\<And>x. reads g (f x)"
  shows "reads g (chain m f)"
  unfolding reads_def
proof
  fix k
  obtain x n where "m (g\<lparr>gw_rpcs := k\<rparr>) = (x, g\<lparr>gw_rpcs := n\<rparr>)" by (rule readsE [OF assms(1)])
  then show "\<exists>n. snd (chain m f (g\<lparr>gw_rpcs := k\<rparr>)) = g\<lparr>gw_rpcs := n\<rparr>"
    using assms(2) by (cases x) (auto simp: chain_def reads_def)
qed

lemma reads_attempt:
  assumes "reads g m" and "\<And>e. reads g (h e)"
  shows "reads g (attempt m h)"
  unfolding reads_def
proof
  fix k
  obtain x n where "m (g\<lparr>gw_rpcs := k\<rparr>) = (x, g\<lparr>gw_rpcs := n\<rparr>)" by (rule readsE [OF assms(1)])
  then show "\<exists>n. snd (attempt m h (g\<lparr>gw_rpcs := k\<rparr>)) = g\<lparr>gw_rpcs := n\<rparr>"
    using assms(2) by (cases x) (auto simp: attempt_def reads_def)
qed

lemma reads_parts: "reads g (give x)" "reads g (throw e)" "reads g (ask f)"
  by (auto simp: reads_def action_defs)

lemma reads_lookup: "reads g (sendUser a_profile w (FindByUserId u))"
proof (rule readsI)
  fix k
  show "\<exists>x n. sendUser a_profile w (FindByUserId u) (g\<lparr>gw_rpcs := k\<rparr>) = (x, g\<lparr>gw_rpcs := n\<rparr>)"
    by (cases "wd_fate w k"; cases "find_profile (gw_users g) u")
      (auto simp: sendUser_def chain_def send_def user_step_def findByUserId_def typed_def a_profile_def action_defs)
qed

lemma reads_users: "reads g (all_exist w us)"
  by (induction us)
    (auto intro!: reads_chain reads_parts reads_attempt reads_lookup simp: user_exists_def lookupByUserId_def)

lemma reads_guards: "reads g (assertUsersExist w us)" "reads g (cached_members w i)" "reads g (requireConversationId cid)"
  by (auto simp: assertUsersExist_def cached_members_def requireConversationId_def required_def
      intro!: reads_chain reads_users reads_parts split: option.split)

lemmas away_reads [away] = away_after [OF reads_guards(1)] away_after [OF reads_guards(2)] away_after [OF reads_guards(3)]

definition outside :: "gateway \<Rightarrow> uuid \<Rightarrow> uuid \<Rightarrow> bool" where
  "outside g u i \<longleftrightarrow> chat_inv {} (gw_chat g) \<and> u \<notin> fst ` set (roster (gw_chat g) i)"

lemma away_request:
  assumes "outside g u i" and "(u, i) \<in> set (request_scopes q)"
  shows "turned_away g (sendChat expected w q)"
proof (rule turned_awayI)
  fix k
  obtain e where "chat_step (wd_clk w, q) (gw_chat g) = (Inl e, gw_chat g)"
    using outsider_refused [OF _ assms(2), of "gw_chat g"] assms(1) by (auto simp: outside_def)
  then show "\<exists>e n. sendChat expected w q (g\<lparr>gw_rpcs := k\<rparr>) = (Inl e, g\<lparr>gw_rpcs := n\<rparr>)"
    by (cases "wd_fate w k") (auto simp: sendChat_def chain_def send_def)
qed

text \<open>The requests of the handlers name the user and the conversation.\<close>

lemma away_requests [away]:
  assumes "outside g u i"
  shows "turned_away g (get_conversation w u i)" "turned_away g (sendChat e w (SendMessage (text_payload u i b ty s)))"
    "turned_away g (sendChat e w (SendMessage (dto\<lparr>sp_actorId := u, sp_conversationId := i, sp_systemCall := f\<rparr>)))"
    "turned_away g (sendChat e w (ScheduleMessage (dto\<lparr>sp_actorId := u, sp_conversationId := i, sp_systemCall := f\<rparr>) t))"
    "turned_away g (sendChat e w (EditMessage u i m b))" "turned_away g (sendChat e w (ReactMessage u i m b))"
    "turned_away g (sendChat e w (PinMessage u i m p))" "turned_away g (sendChat e w (ForwardMessage u i j m))"
    "turned_away g (sendChat e w (ForwardMessage u j i m))" "turned_away g (sendChat e w (DeleteMessage u i m p))"
    "turned_away g (sendChat e w (MarkSeen u i mo))" "turned_away g (sendChat e w (GetMessage u i m))"
    "turned_away g (sendChat e w (MuteConversation u i p))" "turned_away g (sendChat e w (PinConversation u i p))"
    "turned_away g (sendChat e w (SetDisappearing u i n))" "turned_away g (sendChat e w (RosterRequest u i oper))"
    "turned_away g (sendChat e w (UpdateGroup u i b))" "turned_away g (sendChat e w (SearchMessages u i b n n'))"
    "turned_away g (sendChat e w (ListMedia u i bo n n'))" "turned_away g (sendChat e w (ListMessages u i n n'))"
    "turned_away g (sendChat e w (ListPinnedMessages u i))" "turned_away g (sendChat e w (ListScheduledMessages u i))"
    "turned_away g (sendChat e w (CancelScheduledMessage u i m))"
  unfolding get_conversation_def by (rule away_request [OF assms], simp add: request_scopes_def text_payload_def)+

lemma away_leave [away]:
  assumes "outside g u i"
  shows "turned_away g (rest_leave w u i)"
  unfolding rest_leave_def previous_members_def chain_assoc
  by (rule away_reads(2), rule away_cached) (simp_all add: away assms)





end
