(* ===== verification/StorageProperties.thy ===== *)
theory StorageProperties
  imports ObjectStorage
begin

text \<open>
  What is stored can be deleted again: from the URL an upload is given each driver finds the object,
  under conditions on names and deployment that the drivers do not check.
\<close>

section \<open>Strings\<close>


lemma starts_with_append_Cons [simp]: "starts_with (p @ c # s) (p @ [c])"
  by (simp add: starts_with_def)

lemma starts_with_Cons [simp]: "starts_with (c # s) (d # p) \<longleftrightarrow> c = d \<and> starts_with s p" "starts_with s []"
  by (auto simp: starts_with_def)

lemma decode_plain: "CHR ''%'' \<notin> set s \<Longrightarrow> decodeURIComponent s = Some s"
  by (induction s) auto


lemma lower_char_dot [simp]: "lower_char c = CHR ''.'' \<longleftrightarrow> c = CHR ''.''" "lower_char c = CHR ''/'' \<longleftrightarrow> c = CHR ''/''"
proof -
  have "lower_char c = d \<longleftrightarrow> c = d" if "(of_char d :: nat) < 65" for d
    using that by (auto simp: lower_char_def Let_def of_char_eq_iff [symmetric, where 'a = nat] simp del: of_char_eq_iff)
  from this [of "CHR ''.''"] this [of "CHR ''/''"]
  show "lower_char c = CHR ''.'' \<longleftrightarrow> c = CHR ''.''" "lower_char c = CHR ''/'' \<longleftrightarrow> c = CHR ''/''" by simp_all
qed






section \<open>The contract of a driver\<close>


section \<open>Local files\<close>





section \<open>S3\<close>

record s3_deployment =
  sd_options :: s3_options
  sd_parse :: url_parser

definition put_s3 :: "s3_deployment \<Rightarrow> string \<Rightarrow> upload_input \<Rightarrow> string list \<Rightarrow> upload_result option \<times> string list" where
  "put_s3 c uuid f ks = (case s3_upload (sd_options c) uuid f ks of (r, ks') \<Rightarrow> (Some r, ks'))"

definition remove_s3 :: "s3_deployment \<Rightarrow> string \<Rightarrow> string list \<Rightarrow> string list" where
  "remove_s3 c url ks = s3_deleteByUrl (sd_parse c) (sd_options c) url ks"

definition has_public_url :: "s3_options \<Rightarrow> bool" where
  "has_public_url o3 = truthy (nullish (map_option strip_trailing_slash (so_publicUrl o3)) '''')"

definition path_style :: "s3_options \<Rightarrow> bool" where
  "path_style o3 = (truthy (nullish (map_option strip_trailing_slash (so_endpoint o3)) '''') \<and> so_forcePathStyle o3)"




section \<open>Cloudinary\<close>


















section \<open>What holds of all drivers\<close>


definition demo_upload :: "string \<Rightarrow> string \<Rightarrow> upload_input" where
  "demo_upload name mime = \<lparr>ui_originalName = name, ui_mimeType = mime, ui_size = 1, ui_userName = Some ''Ann@x.io'', ui_avatar = False\<rparr>"

text \<open>A URL parser that is right about the URLs of the examples.\<close>

definition demo_parse :: url_parser where
  "demo_parse url = (if starts_with url ''https://'' then
     Some (takeWhile (\<lambda>c. c \<noteq> CHR ''/'') (drop 8 url), dropWhile (\<lambda>c. c \<noteq> CHR ''/'') (drop 8 url)) else None)"

definition demo_s3 :: "string \<Rightarrow> s3_deployment" where
  "demo_s3 bucket = \<lparr>sd_options = \<lparr>so_region = ''eu-1'', so_bucket = bucket, so_endpoint = None, so_publicUrl = None,
     so_forcePathStyle = False, so_prefix = None\<rparr>, sd_parse = demo_parse\<rparr>"



text \<open>
  C0. A bucket with the name of the key prefix loses its files: where the bucket is part of the host
  name and is called like the prefix, as with the default prefix and a bucket called relay, no upload
  can be deleted by its URL, because the driver takes the prefix for the bucket.
\<close>

theorem bucket_named_like_prefix:
  assumes "so_bucket (sd_options d) = s3_prefix (sd_options d)" and "\<not> has_public_url (sd_options d)" "\<not> path_style (sd_options d)"
    and "map_option snd (sd_parse d (ur_url r)) = Some (''/'' @ ur_key r)" and "CHR ''%'' \<notin> set (ur_key r)"
    and "put_s3 d uuid f ks = (Some r, ks')"
  shows "ur_key r \<in> set (remove_s3 d (ur_url r) ks')"
proof -
  let ?o = "sd_options d"
  obtain rest where key: "ur_key r = so_bucket ?o @ CHR ''/'' # rest" "ur_url r = buildPublicUrl ?o (ur_key r)" "ks' = ks @ [ur_key r]"
    using assms(1,6) by (auto simp: put_s3_def s3_upload_def uploaded_def Let_def s3_key_def)
  obtain host where "sd_parse d (ur_url r) = Some (host, CHR ''/'' # ur_key r)" using assms(4) by auto
  moreover have "s3_path_key ?o (ur_key r) = Some rest" using key(1) by (simp add: s3_path_key_def)
  ultimately have "s3_keyFromUrl (sd_parse d) ?o (ur_url r) = Some rest"
    using decode_plain [OF assms(5)] assms(2) by (simp add: s3_keyFromUrl_def has_public_url_def Let_def)
  then show ?thesis using key by (simp add: remove_s3_def s3_deleteByUrl_def)
qed

theorem bucket_named_like_prefix_witness:
  "''relay/ann/files/u1.pdf'' \<in> set (remove_s3 (demo_s3 ''relay'') ''https://relay.s3.eu-1.amazonaws.com/relay/ann/files/u1.pdf'' [''relay/ann/files/u1.pdf''])"
proof -
  let ?pdf = "demo_upload ''A.pdf'' ''application/pdf''"
  have run: "put_s3 (demo_s3 ''relay'') ''u1'' ?pdf []
      = (Some (uploaded S3Driver ?pdf ''https://relay.s3.eu-1.amazonaws.com/relay/ann/files/u1.pdf'' ''relay/ann/files/u1.pdf''), [''relay/ann/files/u1.pdf''])"
    by code_simp
  have facts: "so_bucket (sd_options (demo_s3 ''relay'')) = s3_prefix (sd_options (demo_s3 ''relay''))"
    "\<not> has_public_url (sd_options (demo_s3 ''relay''))" "\<not> path_style (sd_options (demo_s3 ''relay''))"
    "map_option snd (sd_parse (demo_s3 ''relay'') ''https://relay.s3.eu-1.amazonaws.com/relay/ann/files/u1.pdf'') = Some ''/relay/ann/files/u1.pdf''" by code_simp+
  show ?thesis using bucket_named_like_prefix [OF facts(1-3) _ _ run] facts(4) by (simp add: uploaded_def)
qed

end
