(* ===== verification/GatewayFiles.thy ===== *)
theory GatewayFiles
  imports GatewayRuns
begin

text \<open>
  What becomes of the stored files of messages: which object a deletion removes, and who still
  refers to it.
\<close>

lemma save_message_others: "m' \<in> set (messages db) \<Longrightarrow> m_id m' \<noteq> m_id m \<Longrightarrow> m' \<in> set (messages (save_message m db))"
  by (force simp: save_message_simps save_row_def)

lemma deleteMessage_file:
  assumes "deleteMessage clk a c mid True db = (Inr r, db')" and "find_message_in db mid c = Some m" "m_deletedForEveryoneAt m = None"
    and "m' \<in> set (messages db)" "m_id m' \<noteq> mid"
  shows "m_sender m = a" "dr_removedAttachmentUrl r = m_attachmentUrl m" "dr_forEveryone r" "m' \<in> set (messages db')"
proof -
  obtain conv where conv: "requireMembership db c a = Inr conv" using assms(1) by (auto simp: deleteMessage_def split: sum.splits)
  have cid: "c_id (fst conv) = c" by (rule requireMembership_InrE [OF conv]) simp
  have mid: "m_id (wipe_message clk m) = mid" using assms(2) by (auto simp: find_message_in_def wipe_message_def dest: find_set)
  have author: "m_sender m = a" using assms(1-3) by (auto simp: deleteMessage_def conv cid split: if_splits)
  show "m_sender m = a" by (rule author)
  have r: "r = \<lparr>dr_message = stored_view db' (wipe_message clk m) (snd conv) a, dr_forEveryone = True,
      dr_recipientIds = recipientIds (snd conv), dr_removedAttachmentUrl = m_attachmentUrl m\<rparr>" "db' = save_message (wipe_message clk m) db"
    using assms(1-3) author by (auto simp: deleteMessage_def conv cid Let_def split: if_splits)
  show "dr_removedAttachmentUrl r = m_attachmentUrl m" "dr_forEveryone r" by (simp_all add: r(1))
  show "m' \<in> set (messages db')" unfolding r(2) by (rule save_message_others [OF assms(4)]) (use mid assms(5) in metis)
qed

lemma delete_message_run: "sendChat a_deletion w (DeleteMessage a c mid e) g = (Inr r, g') \<Longrightarrow>
    \<exists>db. deleteMessage (wd_clk w) a c mid e (gw_chat g) = (Inr r, db) \<and> g' = g\<lparr>gw_rpcs := Suc (gw_rpcs g), gw_chat := db\<rparr>"
  by (cases "deleteMessage (wd_clk w) a c mid e (gw_chat g)"; cases "fst (deleteMessage (wd_clk w) a c mid e (gw_chat g))")
    (auto simp: sendChat_run chat_step_def reply_def a_deletion_def)

text \<open>
  C14. Deleting a message for everyone deletes its stored file although other messages still show it:
  the object of the attachment goes, whoever else refers to the same URL, such as the original of
  a forwarded message or a message of somebody else whose URL was sent again, keeps the reference.
\<close>

theorem shared_file_is_deleted:
  assumes "rest_deleteMessage w a c mid True g = (Inr v, g')"
    and "find_message_in (gw_chat g) mid c = Some m" "m_deletedForEveryoneAt m = None" "m_attachmentUrl m = Some url" "truthy url"
    and "m' \<in> set (messages (gw_chat g))" "m_id m' \<noteq> mid" "m_attachmentUrl m' = Some url"
  shows "m_sender m = a \<and> gw_deletedFiles g' = gw_deletedFiles g @ [url]
    \<and> m' \<in> set (messages (gw_chat g')) \<and> m_attachmentUrl m' = Some url"
proof -
  obtain r db where run: "deleteMessage (wd_clk w) a c mid True (gw_chat g) = (Inr r, db)"
    and rest: "chain (only_if (dr_forEveryone r) (chain (cache_members w c (dr_recipientIds r)) (\<lambda>_.
        chain (broadcastMessageDeleted (dr_message r) (dr_recipientIds r)) (\<lambda>_. deleteByUrl (nullish (dr_removedAttachmentUrl r) '''')))))
        (\<lambda>_. give (dr_message r)) (g\<lparr>gw_rpcs := Suc (gw_rpcs g), gw_chat := db\<rparr>) = (Inr v, g')"
    using assms(1) delete_message_run by (fastforce simp: rest_deleteMessage_def chain_run)
  note d = deleteMessage_file [OF run assms(2,3,6,7)]
  have "gw_deletedFiles g' = gw_deletedFiles g @ [url]" "gw_chat g' = db"
    using rest d(2,3) assms(4,5)
    by (auto simp: chain_def only_if_def broadcastMessageDeleted_def emitToMembers_def emit_def change_def cache_members_def
        put_keys_def on_keys_def deleteByUrl_def nullish_def give_def)
  with d assms(8) show ?thesis by simp
qed

text \<open>The first member of the group sends a file, the second forwards it within the group.\<close>

definition file_chat :: chat_db where
  "file_chat = run_requests chat_step
     [(at_time 6000, SendMessage ((text_payload ''ann'' (demo_ids 0) '''' TEXT False)\<lparr>sp_attachmentUrl := Some ''/uploads/u1.pdf''\<rparr>)),
      (at_time 6100, ForwardMessage ''bob'' (demo_ids 0) (demo_ids 0) (demo_ids (uuid_next demo_chat)))] demo_chat"

theorem shared_file_is_deleted_witness:
  "\<exists>(g' :: gateway). gw_deletedFiles g' = [''/uploads/u1.pdf'']
    \<and> (\<exists>m'\<in>set (messages (gw_chat g')). m_sender m' = ''ann'' \<and> m_attachmentUrl m' = Some ''/uploads/u1.pdf'')"
proof -
  let ?g = "demo_gateway\<lparr>gw_chat := file_chat\<rparr>"
  let ?run = "rest_deleteMessage (demo_world 7000) ''bob'' (demo_ids 0) (demo_ids 13) True ?g"
  have facts: "\<not> isl (fst ?run)" "gw_deletedFiles ?g = []" "length (messages file_chat) = 4"
    "map (\<lambda>m. (m_id m, m_sender m, m_attachmentUrl m)) (drop 2 (messages file_chat))
      = [(demo_ids 11, ''ann'', Some ''/uploads/u1.pdf''), (demo_ids 13, ''bob'', Some ''/uploads/u1.pdf'')]"
    "map_option (\<lambda>m. (m_attachmentUrl m, m_deletedForEveryoneAt m)) (find_message_in file_chat (demo_ids 13) (demo_ids 0)) = Some (Some ''/uploads/u1.pdf'', None)"
    "demo_ids 11 \<noteq> demo_ids 13"
    by code_simp+
  then obtain v g' where run: "?run = (Inr v, g')" by (cases ?run; cases "fst ?run") auto
  obtain m where m: "find_message_in (gw_chat ?g) (demo_ids 13) (demo_ids 0) = Some m" "m_deletedForEveryoneAt m = None"
    "m_attachmentUrl m = Some ''/uploads/u1.pdf''" using facts(5) by auto
  obtain m' where m': "m' \<in> set (drop 2 (messages file_chat))" "m_id m' = demo_ids 11" "m_sender m' = ''ann''" "m_attachmentUrl m' = Some ''/uploads/u1.pdf''"
    using facts(4) by (cases "drop 2 (messages file_chat)") auto
  have other: "m' \<in> set (messages (gw_chat ?g))" "m_id m' \<noteq> demo_ids 13" using m'(1,2) facts(6) by (auto dest: in_set_dropD)
  note gone = shared_file_is_deleted [OF run m(1,2,3) _ other m'(4)]
  have "gw_deletedFiles g' = [''/uploads/u1.pdf'']" using gone facts(2) by (simp add: truthy_def)
  moreover have "m' \<in> set (messages (gw_chat g'))" using gone by (simp add: truthy_def)
  ultimately show ?thesis using m'(3,4) by blast
qed

end
