(* ===== verification/HttpEdge.thy ===== *)
theory HttpEdge
  imports Complex_Main ObjectStorage AdminController "HOL-Library.AList"
begin

text \<open>
  The edge of the gateway: what becomes of the value or the exception of a handler
  before the client reads it. The exception classes (\<open>app.exception.ts\<close>), the catch block of the
  proxy (\<open>microservice.proxy.ts\<close>), the two exception filters, the envelope and timeout
  interceptors, the pipes for validation errors and identifiers and the request identifier
  (all of \<open>libs/common\<close>).

  A value that crosses this edge untyped is a JSON value. What the framework decides is a
  parameter: the reverse map of the enum \<open>HttpStatus\<close> and the text of a number.
\<close>

section \<open>JSON values\<close>

datatype (plugins only: size code) jval =
  JNull | JBool bool | JNum rat | JNaN | JStr string | JArr "jval list" | JObj "(string \<times> jval) list"

text \<open>
  A number is a rational; \<open>JNaN\<close> stands for the numbers that are none, which no JSON text denotes
  but a conversion of the request may produce.

  Then \<open>value.key\<close>, \<open>None\<close> being undefined.
\<close>

definition js_get :: "string \<Rightarrow> jval \<Rightarrow> jval option" where
  "js_get k v = (case v of JObj ps \<Rightarrow> map_of ps k | _ \<Rightarrow> None)"

definition js_truthy :: "jval \<Rightarrow> bool" where
  "js_truthy v = (case v of JNull \<Rightarrow> False | JBool b \<Rightarrow> b | JNum n \<Rightarrow> n \<noteq> 0 | JNaN \<Rightarrow> False | JStr s \<Rightarrow> truthy s | _ \<Rightarrow> True)"

definition js_string :: "jval option \<Rightarrow> string option" where
  "js_string v = (case v of Some (JStr s) \<Rightarrow> Some s | _ \<Rightarrow> None)"

definition js_number :: "jval option \<Rightarrow> rat option" where
  "js_number v = (case v of Some (JNum n) \<Rightarrow> Some n | _ \<Rightarrow> None)"

definition js_object :: "jval \<Rightarrow> bool" where
  "js_object v = (case v of JArr _ \<Rightarrow> True | JObj _ \<Rightarrow> True | _ \<Rightarrow> False)"

record http_env =
  he_status_name :: "rat \<Rightarrow> string option"
  he_number_text :: "rat \<Rightarrow> string"
  he_production :: bool

text \<open>\<open>String(value)\<close>; \<open>[...].join\<close> shows null as the empty string\<close>

fun js_text :: "http_env \<Rightarrow> jval \<Rightarrow> string" where
  "js_text env JNull = ''null''"
| "js_text env (JBool b) = (if b then ''true'' else ''false'')"
| "js_text env (JNum n) = he_number_text env n"
| "js_text env JNaN = ''NaN''"
| "js_text env (JStr s) = s"
| "js_text env (JArr vs) = join_with '','' (map (\<lambda>v. case v of JNull \<Rightarrow> [] | _ \<Rightarrow> js_text env v) vs)"
| "js_text env (JObj ps) = ''[object Object]''"

definition js_join :: "http_env \<Rightarrow> string \<Rightarrow> jval list \<Rightarrow> string" where
  "js_join env sep vs = join_with sep (map (\<lambda>v. case v of JNull \<Rightarrow> [] | _ \<Rightarrow> js_text env v) vs)"

section \<open>Messages (http-messages.ts)\<close>

definition HTTP_MESSAGES :: "rat \<Rightarrow> string option" where
  "HTTP_MESSAGES = map_of
    [(200, ''Request completed successfully''),
     (201, ''Resource created successfully''),
     (202, ''Request accepted for processing''),
     (204, ''Resource deleted successfully''),
     (400, ''The request could not be understood or was missing required parameters''),
     (401, ''Authentication is required or the provided credentials are invalid''),
     (403, ''You do not have permission to access this resource''),
     (404, ''The requested resource was not found''),
     (409, ''The request conflicts with the current state of the resource''),
     (410, ''The requested resource is no longer available''),
     (422, ''The request was well-formed but failed validation''),
     (429, ''Too many requests. Please try again later''),
     (500, ''An unexpected error occurred on the server''),
     (502, ''The upstream service returned an invalid response''),
     (503, ''The service is temporarily unavailable''),
     (504, ''The upstream service did not respond in time'')]"

section \<open>Exceptions (app.exception.ts)\<close>

text \<open>
  What a handler may throw: an \<open>HttpException\<close> with its status, response and message, an
  \<open>RpcException\<close> with its error (a text or an object), TypeORM's \<open>QueryFailedError\<close>, the
  \<open>TimeoutError\<close> of RxJS, or any other value, an error object showing its properties.
\<close>

datatype rpc_body = Rpc_text string | Rpc_object jval

datatype thrown =
    Thrown_http rat jval string
  | Thrown_rpc rpc_body
  | Thrown_query string
  | Thrown_timeout
  | Thrown_value jval

definition AppException :: "http_env \<Rightarrow> rat \<Rightarrow> string \<Rightarrow> string option \<Rightarrow> jval option \<Rightarrow> thrown" where
  "AppException env st msg err details = Thrown_http st
     (JObj ([(''success'', JBool False), (''statusCode'', JNum st), (''message'', JStr msg),
             (''error'', JStr (nullish err (nullish (he_status_name env st) ''Error'')))]
       @ (case details of None \<Rightarrow> [] | Some d \<Rightarrow> [(''details'', d)])))
     msg"

definition BadRequestAppException :: "http_env \<Rightarrow> string option \<Rightarrow> jval option \<Rightarrow> thrown" where
  "BadRequestAppException env msg details = AppException env 400 (nullish msg ''Bad request'') (Some ''Bad Request'') details"

definition UnauthorizedAppException :: "http_env \<Rightarrow> string option \<Rightarrow> thrown" where
  "UnauthorizedAppException env msg = AppException env 401
     (nullish msg ''Authentication is required or the provided credentials are invalid'') (Some ''Unauthorized'') None"

definition ForbiddenAppException :: "http_env \<Rightarrow> string option \<Rightarrow> thrown" where
  "ForbiddenAppException env msg = AppException env 403
     (nullish msg ''You do not have permission to access this resource'') (Some ''Forbidden'') None"

definition NotFoundAppException :: "http_env \<Rightarrow> string option \<Rightarrow> thrown" where
  "NotFoundAppException env resource = AppException env 404
     (nullish resource ''Resource'' @ '' not found'') (Some ''Not Found'') None"

definition ConflictAppException :: "http_env \<Rightarrow> string option \<Rightarrow> thrown" where
  "ConflictAppException env msg = AppException env 409
     (nullish msg ''The request conflicts with the current state of the resource'') (Some ''Conflict'') None"

definition ValidationAppException :: "http_env \<Rightarrow> jval option \<Rightarrow> string option \<Rightarrow> thrown" where
  "ValidationAppException env details msg = AppException env 422
     (nullish msg ''The request was well-formed but failed validation'') (Some ''Unprocessable Entity'') details"

definition TooManyRequestsAppException :: "http_env \<Rightarrow> string option \<Rightarrow> thrown" where
  "TooManyRequestsAppException env msg = AppException env 429
     (nullish msg ''Too many requests. Please try again later'') (Some ''Too Many Requests'') None"

definition InternalServerAppException :: "http_env \<Rightarrow> string option \<Rightarrow> thrown" where
  "InternalServerAppException env msg = AppException env 500
     (nullish msg ''An unexpected error occurred on the server'') (Some ''Internal Server Error'') None"

definition ServiceUnavailableAppException :: "http_env \<Rightarrow> string option \<Rightarrow> thrown" where
  "ServiceUnavailableAppException env msg = AppException env 503
     (nullish msg ''The service is temporarily unavailable'') (Some ''Service Unavailable'') None"

definition GatewayTimeoutAppException :: "http_env \<Rightarrow> string option \<Rightarrow> thrown" where
  "GatewayTimeoutAppException env msg = AppException env 504
     (nullish msg ''The upstream service did not respond in time'') (Some ''Gateway Timeout'') None"

section \<open>The catch block of the proxy (microservice.proxy.ts)\<close>

definition isTimeout :: "thrown \<Rightarrow> bool" where
  "isTimeout e = (case e of Thrown_timeout \<Rightarrow> True
     | Thrown_value v \<Rightarrow> js_get ''name'' v = Some (JStr ''TimeoutError'') | _ \<Rightarrow> False)"

definition plain_500 :: "string \<Rightarrow> jval" where
  "plain_500 msg = JObj [(''statusCode'', JNum 500), (''message'', JStr msg), (''error'', JStr ''Internal Server Error'')]"

text \<open>
  The properties of an exception object that the conversion reads; \<open>HttpException\<close> and
  \<open>QueryFailedError\<close> have a text as \<open>message\<close> and no \<open>statusCode\<close>.
\<close>

definition thrown_record :: "thrown \<Rightarrow> jval" where
  "thrown_record e = (case e of Thrown_value v \<Rightarrow> v
     | Thrown_http _ _ m \<Rightarrow> JObj [(''message'', JStr m)]
     | Thrown_query m \<Rightarrow> JObj [(''message'', JStr m)]
     | _ \<Rightarrow> JObj [])"

definition asRpcPayload :: "thrown \<Rightarrow> jval" where
  "asRpcPayload e =
     (case e of
        Thrown_rpc (Rpc_object v) \<Rightarrow> v
      | Thrown_rpc (Rpc_text s) \<Rightarrow> plain_500 s
      | _ \<Rightarrow>
        (let v = thrown_record e in
         if js_object v \<and> js_number (js_get ''statusCode'' v) \<noteq> None \<and> js_string (js_get ''message'' v) \<noteq> None then v
         else case js_get ''message'' v of
             Some (JObj ps) \<Rightarrow> JObj ps
           | Some (JArr vs) \<Rightarrow> JArr vs
           | _ \<Rightarrow> plain_500 ''An unexpected error occurred on the server''))"

definition send_catch :: "http_env \<Rightarrow> thrown \<Rightarrow> thrown" where
  "send_catch env e =
     (if isTimeout e then GatewayTimeoutAppException env (Some ''The upstream service did not respond in time'')
      else Thrown_rpc (Rpc_object (asRpcPayload e)))"

section \<open>Exception filters (rpc-exception.filter.ts, http-exception.filter.ts)\<close>

record http_request =
  rq_url :: string
  rq_requestId :: "string option"
  rq_time :: instant

record error_body =
  eb_success :: bool
  eb_statusCode :: rat
  eb_message :: "string option"
  eb_error :: string
  eb_details :: "jval option"
  eb_timestamp :: instant
  eb_path :: string
  eb_requestId :: "string option"

record normalized =
  nz_statusCode :: rat
  nz_message :: "string option"
  nz_error :: string
  nz_details :: "jval option"

definition error_answer :: "http_request \<Rightarrow> normalized \<Rightarrow> rat \<times> error_body" where
  "error_answer rq n = (nz_statusCode n,
     \<lparr>eb_success = False, eb_statusCode = nz_statusCode n, eb_message = nz_message n, eb_error = nz_error n,
      eb_details = nz_details n, eb_timestamp = rq_time rq, eb_path = rq_url rq, eb_requestId = rq_requestId rq\<rparr>)"

definition asPayload :: "http_env \<Rightarrow> rpc_body \<Rightarrow> normalized" where
  "asPayload env err =
     (case err of
        Rpc_text s \<Rightarrow> \<lparr>nz_statusCode = 500, nz_message = Some s, nz_error = ''Internal Server Error'', nz_details = None\<rparr>
      | Rpc_object v \<Rightarrow>
        (let st = nullish (js_number (js_get ''statusCode'' v)) 500 in
         \<lparr>nz_statusCode = st,
          nz_message = (case js_string (js_get ''message'' v) of Some m \<Rightarrow> Some m | None \<Rightarrow> HTTP_MESSAGES st),
          nz_error = nullish (js_string (js_get ''error'' v)) (nullish (he_status_name env st) ''Error''),
          nz_details = js_get ''details'' v\<rparr>))"

definition normalize_exception :: "http_env \<Rightarrow> thrown \<Rightarrow> normalized" where
  "normalize_exception env e =
     (case e of
        Thrown_http st (JStr payload) m \<Rightarrow>
          \<lparr>nz_statusCode = st, nz_message = Some payload, nz_error = nullish (he_status_name env st) ''Error'', nz_details = None\<rparr>
      | Thrown_http st payload m \<Rightarrow>
          \<lparr>nz_statusCode = st,
           nz_message = (case js_get ''message'' payload of
               Some (JArr ms) \<Rightarrow> Some (js_join env ''; '' ms)
             | Some (JStr s) \<Rightarrow> Some s
             | _ \<Rightarrow> Some (nullish (HTTP_MESSAGES st) m)),
           nz_error = nullish (js_string (js_get ''error'' payload)) (nullish (he_status_name env st) ''Error''),
           nz_details = js_get ''details'' payload\<rparr>
      | Thrown_query m \<Rightarrow>
          \<lparr>nz_statusCode = 400, nz_message = Some ''A database constraint was violated'', nz_error = ''Bad Request'',
           nz_details = (if he_production env then None else Some (JStr m))\<rparr>
      | _ \<Rightarrow> \<lparr>nz_statusCode = 500, nz_message = HTTP_MESSAGES 500, nz_error = ''Internal Server Error'', nz_details = None\<rparr>)"

text \<open>The module registers the catch-all filter first, so that the one for RPC exceptions is asked before it.\<close>

definition exception_response :: "http_env \<Rightarrow> http_request \<Rightarrow> thrown \<Rightarrow> rat \<times> error_body" where
  "exception_response env rq e =
     (case e of
        Thrown_rpc err \<Rightarrow> error_answer rq (asPayload env err)
      | _ \<Rightarrow> error_answer rq (normalize_exception env e))"

section \<open>Interceptors (transform.interceptor.ts, timeout.interceptor.ts)\<close>

record envelope =
  ev_message :: "jval option"
  ev_data :: "jval option"
  ev_meta :: "jval option"

definition unwrap :: "jval option \<Rightarrow> envelope" where
  "unwrap payload =
     (case payload of
        Some (JObj ps) \<Rightarrow>
          (if map_of ps ''data'' = None then \<lparr>ev_message = None, ev_data = payload, ev_meta = None\<rparr>
           else \<lparr>ev_message = map_of ps ''message'', ev_data = map_of ps ''data'', ev_meta = map_of ps ''meta''\<rparr>)
      | _ \<Rightarrow> \<lparr>ev_message = None, ev_data = payload, ev_meta = None\<rparr>)"

datatype outcome = Stream | Payload "jval option"

record success_body =
  sb_success :: bool
  sb_statusCode :: rat
  sb_message :: "jval option"
  sb_data :: "jval option"
  sb_meta :: "jval option"
  sb_timestamp :: instant
  sb_path :: string
  sb_requestId :: "string option"

datatype answer = Raw outcome | Wrapped success_body

definition present :: "jval option \<Rightarrow> jval option" where
  "present v = (if v = Some JNull then None else v)"

definition transform_intercept :: "bool \<Rightarrow> bool \<Rightarrow> http_request \<Rightarrow> rat \<Rightarrow> outcome \<Rightarrow> answer" where
  "transform_intercept http skip rq status out =
     (if \<not> http \<or> skip then Raw out
      else case out of
        Stream \<Rightarrow> Raw Stream
      | Payload payload \<Rightarrow>
        (let st = (if status = 0 then 200 else status); e = unwrap payload in
         Wrapped \<lparr>sb_success = True, sb_statusCode = st,
           sb_message = (case present (ev_message e) of Some m \<Rightarrow> Some m
              | None \<Rightarrow> map_option JStr (case HTTP_MESSAGES st of Some m \<Rightarrow> Some m | None \<Rightarrow> HTTP_MESSAGES 200)),
           sb_data = ev_data e,
           sb_meta = (case ev_meta e of Some m \<Rightarrow> if js_truthy m then Some m else None | None \<Rightarrow> None),
           sb_timestamp = rq_time rq, sb_path = rq_url rq, sb_requestId = rq_requestId rq\<rparr>))"

text \<open>A handler that settles after the given milliseconds with its outcome.\<close>

definition timeout_intercept :: "http_env \<Rightarrow> bool \<Rightarrow> int \<Rightarrow> int \<times> (thrown + 'a) \<Rightarrow> thrown + 'a" where
  "timeout_intercept env http ms run =
     (if \<not> http then snd run
      else if fst run \<ge> ms then Inl (GatewayTimeoutAppException env None)
      else case snd run of
          Inl Thrown_timeout \<Rightarrow> Inl (GatewayTimeoutAppException env None)
        | r \<Rightarrow> r)"

section \<open>Pipes and middleware (validation.pipe.ts, parse-uuid.pipe.ts, request-id.middleware.ts)\<close>

text \<open>An error of class-validator: property, violated constraints with their messages, nested errors.\<close>

datatype (plugins only: size code) validation_error =
  VError (ve_property: string) (ve_constraints: "(string \<times> string) list option") (ve_children: "validation_error list option")

definition object_assign :: "('k \<times> 'v) list \<Rightarrow> ('k \<times> 'v) list \<Rightarrow> ('k \<times> 'v) list" where
  "object_assign target source = foldl (\<lambda>acc kv. AList.update (fst kv) (snd kv) acc) target source"

lemma child_smaller: "ve_children x = Some kids \<Longrightarrow> size_list size kids < size x"
  by (cases x) simp

lemma children_smaller:
  assumes "ve_children x = Some kids" and "x \<in> set errors"
  shows "size_list size kids < size_list size errors"
proof -
  have "size_list size kids < size x" by (rule child_smaller [OF assms(1)])
  also have "size x \<le> size_list size errors" using assms(2) by (simp add: size_list_estimation')
  finally show ?thesis .
qed

function flattenValidationErrors :: "validation_error list \<Rightarrow> string \<Rightarrow> (string \<times> string list) list" where
  "flattenValidationErrors errors parent =
     foldl (\<lambda>acc error.
       let path = (if truthy parent then parent @ ''.'' @ ve_property error else ve_property error);
           acc1 = (case ve_constraints error of None \<Rightarrow> acc | Some cs \<Rightarrow> AList.update path (map snd cs) acc)
       in case ve_children error of
            None \<Rightarrow> acc1
          | Some [] \<Rightarrow> acc1
          | Some (c # cs) \<Rightarrow> object_assign acc1 (flattenValidationErrors (c # cs) path)) [] errors"
  by pat_completeness auto
termination by (relation "measure (\<lambda>(es, _). size_list size es)") (auto dest: children_smaller)

declare flattenValidationErrors.simps [simp del]

definition createValidationPipe :: "http_env \<Rightarrow> ('v \<Rightarrow> validation_error list) \<Rightarrow> 'v \<Rightarrow> thrown + 'v" where
  "createValidationPipe env check v =
     (if check v = [] then Inr v
      else Inl (ValidationAppException env
        (Some (JObj (map (\<lambda>(p, ms). (p, JArr (map JStr ms))) (flattenValidationErrors (check v) [])))) None))"

definition ParseUuidPipe :: "http_env \<Rightarrow> (string \<Rightarrow> bool) \<Rightarrow> string \<Rightarrow> thrown + string" where
  "ParseUuidPipe env isUUID v =
     (if \<not> isUUID v then Inl (BadRequestAppException env (Some ''The provided identifier is not a valid UUID'') None) else Inr v)"

text \<open>The headers \<open>x-request-id\<close> and \<open>x-correlation-id\<close>, and \<open>randomUUID()\<close>.\<close>

definition request_id :: "string option \<Rightarrow> string option \<Rightarrow> uuid \<Rightarrow> string" where
  "request_id requestHeader correlationHeader fresh =
     (case (case requestHeader of Some h \<Rightarrow> Some h | None \<Rightarrow> correlationHeader) of
        Some incoming \<Rightarrow> if truthy incoming \<and> length (trim incoming) > 0 then incoming else fresh
      | None \<Rightarrow> fresh)"

section \<open>Failures of the handlers\<close>



definition plain_error :: "http_request \<Rightarrow> nat \<Rightarrow> string \<Rightarrow> string \<Rightarrow> rat \<times> error_body" where
  "plain_error rq st m nm = error_answer rq
     \<lparr>nz_statusCode = of_nat st, nz_message = Some m, nz_error = nm, nz_details = None\<rparr>"


text \<open>
  C0. Nothing of an unexpected error is shown: whatever a service throws that is no RPC error (no
  numeric status with a text as message, and no object as message) is answered with status 500 and
  the generic text.
\<close>

theorem unknown_error_hidden:
  assumes "\<not> isTimeout (Thrown_value v)"
    and "js_number (js_get ''statusCode'' v) = None \<or> js_string (js_get ''message'' v) = None"
    and "\<not> (case js_get ''message'' v of Some m \<Rightarrow> js_object m | None \<Rightarrow> False)"
  shows "exception_response env rq (send_catch env (Thrown_value v))
    = plain_error rq 500 ''An unexpected error occurred on the server'' ''Internal Server Error''"
proof -
  have "asRpcPayload (Thrown_value v) = plain_500 ''An unexpected error occurred on the server''"
    using assms(2,3) by (auto simp: asRpcPayload_def thrown_record_def Let_def js_object_def split: option.split jval.split)
  then show ?thesis
    by (simp add: send_catch_def assms(1) exception_response_def asPayload_def plain_500_def js_get_def js_number_def
        js_string_def plain_error_def)
qed

theorem unknown_error_hidden_witness:
  "exception_response env rq (send_catch env (Thrown_value (JObj [(''status'', JStr ''error''), (''message'', JStr ''Internal server error'')])))
    = plain_error rq 500 ''An unexpected error occurred on the server'' ''Internal Server Error''"
  by (rule unknown_error_hidden) (simp_all add: isTimeout_def js_get_def js_number_def js_object_def)

section \<open>Validation details\<close>

text \<open>The constraints in the order of the errors, each under its path, those of an error before those nested in it.\<close>

function error_paths :: "validation_error list \<Rightarrow> string \<Rightarrow> (string \<times> string list) list" where
  "error_paths errors parent = concat (map (\<lambda>error.
     let path = (if truthy parent then parent @ ''.'' @ ve_property error else ve_property error)
     in (case ve_constraints error of None \<Rightarrow> [] | Some cs \<Rightarrow> [(path, map snd cs)])
        @ (case ve_children error of None \<Rightarrow> [] | Some [] \<Rightarrow> [] | Some (c # cs) \<Rightarrow> error_paths (c # cs) path)) errors)"
  by pat_completeness auto
termination by (relation "measure (\<lambda>(es, _). size_list size es)") (auto dest: children_smaller)

declare error_paths.simps [simp del]

lemma update_fresh: "k \<notin> fst ` set acc \<Longrightarrow> AList.update k v acc = acc @ [(k, v)]"
  by (induction acc) auto

lemma object_assign_fresh: "distinct (map fst (acc @ kvs)) \<Longrightarrow> object_assign acc kvs = acc @ kvs"
proof (induction kvs arbitrary: acc)
  case (Cons kv kvs)
  then have "object_assign acc (kv # kvs) = object_assign (acc @ [kv]) kvs"
    by (simp add: object_assign_def update_fresh)
  then show ?case using Cons by simp
qed (simp add: object_assign_def)

definition nested_paths :: "string \<Rightarrow> validation_error \<Rightarrow> (string \<times> string list) list" where
  "nested_paths path error = (case ve_children error of None \<Rightarrow> [] | Some [] \<Rightarrow> [] | Some (c # cs) \<Rightarrow> error_paths (c # cs) path)"

definition path_under :: "string \<Rightarrow> validation_error \<Rightarrow> string" where
  "path_under parent error = (if truthy parent then parent @ ''.'' @ ve_property error else ve_property error)"

definition own_path :: "string \<Rightarrow> validation_error \<Rightarrow> (string \<times> string list) list" where
  "own_path path error = (case ve_constraints error of None \<Rightarrow> [] | Some cs \<Rightarrow> [(path, map snd cs)])"

definition paths_of :: "string \<Rightarrow> validation_error \<Rightarrow> (string \<times> string list) list" where
  "paths_of parent error = own_path (path_under parent error) error @ nested_paths (path_under parent error) error"

lemma error_paths_concat: "error_paths errors parent = concat (map (paths_of parent) errors)"
  by (subst error_paths.simps) (simp add: paths_of_def [abs_def] own_path_def nested_paths_def path_under_def Let_def)

definition flatten_step :: "string \<Rightarrow> (string \<times> string list) list \<Rightarrow> validation_error \<Rightarrow> (string \<times> string list) list" where
  "flatten_step parent acc error =
     (let path = path_under parent error;
          acc1 = (case ve_constraints error of None \<Rightarrow> acc | Some cs \<Rightarrow> AList.update path (map snd cs) acc)
      in case ve_children error of None \<Rightarrow> acc1 | Some [] \<Rightarrow> acc1
           | Some (c # cs) \<Rightarrow> object_assign acc1 (flattenValidationErrors (c # cs) path))"

lemma flatten_foldl: "flattenValidationErrors errors parent = foldl (flatten_step parent) [] errors"
  by (subst flattenValidationErrors.simps) (simp add: flatten_step_def [abs_def] path_under_def Let_def)

lemma flatten_step_fresh:
  assumes "distinct (map fst (acc @ paths_of parent error))"
    and "\<And>kids. ve_children error = Some kids \<Longrightarrow> distinct (map fst (error_paths kids (path_under parent error))) \<Longrightarrow>
        flattenValidationErrors kids (path_under parent error) = error_paths kids (path_under parent error)"
  shows "flatten_step parent acc error = acc @ paths_of parent error"
proof -
  let ?path = "path_under parent error"
  let ?acc1 = "acc @ own_path ?path error"
  have acc1: "(case ve_constraints error of None \<Rightarrow> acc | Some cs \<Rightarrow> AList.update ?path (map snd cs) acc) = ?acc1"
    using assms(1) by (auto simp: own_path_def paths_of_def update_fresh split: option.splits)
  have all: "distinct (map fst (?acc1 @ nested_paths ?path error))" using assms(1) by (simp add: paths_of_def)
  show ?thesis
  proof (cases "nested_paths ?path error = [] \<and> (ve_children error = None \<or> ve_children error = Some [])")
    case True
    then show ?thesis by (auto simp: flatten_step_def acc1 Let_def paths_of_def)
  next
    case False
    then obtain c cs where kids: "ve_children error = Some (c # cs)"
      by (auto simp: nested_paths_def split: option.splits list.splits)
    then have nested: "nested_paths ?path error = error_paths (c # cs) ?path" by (simp add: nested_paths_def)
    then have "flattenValidationErrors (c # cs) ?path = nested_paths ?path error"
      using assms(2) [OF kids] all by simp
    then show ?thesis using object_assign_fresh [OF all] by (simp add: flatten_step_def acc1 Let_def kids paths_of_def)
  qed
qed

text \<open>
  C38. The details of a 422 are complete: when every path occurs once, they are exactly the violated
  constraints of all errors, however deeply nested, in order and under their dotted paths.
\<close>

theorem validation_details_complete:
  "distinct (map fst (error_paths errors parent)) \<Longrightarrow> flattenValidationErrors errors parent = error_paths errors parent"
proof (induction errors parent rule: error_paths.induct)
  case (1 errors parent)
  have "foldl (flatten_step parent) acc es = acc @ concat (map (paths_of parent) es)"
    if "set es \<subseteq> set errors" "distinct (map fst (acc @ concat (map (paths_of parent) es)))" for acc es
    using that
  proof (induction es arbitrary: acc)
    case (Cons e es)
    have "flatten_step parent acc e = acc @ paths_of parent e"
    proof (rule flatten_step_fresh)
      show "distinct (map fst (acc @ paths_of parent e))" using Cons.prems(2) by (simp add: Int_Un_distrib)
      show "flattenValidationErrors kids (path_under parent e) = error_paths kids (path_under parent e)"
        if "ve_children e = Some kids" "distinct (map fst (error_paths kids (path_under parent e)))" for kids
      proof (cases kids)
        case Nil
        then show ?thesis by (simp add: flattenValidationErrors.simps error_paths.simps)
      next
        case (Cons c cs)
        then show ?thesis using "1.IH" [of e "path_under parent e" kids c cs] that \<open>set (e # es) \<subseteq> set errors\<close>
          by (simp add: path_under_def)
      qed
    qed
    then show ?case using Cons.IH [of "acc @ paths_of parent e"] Cons.prems by simp
  qed simp
  from this [of errors "[]"] "1.prems" show ?case by (simp add: flatten_foldl error_paths_concat)
qed

theorem validation_details_complete_witness:
  "flattenValidationErrors
     [VError ''body'' (Some [(''isString'', ''body must be a string''), (''maxLength'', ''body is too long'')]) None,
      VError ''owner'' None (Some [VError ''email'' (Some [(''isEmail'', ''email must be an email'')]) (Some [])])] []
   = [(''body'', [''body must be a string'', ''body is too long'']), (''owner.email'', [''email must be an email''])]"
  (is "_ = ?paths")
proof -
  have "error_paths
     [VError ''body'' (Some [(''isString'', ''body must be a string''), (''maxLength'', ''body is too long'')]) None,
      VError ''owner'' None (Some [VError ''email'' (Some [(''isEmail'', ''email must be an email'')]) (Some [])])] [] = ?paths"
    by (simp add: error_paths.simps)
  then show ?thesis by (subst validation_details_complete) simp_all
qed

end
