(* ===== verification/RequestValidation.thy ===== *)
theory RequestValidation
  imports HttpEdge UserService
begin

text \<open>
  The requests the gateway lets through: the DTO classes of the controllers
  (\<open>chat.dto.ts\<close>, \<open>auth/dto\<close>, \<open>users/dto\<close>, \<open>admin/dto\<close>, \<open>pagination-query.dto.ts\<close>), each as the list of
  its decorated properties, and the validation pipe (\<open>validation.pipe.ts\<close>) over them.

  The decorators mean what their documentation says; the formats that class-validator
  recognises (identifiers, emails, JSON web tokens, dates, URLs), its texts and the
  conversion of a property to its declared type by class-transformer are parameters.
  Afterwards the sizes the DTOs allow are compared with the columns of the tables.
\<close>

section \<open>Declarations\<close>

datatype rule =
    IsString | IsNotEmpty | MaxLength nat | MinLength nat
  | IsUUID4 | IsUUID | IsEmail | IsJWT | IsDateString | IsUrl
  | IsInt | Min rat | Max rat | IsBoolean
  | IsIn "string list" | IsInNumbers "rat list"
  | IsArray | ArrayMinSize nat | ArrayMaxSize nat | EachUUID4
  | MatchesStrongPassword

datatype design_type = TString | TNumber | TBoolean | TArray | TObject

text \<open>When the rules of a property count: always, unless it is undefined or null, or by a condition on the object.\<close>

datatype guard = Always | IsOptional | ValidateIf "jval \<Rightarrow> bool"

record field_decl =
  fd_name :: string
  fd_guard :: guard
  fd_type :: design_type
  fd_trimmed :: bool
  fd_rules :: "(rule \<times> string option) list"
  fd_default :: "jval option"

type_synonym dto = "field_decl list"

definition field :: "string \<Rightarrow> guard \<Rightarrow> design_type \<Rightarrow> rule list \<Rightarrow> field_decl" where
  "field n g t rs = \<lparr>fd_name = n, fd_guard = g, fd_type = t, fd_trimmed = False,
     fd_rules = map (\<lambda>r. (r, None)) rs, fd_default = None\<rparr>"

definition field_msg :: "string \<Rightarrow> guard \<Rightarrow> design_type \<Rightarrow> (rule \<times> string option) list \<Rightarrow> field_decl" where
  "field_msg n g t rs = (field n g t [])\<lparr>fd_rules := rs\<rparr>"

record class_validator =
  va_isUUID :: "string option \<Rightarrow> string \<Rightarrow> bool"
  va_isEmail :: "string \<Rightarrow> bool"
  va_isJWT :: "string \<Rightarrow> bool"
  va_isDateString :: "string \<Rightarrow> bool"
  va_isUrl :: "string \<Rightarrow> bool"
  va_convert :: "design_type \<Rightarrow> jval \<Rightarrow> jval"
  va_name :: "rule \<Rightarrow> string"
  va_message :: "rule \<Rightarrow> string \<Rightarrow> string"

section \<open>Rules\<close>

text \<open>The expression \<open>/^(?=.*[a-z])(?=.*[A-Z])(?=.*\d)(?=.*[^\w\s]).+$/\<close>; a dot matches no line break.\<close>

definition code :: "char \<Rightarrow> nat" where
  "code c = of_char c"

definition is_lower :: "char \<Rightarrow> bool" where "is_lower c = (97 \<le> code c \<and> code c \<le> 122)"
definition is_upper :: "char \<Rightarrow> bool" where "is_upper c = (65 \<le> code c \<and> code c \<le> 90)"
definition is_word :: "char \<Rightarrow> bool" where "is_word c = (is_lower c \<or> is_upper c \<or> is_digit c \<or> c = CHR ''_'')"

definition strong_password :: "string \<Rightarrow> bool" where
  "strong_password s = (s \<noteq> [] \<and> list_all (\<lambda>c. c \<noteq> CHR 0x0A \<and> c \<noteq> CHR 0x0D) s
     \<and> list_ex is_lower s \<and> list_ex is_upper s \<and> list_ex is_digit s
     \<and> list_ex (\<lambda>c. \<not> is_word c \<and> \<not> js_space c) s)"

definition text_where :: "(string \<Rightarrow> bool) \<Rightarrow> jval option \<Rightarrow> bool" where
  "text_where P v = (case js_string v of Some s \<Rightarrow> P s | None \<Rightarrow> False)"

definition number_where :: "(rat \<Rightarrow> bool) \<Rightarrow> jval option \<Rightarrow> bool" where
  "number_where P v = (case js_number v of Some n \<Rightarrow> P n | None \<Rightarrow> False)"

definition array_where :: "(jval list \<Rightarrow> bool) \<Rightarrow> jval option \<Rightarrow> bool" where
  "array_where P v = (case v of Some (JArr vs) \<Rightarrow> P vs | _ \<Rightarrow> False)"

definition satisfies :: "class_validator \<Rightarrow> rule \<Rightarrow> jval option \<Rightarrow> bool" where
  "satisfies cv r v =
     (case r of
        IsString \<Rightarrow> text_where (\<lambda>_. True) v
      | IsNotEmpty \<Rightarrow> v \<noteq> None \<and> v \<noteq> Some JNull \<and> v \<noteq> Some (JStr [])
      | MaxLength n \<Rightarrow> text_where (\<lambda>s. length s \<le> n) v
      | MinLength n \<Rightarrow> text_where (\<lambda>s. n \<le> length s) v
      | IsUUID4 \<Rightarrow> text_where (va_isUUID cv (Some ''4'')) v
      | IsUUID \<Rightarrow> text_where (va_isUUID cv None) v
      | IsEmail \<Rightarrow> text_where (va_isEmail cv) v
      | IsJWT \<Rightarrow> text_where (va_isJWT cv) v
      | IsDateString \<Rightarrow> text_where (va_isDateString cv) v
      | IsUrl \<Rightarrow> text_where (va_isUrl cv) v
      | IsInt \<Rightarrow> number_where (\<lambda>n. snd (quotient_of n) = 1) v
      | Min m \<Rightarrow> number_where (\<lambda>n. m \<le> n) v
      | Max m \<Rightarrow> number_where (\<lambda>n. n \<le> m) v
      | IsBoolean \<Rightarrow> (case v of Some (JBool b) \<Rightarrow> True | _ \<Rightarrow> False)
      | IsIn xs \<Rightarrow> text_where (\<lambda>s. s \<in> set xs) v
      | IsInNumbers ns \<Rightarrow> number_where (\<lambda>n. n \<in> set ns) v
      | IsArray \<Rightarrow> array_where (\<lambda>_. True) v
      | ArrayMinSize n \<Rightarrow> array_where (\<lambda>vs. n \<le> length vs) v
      | ArrayMaxSize n \<Rightarrow> array_where (\<lambda>vs. length vs \<le> n) v
      | EachUUID4 \<Rightarrow> array_where (list_all (\<lambda>x. text_where (va_isUUID cv (Some ''4'')) (Some x))) v
      | MatchesStrongPassword \<Rightarrow> text_where strong_password v)"

definition applies :: "guard \<Rightarrow> jval \<Rightarrow> jval option \<Rightarrow> bool" where
  "applies g obj v = (case g of Always \<Rightarrow> True
     | IsOptional \<Rightarrow> v \<noteq> None \<and> v \<noteq> Some JNull
     | ValidateIf cond \<Rightarrow> cond obj)"

definition field_error :: "class_validator \<Rightarrow> jval \<Rightarrow> field_decl \<Rightarrow> validation_error list" where
  "field_error cv obj f =
     (let v = js_get (fd_name f) obj;
          broken = filter (\<lambda>(r, m). \<not> satisfies cv r v) (fd_rules f)
      in if applies (fd_guard f) obj v \<and> broken \<noteq> []
         then [VError (fd_name f)
                 (Some (map (\<lambda>(r, m). (va_name cv r, nullish m (va_message cv r (fd_name f)))) broken)) None]
         else [])"

text \<open>\<open>whitelist\<close> and \<open>forbidNonWhitelisted\<close>: a property the class does not decorate is an error.\<close>

definition foreign_error :: "dto \<Rightarrow> string \<Rightarrow> validation_error list" where
  "foreign_error d k = (if k \<in> set (map fd_name d) then []
     else [VError k (Some [(''whitelistValidation'', ''property '' @ k @ '' should not exist'')]) None])"

definition validate_dto :: "class_validator \<Rightarrow> dto \<Rightarrow> (string \<times> jval) list \<Rightarrow> validation_error list" where
  "validate_dto cv d ps = concat (map (foreign_error d) (map fst ps)) @ concat (map (field_error cv (JObj ps)) d)"

text \<open>
  \<open>transform\<close> with \<open>enableImplicitConversion\<close>: each declared property is converted to its type, then
  \<open>@Transform\<close> lowers and trims where the class says so; a default of the class stands for a missing one.
\<close>

definition lower_trim :: "jval \<Rightarrow> jval" where
  "lower_trim v = (case v of JStr s \<Rightarrow> JStr (trim (to_lower s)) | _ \<Rightarrow> v)"

definition instance_field :: "class_validator \<Rightarrow> (string \<times> jval) list \<Rightarrow> field_decl \<Rightarrow> (string \<times> jval) list" where
  "instance_field cv body f =
     (case map_of body (fd_name f) of
        Some v \<Rightarrow> (let c = va_convert cv (fd_type f) v in [(fd_name f, if fd_trimmed f then lower_trim c else c)])
      | None \<Rightarrow> (case fd_default f of Some v \<Rightarrow> [(fd_name f, v)] | None \<Rightarrow> []))"

definition plain_to_instance :: "class_validator \<Rightarrow> dto \<Rightarrow> (string \<times> jval) list \<Rightarrow> (string \<times> jval) list" where
  "plain_to_instance cv d body = concat (map (instance_field cv body) d)
     @ filter (\<lambda>(k, v). k \<notin> set (map fd_name d)) body"

definition validation_pipe ::
    "http_env \<Rightarrow> class_validator \<Rightarrow> dto \<Rightarrow> (string \<times> jval) list \<Rightarrow> thrown + (string \<times> jval) list" where
  "validation_pipe env cv d body = createValidationPipe env (validate_dto cv d) (plain_to_instance cv d body)"

section \<open>Chat (chat.dto.ts)\<close>

definition CreatePrivateChatDto :: dto where
  "CreatePrivateChatDto = [field ''userId'' Always TString [IsUUID4]]"


definition SendMessageDto :: dto where
  "SendMessageDto =
     [field ''body'' (ValidateIf (\<lambda>dto. \<not> (case js_get ''attachmentUrl'' dto of Some u \<Rightarrow> js_truthy u | None \<Rightarrow> False)))
        TString [IsString, IsNotEmpty, MaxLength 4000],
      field ''type'' IsOptional TString [IsIn (map message_type_value [TEXT, IMAGE, FILE, AUDIO, CALL])],
      field ''replyToMessageId'' IsOptional TString [IsUUID4],
      field ''attachmentUrl'' IsOptional TString [IsString, MaxLength 1000],
      field ''attachmentMime'' IsOptional TString [IsString, MaxLength 120],
      field ''attachmentName'' IsOptional TString [IsString, MaxLength 255],
      field ''attachmentSize'' IsOptional TNumber [IsInt, Min 1],
      field ''mentionUserIds'' IsOptional TArray [IsArray, EachUUID4],
      field ''linkPreview'' IsOptional TObject []]"


definition ReactMessageDto :: dto where
  "ReactMessageDto = [field ''emoji'' Always TString [IsString, IsIn ALLOWED_REACTIONS]]"

definition ForwardMessageDto :: dto where
  "ForwardMessageDto = [field ''conversationId'' Always TString [IsUUID4]]"

definition MuteConversationDto :: dto where
  "MuteConversationDto = [field ''muted'' Always TBoolean [IsBoolean]]"

definition PinConversationDto :: dto where
  "PinConversationDto = [field ''pinned'' Always TBoolean [IsBoolean]]"

definition SetDisappearingDto :: dto where
  "SetDisappearingDto = [field ''durationSeconds'' Always TNumber [IsInt, IsInNumbers [0, 30, 60, 3600, 86400, 604800, 7776000]]]"

definition PinMessageDto :: dto where
  "PinMessageDto = [field ''pinned'' Always TBoolean [IsBoolean]]"


definition DeleteMessageDto :: dto where
  "DeleteMessageDto = [field ''forEveryone'' IsOptional TBoolean [IsBoolean]]"

definition SetMemberRoleDto :: dto where
  "SetMemberRoleDto = [field ''role'' Always TString [IsIn [''admin'', ''member'']]]"

definition BlockUserDto :: dto where
  "BlockUserDto = [field ''userId'' Always TString [IsUUID4]]"

definition TypingDto :: dto where
  "TypingDto = [field ''typing'' Always TBoolean [IsBoolean]]"

definition MarkSeenDto :: dto where
  "MarkSeenDto = [field ''messageId'' IsOptional TString [IsUUID4]]"

definition AddMembersDto :: dto where
  "AddMembersDto = [field ''memberIds'' Always TArray [IsArray, ArrayMinSize 1, ArrayMaxSize 49, EachUUID4]]"


definition ChatPageQueryDto :: dto where
  "ChatPageQueryDto =
     [(field ''page'' IsOptional TNumber [IsInt, Min 1])\<lparr>fd_default := Some (JNum 1)\<rparr>,
      (field ''limit'' IsOptional TNumber [IsInt, Min 1, Max 100])\<lparr>fd_default := Some (JNum 20)\<rparr>]"

definition SearchMessagesQueryDto :: dto where
  "SearchMessagesQueryDto = ChatPageQueryDto @ [field ''q'' Always TString [IsString, IsNotEmpty, MaxLength 200]]"

definition ListMediaQueryDto :: dto where
  "ListMediaQueryDto = ChatPageQueryDto @
     [(field ''kind'' IsOptional TString [IsIn [''all'', ''image'', ''file'', ''audio'']])\<lparr>fd_default := Some (JStr ''all'')\<rparr>]"

section \<open>Accounts (auth/dto)\<close>

definition email_field :: "guard \<Rightarrow> (rule \<times> string option) list \<Rightarrow> field_decl" where
  "email_field g rs = (field_msg ''email'' g TString rs)\<lparr>fd_trimmed := True\<rparr>"

definition RegisterDto :: dto where
  "RegisterDto =
     [email_field Always [(IsEmail, Some ''email must be a valid email address''), (MaxLength 255, None)],
      field_msg ''password'' Always TString
        [(IsString, None), (MinLength 8, Some ''password must be at least 8 characters''),
         (MaxLength 72, Some ''password cannot exceed 72 characters''),
         (MatchesStrongPassword, Some ''password must include upper, lower, number, and special characters'')],
      field_msg ''firstName'' Always TString [(IsString, None), (IsNotEmpty, Some ''firstName is required''), (MaxLength 80, None)],
      field_msg ''lastName'' Always TString [(IsString, None), (IsNotEmpty, Some ''lastName is required''), (MaxLength 80, None)],
      field ''inviteToken'' IsOptional TString [IsString, MaxLength 128]]"

definition LoginDto :: dto where
  "LoginDto =
     [email_field Always [(IsEmail, Some ''email must be a valid email address''), (MaxLength 255, None)],
      field ''password'' Always TString [IsString, MinLength 8, MaxLength 72]]"

definition RefreshTokenDto :: dto where
  "RefreshTokenDto = [field_msg ''refreshToken'' Always TString
     [(IsString, None), (IsNotEmpty, Some ''refreshToken is required''), (IsJWT, Some ''refreshToken must be a valid JWT'')]]"

definition LogoutDto :: dto where
  "LogoutDto = [field_msg ''refreshToken'' IsOptional TString
     [(IsString, None), (IsJWT, Some ''refreshToken must be a valid JWT'')]]"

definition ChangePasswordDto :: dto where
  "ChangePasswordDto =
     [field ''currentPassword'' Always TString [IsString, MinLength 8, MaxLength 72],
      field_msg ''newPassword'' Always TString
        [(IsString, None), (MinLength 8, Some ''newPassword must be at least 8 characters''), (MaxLength 72, None),
         (MatchesStrongPassword, Some ''newPassword must include upper, lower, number, and special characters'')]]"

definition ForgotPasswordDto :: dto where
  "ForgotPasswordDto = [email_field Always [(IsEmail, None)]]"

definition ResetPasswordDto :: dto where
  "ResetPasswordDto =
     [field ''token'' Always TString [IsString, IsNotEmpty],
      field_msg ''password'' Always TString
        [(IsString, None), (MinLength 8, None), (MaxLength 72, None),
         (MatchesStrongPassword, Some ''password must include upper, lower, number, and special characters'')]]"

definition VerifyEmailDto :: dto where
  "VerifyEmailDto = [field ''token'' Always TString [IsString, IsNotEmpty]]"

definition CreateInviteDto :: dto where
  "CreateInviteDto =
     [email_field IsOptional [(IsEmail, None)],
      field ''expiresInDays'' IsOptional TNumber [IsInt, Min 1, Max 90],
      field ''maxUses'' IsOptional TNumber [IsInt, Min 1, Max 500]]"

definition RevokeInviteDto :: dto where
  "RevokeInviteDto = [field ''inviteId'' Always TString [IsUUID]]"

section \<open>Profiles, administration, listings (users/dto, admin/dto, pagination-query.dto.ts)\<close>



definition LinkPreviewDto :: dto where
  "LinkPreviewDto = [field ''url'' Always TString [IsUrl]]"

definition PAGINATION_SORT_FIELDS :: "string list" where
  "PAGINATION_SORT_FIELDS = [''createdAt'', ''updatedAt'', ''firstName'', ''lastName'', ''email'']"

definition PAGINATION_ORDER :: "string list" where
  "PAGINATION_ORDER = [''ASC'', ''DESC'']"

definition PaginationQueryDto :: dto where
  "PaginationQueryDto =
     [(field_msg ''page'' IsOptional TNumber
        [(IsInt, Some ''page must be an integer''), (Min 1, Some ''page must be at least 1'')])\<lparr>fd_default := Some (JNum 1)\<rparr>,
      (field_msg ''limit'' IsOptional TNumber
        [(IsInt, Some ''limit must be an integer''), (Min 1, Some ''limit must be at least 1''),
         (Max 100, Some ''limit cannot exceed 100'')])\<lparr>fd_default := Some (JNum 10)\<rparr>,
      field ''search'' IsOptional TString [IsString, MaxLength 120],
      (field_msg ''sortBy'' IsOptional TString
        [(IsString, None), (IsIn PAGINATION_SORT_FIELDS, Some ''sortBy must be a supported field''), (MaxLength 50, None)])
          \<lparr>fd_default := Some (JStr ''createdAt'')\<rparr>,
      (field_msg ''order'' IsOptional TString
        [(IsIn PAGINATION_ORDER, Some ''order must be ASC or DESC'')])\<lparr>fd_default := Some (JStr ''DESC'')\<rparr>]"

section \<open>What is let through\<close>

lemma validation_pipe_Inr: "validation_pipe env cv d body = Inr ps \<Longrightarrow>
    ps = plain_to_instance cv d body \<and> validate_dto cv d ps = []"
  by (auto simp: validation_pipe_def createValidationPipe_def split: if_splits)

lemma accepted_field:
  assumes "validate_dto cv d ps = []" and "f \<in> set d"
    and "applies (fd_guard f) (JObj ps) (js_get (fd_name f) (JObj ps))" and "(r, m) \<in> set (fd_rules f)"
  shows "satisfies cv r (js_get (fd_name f) (JObj ps))"
proof -
  let ?v = "js_get (fd_name f) (JObj ps)"
  have "field_error cv (JObj ps) f = []" using assms(1,2) by (simp add: validate_dto_def)
  then have "filter (\<lambda>(r, m). \<not> satisfies cv r ?v) (fd_rules f) = []"
    by (simp add: field_error_def Let_def assms(3) split: if_splits)
  then show ?thesis using assms(4) by (force simp: filter_empty_conv)
qed


section \<open>Columns\<close>


definition attachmentUrl_column :: nat where
  "attachmentUrl_column = 500"




text \<open>
  C36. An oversized message gets through: beside an attachment URL the body is not checked at all, and the URL
  may be twice as long as its column; such a request is let through unchanged and fails at the
  database only.
\<close>

theorem oversized_message_accepted:
  assumes "\<And>t. va_convert cv TString (JStr t) = JStr t" and "u \<noteq> []" "length u \<le> 2 * attachmentUrl_column"
  shows "validation_pipe env cv SendMessageDto [(''body'', JStr s), (''attachmentUrl'', JStr u)]
    = Inr [(''body'', JStr s), (''attachmentUrl'', JStr u)]"
proof -
  let ?ps = "[(''body'', JStr s), (''attachmentUrl'', JStr u)]"
  have inst: "plain_to_instance cv SendMessageDto ?ps = ?ps"
    by (simp add: plain_to_instance_def instance_field_def SendMessageDto_def field_def assms(1))
  have "validate_dto cv SendMessageDto ?ps = []" using assms(2,3)
    by (simp add: validate_dto_def foreign_error_def field_error_def SendMessageDto_def field_def applies_def js_get_def
        js_truthy_def truthy_def satisfies_def text_where_def js_string_def attachmentUrl_column_def)
  then show ?thesis by (simp add: validation_pipe_def createValidationPipe_def inst)
qed

definition demo_validator :: class_validator where
  "demo_validator = \<lparr>va_isUUID = (\<lambda>_ _. True), va_isEmail = (\<lambda>s. s \<noteq> []), va_isJWT = (\<lambda>_. True),
     va_isDateString = (\<lambda>_. True), va_isUrl = (\<lambda>_. True), va_convert = (\<lambda>_ v. v), va_name = (\<lambda>_. []), va_message = (\<lambda>_ _. [])\<rparr>"

definition demo_http :: http_env where
  "demo_http = \<lparr>he_status_name = (\<lambda>_. None), he_number_text = (\<lambda>_. []), he_production = True\<rparr>"

theorem oversized_message_accepted_witness:
  "validation_pipe demo_http demo_validator SendMessageDto
     [(''body'', JStr (replicate 4001 CHR ''a'')), (''attachmentUrl'', JStr (replicate 1000 CHR ''u''))]
   = Inr [(''body'', JStr (replicate 4001 CHR ''a'')), (''attachmentUrl'', JStr (replicate 1000 CHR ''u''))]
   \<and> attachmentUrl_column < length (replicate 1000 CHR ''u'')"
proof
  show "validation_pipe demo_http demo_validator SendMessageDto
     [(''body'', JStr (replicate 4001 CHR ''a'')), (''attachmentUrl'', JStr (replicate 1000 CHR ''u''))]
   = Inr [(''body'', JStr (replicate 4001 CHR ''a'')), (''attachmentUrl'', JStr (replicate 1000 CHR ''u''))]"
  proof (rule oversized_message_accepted)
    show "va_convert demo_validator TString (JStr t) = JStr t" for t by (simp add: demo_validator_def)
    show "replicate 1000 CHR ''u'' \<noteq> []" by (simp only: replicate_empty)
    show "length (replicate 1000 CHR ''u'') \<le> 2 * attachmentUrl_column" by (simp only: length_replicate attachmentUrl_column_def)
  qed
  show "attachmentUrl_column < length (replicate 1000 CHR ''u'')" by (simp only: length_replicate attachmentUrl_column_def)
qed


section \<open>Registrations\<close>

lemma js_space_code: "js_space c \<longleftrightarrow> (of_char c :: nat) \<in> {9, 10, 11, 12, 13, 32}"
proof -
  have "c = d \<longleftrightarrow> (of_char c :: nat) = of_char d" for d by (simp add: of_char_eq_iff)
  from this [of "CHR '' ''"] this [of "CHR 0x09"] this [of "CHR 0x0A"] this [of "CHR 0x0B"] this [of "CHR 0x0C"] this [of "CHR 0x0D"]
  show ?thesis unfolding js_space_def by auto
qed

lemma of_char_lower: "(of_char (lower_char c) :: nat) = (if 65 \<le> (of_char c :: nat) \<and> (of_char c :: nat) \<le> 90 then of_char c + 32 else of_char c)"
  by (simp add: lower_char_def Let_def)

lemma js_space_lower: "js_space (lower_char c) = js_space c"
  by (auto simp: js_space_code of_char_lower)

lemma lower_idem: "lower_char (lower_char c) = lower_char c"
proof -
  have "(of_char (lower_char (lower_char c)) :: nat) = of_char (lower_char c)" by (auto simp: of_char_lower)
  then show ?thesis by (simp add: of_char_eq_iff)
qed

lemma dropWhile_lower: "dropWhile js_space (map lower_char s) = map lower_char (dropWhile js_space s)"
  by (induction s) (simp_all add: js_space_lower)

lemma trim_to_lower: "trim (to_lower s) = to_lower (trim s)"
  by (simp add: trim_def to_lower_def dropWhile_lower rev_map)

lemma normalize_email_idem: "normalize_email (normalize_email s) = normalize_email s"
  by (simp add: normalize_email_def trim_to_lower trim_idem) (simp add: to_lower_def lower_idem o_def)

lemma lower_trimJ: "lower_trim v = JStr e \<Longrightarrow> \<exists>s. e = normalize_email s"
  by (auto simp: lower_trim_def normalize_email_def split: jval.splits)

text \<open>
  C37. A registration that is let through has a strong password of 8 to 72 characters, which is what bcrypt
  reads, and a valid email in the normal form under which accounts are stored and looked up.
\<close>

theorem accepted_registration:
  assumes "validation_pipe env cv RegisterDto body = Inr ps"
  shows "\<exists>e p. js_get ''email'' (JObj ps) = Some (JStr e) \<and> va_isEmail cv e \<and> normalize_email e = e
    \<and> js_get ''password'' (JObj ps) = Some (JStr p) \<and> 8 \<le> length p \<and> length p \<le> 72 \<and> strong_password p"
proof -
  let ?email = "RegisterDto ! 0" and ?password = "RegisterDto ! 1"
  have ps: "ps = plain_to_instance cv RegisterDto body" and ok: "validate_dto cv RegisterDto ps = []"
    using validation_pipe_Inr [OF assms] by blast+
  have fields: "?email \<in> set RegisterDto" "?password \<in> set RegisterDto" by (simp_all add: RegisterDto_def)
  have rules: "satisfies cv IsEmail (js_get ''email'' (JObj ps))" "satisfies cv (MinLength 8) (js_get ''password'' (JObj ps))"
    "satisfies cv (MaxLength 72) (js_get ''password'' (JObj ps))" "satisfies cv MatchesStrongPassword (js_get ''password'' (JObj ps))"
    using accepted_field [OF ok fields(1)] accepted_field [OF ok fields(2)]
    by (simp_all add: RegisterDto_def email_field_def field_msg_def field_def applies_def)
  obtain e where e: "js_get ''email'' (JObj ps) = Some (JStr e)" "va_isEmail cv e"
    using rules(1) by (auto simp: satisfies_def text_where_def js_string_def split: option.splits jval.splits)
  obtain p where p: "js_get ''password'' (JObj ps) = Some (JStr p)" "8 \<le> length p" "length p \<le> 72" "strong_password p"
    using rules(2-4) by (auto simp: satisfies_def text_where_def js_string_def split: option.splits jval.splits)
  have first: "map_of (plain_to_instance cv RegisterDto body) ''email'' = map_option (\<lambda>v. lower_trim (va_convert cv TString v)) (map_of body ''email'')"
    if "map_of body ''email'' \<noteq> None"
    using that by (auto simp: plain_to_instance_def instance_field_def RegisterDto_def email_field_def field_msg_def field_def)
  have "map_of body ''email'' \<noteq> None"
  proof
    assume none: "map_of body ''email'' = None"
    have "map_of ps ''email'' = None"
      by (simp add: ps plain_to_instance_def instance_field_def RegisterDto_def email_field_def field_msg_def field_def none
          map_of_eq_None_iff split: option.split) (auto simp: RegisterDto_def)
    with e(1) show False by (simp add: js_get_def)
  qed
  with first e(1) have "\<exists>v. lower_trim v = JStr e" by (auto simp: js_get_def ps)
  then have "normalize_email e = e" by (auto dest: lower_trimJ simp: normalize_email_idem)
  with e p show ?thesis by blast
qed

theorem accepted_registration_witness:
  "\<exists>ps e p. validation_pipe demo_http demo_validator RegisterDto
       [(''email'', JStr '' Jane.Doe@Example.com''), (''password'', JStr ''Str0ng!Pass''), (''firstName'', JStr ''Jane''), (''lastName'', JStr ''Doe'')] = Inr ps
     \<and> js_get ''email'' (JObj ps) = Some (JStr e) \<and> normalize_email e = e
     \<and> js_get ''password'' (JObj ps) = Some (JStr p) \<and> strong_password p"
proof -
  let ?run = "validation_pipe demo_http demo_validator RegisterDto
     [(''email'', JStr '' Jane.Doe@Example.com''), (''password'', JStr ''Str0ng!Pass''), (''firstName'', JStr ''Jane''), (''lastName'', JStr ''Doe'')]"
  have "\<not> isl ?run" by code_simp
  then obtain ps where run: "?run = Inr ps" by (cases ?run) auto
  from accepted_registration [OF run] run show ?thesis by blast
qed

end
