(* ===== verification/AssistProperties.thy ===== *)
theory AssistProperties
  imports ChatAssist GatewayRuns
begin

text \<open>What the helpers around the chat show, and to whom.\<close>

section \<open>Summaries\<close>










section \<open>Link previews\<close>

text \<open>
  The entities are replaced one after the other, the ampersand first, so that text that is escaped
  twice is unescaped twice.
\<close>

lemma decodes_twice: "html_decode ''&amp;lt;b&amp;gt;'' = ''<b>''"
  by code_simp

end
