(* ===== verification/ResetLinks.thy ===== *)
theory ResetLinks
  imports AuthProperties ObjectStorage
begin

text \<open>
  The mailer (\<open>libs/common/src/mail/mail.service.ts\<close>) and what follows from it for password resets: without
  an SMTP host the mail service sends nothing and answers the link of the mail, which the auth
  service passes on to whoever asked. The transport of nodemailer is a parameter.
\<close>

section \<open>MailService\<close>

record mail_config =
  SMTP_HOST :: "string option"
  SMTP_FROM :: "string option"
  SMTP_USER :: "string option"
  APP_PUBLIC_URL :: "string option"
  FRONTEND_URL :: "string option"

record mail_input =
  ml_to :: string
  ml_subject :: string
  ml_text :: string
  ml_html :: string

record mail_result =
  mr_delivered :: bool
  mr_previewUrl :: "string option"

text \<open>\<open>a || b\<close> on a possibly missing text\<close>

definition js_or :: "string option \<Rightarrow> string \<Rightarrow> string" where
  "js_or a b = (case a of Some s \<Rightarrow> if truthy s then s else b | None \<Rightarrow> b)"

definition mail_publicAppUrl :: "mail_config \<Rightarrow> string" where
  "mail_publicAppUrl cfg = strip_trailing_slash (js_or (APP_PUBLIC_URL cfg) (js_or (FRONTEND_URL cfg) ''http://127.0.0.1:5173''))"

definition fromAddress :: "mail_config \<Rightarrow> string" where
  "fromAddress cfg = js_or (SMTP_FROM cfg) (js_or (SMTP_USER cfg) ''Relay <noreply@relay.local>'')"

text \<open>The match of \<open>/https?:\/\/\S+/\<close> at the start of a text, and the first one in it.\<close>

definition url_at :: "string \<Rightarrow> string option" where
  "url_at s = (let n = (if starts_with s ''https://'' then 8 else if starts_with s ''http://'' then 7 else 0);
       rest = takeWhile (\<lambda>c. \<not> js_space c) (drop n s) in
     if n = 0 \<or> rest = [] then None else Some (take n s @ rest))"

fun extractUrl :: "string \<Rightarrow> string option" where
  "extractUrl [] = None"
| "extractUrl (c # s) = (case url_at (c # s) of Some u \<Rightarrow> Some u | None \<Rightarrow> extractUrl s)"

text \<open>\<open>sendMail\<close> of the transport answers whether it succeeded; it throws otherwise.\<close>

definition mail_send :: "mail_config \<Rightarrow> (string \<Rightarrow> mail_input \<Rightarrow> bool) \<Rightarrow> mail_input \<Rightarrow> unit + mail_result" where
  "mail_send cfg sendMail input =
     (if \<not> opt_truthy (SMTP_HOST cfg)
      then Inr \<lparr>mr_delivered = False, mr_previewUrl = extractUrl (ml_text input)\<rparr>
      else if sendMail (fromAddress cfg) input then Inr \<lparr>mr_delivered = True, mr_previewUrl = None\<rparr>
      else Inl ())"

section \<open>The reset mail (auth-token.service.ts)\<close>

definition reset_mail :: "string \<Rightarrow> string \<Rightarrow> mail_input" where
  "reset_mail email resetUrl =
     \<lparr>ml_to = email, ml_subject = ''Reset your Relay password'',
      ml_text = ''Reset your password by opening this link:'' @ [CHR 0x0A] @ resetUrl @ [CHR 0x0A, CHR 0x0A]
        @ ''If you did not request this, ignore this email.'',
      ml_html = ''<p>Reset your password:</p><p><a href='' @ [CHR 0x22] @ resetUrl @ [CHR 0x22] @ ''>'' @ resetUrl
        @ ''</a></p><p>If you did not request this, ignore this email.</p>''\<rparr>"

definition debugUrl :: "mail_result \<Rightarrow> string \<Rightarrow> string option" where
  "debugUrl r url = (case mr_previewUrl r of Some p \<Rightarrow> Some p | None \<Rightarrow> if mr_delivered r then None else Some url)"

lemma js_space_LF: "js_space CHR 0x0A"
  by (simp add: js_space_def)

lemma takeWhile_link: "list_all (\<lambda>c. \<not> js_space c) u \<Longrightarrow> takeWhile (\<lambda>c. \<not> js_space c) (u @ CHR 0x0A # s) = u"
  by (induction u) (simp_all add: js_space_LF)

definition web_link :: "string \<Rightarrow> bool" where
  "web_link url \<longleftrightarrow> (\<exists>u. u \<noteq> [] \<and> list_all (\<lambda>c. \<not> js_space c) u \<and> (url = ''https://'' @ u \<or> url = ''http://'' @ u))"

lemma extractUrl_link: "web_link url \<Longrightarrow> extractUrl (url @ CHR 0x0A # s) = Some url"
  by (auto simp: web_link_def url_at_def starts_with_def takeWhile_link Let_def)

lemma extractUrl_reset: "web_link url \<Longrightarrow> extractUrl (ml_text (reset_mail email url)) = Some url"
  by (simp add: reset_mail_def url_at_def starts_with_def extractUrl_link)

section \<open>Whoever asks gets the link\<close>






text \<open>What the two mail fields of \<open>crypto\<close> stand for: without an SMTP host the answer carries the link of the mail.\<close>

lemma unmailed_answers_link:
  "\<not> opt_truthy (SMTP_HOST cfg) \<Longrightarrow> web_link url \<Longrightarrow>
    \<exists>r. mail_send cfg sendMail (reset_mail email url) = Inr r \<and> debugUrl r url = Some url"
  by (simp add: mail_send_def extractUrl_reset debugUrl_def)

lemma mailed_answers_nothing:
  "opt_truthy (SMTP_HOST cfg) \<Longrightarrow> mail_send cfg sendMail m = Inr r \<Longrightarrow> debugUrl r url = None"
  by (auto simp: mail_send_def debugUrl_def split: if_splits)

end
