(* ===== verification/Deployment.thy ===== *)
theory Deployment
  imports Complex_Main ObjectStorage
begin

text \<open>
  How a process is configured and started: the schemas of the environment (\<open>env.validation.ts\<close>), what is
  built from it (the storage adapter of \<open>storage.service.ts\<close>, the broker address of \<open>rmq.config.ts\<close>, the
  deadlines of the proxy and of the HTTP interceptor), the binding of the debug port
  (\<open>listen-http.ts\<close>) and the number of workers (\<open>main.ts\<close>).

  The rules of Joi mean what their documentation says; the conversion of a text to a number or a
  boolean, and the formats of addresses, are parameters.
\<close>

section \<open>Environment (env.validation.ts)\<close>

datatype env_value = EStr string | ENum rat | EBool bool

record joi =
  jo_number :: "string \<Rightarrow> rat option"
  jo_boolean :: "string \<Rightarrow> bool option"
  jo_uri :: "string \<Rightarrow> bool"
  jo_email :: "string \<Rightarrow> bool"

datatype presence = Required | Optional | Default env_value

datatype text_rule = AnyText | AtLeast nat | OneOf "string list" | Uri | Email

datatype joi_rule =
    Text bool text_rule presence
  | Port presence
  | Integer rat "rat option" presence
  | Truth presence
  | RequiredWhen string string

type_synonym env_schema = "(string \<times> joi_rule) list"

definition text_ok :: "joi \<Rightarrow> text_rule \<Rightarrow> string \<Rightarrow> bool" where
  "text_ok jo r s = (case r of AnyText \<Rightarrow> True | AtLeast n \<Rightarrow> n \<le> length s | OneOf xs \<Rightarrow> s \<in> set xs
     | Uri \<Rightarrow> jo_uri jo s | Email \<Rightarrow> jo_email jo s)"

definition absent :: "presence \<Rightarrow> env_value option option" where
  "absent p = (case p of Required \<Rightarrow> None | Optional \<Rightarrow> Some None | Default v \<Rightarrow> Some (Some v))"

definition whole :: "rat \<Rightarrow> bool" where
  "whole n = (snd (quotient_of n) = 1)"

text \<open>
  The value a rule gives to a variable: \<open>None\<close> an error, \<open>Some None\<close> undefined. An empty text is an error
  unless it is allowed. \<open>get\<close> reads the values of the other variables.
\<close>

definition joi_value :: "joi \<Rightarrow> (string \<Rightarrow> env_value option) \<Rightarrow> joi_rule \<Rightarrow> string option \<Rightarrow> env_value option option" where
  "joi_value jo get r raw =
     (case r of
        Text allow_empty tr p \<Rightarrow> (case raw of None \<Rightarrow> absent p
          | Some s \<Rightarrow> if s = [] then (if allow_empty then Some (Some (EStr s)) else None)
              else if text_ok jo tr s then Some (Some (EStr s)) else None)
      | Port p \<Rightarrow> (case raw of None \<Rightarrow> absent p
          | Some s \<Rightarrow> (case jo_number jo s of Some n \<Rightarrow> if whole n \<and> 0 \<le> n \<and> n \<le> 65535 then Some (Some (ENum n)) else None | None \<Rightarrow> None))
      | Integer lo hi p \<Rightarrow> (case raw of None \<Rightarrow> absent p
          | Some s \<Rightarrow> (case jo_number jo s of
                Some n \<Rightarrow> if whole n \<and> lo \<le> n \<and> (case hi of None \<Rightarrow> True | Some h \<Rightarrow> n \<le> h) then Some (Some (ENum n)) else None
              | None \<Rightarrow> None))
      | Truth p \<Rightarrow> (case raw of None \<Rightarrow> absent p
          | Some s \<Rightarrow> (case jo_boolean jo s of Some b \<Rightarrow> Some (Some (EBool b)) | None \<Rightarrow> None))
      | RequiredWhen key v \<Rightarrow>
          (if get key = Some (EStr v)
           then (case raw of None \<Rightarrow> None | Some s \<Rightarrow> if s = [] then None else Some (Some (EStr s)))
           else Some (map_option EStr raw)))"

fun validate_env :: "joi \<Rightarrow> env_schema \<Rightarrow> (string \<Rightarrow> string option) \<Rightarrow> (string \<rightharpoonup> env_value) \<Rightarrow> (string \<rightharpoonup> env_value) option" where
  "validate_env jo [] raw cfg = Some cfg"
| "validate_env jo ((k, r) # rs) raw cfg =
     (case joi_value jo cfg r (raw k) of None \<Rightarrow> None | Some v \<Rightarrow> validate_env jo rs raw (cfg(k := v)))"

definition default_num :: "rat \<Rightarrow> presence" where "default_num n = Default (ENum n)"
definition default_text :: "string \<Rightarrow> presence" where "default_text s = Default (EStr s)"

definition rabbitMqSchema :: env_schema where
  "rabbitMqSchema =
     [(''RABBITMQ_HOST'', Text False AnyText Required), (''RABBITMQ_PORT'', Port (default_num 5672)),
      (''RABBITMQ_USER'', Text False AnyText Required), (''RABBITMQ_PASSWORD'', Text False AnyText Required),
      (''RABBITMQ_VHOST'', Text False AnyText (default_text ''/'')), (''RABBITMQ_PREFETCH'', Integer 1 (Some 100) (default_num 16))]"

definition postgresSchema :: env_schema where
  "postgresSchema =
     [(''POSTGRES_HOST'', Text False AnyText Required), (''POSTGRES_PORT'', Port (default_num 5432)),
      (''POSTGRES_USER'', Text False AnyText Required), (''POSTGRES_PASSWORD'', Text False AnyText Required),
      (''POSTGRES_POOL_MAX'', Integer 2 (Some 100) (default_num 20)), (''POSTGRES_POOL_MIN'', Integer 0 (Some 20) (default_num 2))]"

definition NODE_ENV_rule :: "string \<times> joi_rule" where
  "NODE_ENV_rule = (''NODE_ENV'', Text False (OneOf [''development'', ''test'', ''production'']) (default_text ''development''))"

definition jwtSchema :: env_schema where
  "jwtSchema =
     [(''JWT_ACCESS_SECRET'', Text False (AtLeast 16) Required), (''JWT_ACCESS_EXPIRES_IN'', Text False AnyText (default_text ''1d'')),
      (''JWT_REFRESH_SECRET'', Text False (AtLeast 16) Required), (''JWT_REFRESH_EXPIRES_IN'', Text False AnyText (default_text ''7d''))]"

text \<open>\<open>production\<close>: whether \<open>process.env.NODE_ENV\<close> is so when the module is loaded\<close>

definition gatewayEnvSchema :: "bool \<Rightarrow> env_schema" where
  "gatewayEnvSchema production =
     [NODE_ENV_rule, (''GATEWAY_PORT'', Port (default_num 3002)), (''GATEWAY_GLOBAL_PREFIX'', Text False AnyText (default_text ''api'')),
      (''SWAGGER_ENABLED'', Truth (Default (EBool (\<not> production))))]
     @ jwtSchema @
     [(''REDIS_HOST'', Text False AnyText Required), (''REDIS_PORT'', Port (default_num 6379)),
      (''REDIS_PASSWORD'', Text True AnyText (default_text [])), (''REDIS_DB'', Integer 0 None (default_num 0)),
      (''CACHE_TTL_SECONDS'', Integer 1 None (default_num 60)), (''THROTTLE_TTL_SECONDS'', Integer 1 None (default_num 60)),
      (''THROTTLE_LIMIT'', Integer 1 None (default_num 60)), (''GATEWAY_TIMEOUT_MS'', Integer 1000 None (default_num 10000)),
      (''GATEWAY_MAX_INFLIGHT'', Integer 50 None (default_num 2000)), (''GATEWAY_WORKERS'', Integer 0 None (default_num 1)),
      (''AUTH_VALIDATE_CACHE_SECONDS'', Integer 1 (Some 60) (default_num 15)), (''CORS_ORIGIN'', Text False AnyText (default_text ''*'')),
      (''STORAGE_DRIVER'', Text False (OneOf [''local'', ''s3'', ''cloudinary'']) (default_text ''local'')),
      (''STORAGE_LOCAL_DIR'', Text False AnyText (default_text ''uploads'')),
      (''STORAGE_S3_REGION'', RequiredWhen ''STORAGE_DRIVER'' ''s3''),
      (''STORAGE_S3_BUCKET'', RequiredWhen ''STORAGE_DRIVER'' ''s3''),
      (''STORAGE_S3_ACCESS_KEY_ID'', RequiredWhen ''STORAGE_DRIVER'' ''s3''),
      (''STORAGE_S3_SECRET_ACCESS_KEY'', RequiredWhen ''STORAGE_DRIVER'' ''s3''),
      (''STORAGE_S3_ENDPOINT'', Text True AnyText Optional), (''STORAGE_S3_PUBLIC_URL'', Text True AnyText Optional),
      (''STORAGE_S3_FORCE_PATH_STYLE'', Truth (Default (EBool False))), (''STORAGE_S3_PREFIX'', Text False AnyText (default_text ''relay'')),
      (''STORAGE_CLOUDINARY_CLOUD_NAME'', RequiredWhen ''STORAGE_DRIVER'' ''cloudinary''),
      (''STORAGE_CLOUDINARY_API_KEY'', RequiredWhen ''STORAGE_DRIVER'' ''cloudinary''),
      (''STORAGE_CLOUDINARY_API_SECRET'', RequiredWhen ''STORAGE_DRIVER'' ''cloudinary''),
      (''STORAGE_CLOUDINARY_FOLDER'', Text True AnyText (default_text ''relay'')),
      (''APP_PUBLIC_URL'', Text True Uri Optional), (''FRONTEND_URL'', Text True Uri Optional),
      (''VAPID_PUBLIC_KEY'', Text True AnyText Optional), (''VAPID_PRIVATE_KEY'', Text True AnyText Optional),
      (''VAPID_SUBJECT'', Text False AnyText (default_text ''mailto:admin@relay.local''))]
     @ rabbitMqSchema"

definition mailSchema :: env_schema where
  "mailSchema =
     [(''APP_PUBLIC_URL'', Text True Uri Optional), (''FRONTEND_URL'', Text True Uri Optional),
      (''SMTP_HOST'', Text True AnyText Optional), (''SMTP_PORT'', Port (default_num 587)), (''SMTP_SECURE'', Truth (Default (EBool False))),
      (''SMTP_USER'', Text True AnyText Optional), (''SMTP_PASS'', Text True AnyText Optional), (''SMTP_FROM'', Text True AnyText Optional),
      (''EMAIL_VERIFY_TTL_HOURS'', Integer 1 (Some 168) (default_num 48)), (''PASSWORD_RESET_TTL_HOURS'', Integer 1 (Some 48) (default_num 2))]"

definition authEnvSchema :: env_schema where
  "authEnvSchema =
     [NODE_ENV_rule, (''AUTH_HTTP_PORT'', Port (default_num 3001)), (''AUTH_POSTGRES_DATABASE'', Text False AnyText Required)]
     @ jwtSchema @
     [(''ADMIN_EMAIL'', Text False Email Optional), (''ADMIN_PASSWORD'', Text False (AtLeast 8) Optional)]
     @ mailSchema @ postgresSchema @ rabbitMqSchema"

definition userEnvSchema :: env_schema where
  "userEnvSchema =
     [NODE_ENV_rule, (''USER_HTTP_PORT'', Port (default_num 3003)), (''USER_POSTGRES_DATABASE'', Text False AnyText Required)]
     @ postgresSchema @ rabbitMqSchema"

definition chatEnvSchema :: env_schema where
  "chatEnvSchema =
     [NODE_ENV_rule, (''CHAT_HTTP_PORT'', Port (default_num 3004)), (''CHAT_POSTGRES_DATABASE'', Text False AnyText Required)]
     @ postgresSchema @ rabbitMqSchema"

section \<open>Storage adapter (storage.service.ts)\<close>

datatype adapter = LocalStorage string | S3Storage s3_options string string | CloudinaryStorage string string string string

definition get_text :: "(string \<rightharpoonup> env_value) \<Rightarrow> string \<Rightarrow> string \<Rightarrow> string" where
  "get_text cfg k d = (case cfg k of Some (EStr s) \<Rightarrow> s | _ \<Rightarrow> d)"

definition get_flag :: "(string \<rightharpoonup> env_value) \<Rightarrow> string \<Rightarrow> bool \<Rightarrow> bool" where
  "get_flag cfg k d = (case cfg k of Some (EBool b) \<Rightarrow> b | _ \<Rightarrow> d)"

definition get_number :: "(string \<rightharpoonup> env_value) \<Rightarrow> string \<Rightarrow> rat \<Rightarrow> rat" where
  "get_number cfg k d = (case cfg k of Some (ENum n) \<Rightarrow> n | _ \<Rightarrow> d)"

text \<open>\<open>getOrThrow\<close>: \<open>None\<close> where it throws; \<open>get(key) || undefined\<close>\<close>

definition getOrThrow :: "(string \<rightharpoonup> env_value) \<Rightarrow> string \<Rightarrow> string option" where
  "getOrThrow cfg k = (case cfg k of Some (EStr s) \<Rightarrow> Some s | _ \<Rightarrow> None)"

definition get_or_undefined :: "(string \<rightharpoonup> env_value) \<Rightarrow> string \<Rightarrow> string option" where
  "get_or_undefined cfg k = (let s = get_text cfg k [] in if truthy s then Some s else None)"

definition createAdapter :: "(string \<rightharpoonup> env_value) \<Rightarrow> adapter option" where
  "createAdapter cfg =
     (let driver = get_text cfg ''STORAGE_DRIVER'' ''local'' in
      if driver = ''s3''
      then (case (getOrThrow cfg ''STORAGE_S3_REGION'', getOrThrow cfg ''STORAGE_S3_BUCKET'',
              getOrThrow cfg ''STORAGE_S3_ACCESS_KEY_ID'', getOrThrow cfg ''STORAGE_S3_SECRET_ACCESS_KEY'') of
          (Some region, Some bucket, Some accessKeyId, Some secretAccessKey) \<Rightarrow>
            Some (S3Storage \<lparr>so_region = region, so_bucket = bucket,
               so_endpoint = get_or_undefined cfg ''STORAGE_S3_ENDPOINT'', so_publicUrl = get_or_undefined cfg ''STORAGE_S3_PUBLIC_URL'',
               so_forcePathStyle = get_flag cfg ''STORAGE_S3_FORCE_PATH_STYLE'' False,
               so_prefix = Some (get_text cfg ''STORAGE_S3_PREFIX'' ''relay'')\<rparr> accessKeyId secretAccessKey)
        | _ \<Rightarrow> None)
      else if driver = ''cloudinary''
      then (case (getOrThrow cfg ''STORAGE_CLOUDINARY_CLOUD_NAME'', getOrThrow cfg ''STORAGE_CLOUDINARY_API_KEY'',
              getOrThrow cfg ''STORAGE_CLOUDINARY_API_SECRET'') of
          (Some cloudName, Some apiKey, Some apiSecret) \<Rightarrow>
            Some (CloudinaryStorage cloudName apiKey apiSecret (get_text cfg ''STORAGE_CLOUDINARY_FOLDER'' ''relay''))
        | _ \<Rightarrow> None)
      else Some (LocalStorage (get_text cfg ''STORAGE_LOCAL_DIR'' ''uploads'')))"

section \<open>Deadlines and limits (microservice.proxy.ts, timeout.interceptor.ts)\<close>

definition proxy_timeout :: "(string \<rightharpoonup> env_value) \<Rightarrow> rat" where
  "proxy_timeout cfg = min (get_number cfg ''GATEWAY_TIMEOUT_MS'' 10000) 8000"

definition proxy_maxInflight :: "(string \<rightharpoonup> env_value) \<Rightarrow> rat" where
  "proxy_maxInflight cfg = get_number cfg ''GATEWAY_MAX_INFLIGHT'' 2000"

definition interceptor_timeout :: "(string \<rightharpoonup> env_value) \<Rightarrow> rat" where
  "interceptor_timeout cfg = get_number cfg ''GATEWAY_TIMEOUT_MS'' 10000"

section \<open>Broker address (rmq.config.ts)\<close>

text \<open>\<open>encodeURIComponent\<close> of a text in UTF-8\<close>

definition unreserved :: "char \<Rightarrow> bool" where
  "unreserved c = (let n = (of_char c :: nat) in 97 \<le> n \<and> n \<le> 122 \<or> 65 \<le> n \<and> n \<le> 90 \<or> 48 \<le> n \<and> n \<le> 57 \<or> c \<in> set ''-_.!~*()'' \<or> n = 39)"

definition hex_digit :: "nat \<Rightarrow> char" where
  "hex_digit n = ''0123456789ABCDEF'' ! n"

definition percent :: "char \<Rightarrow> string" where
  "percent c = (let n = (of_char c :: nat) in [CHR ''%'', hex_digit (n div 16), hex_digit (n mod 16)])"

definition encodeURIComponent :: "string \<Rightarrow> string" where
  "encodeURIComponent s = concat (map (\<lambda>c. if unreserved c then [c] else percent c) s)"

definition buildRmqUrl :: "(rat \<Rightarrow> string) \<Rightarrow> (string \<rightharpoonup> env_value) \<Rightarrow> string" where
  "buildRmqUrl number_text cfg =
     (let user = encodeURIComponent (get_text cfg ''RABBITMQ_USER'' ''nest'');
          password = encodeURIComponent (get_text cfg ''RABBITMQ_PASSWORD'' ''nest'');
          host = get_text cfg ''RABBITMQ_HOST'' ''localhost'';
          port = get_number cfg ''RABBITMQ_PORT'' 5672;
          vhost = get_text cfg ''RABBITMQ_VHOST'' ''/'';
          path = (if vhost = ''/'' then [] else ''/'' @ encodeURIComponent vhost)
      in ''amqp://'' @ user @ '':'' @ password @ ''@'' @ host @ '':'' @ number_text port @ path)"

record rmq_options =
  ro_urls :: "string list"
  ro_queue :: string
  ro_durable :: bool
  ro_prefetchCount :: rat
  ro_persistent :: bool
  ro_heartbeatIntervalInSeconds :: nat
  ro_reconnectTimeInSeconds :: nat
  ro_noAck :: bool

definition baseRmqOptions :: "(rat \<Rightarrow> string) \<Rightarrow> (string \<rightharpoonup> env_value) \<Rightarrow> string \<Rightarrow> bool \<Rightarrow> rmq_options" where
  "baseRmqOptions number_text cfg q noAck =
     \<lparr>ro_urls = [buildRmqUrl number_text cfg], ro_queue = q, ro_durable = True,
      ro_prefetchCount = get_number cfg ''RABBITMQ_PREFETCH'' 16, ro_persistent = True,
      ro_heartbeatIntervalInSeconds = 30, ro_reconnectTimeInSeconds = 5, ro_noAck = noAck\<rparr>"

definition createRmqServerOptions :: "(rat \<Rightarrow> string) \<Rightarrow> (string \<rightharpoonup> env_value) \<Rightarrow> string \<Rightarrow> rmq_options" where
  "createRmqServerOptions number_text cfg q = baseRmqOptions number_text cfg q True"

definition createRmqClientOptions :: "(rat \<Rightarrow> string) \<Rightarrow> (string \<rightharpoonup> env_value) \<Rightarrow> string \<Rightarrow> rmq_options" where
  "createRmqClientOptions number_text cfg q = baseRmqOptions number_text cfg q True"

section \<open>Start of a process (listen-http.ts, main.ts)\<close>

text \<open>What \<open>app.listen\<close> does at an attempt: binds the port, finds it in use, or throws something else.\<close>

datatype listening = Bound | In_use | Listen_error string

function listen_attempt :: "(nat \<Rightarrow> listening) \<Rightarrow> nat \<Rightarrow> string + bool" where
  "listen_attempt listen attempt =
     (if attempt > 10 then Inr False
      else case listen attempt of
        Bound \<Rightarrow> Inr True
      | Listen_error e \<Rightarrow> Inl e
      | In_use \<Rightarrow> if attempt = 10 then Inr False else listen_attempt listen (attempt + 1))"
  by pat_completeness auto
termination by (relation "measure (\<lambda>(_, n). 11 - n)") auto

declare listen_attempt.simps [simp del]

definition listenHttpWithRetry :: "(nat \<Rightarrow> listening) \<Rightarrow> string + bool" where
  "listenHttpWithRetry listen = listen_attempt listen 1"

text \<open>\<open>Number(process.env.GATEWAY_WORKERS ?? 1)\<close>, \<open>None\<close> where that is no finite number\<close>

definition gatewayWorkers :: "(string \<Rightarrow> rat option) \<Rightarrow> string option \<Rightarrow> nat \<Rightarrow> rat" where
  "gatewayWorkers number raw cpus =
     (case (case raw of None \<Rightarrow> Some 1 | Some s \<Rightarrow> number s) of
        Some n \<Rightarrow> if n = 0 then max 1 (of_nat cpus) else max 1 n
      | None \<Rightarrow> max 1 1)"

end
