(* ===== verification/DeploymentProperties.thy ===== *)
theory DeploymentProperties
  imports Deployment
begin

text \<open>What an accepted environment, the broker address and the start of a process guarantee.\<close>

section \<open>Accepted environments\<close>


















section \<open>The broker address\<close>

lemma hex_digits: "k < 16 \<Longrightarrow> hex_value (hex_digit k) = Some k"
proof -
  have "list_all (\<lambda>k. hex_value (hex_digit k) = Some k) [0..<16]" by code_simp
  then show "k < 16 \<Longrightarrow> ?thesis" by (simp add: list_all_iff)
qed

lemma nibbles: "(of_char c :: nat) div 16 < 16" "(of_char c :: nat) mod 16 < 16"
  using nat_of_char_less_256 [of c] by (auto intro: less_mult_imp_div_less)

lemma escape_percent: "escape_at (percent c @ s) = Some (of_char c)"
proof -
  have "(of_char c :: nat) div 16 < 16" "(of_char c :: nat) mod 16 < 16" by (rule nibbles)+
  then show ?thesis by (simp add: escape_at_def percent_def Let_def hex_digits)
qed

lemma unreserved_percent: "unreserved c \<Longrightarrow> c \<noteq> CHR ''%''"
  by (auto simp: unreserved_def Let_def)

lemma encode_Cons: "encodeURIComponent (c # s) = (if unreserved c then [c] else percent c) @ encodeURIComponent s"
  by (simp add: encodeURIComponent_def)

definition ascii :: "string \<Rightarrow> bool" where
  "ascii s \<longleftrightarrow> list_all (\<lambda>c. (of_char c :: nat) < 128) s"

lemma decode_encode: "ascii s \<Longrightarrow> decodeURIComponent (encodeURIComponent s) = Some s"
proof (induction s)
  case (Cons c s)
  then have IH: "decodeURIComponent (encodeURIComponent s) = Some s" and c: "(of_char c :: nat) < 128" by (simp_all add: ascii_def)
  show ?case
  proof (cases "unreserved c")
    case True
    then show ?thesis using unreserved_percent [OF True] by (simp add: encode_Cons IH)
  next
    case False
    obtain h l where p: "percent c = [CHR ''%'', h, l]" by (simp add: percent_def Let_def)
    have "escape_at (CHR ''%'' # h # l # encodeURIComponent s) = Some (of_char c)" using escape_percent [of c] by (simp add: p)
    then show ?thesis using False c by (simp add: encode_Cons p IH)
  qed
qed (simp add: encodeURIComponent_def)

text \<open>An encoded text holds none of the characters that separate the parts of an address.\<close>

lemma hex_digit_range: "k < 16 \<Longrightarrow> hex_digit k \<notin> {CHR '':'', CHR ''@'', CHR ''/''}"
proof -
  have "list_all (\<lambda>k. hex_digit k \<notin> {CHR '':'', CHR ''@'', CHR ''/''}) [0..<16]" by code_simp
  then show "k < 16 \<Longrightarrow> ?thesis" by (simp add: list_all_iff)
qed

lemma encoded_chars: "x \<in> set (encodeURIComponent s) \<Longrightarrow> x \<notin> {CHR '':'', CHR ''@'', CHR ''/''}"
proof (induction s)
  case (Cons c s)
  have "(of_char c :: nat) div 16 < 16" "(of_char c :: nat) mod 16 < 16" by (rule nibbles)+
  then have "x \<notin> {CHR '':'', CHR ''@'', CHR ''/''}" if "x \<in> set (percent c)"
    using that hex_digit_range by (auto simp: percent_def Let_def)
  moreover have "x \<notin> {CHR '':'', CHR ''@'', CHR ''/''}" if "unreserved c" "x = c"
    using that by (auto simp: unreserved_def Let_def)
  ultimately show ?case using Cons by (auto simp: encode_Cons split: if_splits)
qed (simp add: encodeURIComponent_def)

lemma takeWhile_encoded:
  "d \<in> {CHR '':'', CHR ''@'', CHR ''/''} \<Longrightarrow> takeWhile (\<lambda>c. c \<noteq> d) (encodeURIComponent s @ d # r) = encodeURIComponent s"
  "d \<in> {CHR '':'', CHR ''@'', CHR ''/''} \<Longrightarrow> dropWhile (\<lambda>c. c \<noteq> d) (encodeURIComponent s @ d # r) = d # r"
  using encoded_chars [of _ s] by (auto simp: takeWhile_append2 dropWhile_append2)

text \<open>
  C0. The broker address gives the credentials back: whatever characters user and password are made of, the
  parts of the address between its slashes, the colon and the at sign decode to them.
\<close>

theorem broker_url_roundtrip:
  assumes "ascii (get_text cfg ''RABBITMQ_USER'' ''nest'')" and "ascii (get_text cfg ''RABBITMQ_PASSWORD'' ''nest'')"
  shows "take 7 (buildRmqUrl nt cfg) = ''amqp://''
    \<and> decodeURIComponent (takeWhile (\<lambda>c. c \<noteq> CHR '':'') (drop 7 (buildRmqUrl nt cfg))) = Some (get_text cfg ''RABBITMQ_USER'' ''nest'')
    \<and> decodeURIComponent (takeWhile (\<lambda>c. c \<noteq> CHR ''@'') (drop 1 (dropWhile (\<lambda>c. c \<noteq> CHR '':'') (drop 7 (buildRmqUrl nt cfg)))))
        = Some (get_text cfg ''RABBITMQ_PASSWORD'' ''nest'')"
  by (simp add: buildRmqUrl_def Let_def takeWhile_encoded decode_encode assms)

theorem broker_url_roundtrip_witness:
  "decodeURIComponent (takeWhile (\<lambda>c. c \<noteq> CHR ''@'') (drop 1 (dropWhile (\<lambda>c. c \<noteq> CHR '':'')
      (drop 7 (buildRmqUrl (\<lambda>_. ''5672'') [''RABBITMQ_PASSWORD'' \<mapsto> EStr ''p@ss:word/''])))))
    = Some ''p@ss:word/''"
proof -
  let ?cfg = "[''RABBITMQ_PASSWORD'' \<mapsto> EStr ''p@ss:word/'']"
  have get: "get_text ?cfg ''RABBITMQ_PASSWORD'' ''nest'' = ''p@ss:word/''" "get_text ?cfg ''RABBITMQ_USER'' ''nest'' = ''nest''"
    by (simp_all add: get_text_def)
  have "ascii (get_text ?cfg ''RABBITMQ_USER'' ''nest'')" "ascii (get_text ?cfg ''RABBITMQ_PASSWORD'' ''nest'')"
    unfolding get by (simp_all add: ascii_def)
  from broker_url_roundtrip [OF this, of "\<lambda>_. ''5672''"] show ?thesis by (simp only: get)
qed

section \<open>The debug port\<close>

lemma listen_from: "a \<le> 11 \<Longrightarrow> listen_attempt listen a =
    (case find (\<lambda>n. listen n \<noteq> In_use) [a..<11] of None \<Rightarrow> Inr False
     | Some n \<Rightarrow> (case listen n of Bound \<Rightarrow> Inr True | Listen_error e \<Rightarrow> Inl e | In_use \<Rightarrow> Inr False))"
proof (induction listen a rule: listen_attempt.induct)
  case (1 listen a)
  show ?case
  proof (cases "a = 11")
    case True
    then show ?thesis by (simp add: listen_attempt.simps)
  next
    case False
    then have a: "a \<le> 10" "[a..<11] = a # [Suc a..<11]" using "1.prems" by (auto simp: upt_conv_Cons)
    show ?thesis
    proof (cases "listen a")
      case In_use
      then show ?thesis
      proof (cases "a = 10")
        case True
        then show ?thesis using In_use by (simp add: listen_attempt.simps)
      next
        case False
        then show ?thesis using "1.IH" [OF _ In_use False] a In_use
          by (subst listen_attempt.simps) simp
      qed
    qed (use a in \<open>simp_all add: listen_attempt.simps [of listen a]\<close>)
  qed
qed

text \<open>
  C0. Binding the debug port ends after at most ten attempts: it answers what the first attempt that did not find
  the port in use says, success or the error it throws, and gives up when there is none.
\<close>

theorem listening_settles:
  "listenHttpWithRetry listen =
    (case find (\<lambda>n. listen n \<noteq> In_use) [1..<11] of None \<Rightarrow> Inr False
     | Some n \<Rightarrow> (case listen n of Bound \<Rightarrow> Inr True | Listen_error e \<Rightarrow> Inl e | In_use \<Rightarrow> Inr False))"
  unfolding listenHttpWithRetry_def by (rule listen_from) simp

lemma workers_positive: "1 \<le> gatewayWorkers number raw cpus"
  by (auto simp: gatewayWorkers_def split: option.split)

end
