(* ===== verification/Spec2Isabelle.thy ===== *)
theory Spec2Isabelle
  imports RelayProperties ChatLifecycle ChatReads ChatDelivery CallProperties AuthProperties
    UserProperties PresenceProperties GatewayDelivery GatewayAccess GatewayCalls
    GatewayOutsiders ChatAnalytics StorageProperties GatewayFiles RequestValidation
    AssistProperties ResetLinks DeploymentProperties
begin

text \<open>
  The Relay back end: a verification development.

  Relay is a chat system of four processes. Clients speak HTTP and Socket.IO to the API gateway
  (\<open>apps/api-gateway\<close>), which keeps presence, push subscriptions, the token blacklist, caches and
  call sessions in Redis and asks three services over a message queue: the chat service
  (\<open>apps/chat-service\<close>: conversations, messages), the user service (\<open>apps/user-service\<close>: profiles)
  and the auth service (\<open>apps/auth-service\<close>: accounts and tokens), each with a database of its own.

  \<^bold>\<open>The theories and the code.\<close>
  RelayPrelude has the generic lemmas on lists and maps, the RPC result type and the locales of
  request-driven services. RelayCommon is \<open>libs/common\<close>: enums, RPC errors, pagination, durations,
  the in-flight limiter.

  The chat service (\<open>chat.service.ts\<close>, \<open>chat.controller.ts\<close>, the entities): ChatModel has the
  tables as records and lists of rows, the views and the shared reads; ChatGroups the handlers of
  conversations and membership; ChatMessages those of messages; ChatScheduled scheduled messages,
  blocks, call admission, audit and settings; ChatQueries listings and searches; ChatService the
  message patterns as one \<open>chat_step\<close>, ChatAnalytics \<open>getAnalytics\<close>. A handler takes the clock, its payload and the database and
  gives \<open>Inl\<close> an error or \<open>Inr\<close> the answer, with the database after it.

  The user service is UserService, the auth service AuthService (with \<open>auth-token.service.ts\<close>); the
  mailer they share, \<open>mail.service.ts\<close>, is in ResetLinks.

  The gateway: CallStore is the Redis store of call sessions and CallSession the operations of
  \<open>call-session.service.ts\<close>; PresenceService is \<open>presence.service.ts\<close> and
  \<open>conversation-cache.service.ts\<close>; PushService is \<open>push.service.ts\<close>. GatewayModel has the state of
  the gateway process, actions on it (state and exceptions) and the proxy; GatewayAuth the guards,
  the blacklist, the session cache and the auth and user controllers; GatewayEvents the broadcasts
  and timers of \<open>chat.gateway.ts\<close>, ChatGateway its socket handlers, ChatController the REST
  handlers of \<open>chat.controller.ts\<close> and the two dispatchers, AdminController those of
  \<open>admin.controller.ts\<close>. ChatAssist has \<open>ai.service.ts\<close>, \<open>link-preview.service.ts\<close> and the routes
  of all controllers that only pass on an answer. ObjectStorage has the three storage drivers and
  \<open>storage.service.ts\<close>, a store being the list of the names of its objects. HttpEdge is what stands between a
  handler and the client: the exceptions of \<open>app.exception.ts\<close>, the catch block of the proxy, the two
  exception filters, the interceptors, the pipes. RequestValidation has the DTO classes, each a list of
  decorated properties, and what the validation pipe lets through. Deployment has the environment
  schemas, what is built from an accepted environment, and the start of a process.

  \<^bold>\<open>What is shown.\<close>
  ChatRoster, ChatMembership: the membership handlers refine operations on abstract rosters.
  ChatMessageInv, ChatHandlers: the invariant \<open>chat_inv\<close> of the message tables and that each handler
  keeps it; an error answer leaves the tables alone. ChatProperties, ChatDelivery, ChatLifecycle,
  ChatReads: the properties of the chat service. AuthInvariant, AuthProperties: the same for accounts
  and tokens. CallInvariant, CallProperties: well-formed call sessions and what the operations do.
  UserProperties: profiles refine a directory. PresenceProperties: presence against the history of
  connections. RelayProperties: limiter, paging, durations.
  GatewayInvariant has the step relation \<open>gateway_step\<close> of all events of the gateway (each socket
  handler, route, timer and dispatcher tick) and the locale \<open>gateway_invariant\<close>, whose assumptions
  are about the primitive moves of sockets, keys, calls and service requests; that all handlers keep
  what the moves keep is proved once there. GatewayState interprets it for the rooms of sockets, the
  push subscriptions, the blacklist, the call store and the services; \<open>gateway_quiet\<close> is its weaker
  form for handlers that touch neither. GatewayRuns has the rules by which a successful run of a
  handler is taken apart, and a sample deployment. GatewayDelivery, GatewayAccess, GatewayCalls and
  GatewayOutsiders have the properties that span the gateway and the services; GatewayFiles what becomes
  of the stored file of a deleted message. StorageProperties has the locale \<open>file_store\<close> of a driver
  under which an upload can be deleted by its URL and no other object with it, and interprets it for
  the three drivers. AssistProperties: what a summary is made of. ResetLinks: who gets the link of a
  reset mail, and what it is good for. DeploymentProperties: what an accepted environment
  guarantees, that the broker address gives the credentials back, that binding a port ends.
  HttpEdge and RequestValidation end with their properties: errors reach the client as thrown,
  validation details are complete, accepted texts fit their columns.

  \<^bold>\<open>Conventions, bounds and assumptions.\<close>
  Times are integers in milliseconds. \<open>now\<close> is the clock of the process, \<open>db_now\<close> that of the
  database. Fresh identifiers and random tokens come from injective sequences kept with the tables.
  SQL is taken as its meaning on lists of rows: a unique index refuses a second row, ILIKE is pattern
  matching without case on ASCII letters, ORDER BY a stable sort. Redis keys expire at the instant
  their lifetime ends; the result of SCAN is a parameter. Loops are structural recursion or \<open>function\<close>
  with a measure; no fuel is used, so every handler returns.
  Handlers run one after the other: a request to a service is one step of that service. The proxy's
  request may be answered, lost before the service acts, or answered too late (\<open>rpc_fate\<close>). A timer
  is an entry of the state and its expiry an event of its own, at any time not before it is due; the
  wait before a disconnected user's call ends splits \<open>handleDisconnect\<close> into two events. Work that the
  code starts without waiting for it (push, call history) runs at the place where it is started.
  bcrypt, SHA-256, the JWT library, passport, web push and uploads are parameters (\<open>crypto\<close>,
  \<open>world\<close>), constrained only by named hypotheses: tokens and hashes that verify are those that were
  made (\<open>auth_inv\<close> has them). So are the URL parser of the platform, the S3 and Cloudinary clients, fetch,
  OpenAI, and of class-validator, class-transformer and Joi the formats and conversions
  (\<open>class_validator\<close>, \<open>joi\<close>); their decorators and rules have the meaning that is documented. Of the
  framework it is taken that a filter for RPC exceptions registered after the catch-all one is asked first.
  Analytics take the time zones of the process and of the database session as fixed offsets. Regular
  expressions are written out, those of the link preview as patterns with a backtracking matcher.

  \<^bold>\<open>Not modelled.\<close>
  The bytes of uploads and downloads; the wiring of the framework in modules and main functions, the
  Socket.IO adapter, health checks, migrations and connection settings; the swagger declarations, which
  have no behaviour. Summer time in the analytics. Lengths are those of UTF-8, not UTF-16, texts outside ASCII.
  Concurrent unique violations are modelled for profiles only.
\<close>

end
